(* ===== verification/Prelude.thy ===== *)
theory Prelude
  imports Complex_Main "HOL-Library.Word"
begin

text \<open>
  What every component of the model shares: the machine integers, the tests and conversions on
  bytes that the Rust code writes inline (\<open>byte & (1 << n) != 0\<close>, \<open>u16::from_be_bytes\<close>,
  \<open>data[a..b]\<close>), the saturating and wrapping arithmetic of the standard library, time values,
  the \<open>?\<close> operator on results, and the generic lemmas on lists and words that the component
  theories use. Time is counted in nanoseconds: an instant or a \<open>DateTime<Local>\<close> is an
  integer, a \<open>Duration\<close> is a natural number. A call of \<open>Local::now()\<close> or
  \<open>Instant::now()\<close> is an argument \<open>now\<close> of the operation that makes it.
\<close>

unbundle bit_operations_syntax

section \<open>Types and fact collections\<close>

type_synonym u8 = "8 word"
type_synonym u16 = "16 word"
type_synonym u32 = "32 word"
type_synonym u64 = "64 word"
type_synonym bytes = "u8 list"
type_synonym timestamp = int
type_synonym duration = nat

named_theorems byte_simps \<open>conversions between bytes, words and bits\<close>
named_theorems frame_simps \<open>definitions that evaluate a frame parser\<close>
named_theorems step_simps \<open>definitions of the operations of the state machines\<close>

section \<open>Bits and bytes\<close>

definition tst :: "'a::len word \<Rightarrow> nat \<Rightarrow> bool" where
  "tst w n = (w AND push_bit n 1 \<noteq> 0)"

definition be16 :: "u8 \<Rightarrow> u8 \<Rightarrow> u16" where
  "be16 h l = push_bit 8 (ucast h) OR ucast l"

definition be_bytes16 :: "u16 \<Rightarrow> bytes" where
  "be_bytes16 w = [ucast (drop_bit 8 w), ucast w]"

definition sub_list :: "nat \<Rightarrow> nat \<Rightarrow> 'a list \<Rightarrow> 'a list" where
  "sub_list a b xs = take (b - a) (drop a xs)"

definition get :: "'a list \<Rightarrow> nat \<Rightarrow> 'a option" where
  "get xs i = (if i < length xs then Some (xs ! i) else None)"

definition sat_sub :: "'a::len word \<Rightarrow> 'a word \<Rightarrow> 'a word" where
  "sat_sub a b = (if a < b then 0 else a - b)"

definition sat_add :: "'a::len word \<Rightarrow> 'a word \<Rightarrow> 'a word" where
  "sat_add a b = (if a + b < a then - 1 else a + b)"

lemma tst_iff_bit [byte_simps]: "n < LENGTH('a) \<Longrightarrow> tst w n = bit w n"
  for w :: "'a::len word"
  by (simp add: tst_def bit_iff_and_push_bit_not_eq_0)

lemma be_bytes16_length [simp]: "length (be_bytes16 w) = 2"
  by (simp add: be_bytes16_def)

lemma be16_be_bytes16 [byte_simps]: "be16 (ucast (drop_bit 8 w)) (ucast w) = w"
  by (rule bit_word_eqI) (auto simp: be16_def bit_simps dest: bit_imp_le_length)

lemma be_bytes16_be16 [byte_simps]: "be_bytes16 (be16 h l) = [h, l]"
proof -
  have "ucast (drop_bit 8 (be16 h l)) = h"
    by (rule bit_word_eqI) (auto simp: be16_def bit_simps dest: bit_imp_le_length)
  moreover have "ucast (be16 h l) = l"
    by (rule bit_word_eqI) (auto simp: be16_def bit_simps)
  ultimately show ?thesis by (simp add: be_bytes16_def)
qed

lemma byte_less_256 [simp]: "unat (b :: u8) < 256"
  using unsigned_less [of b] by simp

lemma unat_be16: "unat (be16 h l) = 256 * unat h + unat l"
proof -
  have "push_bit 8 (ucast h :: u16) OR ucast l = push_bit 8 (ucast h) + ucast l"
    by (rule disjunctive_add [symmetric]) (auto simp: bit_simps dest: bit_imp_le_length)
  moreover have up: "unat (ucast b :: u16) = unat b" for b :: u8
    using byte_less_256 [of b]
    by (simp add: unsigned_ucast_eq unsigned_take_bit_eq take_bit_nat_def del: byte_less_256)
  moreover have "unat (push_bit 8 (ucast h :: u16)) = 256 * unat h"
    using byte_less_256 [of h]
    by (simp add: push_bit_eq_mult unat_word_ariths up del: byte_less_256)
  ultimately show ?thesis
    using byte_less_256 [of h] byte_less_256 [of l]
    by (simp add: be16_def unat_word_ariths del: byte_less_256)
qed

lemma be16_inject: "be16 h l = be16 h' l' \<longleftrightarrow> h = h' \<and> l = l'"
proof
  assume "be16 h l = be16 h' l'"
  then have eq: "256 * unat h + unat l = 256 * unat h' + unat l'"
    by (metis unat_be16)
  have "(256 * unat h + unat l) div 256 = unat h" "(256 * unat h + unat l) mod 256 = unat l"
    "(256 * unat h' + unat l') div 256 = unat h'" "(256 * unat h' + unat l') mod 256 = unat l'"
    by simp_all
  with eq have "unat h = unat h'" and "unat l = unat l'"
    by metis+
  then show "h = h' \<and> l = l'" by (simp add: word_unat_eq_iff)
qed simp

lemma length_sub_list [simp]: "b \<le> length xs \<Longrightarrow> length (sub_list a b xs) = b - a"
  by (simp add: sub_list_def)

lemma nth_sub_list: "i < b - a \<Longrightarrow> b \<le> length xs \<Longrightarrow> sub_list a b xs ! i = xs ! (a + i)"
  by (simp add: sub_list_def)

lemma get_Some_iff [simp]: "get xs i = Some x \<longleftrightarrow> i < length xs \<and> xs ! i = x"
  by (auto simp: get_def)

lemma get_None_iff [simp]: "get xs i = None \<longleftrightarrow> length xs \<le> i"
  by (auto simp: get_def)

lemma unat_sat_sub: "unat (sat_sub a b) = unat a - unat b"
  by (auto simp: sat_sub_def word_less_nat_alt unat_sub word_le_nat_alt)

section \<open>Durations and clocks\<close>

definition millis :: "nat \<Rightarrow> duration" where
  "millis n = n * 1000000"

definition secs :: "nat \<Rightarrow> duration" where
  "secs n = n * 1000000000"

definition duration_max :: duration where
  "duration_max = 2 ^ 64 * 1000000000 - 1"

definition duration_saturating_add :: "duration \<Rightarrow> duration \<Rightarrow> duration" where
  "duration_saturating_add a b = min (a + b) duration_max"

text \<open>\<open>(now - since).to_std().unwrap_or(Duration::ZERO)\<close>: a negative difference gives zero.\<close>

definition session_length :: "timestamp \<Rightarrow> timestamp \<Rightarrow> duration" where
  "session_length now since = nat (now - since)"

text \<open>\<open>Instant::elapsed\<close> and \<open>saturating_duration_since\<close> never go below zero.\<close>

definition elapsed :: "timestamp \<Rightarrow> timestamp \<Rightarrow> duration" where
  "elapsed now earlier = nat (now - earlier)"

lemma duration_saturating_add_ge: "a \<le> duration_max \<Longrightarrow> a \<le> duration_saturating_add a b"
  by (simp add: duration_saturating_add_def)

lemma duration_saturating_add_le_max: "duration_saturating_add a b \<le> duration_max"
  by (simp add: duration_saturating_add_def)

section \<open>Results\<close>

fun bind_result :: "'e + 'a \<Rightarrow> ('a \<Rightarrow> 'e + 'b) \<Rightarrow> 'e + 'b" where
  "bind_result (Inl e) f = Inl e"
| "bind_result (Inr x) f = f x"

lemma bind_result_Inr_iff:
  "bind_result r f = Inr y \<longleftrightarrow> (\<exists>x. r = Inr x \<and> f x = Inr y)"
  by (cases r) auto

lemma bind_result_Inl_iff:
  "bind_result r f = Inl e \<longleftrightarrow> r = Inl e \<or> (\<exists>x. r = Inr x \<and> f x = Inl e)"
  by (cases r) auto

section \<open>Decimal numerals in messages\<close>

fun show_nat :: "nat \<Rightarrow> string" where
  "show_nat n = (if n < 10 then [char_of (48 + n)]
     else show_nat (n div 10) @ [char_of (48 + n mod 10)])"

declare show_nat.simps [simp del]

lemma show_nat_digits: "set (show_nat n) \<subseteq> {c. 48 \<le> (of_char c :: nat) \<and> (of_char c :: nat) \<le> 57}"
proof (induction n rule: show_nat.induct)
  case (1 n)
  have digit: "(of_char (char_of (48 + d :: nat)) :: nat) = 48 + d" if "d < 10" for d
    using that by simp
  show ?case
  proof (cases "n < 10")
    case True
    with digit [of n] show ?thesis by (simp add: show_nat.simps [of n])
  next
    case False
    with "1.IH" digit [of "n mod 10"] show ?thesis by (simp add: show_nat.simps [of n])
  qed
qed

section \<open>Enumerations of bytes\<close>

text \<open>A statement about every byte is a finite conjunction over \<open>0 \<dots> 255\<close>.\<close>

lemma all_bytes: "(\<forall>c::u8. P c) \<longleftrightarrow> (\<forall>n < 256. P (word_of_nat n))"
proof
  assume all: "\<forall>n < 256. P (word_of_nat n :: u8)"
  show "\<forall>c. P c"
  proof
    fix c :: u8
    have "unat c < 256" using unsigned_less [of c] by simp
    with all have "P (word_of_nat (unat c))" by blast
    then show "P c" by simp
  qed
qed simp

end
