(* ===== verification/Framing.thy ===== *)
theory Framing
  imports Prelude
begin

text \<open>
  What a decoder over a growing receive buffer promises. Both framing layers of the crate have
  the shape \<open>decode (state, buffer) = (item or nothing, state, buffer)\<close>: the protocol codec
  (\<open>src/src/codec.rs\<close>) under its buffered reader, and the packet splitter of the encrypted
  stream (\<open>src/src/encryption.rs\<close>). The locale \<open>chunked_decoder\<close> proves once that how the
  transport cuts the byte stream into reads has no influence on the items that come out.
  \<open>drain\<close> is the reader's loop (decode until nothing is returned), \<open>feed\<close> the sequence of
  reads, each followed by that loop.
\<close>

type_synonym ('s, 'f) decoder = "'s \<Rightarrow> bytes \<Rightarrow> 'f option \<times> 's \<times> bytes"

primrec drain_fuel :: "('s, 'f) decoder \<Rightarrow> nat \<Rightarrow> 's \<Rightarrow> bytes \<Rightarrow> 'f list \<times> 's \<times> bytes" where
  "drain_fuel dec 0 s x = ([], s, x)"
| "drain_fuel dec (Suc n) s x =
    (case dec s x of
       (None, s', y) \<Rightarrow> ([], s', y)
     | (Some f, s', y) \<Rightarrow> (case drain_fuel dec n s' y of (fs, s'', z) \<Rightarrow> (f # fs, s'', z)))"

text \<open>
  The fuel is one more than a weight that every delivered item lowers, so the loop is never cut
  short (\<open>drain_unfold\<close> below).
\<close>

definition drain ::
  "('s, 'f) decoder \<Rightarrow> ('s \<Rightarrow> bytes \<Rightarrow> nat) \<Rightarrow> 's \<Rightarrow> bytes \<Rightarrow> 'f list \<times> 's \<times> bytes" where
  "drain dec weight s x = drain_fuel dec (Suc (weight s x)) s x"

primrec feed ::
  "('s, 'f) decoder \<Rightarrow> ('s \<Rightarrow> bytes \<Rightarrow> nat) \<Rightarrow> 's \<Rightarrow> bytes \<Rightarrow> bytes list \<Rightarrow> 'f list \<times> 's \<times> bytes" where
  "feed dec weight s buf [] = ([], s, buf)"
| "feed dec weight s buf (chunk # chunks) =
    (case drain dec weight s (buf @ chunk) of (fs, s', buf') \<Rightarrow>
       (case feed dec weight s' buf' chunks of (gs, s'', buf'') \<Rightarrow> (fs @ gs, s'', buf'')))"

definition canon_eq :: "(bytes \<Rightarrow> bytes) \<Rightarrow> 'r \<times> 's \<times> bytes \<Rightarrow> 'r \<times> 's \<times> bytes \<Rightarrow> bool" where
  "canon_eq canon p q =
    (fst p = fst q \<and> fst (snd p) = fst (snd q) \<and> canon (snd (snd p)) = canon (snd (snd q)))"

lemma canon_eq_refl [simp]: "canon_eq canon p p"
  by (simp add: canon_eq_def)

lemma canon_eq_sym: "canon_eq canon p q \<Longrightarrow> canon_eq canon q p"
  by (simp add: canon_eq_def)

lemma canon_eq_trans: "canon_eq canon p q \<Longrightarrow> canon_eq canon q r \<Longrightarrow> canon_eq canon p r"
  by (simp add: canon_eq_def)

lemma canon_eq_pair:
  "canon_eq canon (r, s, x) q \<longleftrightarrow> (\<exists>y. q = (r, s, y) \<and> canon x = canon y)"
  by (cases q) (auto simp: canon_eq_def)

text \<open>
  \<open>canon\<close> forgets the bytes that no later read can make part of an item: two buffers with the
  same canonical form behave alike.
\<close>

locale chunked_decoder =
  fixes dec :: "'s \<Rightarrow> bytes \<Rightarrow> 'f option \<times> 's \<times> bytes"
    and weight :: "'s \<Rightarrow> bytes \<Rightarrow> nat"
    and canon :: "bytes \<Rightarrow> bytes"
  assumes none_extend:
      "dec s x = (None, s', y) \<Longrightarrow> canon_eq canon (dec s (x @ z)) (dec s' (y @ z))"
    and some_extend:
      "dec s x = (Some f, s', y) \<Longrightarrow> dec s (x @ z) = (Some f, s', y @ z)"
    and some_weight:
      "dec s x = (Some f, s', y) \<Longrightarrow> weight s' y < weight s x"
    and canon_dec:
      "canon x = canon y \<Longrightarrow> canon_eq canon (dec s x) (dec s y)"
    and canon_append:
      "canon x = canon y \<Longrightarrow> canon (x @ z) = canon (y @ z)"
begin

lemma drain_fuel_enough:
  "weight s x < n \<Longrightarrow> weight s x < m \<Longrightarrow> drain_fuel dec n s x = drain_fuel dec m s x"
proof (induction n arbitrary: m s x)
  case (Suc n)
  then obtain k where m: "m = Suc k" by (cases m) auto
  show ?case
  proof (cases "dec s x")
    case (fields r s' y)
    then show ?thesis
    proof (cases r)
      case (Some f)
      with fields have "weight s' y < weight s x" by (auto dest: some_weight)
      with Suc.prems m have "drain_fuel dec n s' y = drain_fuel dec k s' y"
        by (intro Suc.IH) auto
      with fields Some m show ?thesis by simp
    qed (simp add: m)
  qed
qed simp

lemma drain_unfold:
  "drain dec weight s x =
    (case dec s x of
       (None, s', y) \<Rightarrow> ([], s', y)
     | (Some f, s', y) \<Rightarrow>
         (case drain dec weight s' y of (fs, s'', z) \<Rightarrow> (f # fs, s'', z)))"
proof -
  have "drain_fuel dec (weight s x) s' y = drain_fuel dec (Suc (weight s' y)) s' y"
    if "dec s x = (Some f, s', y)" for f s' y
    using some_weight [OF that] by (intro drain_fuel_enough) auto
  then show ?thesis
    by (auto simp: drain_def split: option.splits prod.splits)
qed

lemma drain_induct [case_names drain]:
  assumes "\<And>s x. (\<And>f s' y. dec s x = (Some f, s', y) \<Longrightarrow> P s' y) \<Longrightarrow> P s x"
  shows "P s x"
proof (induction "weight s x" arbitrary: s x rule: less_induct)
  case less
  show ?case by (rule assms) (auto intro: less some_weight)
qed

lemma drain_canon:
  "canon x = canon y \<Longrightarrow> canon_eq canon (drain dec weight s x) (drain dec weight s y)"
proof (induction s x arbitrary: y rule: drain_induct)
  case (drain s x)
  obtain r s' x' where x: "dec s x = (r, s', x')" by (cases "dec s x")
  from canon_dec [OF drain.prems, of s] x
  obtain y' where y: "dec s y = (r, s', y')" and eq: "canon x' = canon y'"
    by (auto simp: canon_eq_pair)
  show ?case
  proof (cases r)
    case None
    then show ?thesis by (subst (1 2) drain_unfold) (simp add: x y canon_eq_def eq)
  next
    case (Some f)
    have "canon_eq canon (drain dec weight s' x') (drain dec weight s' y')"
      using x Some eq by (intro drain.IH) auto
    then show ?thesis
      by (subst (1 2) drain_unfold)
        (auto simp: x y Some canon_eq_def split: prod.splits)
  qed
qed

lemma drain_append:
  assumes "drain dec weight s x = (fs, s', y)"
    and "drain dec weight s' (y @ z) = (gs, s'', u)"
  shows "canon_eq canon (drain dec weight s (x @ z)) (fs @ gs, s'', u)"
  using assms
proof (induction s x arbitrary: fs rule: drain_induct)
  case (drain s x)
  obtain r t v where x: "dec s x = (r, t, v)" by (cases "dec s x")
  show ?case
  proof (cases r)
    case None
    with drain.prems(1) x have res: "fs = []" "s' = t" "y = v"
      by (auto simp: drain_unfold [of s x])
    have "canon_eq canon (drain dec weight s (x @ z)) (drain dec weight t (v @ z))"
    proof -
      obtain q p w where xz: "dec s (x @ z) = (q, p, w)" by (cases "dec s (x @ z)")
      with none_extend [of s x t v z] x None
      obtain w' where vz: "dec t (v @ z) = (q, p, w')" and eq: "canon w = canon w'"
        by (auto simp: canon_eq_pair)
      with drain_canon [OF eq, of p] show ?thesis
        by (subst (1 2) drain_unfold)
          (auto simp: xz vz canon_eq_def split: option.splits prod.splits)
    qed
    with drain.prems(2) res show ?thesis by simp
  next
    case (Some f)
    obtain fs' where rest: "drain dec weight t v = (fs', s', y)" and fs: "fs = f # fs'"
      using drain.prems(1) x Some by (auto simp: drain_unfold [of s x] split: prod.splits)
    have "canon_eq canon (drain dec weight t (v @ z)) (fs' @ gs, s'', u)"
      by (rule drain.IH) (use x Some rest drain.prems(2) in auto)
    moreover have "dec s (x @ z) = (Some f, t, v @ z)"
      using x Some by (simp add: some_extend)
    ultimately show ?thesis
      by (subst drain_unfold) (auto simp: fs canon_eq_def split: prod.splits)
  qed
qed

lemma feed_eq_drain:
  "chunks \<noteq> [] \<Longrightarrow>
    canon_eq canon (feed dec weight s buf chunks) (drain dec weight s (buf @ concat chunks))"
proof (induction chunks arbitrary: s buf)
  case (Cons chunk chunks)
  obtain fs s' buf' where first: "drain dec weight s (buf @ chunk) = (fs, s', buf')"
    by (cases "drain dec weight s (buf @ chunk)")
  show ?case
  proof (cases "chunks = []")
    case True
    with first show ?thesis by simp
  next
    case False
    obtain gs s'' u where rest: "drain dec weight s' (buf' @ concat chunks) = (gs, s'', u)"
      by (cases "drain dec weight s' (buf' @ concat chunks)")
    from Cons.IH [OF False, of s' buf'] rest
    have "canon_eq canon (feed dec weight s buf (chunk # chunks)) (fs @ gs, s'', u)"
      using first by (auto simp: canon_eq_def split: prod.splits)
    moreover have "canon_eq canon (drain dec weight s ((buf @ chunk) @ concat chunks)) (fs @ gs, s'', u)"
      by (rule drain_append [OF first rest])
    ultimately show ?thesis
      by (metis append.assoc canon_eq_sym canon_eq_trans concat.simps(2))
  qed
qed simp

lemma feed_frames_eq:
  assumes "concat chunks = concat chunks'" and "chunks \<noteq> []" and "chunks' \<noteq> []"
  shows "canon_eq canon (feed dec weight s buf chunks) (feed dec weight s buf chunks')"
  using feed_eq_drain [OF assms(2), of s buf] feed_eq_drain [OF assms(3), of s buf] assms(1)
  by (metis canon_eq_sym canon_eq_trans)

end

end
