(* ===== verification/Codec.thy ===== *)
theory Codec
  imports Framing
begin

text \<open>
  The wire codec of \<open>src/src/codec.rs\<close>: \<open>calculate_crc\<close>, \<open>decode\<close> with its resynchronisation
  and its skipping of damaged frames, and \<open>encode\<close>. The codec's only state is the error counter,
  a 64-bit atomic that wraps. \<open>decode\<close> never fails in the source (it always returns \<open>Ok\<close>), so
  the model returns the option inside; \<open>src\<close> is the reader's buffer before and after the call.
\<close>

section \<open>Definitions\<close>

record satel_codec =
  crc_errors :: u64

definition codec_default :: satel_codec where
  "codec_default = \<lparr>crc_errors = 0\<rparr>"

text \<open>
  One round of \<open>calculate_crc\<close>; \<open>rotate_left(1)\<close> of a 16-bit word is written with two shifts.
\<close>

definition crc_step :: "u16 \<Rightarrow> u8 \<Rightarrow> u16" where
  "crc_step crc b =
    (let c1 = push_bit 1 crc OR drop_bit 15 crc;
         c2 = c1 XOR 0xFFFF;
         c3 = c2 + drop_bit 8 c2
     in c3 + ucast b)"

definition calculate_crc :: "bytes \<Rightarrow> u16" where
  "calculate_crc data = foldl crc_step 0x147A data"

text \<open>\<open>src.windows(2).position(|w| w == [a, b])\<close>\<close>

fun window_pos :: "u8 \<Rightarrow> u8 \<Rightarrow> bytes \<Rightarrow> nat option" where
  "window_pos a b [] = None"
| "window_pos a b [x] = None"
| "window_pos a b (x # y # zs) =
    (if x = a \<and> y = b then Some 0 else map_option Suc (window_pos a b (y # zs)))"

text \<open>The loop of \<open>decode\<close> over \<open>frame_raw\<close>, with its index and the bytes pushed so far.\<close>

function unstuff_loop :: "bytes \<Rightarrow> nat \<Rightarrow> bytes \<Rightarrow> bytes" where
  "unstuff_loop frame_raw i data_with_crc =
    (if i < length frame_raw - 2
     then if frame_raw ! i = 0xFE \<and> get frame_raw (i + 1) = Some 0xF0
          then unstuff_loop frame_raw (i + 2) (data_with_crc @ [0xFE])
          else unstuff_loop frame_raw (i + 1) (data_with_crc @ [frame_raw ! i])
     else data_with_crc)"
  by pat_completeness auto
termination by (relation "measure (\<lambda>(frame_raw, i, _). length frame_raw - 2 - i)") auto

declare unstuff_loop.simps [simp del]

lemma window_pos_less: "window_pos a b xs = Some p \<Longrightarrow> p + 2 \<le> length xs"
  by (induction a b xs arbitrary: p rule: window_pos.induct) (auto split: if_splits)

function decode :: "satel_codec \<Rightarrow> bytes \<Rightarrow> bytes option \<times> satel_codec \<times> bytes" where
  "decode c src =
    (if length src < 2 then (None, c, src)
     else case window_pos 0xFE 0xFE src of
       None \<Rightarrow>
         (None, c, drop (if last src = 0xFE then length src - 1 else length src) src)
     | Some start \<Rightarrow>
         (let src1 = drop start src
          in case window_pos 0xFE 0x0D src1 of
               None \<Rightarrow> (None, c, src1)
             | Some pos \<Rightarrow>
                 (let data_with_crc = unstuff_loop (take (pos + 2) src1) 2 [];
                      rest = drop (pos + 2) src1
                  in if length data_with_crc < 2 then decode c rest
                     else let low = last data_with_crc;
                              high = last (butlast data_with_crc);
                              data = butlast (butlast data_with_crc)
                          in if be16 high low = calculate_crc data then (Some data, c, rest)
                             else decode (c\<lparr>crc_errors := crc_errors c + 1\<rparr>) rest)))"
  by pat_completeness auto
termination
  by (relation "measure (\<lambda>(c, src). length src)") (auto dest: window_pos_less)

declare decode.simps [simp del]

definition stuff_byte :: "bytes \<Rightarrow> u8 \<Rightarrow> bytes" where
  "stuff_byte dst b = (if b = 0xFE then dst @ [0xFE, 0xF0] else dst @ [b])"

definition encode :: "bytes \<Rightarrow> bytes \<Rightarrow> bytes" where
  "encode item dst =
    (let dst1 = dst @ [0xFE, 0xFE];
         dst2 = foldl stuff_byte dst1 item;
         crc = calculate_crc item;
         dst3 = foldl stuff_byte dst2 (be_bytes16 crc)
     in dst3 @ [0xFE, 0x0D])"

section \<open>Reference functions\<close>

text \<open>Byte stuffing and its inverse by structural recursion, the specification of the loops.\<close>

fun stuff :: "bytes \<Rightarrow> bytes" where
  "stuff [] = []"
| "stuff (b # bs) = (if b = 0xFE then 0xFE # 0xF0 # stuff bs else b # stuff bs)"

fun unstuff :: "bytes \<Rightarrow> bytes" where
  "unstuff [] = []"
| "unstuff [x] = [x]"
| "unstuff (x # y # zs) = (if x = 0xFE \<and> y = 0xF0 then 0xFE # unstuff zs else x # unstuff (y # zs))"

definition wire_frame :: "bytes \<Rightarrow> bytes" where
  "wire_frame item = 0xFE # 0xFE # stuff (item @ be_bytes16 (calculate_crc item)) @ [0xFE, 0x0D]"

text \<open>The buffer without the bytes in front of the first synchronisation mark.\<close>

definition trim_junk :: "bytes \<Rightarrow> bytes" where
  "trim_junk src = (case window_pos 0xFE 0xFE src of
     Some p \<Rightarrow> drop p src
   | None \<Rightarrow> (if src \<noteq> [] \<and> last src = 0xFE then [0xFE] else []))"

definition frame_weight :: "satel_codec \<Rightarrow> bytes \<Rightarrow> nat" where
  "frame_weight c src = length src"

section \<open>Stuffing\<close>

lemma foldl_stuff_byte: "foldl stuff_byte dst xs = dst @ stuff xs"
  by (induction xs arbitrary: dst) (simp_all add: stuff_byte_def)

lemma stuff_append: "stuff (xs @ ys) = stuff xs @ stuff ys"
  by (induction xs) simp_all

lemma stuff_length: "length xs \<le> length (stuff xs)"
  by (induction xs) auto

lemma encode_eq: "encode item dst = dst @ wire_frame item"
  by (simp add: encode_def foldl_stuff_byte stuff_append wire_frame_def)

lemma unstuff_stuff: "unstuff (stuff xs) = xs"
proof (induction xs rule: stuff.induct)
  case (2 b bs)
  then show ?case by (cases "stuff bs") auto
qed simp

lemma unstuff_loop_body:
  assumes "frame_raw = pre @ body @ [0xFE, 0x0D]"
  shows "unstuff_loop frame_raw (length pre) acc = acc @ unstuff body"
  using assms
proof (induction body arbitrary: pre acc rule: unstuff.induct)
  case (3 x y zs)
  have at: "frame_raw ! length pre = x" "get frame_raw (length pre + 1) = Some y"
    and more: "length pre < length frame_raw - 2"
    using "3.prems" by (simp_all add: nth_append)
  show ?case
  proof (cases "x = 0xFE \<and> y = 0xF0")
    case True
    have "unstuff_loop frame_raw (length (pre @ [x, y])) (acc @ [0xFE]) = (acc @ [0xFE]) @ unstuff zs"
      using True "3.prems" by (intro "3.IH") auto
    with True at more show ?thesis
      by (subst unstuff_loop.simps) simp
  next
    case False
    have "unstuff_loop frame_raw (length (pre @ [x])) (acc @ [x]) = (acc @ [x]) @ unstuff (y # zs)"
      using False "3.prems" by (intro "3.IH") auto
    with False at more show ?thesis
      by (subst unstuff_loop.simps) auto
  qed
next
  case 1
  then show ?case by (subst unstuff_loop.simps) simp
next
  case (2 x)
  then have "frame_raw ! length pre = x" "get frame_raw (length pre + 1) = Some 0xFE"
    and "length pre < length frame_raw - 2"
    by (simp_all add: nth_append)
  moreover have "unstuff_loop frame_raw (Suc (length pre)) (acc @ [x]) = acc @ [x]"
    using 2 by (subst unstuff_loop.simps) simp
  ultimately show ?case by (subst unstuff_loop.simps) simp
qed

section \<open>Searching for a marker\<close>

lemma window_pos_first:
  "window_pos a b (ys @ [a]) = None \<Longrightarrow> window_pos a b (ys @ a # b # zs) = Some (length ys)"
  by (induction a b ys rule: window_pos.induct) (auto split: if_splits)

lemma window_pos_SomeD:
  "window_pos a b xs = Some p \<Longrightarrow>
    \<exists>ys zs. xs = ys @ a # b # zs \<and> length ys = p \<and> window_pos a b (ys @ [a]) = None"
proof (induction a b xs arbitrary: p rule: window_pos.induct)
  case (3 a b x y zs)
  show ?case
  proof (cases "x = a \<and> y = b")
    case True
    with "3.prems" have "x # y # zs = [] @ a # b # zs \<and> length [] = p \<and> window_pos a b ([] @ [a]) = None"
      by simp
    then show ?thesis by blast
  next
    case False
    with "3.prems" obtain q where q: "window_pos a b (y # zs) = Some q" "p = Suc q" by auto
    from "3.IH" [OF False q(1)] obtain us vs where
      us: "y # zs = us @ a # b # vs" "length us = q" "window_pos a b (us @ [a]) = None"
      by blast
    have "window_pos a b ((x # us) @ [a]) = None"
      using False us(1,3) by (cases us) auto
    with us(1,2) q(2) have "x # y # zs = (x # us) @ a # b # vs \<and> length (x # us) = p
        \<and> window_pos a b ((x # us) @ [a]) = None"
      by simp
    then show ?thesis by blast
  qed
qed simp_all

lemma window_pos_append: "window_pos a b xs = Some p \<Longrightarrow> window_pos a b (xs @ zs) = Some p"
  by (induction a b xs arbitrary: p rule: window_pos.induct) (auto split: if_splits)

lemma window_pos_drop: "window_pos a b xs = Some p \<Longrightarrow> window_pos a b (drop p xs) = Some 0"
  by (induction a b xs arbitrary: p rule: window_pos.induct) (auto split: if_splits)

lemma map_option_add_0: "map_option ((+) (0::nat)) x = x"
  by (cases x) simp_all

lemma window_pos_append_None:
  "window_pos a b xs = None \<Longrightarrow> xs = [] \<or> last xs \<noteq> a \<Longrightarrow>
    window_pos a b (xs @ zs) = map_option (\<lambda>p. length xs + p) (window_pos a b zs)"
proof (induction a b xs rule: window_pos.induct)
  case (3 a b x y zs)
  then show ?case
    by (auto simp: option.map_comp o_def split: if_splits)
next
  case (2 a b v)
  then show ?case by (cases zs) auto
qed (auto simp: map_option_add_0)

lemma window_pos_append_last:
  "window_pos a b xs = None \<Longrightarrow> xs \<noteq> [] \<Longrightarrow> last xs = a \<Longrightarrow>
    window_pos a b (xs @ zs) = map_option (\<lambda>p. length xs - 1 + p) (window_pos a b (a # zs))"
proof (induction a b xs rule: window_pos.induct)
  case (3 a b x y zs)
  then show ?case
    by (auto simp: option.map_comp o_def split: if_splits)
qed (auto simp: map_option_add_0)

lemma window_pos_stuff:
  "c = 0xFE \<longrightarrow> xs = [] \<or> hd xs \<noteq> 0x0D \<Longrightarrow>
    window_pos 0xFE 0x0D (c # stuff xs @ [0xFE]) = None"
proof (induction xs arbitrary: c)
  case (Cons x xs)
  show ?case
  proof (cases "x = 0xFE")
    case True
    then show ?thesis using Cons.IH [of "0xF0"] by simp
  next
    case False
    then show ?thesis using Cons.IH [of x] Cons.prems by auto
  qed
qed simp

section \<open>One step of the decoder\<close>

text \<open>The three outcomes of one pass: nothing yet, a candidate frame, and what is skipped.\<close>

lemma decode_no_sync:
  "window_pos 0xFE 0xFE src = None \<Longrightarrow> decode c src = (None, c, if length src < 2 then src else trim_junk src)"
proof -
  assume none: "window_pos 0xFE 0xFE src = None"
  have "drop (length src - 1) src = [0xFE]" if "src \<noteq> []" "last src = 0xFE"
    using that by (cases src rule: rev_cases) simp_all
  with none show ?thesis
    by (subst decode.simps) (auto simp: trim_junk_def)
qed

lemma decode_no_end:
  "window_pos 0xFE 0xFE src = Some p \<Longrightarrow> window_pos 0xFE 0x0D (drop p src) = None \<Longrightarrow>
    decode c src = (None, c, drop p src)"
  using window_pos_less [of "0xFE" "0xFE" src p] by (subst decode.simps) simp

definition handle_body :: "satel_codec \<Rightarrow> bytes \<Rightarrow> bytes \<Rightarrow> bytes option \<times> satel_codec \<times> bytes" where
  "handle_body c data_with_crc rest =
    (if length data_with_crc < 2 then decode c rest
     else let data = butlast (butlast data_with_crc)
          in if be16 (last (butlast data_with_crc)) (last data_with_crc) = calculate_crc data
             then (Some data, c, rest)
             else decode (c\<lparr>crc_errors := crc_errors c + 1\<rparr>) rest)"

lemma decode_candidate:
  assumes "src = junk @ 0xFE # 0xFE # body @ 0xFE # 0x0D # rest"
    and "window_pos 0xFE 0xFE (junk @ [0xFE]) = None"
    and "window_pos 0xFE 0x0D (0xFE # 0xFE # body @ [0xFE]) = None"
  shows "decode c src = handle_body c (unstuff body) rest"
proof -
  have sync: "window_pos 0xFE 0xFE src = Some (length junk)"
    using window_pos_first [OF assms(2)] assms(1) by simp
  have fin: "window_pos 0xFE 0x0D (drop (length junk) src) = Some (2 + length body)"
    using window_pos_first [of "0xFE" "0x0D" "0xFE # 0xFE # body" rest] assms(1,3) by simp
  have frame: "take (2 + length body + 2) (drop (length junk) src)
      = [0xFE, 0xFE] @ body @ [0xFE, 0x0D]"
    using assms(1) by simp
  have "unstuff_loop ([0xFE, 0xFE] @ body @ [0xFE, 0x0D]) 2 [] = unstuff body"
    using unstuff_loop_body [of _ "[0xFE, 0xFE]" body "[]"] by (simp add: numeral_2_eq_2)
  with frame have "unstuff_loop (take (2 + length body + 2) (drop (length junk) src)) 2 [] = unstuff body"
    by metis
  moreover have "drop (2 + length body + 2) (drop (length junk) src) = rest"
    and "\<not> length src < 2"
    using assms(1) by simp_all
  ultimately show ?thesis
    using sync fin by (subst decode.simps) (simp add: handle_body_def Let_def)
qed

text \<open>\<open>FE FE 0D\<close> is cut off as a frame of its own.\<close>

lemma decode_overlap:
  assumes "src = junk @ 0xFE # 0xFE # 0x0D # rest"
    and "window_pos 0xFE 0xFE (junk @ [0xFE]) = None"
  shows "decode c src = decode c rest"
proof -
  have "window_pos 0xFE 0xFE src = Some (length junk)"
    using window_pos_first [OF assms(2)] assms(1) by simp
  moreover have "window_pos 0xFE 0x0D (drop (length junk) src) = Some 1"
    using assms(1) by simp
  moreover have "unstuff_loop [0xFE, 0xFE, 0x0D] 2 [] = []"
    by (subst unstuff_loop.simps) simp
  moreover have "take (1 + 2) (drop (length junk) src) = [0xFE, 0xFE, 0x0D]"
    and "drop (1 + 2) (drop (length junk) src) = rest" and "\<not> length src < 2"
    using assms(1) by simp_all
  ultimately show ?thesis
    by (subst decode.simps) (simp del: One_nat_def add_2_eq_Suc' drop_drop add: Let_def)
qed

lemma decode_cases [consumes 0, case_names no_sync no_end overlap candidate]:
  obtains "window_pos 0xFE 0xFE src = None"
  | p where "window_pos 0xFE 0xFE src = Some p" and "window_pos 0xFE 0x0D (drop p src) = None"
  | junk rest where "src = junk @ 0xFE # 0xFE # 0x0D # rest"
      and "window_pos 0xFE 0xFE (junk @ [0xFE]) = None"
  | junk body rest where "src = junk @ 0xFE # 0xFE # body @ 0xFE # 0x0D # rest"
      and "window_pos 0xFE 0xFE (junk @ [0xFE]) = None"
      and "window_pos 0xFE 0x0D (0xFE # 0xFE # body @ [0xFE]) = None"
proof (cases "window_pos 0xFE 0xFE src")
  case None
  then show ?thesis by (rule that(1))
next
  case (Some p)
  from window_pos_SomeD [OF Some] obtain junk zs where
    src: "src = junk @ 0xFE # 0xFE # zs" "length junk = p" "window_pos 0xFE 0xFE (junk @ [0xFE]) = None"
    by blast
  show ?thesis
  proof (cases "window_pos 0xFE 0x0D (drop p src)")
    case None
    with Some show ?thesis by (rule that(2))
  next
    case (Some q)
    then have "window_pos 0xFE 0x0D (0xFE # 0xFE # zs) = Some q" using src by simp
    from window_pos_SomeD [OF this] obtain ys rest where
      ys: "0xFE # 0xFE # zs = ys @ 0xFE # 0x0D # rest" "window_pos 0xFE 0x0D (ys @ [0xFE]) = None"
      by blast
    then consider "ys = [0xFE]" "zs = 0x0D # rest"
      | body where "ys = 0xFE # 0xFE # body" "zs = body @ 0xFE # 0x0D # rest"
      by (cases ys; cases "tl ys") auto
    then show ?thesis
      using src ys(2) by cases (auto intro: that(3,4))
  qed
qed

section \<open>Round trip\<close>

lemma crc_rotate_left: "push_bit 1 crc OR drop_bit 15 crc = word_rotl 1 crc" for crc :: u16
proof (rule bit_word_eqI)
  fix n
  assume "n < LENGTH(16)"
  then have n: "n < 16" by simp
  show "bit (push_bit 1 crc OR drop_bit 15 crc) n = bit (word_rotl 1 crc) n"
  proof (cases n)
    case 0
    then show ?thesis
      by (simp only: bit_or_iff bit_push_bit_iff bit_drop_bit_eq bit_word_rotl_iff) simp
  next
    case (Suc m)
    have "\<not> bit crc (15 + Suc m)" by (auto dest: bit_imp_le_length)
    with Suc n show ?thesis
      by (simp only: bit_or_iff bit_push_bit_iff bit_drop_bit_eq bit_word_rotl_iff)
        (simp add: o_def bit_drop_bit_eq)
  qed
qed

lemma calculate_crc_nil: "calculate_crc [] = 0x147A"
  by (simp add: calculate_crc_def)

text \<open>The data ends with the high and the low byte of the checksum.\<close>

lemma handle_body_crc:
  "handle_body c (item @ be_bytes16 (calculate_crc item)) rest = (Some item, c, rest)"
  by (simp add: handle_body_def be_bytes16_def butlast_append be16_be_bytes16)

lemma decode_wire_frame:
  assumes "item = [] \<or> hd item \<noteq> 0x0D"
    and "window_pos 0xFE 0xFE (junk @ [0xFE]) = None"
  shows "decode c (junk @ wire_frame item @ rest) = (Some item, c, rest)"
proof -
  let ?xs = "item @ be_bytes16 (calculate_crc item)"
  have hd: "hd ?xs \<noteq> 0x0D"
    using assms(1) by (cases item) (auto simp: be_bytes16_def calculate_crc_nil)
  have "window_pos 0xFE 0x0D (0xFE # stuff ?xs @ [0xFE]) = None"
    using hd by (intro window_pos_stuff) simp
  then have "window_pos 0xFE 0x0D (0xFE # 0xFE # stuff ?xs @ [0xFE]) = None"
    by simp
  then have "decode c (junk @ 0xFE # 0xFE # stuff ?xs @ 0xFE # 0x0D # rest)
      = handle_body c (unstuff (stuff ?xs)) rest"
    using assms(2) by (intro decode_candidate) auto
  then show ?thesis
    by (simp add: wire_frame_def unstuff_stuff handle_body_crc)
qed

text \<open>
  Every frame the encoder writes is decoded to the item it was made from, whatever bytes
  without a synchronisation mark precede it and whatever follows it, and the error counter is left
  alone, provided that the item does not begin with the byte \<open>0x0D\<close>.
\<close>

theorem decode_encode_roundtrip:
  assumes "item = [] \<or> hd item \<noteq> 0x0D"
    and "window_pos 0xFE 0xFE (junk @ [0xFE]) = None"
  shows "decode c (encode item junk @ rest) = (Some item, c, rest)"
  using decode_wire_frame [OF assms] by (simp add: encode_eq)

theorem decode_encode_roundtrip_witness:
  "decode codec_default (encode [0x7F, 0xFE, 0xF0] [0x01, 0x0D] @ [0xFE])
     = (Some [0x7F, 0xFE, 0xF0], codec_default, [0xFE])"
  by (rule decode_encode_roundtrip) simp_all

text \<open>
  A frame for the item \<open>0x0D :: more\<close> is never delivered: the marker search finds the end
  mark in the second synchronisation byte and the first payload byte, drops those three bytes as
  an empty frame, and goes on with the rest of the frame as if it were junk.
\<close>

theorem decode_encode_0D:
  "decode c (encode (0x0D # item) [] @ rest)
     = decode c (drop 3 (encode (0x0D # item) []) @ rest)"
  by (simp add: encode_eq wire_frame_def decode_overlap [of _ "[]"])

section \<open>Soundness\<close>

text \<open>
  A delivered frame was on the wire between a synchronisation mark and an end mark, its stuffing
  undone gives the frame followed by its own checksum, and the buffer that is left is what follows.
\<close>

lemma decode_sound:
  "decode c src = (Some item, c', rest) \<Longrightarrow>
    \<exists>skipped body. src = skipped @ [0xFE, 0xFE] @ body @ [0xFE, 0x0D] @ rest
      \<and> unstuff body = item @ be_bytes16 (calculate_crc item)"
proof (induction "length src" arbitrary: c src rule: less_induct)
  case less
  show ?case
  proof (cases src rule: decode_cases)
    case no_sync
    with less.prems show ?thesis by (simp add: decode_no_sync)
  next
    case (no_end p)
    with less.prems show ?thesis by (simp add: decode_no_end)
  next
    case (overlap junk rest')
    with less.prems have "decode c rest' = (Some item, c', rest)" by (simp add: decode_overlap)
    with less.hyps [of rest' c] overlap(1)
    obtain skipped body where "rest' = skipped @ [0xFE, 0xFE] @ body @ [0xFE, 0x0D] @ rest"
      and body: "unstuff body = item @ be_bytes16 (calculate_crc item)" by auto
    with overlap(1) have "src = (junk @ [0xFE, 0xFE, 0x0D] @ skipped) @ [0xFE, 0xFE] @ body @ [0xFE, 0x0D] @ rest"
      by simp
    with body show ?thesis by blast
  next
    case (candidate junk body rest')
    then have eq: "handle_body c (unstuff body) rest' = (Some item, c', rest)"
      using less.prems decode_candidate [of src junk body rest' c] by simp
    show ?thesis
    proof (cases "\<exists>d. decode d rest' = (Some item, c', rest)")
      case True
      then obtain d where "decode d rest' = (Some item, c', rest)" ..
      with less.hyps [of rest' d] candidate(1)
      obtain skipped body' where "rest' = skipped @ [0xFE, 0xFE] @ body' @ [0xFE, 0x0D] @ rest"
        and body': "unstuff body' = item @ be_bytes16 (calculate_crc item)" by auto
      with candidate(1) have "src = (junk @ [0xFE, 0xFE] @ body @ [0xFE, 0x0D] @ skipped)
          @ [0xFE, 0xFE] @ body' @ [0xFE, 0x0D] @ rest"
        by simp
      with body' show ?thesis by blast
    next
      case False
      obtain xs l h where xs: "unstuff body = xs @ [h, l]"
        and long: "\<not> length (unstuff body) < 2"
      proof (cases "unstuff body" rule: rev_cases)
        case Nil
        with eq False show ?thesis by (auto simp: handle_body_def)
      next
        case (snoc ys l)
        then show ?thesis
          using that eq False
          by (cases ys rule: rev_cases) (auto simp: handle_body_def)
      qed
      with eq False have "be16 h l = calculate_crc xs" "item = xs" "rest' = rest"
        by (auto simp: handle_body_def butlast_append split: if_splits)
      moreover have "be_bytes16 (be16 h l) = [h, l]"
        by (rule be_bytes16_be16)
      ultimately have "unstuff body = item @ be_bytes16 (calculate_crc item)"
        and "src = junk @ [0xFE, 0xFE] @ body @ [0xFE, 0x0D] @ rest"
        using xs candidate(1) by simp_all
      then show ?thesis by blast
    qed
  qed
qed

section \<open>Growing buffers\<close>

lemma window_pos_FE_less: "window_pos a b xs = Some p \<Longrightarrow> p < length xs"
  using window_pos_less by fastforce

lemma trim_junk_Some: "window_pos 0xFE 0xFE src = Some p \<Longrightarrow> trim_junk src = drop p src"
  by (simp add: trim_junk_def)

lemma trim_junk_append: "trim_junk (trim_junk x @ z) = trim_junk (x @ z)"
proof (cases "window_pos 0xFE 0xFE x")
  case (Some p)
  then have "window_pos 0xFE 0xFE (drop p x @ z) = Some 0" and "window_pos 0xFE 0xFE (x @ z) = Some p"
    and "p < length x"
    by (simp_all add: window_pos_append window_pos_drop window_pos_FE_less)
  with Some show ?thesis by (simp add: trim_junk_Some)
next
  case None
  show ?thesis
  proof (cases "x \<noteq> [] \<and> last x = 0xFE")
    case True
    then obtain y where x: "x = y @ [0xFE]" by (cases x rule: rev_cases) auto
    have "window_pos 0xFE 0xFE (x @ z) = map_option (\<lambda>p. length y + p) (window_pos 0xFE 0xFE (0xFE # z))"
      using window_pos_append_last [OF None] True x by simp
    then show ?thesis
      using None True x by (auto simp: trim_junk_def split: option.splits)
  next
    case False
    then have "window_pos 0xFE 0xFE (x @ z) = map_option (\<lambda>p. length x + p) (window_pos 0xFE 0xFE z)"
      using window_pos_append_None [OF None] by blast
    with None False show ?thesis
      by (auto simp: trim_junk_def split: option.splits)
  qed
qed

lemma trim_junk_idem [simp]: "trim_junk (trim_junk x) = trim_junk x"
  using trim_junk_append [of x "[]"] by simp

lemma trim_junk_append_cong: "trim_junk x = trim_junk y \<Longrightarrow> trim_junk (x @ z) = trim_junk (y @ z)"
  by (metis trim_junk_append)

lemma trim_junk_no_sync: "window_pos 0xFE 0xFE x = None \<Longrightarrow> window_pos 0xFE 0xFE (trim_junk x) = None"
  by (simp add: trim_junk_def)

lemma decode_drop_junk:
  assumes "window_pos 0xFE 0xFE src = Some p"
  shows "decode c src = decode c (drop p src)"
  using window_pos_less [OF assms] window_pos_drop [OF assms] assms
  by (subst (1 2) decode.simps) simp

lemma decode_trim_junk: "canon_eq trim_junk (decode c src) (decode c (trim_junk src))"
proof (cases "window_pos 0xFE 0xFE src")
  case None
  then show ?thesis by (simp add: decode_no_sync trim_junk_no_sync canon_eq_def)
next
  case (Some p)
  then show ?thesis by (simp add: decode_drop_junk [OF Some] trim_junk_Some)
qed

lemma decode_canon: "trim_junk x = trim_junk y \<Longrightarrow> canon_eq trim_junk (decode c x) (decode c y)"
  by (metis canon_eq_sym canon_eq_trans decode_trim_junk)

lemma decode_None_extend:
  "decode c src = (None, c', b) \<Longrightarrow> canon_eq trim_junk (decode c (src @ z)) (decode c' (b @ z))"
proof (induction "length src" arbitrary: c src rule: less_induct)
  case less
  show ?case
  proof (cases src rule: decode_cases)
    case no_sync
    with less.prems have "c' = c" "trim_junk b = trim_junk src"
      by (auto simp: decode_no_sync split: if_splits)
    then show ?thesis by (metis decode_canon trim_junk_append_cong)
  next
    case (no_end p)
    with less.prems have "c' = c" "trim_junk b = trim_junk src"
      by (auto simp: decode_no_end trim_junk_Some window_pos_drop)
    then show ?thesis by (metis decode_canon trim_junk_append_cong)
  next
    case (overlap junk rest)
    then show ?thesis
      using less.prems less.hyps [of rest c] decode_overlap [of _ junk]
      by simp
  next
    case (candidate junk body rest)
    then show ?thesis
      using less.prems less.hyps [of rest] decode_candidate [of _ junk body]
      by (auto simp: handle_body_def Let_def split: if_splits)
  qed
qed

lemma decode_Some_extend:
  "decode c src = (Some f, c', b) \<Longrightarrow> decode c (src @ z) = (Some f, c', b @ z)"
proof (induction "length src" arbitrary: c src rule: less_induct)
  case less
  show ?case
  proof (cases src rule: decode_cases)
    case no_sync
    with less.prems show ?thesis by (simp add: decode_no_sync)
  next
    case (no_end p)
    with less.prems show ?thesis by (simp add: decode_no_end)
  next
    case (overlap junk rest)
    then show ?thesis
      using less.prems less.hyps [of rest c] decode_overlap [of _ junk]
      by simp
  next
    case (candidate junk body rest)
    then show ?thesis
      using less.prems less.hyps [of rest] decode_candidate [of _ junk body]
      by (auto simp: handle_body_def Let_def split: if_splits)
  qed
qed

lemma decode_Some_weight: "decode c src = (Some f, c', b) \<Longrightarrow> length b < length src"
  using decode_sound by fastforce

interpretation codec: chunked_decoder decode frame_weight trim_junk
  by unfold_locales
    (auto simp: frame_weight_def intro: decode_None_extend decode_Some_extend decode_Some_weight
      decode_canon trim_junk_append_cong)

lemma drain_frames:
  "(\<And>f. f \<in> set items \<Longrightarrow> f = [] \<or> hd f \<noteq> 0x0D) \<Longrightarrow>
    drain decode frame_weight c (concat (map wire_frame items)) = (items, c, [])"
proof (induction items)
  case Nil
  then show ?case by (subst codec.drain_unfold) (simp add: decode_no_sync)
next
  case (Cons f items)
  have "decode c ([] @ wire_frame f @ concat (map wire_frame items)) = (Some f, c, concat (map wire_frame items))"
    using Cons.prems [of f] by (intro decode_wire_frame) auto
  with Cons show ?case by (subst codec.drain_unfold) simp
qed

lemma window_pos_zeros: "window_pos 0xFE 0xFE (replicate n 0 @ [0xFE]) = None"
proof (induction n)
  case (Suc n)
  then show ?case by (cases n) simp_all
qed simp

lemma window_pos_replicate: "window_pos 0xFE 0xFE (replicate n 0) = None"
proof (induction n)
  case (Suc n)
  then show ?case by (cases n) simp_all
qed simp

text \<open>Frames with zero bytes after each of them, as the encrypted transport delivers them.\<close>

lemma drain_padded_frames:
  "(\<And>f. f \<in> set items \<Longrightarrow> f = [] \<or> hd f \<noteq> 0x0D) \<Longrightarrow>
    \<exists>rest. drain decode frame_weight c (replicate n 0 @ concat (map (\<lambda>f. wire_frame f @ replicate (pad f) 0) items))
        = (items, c, rest) \<and> trim_junk rest = []"
proof (induction items arbitrary: n)
  case Nil
  have "trim_junk (replicate n 0) = []"
    by (cases n) (simp_all add: trim_junk_def window_pos_replicate del: replicate_Suc)
  moreover have "trim_junk [] = []" by (simp add: trim_junk_def)
  ultimately show ?case
    by (subst codec.drain_unfold) (auto simp: decode_no_sync window_pos_replicate)
next
  case (Cons f items)
  let ?more = "concat (map (\<lambda>f. wire_frame f @ replicate (pad f) 0) items)"
  have "decode c (replicate n 0 @ wire_frame f @ replicate (pad f) 0 @ ?more)
      = (Some f, c, replicate (pad f) 0 @ ?more)"
    using Cons.prems [of f] by (intro decode_wire_frame window_pos_zeros) auto
  moreover obtain rest where
    "drain decode frame_weight c (replicate (pad f) 0 @ ?more) = (items, c, rest)" "trim_junk rest = []"
    using Cons.IH [of "pad f"] Cons.prems by auto
  ultimately show ?case by (subst codec.drain_unfold) simp
qed

text \<open>
  C20. However the transport cuts the byte stream into reads, the reader delivers the same frames,
  counts the same checksum errors and is left with the same unfinished frame, as when all the
  bytes arrive at once.
\<close>

theorem decode_chunking:
  assumes "concat chunks = concat chunks'" and "chunks \<noteq> []" and "chunks' \<noteq> []"
  shows "canon_eq trim_junk (feed decode frame_weight c buf chunks)
           (feed decode frame_weight c buf chunks')"
  using assms by (rule codec.feed_frames_eq)

theorem decode_chunking_witness:
  "canon_eq trim_junk
     (feed decode frame_weight codec_default [] [[0xFE], [0xFE, 0x00], [0xD7, 0xE2, 0xFE, 0x0D]])
     (feed decode frame_weight codec_default [] [[0xFE, 0xFE, 0x00, 0xD7, 0xE2, 0xFE, 0x0D]])"
  by (rule decode_chunking) simp_all

lemma feed_encoded:
  assumes "concat chunks = foldl (\<lambda>dst item. encode item dst) [] items"
    and "\<And>f. f \<in> set items \<Longrightarrow> f = [] \<or> hd f \<noteq> 0x0D"
    and "chunks \<noteq> []"
  shows "\<exists>rest. feed decode frame_weight c [] chunks = (items, c, rest) \<and> trim_junk rest = []"
proof -
  have "foldl (\<lambda>dst item. encode item dst) dst items = dst @ concat (map wire_frame items)" for dst
    by (induction items arbitrary: dst) (simp_all add: encode_eq)
  with assms(1) have "concat chunks = concat (map wire_frame items)" by simp
  then have "drain decode frame_weight c ([] @ concat chunks) = (items, c, [])"
    using drain_frames assms(2) by simp
  with codec.feed_eq_drain [OF assms(3), of c "[]"]
  have "canon_eq trim_junk (feed decode frame_weight c [] chunks) (items, c, [])" by simp
  then show ?thesis
    by (cases "feed decode frame_weight c [] chunks") (simp add: canon_eq_def trim_junk_def)
qed

text \<open>
  C11. A stream of encoded frames, none of which begins with \<open>0x0D\<close>, comes out as exactly those
  frames in their order, without an error count, for every way the transport cuts the stream.
\<close>

theorem decode_stream:
  assumes "concat chunks = foldl (\<lambda>dst item. encode item dst) [] items"
    and "\<And>f. f \<in> set items \<Longrightarrow> f = [] \<or> hd f \<noteq> 0x0D"
    and "chunks \<noteq> []"
  shows "\<exists>rest. feed decode frame_weight c [] chunks = (items, c, rest) \<and> trim_junk rest = []"
  using assms by (rule feed_encoded)

theorem decode_stream_witness:
  "\<exists>rest. feed decode frame_weight codec_default []
      [take 5 (foldl (\<lambda>dst item. encode item dst) [] [[0x00, 0x01], [0x7E]]),
       drop 5 (foldl (\<lambda>dst item. encode item dst) [] [[0x00, 0x01], [0x7E]])]
      = ([[0x00, 0x01], [0x7E]], codec_default, rest) \<and> trim_junk rest = []"
  by (rule decode_stream) auto

text \<open>
  C30. A frame whose checksum is wrong is dropped, counted once, and the frame that follows it is
  delivered: one damaged frame costs one frame.
\<close>

theorem decode_crc_error_recovery:
  assumes "be16 h l \<noteq> calculate_crc data"
    and "hd (data @ [h, l]) \<noteq> 0x0D"
    and "item = [] \<or> hd item \<noteq> 0x0D"
  shows "decode c (0xFE # 0xFE # stuff (data @ [h, l]) @ 0xFE # 0x0D # encode item [] @ rest)
           = (Some item, c\<lparr>crc_errors := crc_errors c + 1\<rparr>, rest)"
proof -
  let ?c = "c\<lparr>crc_errors := crc_errors c + 1\<rparr>"
  have "window_pos 0xFE 0x0D (0xFE # 0xFE # stuff (data @ [h, l]) @ [0xFE]) = None"
    using window_pos_stuff [of "0xFE" "data @ [h, l]"] assms(2) by simp
  then have "decode c ([] @ 0xFE # 0xFE # stuff (data @ [h, l]) @ 0xFE # 0x0D # encode item [] @ rest)
      = handle_body c (unstuff (stuff (data @ [h, l]))) (encode item [] @ rest)"
    by (intro decode_candidate) auto
  also have "\<dots> = decode ?c ([] @ wire_frame item @ rest)"
    unfolding unstuff_stuff using assms(1)
    by (simp add: handle_body_def butlast_append encode_eq)
  also have "\<dots> = (Some item, ?c, rest)"
    using assms(3) by (intro decode_wire_frame) auto
  finally show ?thesis by simp
qed

theorem decode_crc_error_recovery_witness:
  "decode codec_default
     (0xFE # 0xFE # stuff ([0x00] @ [0xD7, 0xE3]) @ 0xFE # 0x0D # encode [0x7F] [] @ [])
   = (Some [0x7F], codec_default\<lparr>crc_errors := crc_errors codec_default + 1\<rparr>, [])"
  by (rule decode_crc_error_recovery)
    (simp_all add: calculate_crc_def crc_step_def be16_def)

text \<open>
  C21. Soundness of the decoder: a delivered frame stood on the wire between a synchronisation mark
  and an end mark, its stuffing undone is the frame followed by its own checksum, and the buffer
  left is what follows it. Nothing is delivered that the checksum does not confirm.
\<close>

theorem decode_delivers_checked:
  assumes "decode c src = (Some item, c', rest)"
  shows "\<exists>skipped body. src = skipped @ [0xFE, 0xFE] @ body @ [0xFE, 0x0D] @ rest
      \<and> unstuff body = item @ be_bytes16 (calculate_crc item)"
  using assms by (rule decode_sound)

theorem decode_delivers_checked_witness:
  "\<exists>skipped body. encode [0x7F, 0xFE] [] @ [0x01] = skipped @ [0xFE, 0xFE] @ body @ [0xFE, 0x0D] @ [0x01]
      \<and> unstuff body = [0x7F, 0xFE] @ be_bytes16 (calculate_crc [0x7F, 0xFE])"
proof (rule decode_delivers_checked)
  show "decode codec_default (encode [0x7F, 0xFE] [] @ [0x01]) = (Some [0x7F, 0xFE], codec_default, [0x01])"
    using decode_wire_frame [of "[0x7F, 0xFE]" "[]" codec_default "[0x01]"] by (simp add: encode_eq)
qed

lemma crc_last_byte: "calculate_crc (xs @ [b]) = calculate_crc (xs @ [b']) \<longleftrightarrow> b = b'"
proof -
  have "(ucast b :: u16) = ucast b' \<longleftrightarrow> b = b'"
    by (metis be16_inject be16_def)
  then show ?thesis by (simp add: calculate_crc_def crc_step_def Let_def)
qed

end
