(* ===== verification/Command.thy ===== *)
theory Command
  imports Prelude
begin

text \<open>
  The protocol vocabulary: the command codes and result codes of \<open>src/src/command.rs\<close> and the
  error type of \<open>src/src/error.rs\<close>. The numeric discriminants are those of the
  \<open>#[repr(u8)]\<close> enumeration; \<open>command_from_byte\<close> is the source's match, arm by arm.
  The locale \<open>code_catalog\<close> states what a pair of conversions between codes and values
  promises; the catalogs of zones, outputs and partitions are further instances of it.
\<close>

section \<open>Errors\<close>

text \<open>
  An \<open>io::Error\<close> is either one the crate builds itself (\<open>WriteZero\<close> with its message)
  or one that the transport returns; the second is described by its text only.
\<close>

datatype io_error = IoWriteZero string | IoTransport string

datatype satel_error =
    Io io_error
  | Serial string
  | Timeout
  | NotConnected
  | StreamClosed
  | ConnectionLostError
  | InvalidCrc
  | InvalidFrame
  | MessageExpired
  | WorkerDropped
  | AlreadyConnected
  | TemperatureSensorError
  | TemperatureNotSupportedOrTimeOut
  | TempTooManyErrors
  | StatePoisoned
  | InvalidUserCode
  | NoAccess
  | CanNotArm
  | IntegraResultError u8
  | InvalidConfig string
  | InvalidIntegrationKey string
  | EncryptionError string
  | InvalidEncryptedDataLength nat
  | PanelVersionUnknown

type_synonym 'a satel_result = "satel_error + 'a"

fun io_error_text :: "io_error \<Rightarrow> string" where
  "io_error_text (IoWriteZero m) = m"
| "io_error_text (IoTransport m) = m"

fun error_text :: "satel_error \<Rightarrow> string" where
  "error_text (Io e) = ''I/O error: '' @ io_error_text e"
| "error_text (Serial e) = ''Serial port error: '' @ e"
| "error_text Timeout = ''Operation timed out''"
| "error_text NotConnected = ''Connection is not active''"
| "error_text StreamClosed = ''Stream closed by remote host''"
| "error_text ConnectionLostError = ''Connection lost, reconnect may be attempted''"
| "error_text InvalidCrc = ''Invalid frame checksum (CRC)''"
| "error_text InvalidFrame = ''Invalid frame format''"
| "error_text MessageExpired = ''Message expired in buffer queue''"
| "error_text WorkerDropped = ''Worker thread dropped''"
| "error_text AlreadyConnected = ''Worker / Connection already active''"
| "error_text TemperatureSensorError = ''Temperature sensor error (0xFFFF)''"
| "error_text TemperatureNotSupportedOrTimeOut = ''Temperature sensor missing or query timed out''"
| "error_text TempTooManyErrors = ''Too many temperature errors - sensor blocked to protect queue''"
| "error_text StatePoisoned = ''Internal state lock poisoned''"
| "error_text InvalidUserCode = ''Invalid user access code''"
| "error_text NoAccess = ''No access / Invalid ID''"
| "error_text CanNotArm = ''Cannot arm (forced arming required)''"
| "error_text (IntegraResultError b) = ''Unknown panel result error (0xEF): '' @ show_nat (unat b)"
| "error_text (InvalidConfig m) = ''Invalid configuration: '' @ m"
| "error_text (InvalidIntegrationKey m) = ''Invalid integration key: '' @ m"
| "error_text (EncryptionError m) = ''Encryption error: '' @ m"
| "error_text (InvalidEncryptedDataLength n) =
    ''Encrypted data length is not a multiple of AES block size (16 bytes), got '' @ show_nat n @ '' bytes''"
| "error_text PanelVersionUnknown = ''Integra panel version is not detected or unknown''"

section \<open>Commands\<close>

datatype (plugins only:) command =
      ZonesViolation | ZonesTamper | ZonesAlarm | ZonesTamperAlarm | ZonesAlarmMemory
    | ZonesTamperAlarmMemory | ZonesBypass | ZonesNoViolationTrouble
    | ZonesLongViolationTrouble | ArmedPartitionsSuppressed | ArmedPartitionsReally
    | PartitionsArmedMode2 | PartitionsArmedMode3 | PartitionsWith1stCodeEntered
    | PartitionsEntryTime | PartitionsExitTimeMore10s | PartitionsExitTimeLess10s
    | PartitionsTemporaryBlocked | PartitionsBlockedForGuardRound | PartitionsAlarm
    | PartitionsFireAlarm | PartitionsAlarmMemory | PartitionsFireAlarmMemory | OutputsState
    | DoorsOpened | DoorsOpenedLong | RtcAndBasicStatusBits | TroublesPart1 | TroublesPart2
    | TroublesPart3 | TroublesPart4 | TroublesPart5 | TroublesMemoryPart1 | TroublesMemoryPart2
    | TroublesMemoryPart3 | TroublesMemoryPart4 | TroublesMemoryPart5
    | PartitionsWithViolatedZones | ZonesIsolate | PartitionsWithVerifiedAlarms | ZonesMasked
    | ZonesMaskedMemory | PartitionsArmedInMode1 | PartitionsWithWarningAlarms | TroublesPart6
    | TroublesPart7 | TroublesMemoryPart6 | TroublesMemoryPart7 | TroublesPart8
    | TroublesMemoryPart8 | ReadOutputPower | ModuleVersion | ReadZoneTemperature
    | IntegraVersion | ListOfNewData | ArmMode0 | ArmMode1 | ArmMode2 | ArmMode3 | Disarm
    | ClearAlarm | ZonesBypassCmd | ZonesUnbypass | OutputsOn | OutputsOff | OpenDoor
    | ClearTroubleMemory | ReadEvent | Enter1stCode | SetRtcClock | GetEventText
    | ZonesIsolateCmd | OutputsSwitch | ForceArmMode0 | ForceArmMode1 | ForceArmMode2
    | ForceArmMode3 | ReadSelfInfo | ReadUser | ReadUsersList | ReadUserLocks | WriteUserLocks
    | RemoveUser | CreateUser | ChangeUser | UserDallasCardKeyFobMgmt | ChangeUserCode
    | ChangeUserTelCode | ReadDeviceName | ResultCode

primrec command_to_byte :: "command \<Rightarrow> u8" where
  "command_to_byte ZonesViolation = 0x00"
| "command_to_byte ZonesTamper = 0x01"
| "command_to_byte ZonesAlarm = 0x02"
| "command_to_byte ZonesTamperAlarm = 0x03"
| "command_to_byte ZonesAlarmMemory = 0x04"
| "command_to_byte ZonesTamperAlarmMemory = 0x05"
| "command_to_byte ZonesBypass = 0x06"
| "command_to_byte ZonesNoViolationTrouble = 0x07"
| "command_to_byte ZonesLongViolationTrouble = 0x08"
| "command_to_byte ArmedPartitionsSuppressed = 0x09"
| "command_to_byte ArmedPartitionsReally = 0x0A"
| "command_to_byte PartitionsArmedMode2 = 0x0B"
| "command_to_byte PartitionsArmedMode3 = 0x0C"
| "command_to_byte PartitionsWith1stCodeEntered = 0x0D"
| "command_to_byte PartitionsEntryTime = 0x0E"
| "command_to_byte PartitionsExitTimeMore10s = 0x0F"
| "command_to_byte PartitionsExitTimeLess10s = 0x10"
| "command_to_byte PartitionsTemporaryBlocked = 0x11"
| "command_to_byte PartitionsBlockedForGuardRound = 0x12"
| "command_to_byte PartitionsAlarm = 0x13"
| "command_to_byte PartitionsFireAlarm = 0x14"
| "command_to_byte PartitionsAlarmMemory = 0x15"
| "command_to_byte PartitionsFireAlarmMemory = 0x16"
| "command_to_byte OutputsState = 0x17"
| "command_to_byte DoorsOpened = 0x18"
| "command_to_byte DoorsOpenedLong = 0x19"
| "command_to_byte RtcAndBasicStatusBits = 0x1A"
| "command_to_byte TroublesPart1 = 0x1B"
| "command_to_byte TroublesPart2 = 0x1C"
| "command_to_byte TroublesPart3 = 0x1D"
| "command_to_byte TroublesPart4 = 0x1E"
| "command_to_byte TroublesPart5 = 0x1F"
| "command_to_byte TroublesMemoryPart1 = 0x20"
| "command_to_byte TroublesMemoryPart2 = 0x21"
| "command_to_byte TroublesMemoryPart3 = 0x22"
| "command_to_byte TroublesMemoryPart4 = 0x23"
| "command_to_byte TroublesMemoryPart5 = 0x24"
| "command_to_byte PartitionsWithViolatedZones = 0x25"
| "command_to_byte ZonesIsolate = 0x26"
| "command_to_byte PartitionsWithVerifiedAlarms = 0x27"
| "command_to_byte ZonesMasked = 0x28"
| "command_to_byte ZonesMaskedMemory = 0x29"
| "command_to_byte PartitionsArmedInMode1 = 0x2A"
| "command_to_byte PartitionsWithWarningAlarms = 0x2B"
| "command_to_byte TroublesPart6 = 0x2C"
| "command_to_byte TroublesPart7 = 0x2D"
| "command_to_byte TroublesMemoryPart6 = 0x2E"
| "command_to_byte TroublesMemoryPart7 = 0x2F"
| "command_to_byte TroublesPart8 = 0x30"
| "command_to_byte TroublesMemoryPart8 = 0x31"
| "command_to_byte ReadOutputPower = 0x7B"
| "command_to_byte ModuleVersion = 0x7C"
| "command_to_byte ReadZoneTemperature = 0x7D"
| "command_to_byte IntegraVersion = 0x7E"
| "command_to_byte ListOfNewData = 0x7F"
| "command_to_byte ArmMode0 = 0x80"
| "command_to_byte ArmMode1 = 0x81"
| "command_to_byte ArmMode2 = 0x82"
| "command_to_byte ArmMode3 = 0x83"
| "command_to_byte Disarm = 0x84"
| "command_to_byte ClearAlarm = 0x85"
| "command_to_byte ZonesBypassCmd = 0x86"
| "command_to_byte ZonesUnbypass = 0x87"
| "command_to_byte OutputsOn = 0x88"
| "command_to_byte OutputsOff = 0x89"
| "command_to_byte OpenDoor = 0x8A"
| "command_to_byte ClearTroubleMemory = 0x8B"
| "command_to_byte ReadEvent = 0x8C"
| "command_to_byte Enter1stCode = 0x8D"
| "command_to_byte SetRtcClock = 0x8E"
| "command_to_byte GetEventText = 0x8F"
| "command_to_byte ZonesIsolateCmd = 0x90"
| "command_to_byte OutputsSwitch = 0x91"
| "command_to_byte ForceArmMode0 = 0xA0"
| "command_to_byte ForceArmMode1 = 0xA1"
| "command_to_byte ForceArmMode2 = 0xA2"
| "command_to_byte ForceArmMode3 = 0xA3"
| "command_to_byte ReadSelfInfo = 0xE0"
| "command_to_byte ReadUser = 0xE1"
| "command_to_byte ReadUsersList = 0xE2"
| "command_to_byte ReadUserLocks = 0xE3"
| "command_to_byte WriteUserLocks = 0xE4"
| "command_to_byte RemoveUser = 0xE5"
| "command_to_byte CreateUser = 0xE6"
| "command_to_byte ChangeUser = 0xE7"
| "command_to_byte UserDallasCardKeyFobMgmt = 0xE8"
| "command_to_byte ChangeUserCode = 0xE9"
| "command_to_byte ChangeUserTelCode = 0xEA"
| "command_to_byte ReadDeviceName = 0xEE"
| "command_to_byte ResultCode = 0xEF"

definition command_codes :: "(u8 \<times> command) list" where
  "command_codes = [
    (0x00, ZonesViolation), (0x01, ZonesTamper), (0x02, ZonesAlarm), (0x03, ZonesTamperAlarm),
    (0x04, ZonesAlarmMemory), (0x05, ZonesTamperAlarmMemory), (0x06, ZonesBypass),
    (0x07, ZonesNoViolationTrouble), (0x08, ZonesLongViolationTrouble),
    (0x09, ArmedPartitionsSuppressed), (0x0A, ArmedPartitionsReally),
    (0x0B, PartitionsArmedMode2), (0x0C, PartitionsArmedMode3),
    (0x0D, PartitionsWith1stCodeEntered), (0x0E, PartitionsEntryTime),
    (0x0F, PartitionsExitTimeMore10s), (0x10, PartitionsExitTimeLess10s),
    (0x11, PartitionsTemporaryBlocked), (0x12, PartitionsBlockedForGuardRound),
    (0x13, PartitionsAlarm), (0x14, PartitionsFireAlarm), (0x15, PartitionsAlarmMemory),
    (0x16, PartitionsFireAlarmMemory), (0x17, OutputsState), (0x18, DoorsOpened),
    (0x19, DoorsOpenedLong), (0x1A, RtcAndBasicStatusBits), (0x1B, TroublesPart1),
    (0x1C, TroublesPart2), (0x1D, TroublesPart3), (0x1E, TroublesPart4), (0x1F, TroublesPart5),
    (0x20, TroublesMemoryPart1), (0x21, TroublesMemoryPart2), (0x22, TroublesMemoryPart3),
    (0x23, TroublesMemoryPart4), (0x24, TroublesMemoryPart5),
    (0x25, PartitionsWithViolatedZones), (0x26, ZonesIsolate),
    (0x27, PartitionsWithVerifiedAlarms), (0x28, ZonesMasked), (0x29, ZonesMaskedMemory),
    (0x2A, PartitionsArmedInMode1), (0x2B, PartitionsWithWarningAlarms), (0x2C, TroublesPart6),
    (0x2D, TroublesPart7), (0x2E, TroublesMemoryPart6), (0x2F, TroublesMemoryPart7),
    (0x30, TroublesPart8), (0x31, TroublesMemoryPart8), (0x7B, ReadOutputPower),
    (0x7C, ModuleVersion), (0x7D, ReadZoneTemperature), (0x7E, IntegraVersion),
    (0x7F, ListOfNewData), (0x80, ArmMode0), (0x81, ArmMode1), (0x82, ArmMode2),
    (0x83, ArmMode3), (0x84, Disarm), (0x85, ClearAlarm), (0x86, ZonesBypassCmd),
    (0x87, ZonesUnbypass), (0x88, OutputsOn), (0x89, OutputsOff), (0x8A, OpenDoor),
    (0x8B, ClearTroubleMemory), (0x8C, ReadEvent), (0x8D, Enter1stCode), (0x8E, SetRtcClock),
    (0x8F, GetEventText), (0x90, ZonesIsolateCmd), (0x91, OutputsSwitch),
    (0xA0, ForceArmMode0), (0xA1, ForceArmMode1), (0xA2, ForceArmMode2), (0xA3, ForceArmMode3),
    (0xE0, ReadSelfInfo), (0xE1, ReadUser), (0xE2, ReadUsersList), (0xE3, ReadUserLocks),
    (0xE4, WriteUserLocks), (0xE5, RemoveUser), (0xE6, CreateUser), (0xE7, ChangeUser),
    (0xE8, UserDallasCardKeyFobMgmt), (0xE9, ChangeUserCode), (0xEA, ChangeUserTelCode),
    (0xEE, ReadDeviceName), (0xEF, ResultCode)]"

definition command_from_byte :: "u8 \<Rightarrow> command option" where
  "command_from_byte b = map_of command_codes b"

section \<open>Result codes\<close>

datatype satel_result_code =
    ResultOk
  | ResultInvalidUserCode
  | ResultNoAccess
  | ResultCanNotArm
  | ResultCommandAccepted
  | ResultOther u8

definition result_from_byte :: "u8 \<Rightarrow> satel_result_code" where
  "result_from_byte b =
    (if b = 0x00 then ResultOk
     else if b = 0x01 then ResultInvalidUserCode
     else if b = 0x02 then ResultNoAccess
     else if b = 0x11 \<or> b = 0x12 then ResultCanNotArm
     else if b = 0xFF then ResultCommandAccepted
     else ResultOther b)"

primrec result_description :: "satel_result_code \<Rightarrow> string" where
  "result_description ResultOk = ''OK''"
| "result_description ResultInvalidUserCode = ''Invalid user access code''"
| "result_description ResultNoAccess = ''No access rights''"
| "result_description ResultCanNotArm = ''Cannot arm partition (violated zones or fault)''"
| "result_description ResultCommandAccepted = ''Command accepted for processing''"
| "result_description (ResultOther b) = ''Unknown error or status code''"

section \<open>Catalogs of codes\<close>

text \<open>
  A catalog gives every value a code and reads a code back; \<open>listed\<close> holds for the values
  whose code is read back as themselves (all of them but a catch-all constructor).
\<close>

locale code_catalog =
  fixes to_code :: "'v \<Rightarrow> 'c"
    and from_code :: "'c \<Rightarrow> 'v option"
    and listed :: "'v \<Rightarrow> bool"
  assumes from_to: "listed v \<Longrightarrow> from_code (to_code v) = Some v"
    and to_from: "from_code c = Some v \<Longrightarrow> to_code v = c"
begin

lemma code_inject: "listed v \<Longrightarrow> listed w \<Longrightarrow> to_code v = to_code w \<longleftrightarrow> v = w"
  by (metis from_to option.inject)

lemma from_inject: "from_code c = Some v \<Longrightarrow> from_code d = Some v \<Longrightarrow> c = d"
  using to_from by blast

lemma from_iff: "listed v \<Longrightarrow> from_code c = Some v \<longleftrightarrow> to_code v = c"
  using from_to to_from by blast

lemma unknown_code: "from_code c = None \<Longrightarrow> listed v \<Longrightarrow> to_code v \<noteq> c"
  using from_to by force

end

lemma command_codes_to_byte: "map fst command_codes = map (command_to_byte \<circ> snd) command_codes"
  by (simp add: command_codes_def)

lemma command_codes_distinct: "distinct (map fst command_codes)"
  by (simp add: command_codes_def)

lemma command_codes_complete: "(command_to_byte c, c) \<in> set command_codes"
  by (cases c; simp add: command_codes_def)

interpretation command_cat: code_catalog command_to_byte command_from_byte "\<lambda>_. True"
proof
  fix c :: command
  show "command_from_byte (command_to_byte c) = Some c"
    using command_codes_distinct command_codes_complete [of c]
    by (simp add: command_from_byte_def)
next
  fix b :: u8 and c :: command
  assume "command_from_byte b = Some c"
  then have "(b, c) \<in> set command_codes"
    by (simp add: command_from_byte_def map_of_SomeD)
  then show "command_to_byte c = b"
    using command_codes_to_byte by (force simp: map_eq_conv)
qed

instantiation command :: linorder
begin

definition less_eq_command :: "command \<Rightarrow> command \<Rightarrow> bool" where
  "less_eq_command c d = (command_to_byte c \<le> command_to_byte d)"

definition less_command :: "command \<Rightarrow> command \<Rightarrow> bool" where
  "less_command c d = (command_to_byte c < command_to_byte d)"

instance
  by standard
    (auto simp: less_eq_command_def less_command_def le_less
      dest: command_cat.code_inject [OF TrueI TrueI, THEN iffD1])

end

lemma result_from_byte_error:
  "result_from_byte b = ResultOther c \<longleftrightarrow> b = c \<and> b \<notin> {0, 1, 2, 0x11, 0x12, 0xFF}"
  by (auto simp: result_from_byte_def split: if_splits)

end
