(* ===== verification/Encryption.thy ===== *)
theory Encryption
  imports Codec Command
begin

text \<open>
  The encrypted transport of \<open>src/src/encryption.rs\<close>: the key derivation, the block-chaining
  cipher mode with its partial last block, the packet helpers \<open>encrypt_data\<close> and
  \<open>decrypt_data\<close>, and the stream wrapper \<open>EncryptedStream\<close> with its read and write buffers.
  AES-192 itself is the crate \<open>aes\<close>: an \<open>aes_cipher\<close> is a pair of functions on blocks, and
  \<open>block_cipher\<close> names what is relied on (16 bytes in, 16 bytes out, decryption undoes encryption).
  The wrapped stream is an environment: a list of the results of its successive polls. Polling
  past the end of that list is a stream that is not ready.
\<close>

section \<open>Keys\<close>

definition derive_aes_key :: "bytes \<Rightarrow> bytes" where
  "derive_aes_key key_bytes =
    foldl (\<lambda>key i.
        let b = (if i < length key_bytes then key_bytes ! i else 0x20)
        in key[i := b, i + 12 := b])
      (replicate 24 0x20) [0..<12]"

section \<open>The cipher mode\<close>

record aes_cipher =
  encrypt_block :: "bytes \<Rightarrow> bytes"
  decrypt_block :: "bytes \<Rightarrow> bytes"

definition block_cipher :: "aes_cipher \<Rightarrow> bool" where
  "block_cipher a =
    (\<forall>b. length b = 16 \<longrightarrow>
      length (encrypt_block a b) = 16 \<and> length (decrypt_block a b) = 16
      \<and> decrypt_block a (encrypt_block a b) = b)"

definition overwrite :: "nat \<Rightarrow> 'a list \<Rightarrow> 'a list \<Rightarrow> 'a list" where
  "overwrite i xs buf = take i buf @ xs @ drop (i + length xs) buf"

definition xor_bytes :: "bytes \<Rightarrow> bytes \<Rightarrow> bytes" where
  "xor_bytes xs ys = map2 (XOR) xs ys"

function encrypt_loop :: "aes_cipher \<Rightarrow> bytes \<Rightarrow> nat \<Rightarrow> nat \<Rightarrow> bytes \<Rightarrow> bytes" where
  "encrypt_loop a buffer index count cv =
    (if count > 0
     then if count > 15
          then let p = encrypt_block a (xor_bytes (sub_list index (index + 16) buffer) cv)
               in encrypt_loop a (overwrite index p buffer) (index + 16) (count - 16) p
          else let p = xor_bytes (sub_list index (index + count) buffer) (encrypt_block a cv)
               in overwrite index p buffer
     else buffer)"
  by pat_completeness auto
termination by (relation "measure (\<lambda>(_, _, _, count, _). count)") auto

declare encrypt_loop.simps [simp del]

definition aes_encrypt :: "aes_cipher \<Rightarrow> bytes \<Rightarrow> bytes" where
  "aes_encrypt a buffer =
    encrypt_loop a buffer 0 (length buffer) (encrypt_block a (replicate 16 0))"

function decrypt_loop :: "aes_cipher \<Rightarrow> bytes \<Rightarrow> nat \<Rightarrow> nat \<Rightarrow> bytes \<Rightarrow> bytes" where
  "decrypt_loop a buffer index count cv =
    (if count > 0
     then if count > 15
          then let temp = sub_list index (index + 16) buffer;
                   c = xor_bytes (decrypt_block a temp) cv
               in decrypt_loop a (overwrite index c buffer) (index + 16) (count - 16) temp
          else let c = xor_bytes (sub_list index (index + count) buffer) (encrypt_block a cv)
               in overwrite index c buffer
     else buffer)"
  by pat_completeness auto
termination by (relation "measure (\<lambda>(_, _, _, count, _). count)") auto

declare decrypt_loop.simps [simp del]

definition aes_decrypt :: "aes_cipher \<Rightarrow> bytes \<Rightarrow> bytes" where
  "aes_decrypt a buffer =
    decrypt_loop a buffer 0 (length buffer) (encrypt_block a (replicate 16 0))"

section \<open>Packets\<close>

definition encrypt_data :: "(bytes \<Rightarrow> aes_cipher) \<Rightarrow> bytes \<Rightarrow> bytes \<Rightarrow> bytes" where
  "encrypt_data aes192 key plaintext =
    (if plaintext = [] then []
     else let bytes_count = max 16 (6 + length plaintext);
              data = overwrite 6 plaintext (replicate bytes_count 0)
          in word_of_nat bytes_count # aes_encrypt (aes192 key) data)"

definition decrypt_data :: "(bytes \<Rightarrow> aes_cipher) \<Rightarrow> bytes \<Rightarrow> bytes \<Rightarrow> bytes satel_result" where
  "decrypt_data aes192 key ciphertext =
    (if ciphertext = [] then Inr []
     else if length ciphertext < 17 then Inl (InvalidEncryptedDataLength (length ciphertext))
     else let len_prefix = unat (hd ciphertext)
          in if length ciphertext < 1 + len_prefix \<or> len_prefix < 16
             then Inl (InvalidEncryptedDataLength (length ciphertext))
             else let payload = aes_decrypt (aes192 key) (sub_list 1 (1 + len_prefix) ciphertext)
                  in Inr (drop 6 payload))"

section \<open>The stream wrapper\<close>

record enc_stream =
  es_cipher :: aes_cipher
  id_s :: u8
  id_r :: u8
  rolling_counter :: u16
  read_buffer :: bytes
  raw_read_buffer :: bytes
  expected_resp_len :: "nat option"
  write_buffer :: bytes

definition enc_stream_new :: "(bytes \<Rightarrow> aes_cipher) \<Rightarrow> bytes \<Rightarrow> enc_stream" where
  "enc_stream_new aes192 key =
    \<lparr>es_cipher = aes192 key, id_s = 0, id_r = 0, rolling_counter = 0, read_buffer = [],
     raw_read_buffer = [], expected_resp_len = None, write_buffer = []\<rparr>"

text \<open>\<open>nanos\<close> is the sub-second part of the system clock at the call.\<close>

definition pseudo_random_u16 :: "u32 \<Rightarrow> u16" where
  "pseudo_random_u16 nanos = ucast (nanos AND 0xFFFF)"

definition pseudo_random_u8 :: "u32 \<Rightarrow> u8" where
  "pseudo_random_u8 nanos = ucast (drop_bit 16 nanos AND 0xFF)"

text \<open>
  One round of the inner loop of \<open>poll_read\<close>: take the length prefix if none is pending, then the
  packet if it is complete. No packet means the loop breaks.
\<close>

definition packet_step :: "nat option \<Rightarrow> bytes \<Rightarrow> bytes option \<times> nat option \<times> bytes" where
  "packet_step expected raw =
    (case (expected, raw) of
       (None, []) \<Rightarrow> (None, None, [])
     | (None, b # raw') \<Rightarrow>
         (if length raw' < unat b then (None, Some (unat b), raw')
          else (Some (take (unat b) raw'), None, drop (unat b) raw'))
     | (Some target_len, _) \<Rightarrow>
         (if length raw < target_len then (None, Some target_len, raw)
          else (Some (take target_len raw), None, drop target_len raw)))"

definition absorb_packet :: "bytes \<Rightarrow> enc_stream \<Rightarrow> enc_stream" where
  "absorb_packet packet s =
    (let packet_data = aes_decrypt (es_cipher s) packet
     in if length packet_data \<ge> 6
        then s\<lparr>id_r := packet_data ! 4, read_buffer := read_buffer s @ drop 6 packet_data\<rparr>
        else s)"

definition packet_weight :: "nat option \<Rightarrow> bytes \<Rightarrow> nat" where
  "packet_weight expected raw = length raw + (if expected = None then 0 else 1)"

lemma packet_step_weight:
  "packet_step e x = (Some p, e', y) \<Longrightarrow> packet_weight e' y < packet_weight e x"
  by (auto simp: packet_step_def packet_weight_def split: option.splits list.splits if_splits)

lemma absorb_packet_raw [simp]:
  "raw_read_buffer (absorb_packet p s) = raw_read_buffer s"
  "expected_resp_len (absorb_packet p s) = expected_resp_len s"
  "es_cipher (absorb_packet p s) = es_cipher s"
  "write_buffer (absorb_packet p s) = write_buffer s"
  by (simp_all add: absorb_packet_def Let_def)

function process_packets :: "enc_stream \<Rightarrow> enc_stream" where
  "process_packets s =
    (case packet_step (expected_resp_len s) (raw_read_buffer s) of
       (None, e, raw) \<Rightarrow> s\<lparr>expected_resp_len := e, raw_read_buffer := raw\<rparr>
     | (Some packet, e, raw) \<Rightarrow>
         process_packets (absorb_packet packet (s\<lparr>expected_resp_len := e, raw_read_buffer := raw\<rparr>)))"
  by pat_completeness auto
termination
  by (relation "measure (\<lambda>s. packet_weight (expected_resp_len s) (raw_read_buffer s))")
    (auto dest: packet_step_weight [OF sym])

declare process_packets.simps [simp del]

datatype read_event = ReadReady bytes | ReadFailed io_error | ReadPending

datatype read_outcome = ReadOut bytes | ReadError io_error | ReadWait

definition yield_plain :: "nat \<Rightarrow> enc_stream \<Rightarrow> read_outcome \<times> enc_stream" where
  "yield_plain remaining s =
    (let to_copy = min (length (read_buffer s)) remaining
     in (ReadOut (take to_copy (read_buffer s)), s\<lparr>read_buffer := drop to_copy (read_buffer s)\<rparr>))"

text \<open>\<open>poll_read\<close> into a buffer with room for \<open>remaining\<close> bytes; end of stream yields no bytes.\<close>

fun poll_read :: "nat \<Rightarrow> enc_stream \<Rightarrow> read_event list \<Rightarrow> read_outcome \<times> enc_stream \<times> read_event list" where
  "poll_read remaining s env =
    (if read_buffer s \<noteq> [] then (case yield_plain remaining s of (out, s') \<Rightarrow> (out, s', env))
     else case env of
       [] \<Rightarrow> (ReadWait, s, [])
     | ReadPending # env' \<Rightarrow> (ReadWait, s, env')
     | ReadFailed e # env' \<Rightarrow> (ReadError e, s, env')
     | ReadReady raw # env' \<Rightarrow>
         (if raw = [] then (ReadOut [], s, env')
          else let s' = process_packets (s\<lparr>raw_read_buffer := raw_read_buffer s @ raw\<rparr>)
               in if read_buffer s' \<noteq> []
                  then (case yield_plain remaining s' of (out, s'') \<Rightarrow> (out, s'', env'))
                  else poll_read remaining s' env'))"

declare poll_read.simps [simp del]

datatype write_event = WroteBytes nat | WriteFailed io_error | WritePending

datatype flush_result = Flushed | FlushError io_error | FlushWait

text \<open>
  The loop \<open>while !write_buffer.is_empty()\<close>: what it returns, the bytes the inner stream has
  taken, what is still queued, and the remaining environment. A transport that obeys the write
  contract takes at most what it was offered.
\<close>

fun flush_loop :: "string \<Rightarrow> bytes \<Rightarrow> write_event list \<Rightarrow> flush_result \<times> bytes \<times> bytes \<times> write_event list" where
  "flush_loop msg [] env = (Flushed, [], [], env)"
| "flush_loop msg (b # bs) [] = (FlushWait, [], b # bs, [])"
| "flush_loop msg (b # bs) (ev # env) =
    (case ev of
       WritePending \<Rightarrow> (FlushWait, [], b # bs, env)
     | WriteFailed e \<Rightarrow> (FlushError e, [], b # bs, env)
     | WroteBytes n \<Rightarrow>
         (if n = 0 then (FlushError (IoWriteZero msg), [], b # bs, env)
          else case flush_loop msg (drop n (b # bs)) env of
                 (r, sent, queued, env') \<Rightarrow> (r, take n (b # bs) @ sent, queued, env')))"

datatype write_outcome = WriteOut nat | WriteError io_error | WriteWait

definition write_msg :: string where
  "write_msg = ''failed to write encrypted data to stream''"

definition wrap_header :: "enc_stream \<Rightarrow> u32 \<Rightarrow> u32 \<Rightarrow> bytes" where
  "wrap_header s nanos1 nanos2 =
    (let random_val = pseudo_random_u16 nanos1
     in [ucast (drop_bit 8 random_val), ucast (random_val AND 0xFF),
         ucast (drop_bit 8 (rolling_counter s)), ucast (rolling_counter s AND 0xFF),
         pseudo_random_u8 nanos2, id_r s])"

definition wrap_packet :: "enc_stream \<Rightarrow> u32 \<Rightarrow> u32 \<Rightarrow> bytes \<Rightarrow> bytes" where
  "wrap_packet s nanos1 nanos2 buf =
    (let bytes_count = max 16 (6 + length buf);
         data = overwrite 6 buf (overwrite 0 (wrap_header s nanos1 nanos2) (replicate bytes_count 0))
     in word_of_nat bytes_count # aes_encrypt (es_cipher s) data)"

text \<open>
  \<open>poll_write\<close>: flush what is queued, wrap the message, write it as far as the inner stream takes
  it. The third component is what went out on the wire during the call.
\<close>

definition poll_write ::
  "u32 \<Rightarrow> u32 \<Rightarrow> bytes \<Rightarrow> enc_stream \<Rightarrow> write_event list \<Rightarrow>
    write_outcome \<times> enc_stream \<times> bytes \<times> write_event list" where
  "poll_write nanos1 nanos2 buf s env =
    (case flush_loop write_msg (write_buffer s) env of
       (FlushError e, sent, queued, env1) \<Rightarrow> (WriteError e, s\<lparr>write_buffer := queued\<rparr>, sent, env1)
     | (FlushWait, sent, queued, env1) \<Rightarrow> (WriteWait, s\<lparr>write_buffer := queued\<rparr>, sent, env1)
     | (Flushed, sent, queued, env1) \<Rightarrow>
         (if buf = [] then (WriteOut 0, s\<lparr>write_buffer := queued\<rparr>, sent, env1)
          else let packet = wrap_packet s nanos1 nanos2 buf;
                   s1 = s\<lparr>id_s := pseudo_random_u8 nanos2,
                          rolling_counter := rolling_counter s + 1\<rparr>
               in case flush_loop write_msg packet env1 of
                    (FlushError e, sent', queued', env2) \<Rightarrow>
                      (WriteError e, s1\<lparr>write_buffer := queued'\<rparr>, sent @ sent', env2)
                  | (_, sent', queued', env2) \<Rightarrow>
                      (WriteOut (length buf), s1\<lparr>write_buffer := queued'\<rparr>, sent @ sent', env2)))"

text \<open>
  Once the queue is empty, the result is that of the same call on the inner stream (\<open>inner\<close>).
\<close>

definition poll_flush ::
  "flush_result \<Rightarrow> enc_stream \<Rightarrow> write_event list \<Rightarrow> flush_result \<times> enc_stream \<times> bytes \<times> write_event list" where
  "poll_flush inner s env =
    (case flush_loop ''failed to flush encrypted buffer to stream'' (write_buffer s) env of
       (r, sent, queued, env') \<Rightarrow>
         (if r = Flushed then inner else r, s\<lparr>write_buffer := queued\<rparr>, sent, env'))"

definition poll_shutdown ::
  "flush_result \<Rightarrow> enc_stream \<Rightarrow> write_event list \<Rightarrow> flush_result \<times> enc_stream \<times> bytes \<times> write_event list" where
  "poll_shutdown inner s env =
    (case flush_loop ''failed to flush encrypted buffer before shutdown'' (write_buffer s) env of
       (r, sent, queued, env') \<Rightarrow>
         (if r = Flushed then inner else r, s\<lparr>write_buffer := queued\<rparr>, sent, env'))"

section \<open>The cipher mode by structural recursion\<close>

function enc_blocks :: "aes_cipher \<Rightarrow> bytes \<Rightarrow> bytes \<Rightarrow> bytes" where
  "enc_blocks a cv xs =
    (if length xs > 15
     then let p = encrypt_block a (xor_bytes (take 16 xs) cv) in p @ enc_blocks a p (drop 16 xs)
     else xor_bytes xs (encrypt_block a cv))"
  by pat_completeness auto
termination by (relation "measure (\<lambda>(_, _, xs). length xs)") auto

function dec_blocks :: "aes_cipher \<Rightarrow> bytes \<Rightarrow> bytes \<Rightarrow> bytes" where
  "dec_blocks a cv xs =
    (if length xs > 15
     then xor_bytes (decrypt_block a (take 16 xs)) cv @ dec_blocks a (take 16 xs) (drop 16 xs)
     else xor_bytes xs (encrypt_block a cv))"
  by pat_completeness auto
termination by (relation "measure (\<lambda>(_, _, xs). length xs)") auto

declare enc_blocks.simps [simp del] dec_blocks.simps [simp del]

lemma xor_bytes_length [simp]: "length (xor_bytes xs ys) = min (length xs) (length ys)"
  by (simp add: xor_bytes_def)

lemma xor_bytes_twice: "length xs \<le> length ys \<Longrightarrow> xor_bytes (xor_bytes xs ys) ys = xs"
  by (rule nth_equalityI) (auto simp: xor_bytes_def xor.assoc)

lemma block_cipher_lengths:
  "block_cipher a \<Longrightarrow> length b = 16 \<Longrightarrow> length (encrypt_block a b) = 16"
  "block_cipher a \<Longrightarrow> length b = 16 \<Longrightarrow> length (decrypt_block a b) = 16"
  by (auto simp: block_cipher_def)

lemma block_cipher_inverse:
  "block_cipher a \<Longrightarrow> length b = 16 \<Longrightarrow> decrypt_block a (encrypt_block a b) = b"
  by (simp add: block_cipher_def)

lemma overwrite_length: "i + length xs \<le> length buf \<Longrightarrow> length (overwrite i xs buf) = length buf"
  by (simp add: overwrite_def)

lemma overwrite_take: "i + length xs \<le> length buf \<Longrightarrow>
    take (i + length xs) (overwrite i xs buf) = take i buf @ xs"
  by (simp add: overwrite_def)

lemma overwrite_drop: "i + length xs \<le> length buf \<Longrightarrow>
    drop (i + length xs) (overwrite i xs buf) = drop (i + length xs) buf"
  by (simp add: overwrite_def)

lemma encrypt_loop_blocks:
  "block_cipher a \<Longrightarrow> index + count = length buffer \<Longrightarrow> length cv = 16 \<Longrightarrow>
    encrypt_loop a buffer index count cv = take index buffer @ enc_blocks a cv (drop index buffer)"
proof (induction a buffer index count cv rule: encrypt_loop.induct)
  case (1 a buffer index count cv)
  let ?p = "encrypt_block a (xor_bytes (take 16 (drop index buffer)) cv)"
  show ?case
  proof (cases "count > 15")
    case True
    then have x: "length (xor_bytes (take 16 (drop index buffer)) cv) = 16"
      and i: "index + 16 \<le> length buffer" "15 < length buffer - index"
      using "1.prems" by auto
    have p: "length ?p = 16" by (rule block_cipher_lengths(1) [OF "1.prems"(1) x])
    have "encrypt_loop a (overwrite index ?p buffer) (index + 16) (count - 16) ?p
        = take (index + 16) (overwrite index ?p buffer)
          @ enc_blocks a ?p (drop (index + 16) (overwrite index ?p buffer))"
      using "1.IH" [of ?p] True "1.prems" p i
      by (simp add: overwrite_length sub_list_def)
    then show ?thesis
      using overwrite_take [of index ?p buffer] overwrite_drop [of index ?p buffer] True p i "1.prems"
      by (subst encrypt_loop.simps, subst enc_blocks.simps) (simp add: sub_list_def Let_def add.commute)
  next
    case False
    then show ?thesis
      using "1.prems" block_cipher_lengths(1) [of a cv]
      by (subst encrypt_loop.simps, subst enc_blocks.simps)
        (auto simp: sub_list_def overwrite_def Let_def xor_bytes_def)
  qed
qed

lemma decrypt_loop_blocks:
  "block_cipher a \<Longrightarrow> index + count = length buffer \<Longrightarrow> length cv = 16 \<Longrightarrow>
    decrypt_loop a buffer index count cv = take index buffer @ dec_blocks a cv (drop index buffer)"
proof (induction a buffer index count cv rule: decrypt_loop.induct)
  case (1 a buffer index count cv)
  let ?t = "take 16 (drop index buffer)"
  let ?c = "xor_bytes (decrypt_block a ?t) cv"
  show ?case
  proof (cases "count > 15")
    case True
    then have t: "length ?t = 16" and i: "index + 16 \<le> length buffer" "15 < length buffer - index"
      using "1.prems" by auto
    have c: "length ?c = 16"
      using block_cipher_lengths(2) [OF "1.prems"(1) t] "1.prems"(3) by simp
    have "decrypt_loop a (overwrite index ?c buffer) (index + 16) (count - 16) ?t
        = take (index + 16) (overwrite index ?c buffer)
          @ dec_blocks a ?t (drop (index + 16) (overwrite index ?c buffer))"
      using "1.IH" [of ?t ?c] True "1.prems" t c i
      by (simp add: overwrite_length sub_list_def)
    then show ?thesis
      using overwrite_take [of index ?c buffer] overwrite_drop [of index ?c buffer] True t c i "1.prems"
      by (subst decrypt_loop.simps, subst dec_blocks.simps) (simp add: sub_list_def Let_def add.commute)
  next
    case False
    then show ?thesis
      using "1.prems" block_cipher_lengths(1) [of a cv]
      by (subst decrypt_loop.simps, subst dec_blocks.simps)
        (auto simp: sub_list_def overwrite_def Let_def xor_bytes_def)
  qed
qed

lemma enc_blocks_length:
  "block_cipher a \<Longrightarrow> length cv = 16 \<Longrightarrow> length (enc_blocks a cv xs) = length xs"
proof (induction a cv xs rule: enc_blocks.induct)
  case (1 a cv xs)
  then show ?case
    by (subst enc_blocks.simps) (auto simp: Let_def block_cipher_lengths)
qed

lemma dec_enc_blocks:
  "block_cipher a \<Longrightarrow> length cv = 16 \<Longrightarrow> dec_blocks a cv (enc_blocks a cv xs) = xs"
proof (induction a cv xs rule: enc_blocks.induct)
  case (1 a cv xs)
  show ?case
  proof (cases "length xs > 15")
    case True
    let ?p = "encrypt_block a (xor_bytes (take 16 xs) cv)"
    have p: "length ?p = 16" using True "1.prems" by (simp add: block_cipher_lengths)
    have inv: "decrypt_block a ?p = xor_bytes (take 16 xs) cv"
      using True "1.prems" by (intro block_cipher_inverse) simp_all
    have "dec_blocks a ?p (enc_blocks a ?p (drop 16 xs)) = drop 16 xs"
      using "1.IH" True "1.prems" p by simp
    moreover have "enc_blocks a cv xs = ?p @ enc_blocks a ?p (drop 16 xs)"
      using True by (subst enc_blocks.simps) (simp add: Let_def)
    ultimately show ?thesis
      using p inv True "1.prems"
      by (subst dec_blocks.simps) (simp add: xor_bytes_twice)
  next
    case False
    then show ?thesis
      using "1.prems" block_cipher_lengths(1) [of a cv]
      by (subst enc_blocks.simps, subst dec_blocks.simps) (simp add: xor_bytes_twice)
  qed
qed

lemma aes_encrypt_blocks:
  "block_cipher a \<Longrightarrow> aes_encrypt a xs = enc_blocks a (encrypt_block a (replicate 16 0)) xs"
  by (simp add: aes_encrypt_def encrypt_loop_blocks block_cipher_lengths)

lemma aes_encrypt_length [simp]: "block_cipher a \<Longrightarrow> length (aes_encrypt a xs) = length xs"
  by (simp add: aes_encrypt_blocks enc_blocks_length block_cipher_lengths)

text \<open>
  Decryption of the chained cipher mode undoes encryption for buffers of every length, the
  partial last block included, for every block cipher whose decryption undoes its encryption.
\<close>

theorem aes_decrypt_encrypt:
  assumes "block_cipher a"
  shows "aes_decrypt a (aes_encrypt a xs) = xs"
proof -
  have len: "length (encrypt_block a (replicate 16 0)) = 16"
    using assms by (simp add: block_cipher_lengths)
  show ?thesis
    using assms len
    by (simp add: aes_decrypt_def decrypt_loop_blocks aes_encrypt_blocks enc_blocks_length dec_enc_blocks)
qed

text \<open>A concrete block cipher for the witnesses: reverse the block and flip its bits.\<close>

definition toy_cipher :: aes_cipher where
  "toy_cipher = \<lparr>encrypt_block = map (\<lambda>b. NOT b) \<circ> rev, decrypt_block = map (\<lambda>b. NOT b) \<circ> rev\<rparr>"

lemma toy_cipher_block_cipher: "block_cipher toy_cipher"
  by (auto simp: block_cipher_def toy_cipher_def rev_map o_def)

theorem aes_decrypt_encrypt_witness:
  "aes_decrypt toy_cipher (aes_encrypt toy_cipher (replicate 20 7)) = replicate 20 7"
  by (rule aes_decrypt_encrypt) (rule toy_cipher_block_cipher)

end
