(* ===== verification/Byte_Counters.thy ===== *)
theory Byte_Counters
  imports Encryption
begin

text \<open>
  The byte counters of \<open>src/src/counting_stream.rs\<close>: a wrapper of the transport that counts the bytes of
  completed reads and writes. The outcome of the stream inside is an argument of every operation.
\<close>

section \<open>Operations\<close>

record counting_stream =
  cn_bytes_sent :: u64
  cn_bytes_received :: u64

definition counting_new :: "u64 \<Rightarrow> u64 \<Rightarrow> counting_stream" where
  "counting_new bytes_sent bytes_received = \<lparr>cn_bytes_sent = bytes_sent, cn_bytes_received = bytes_received\<rparr>"

definition counting_poll_read :: "read_event \<Rightarrow> counting_stream \<Rightarrow> read_event \<times> counting_stream" where
  "counting_poll_read inner s = (case inner of
     ReadReady data \<Rightarrow> (ReadReady data, s\<lparr>cn_bytes_received := cn_bytes_received s + word_of_nat (length data)\<rparr>)
   | other \<Rightarrow> (other, s))"

definition counting_poll_write :: "write_event \<Rightarrow> counting_stream \<Rightarrow> write_event \<times> counting_stream" where
  "counting_poll_write inner s = (case inner of
     WroteBytes n \<Rightarrow> (WroteBytes n, s\<lparr>cn_bytes_sent := cn_bytes_sent s + word_of_nat n\<rparr>)
   | other \<Rightarrow> (other, s))"

definition counting_poll_write_vectored :: "write_event \<Rightarrow> counting_stream \<Rightarrow> write_event \<times> counting_stream" where
  "counting_poll_write_vectored inner s = (case inner of
     WroteBytes n \<Rightarrow> (WroteBytes n, s\<lparr>cn_bytes_sent := cn_bytes_sent s + word_of_nat n\<rparr>)
   | other \<Rightarrow> (other, s))"

definition counting_poll_flush :: "flush_result \<Rightarrow> counting_stream \<Rightarrow> flush_result \<times> counting_stream" where
  "counting_poll_flush inner s = (inner, s)"

definition counting_poll_shutdown :: "flush_result \<Rightarrow> counting_stream \<Rightarrow> flush_result \<times> counting_stream" where
  "counting_poll_shutdown inner s = (inner, s)"

section \<open>Totals\<close>

text \<open>A run of polls, each with the outcome of the stream inside.\<close>

datatype stream_poll =
    PollRead read_event
  | PollWrite write_event
  | PollWriteVectored write_event
  | PollFlush flush_result
  | PollShutdown flush_result

fun counting_step :: "stream_poll \<Rightarrow> counting_stream \<Rightarrow> counting_stream" where
  "counting_step (PollRead ev) s = snd (counting_poll_read ev s)"
| "counting_step (PollWrite ev) s = snd (counting_poll_write ev s)"
| "counting_step (PollWriteVectored ev) s = snd (counting_poll_write_vectored ev s)"
| "counting_step (PollFlush r) s = snd (counting_poll_flush r s)"
| "counting_step (PollShutdown r) s = snd (counting_poll_shutdown r s)"

fun bytes_in :: "stream_poll \<Rightarrow> nat" where
  "bytes_in (PollRead (ReadReady data)) = length data"
| "bytes_in _ = 0"

fun bytes_out :: "stream_poll \<Rightarrow> nat" where
  "bytes_out (PollWrite (WroteBytes n)) = n"
| "bytes_out (PollWriteVectored (WroteBytes n)) = n"
| "bytes_out _ = 0"

lemmas counting_defs = counting_poll_read_def counting_poll_write_def counting_poll_write_vectored_def
  counting_poll_flush_def counting_poll_shutdown_def

lemma counting_step_bytes:
  "counting_step p s = s\<lparr>cn_bytes_sent := cn_bytes_sent s + word_of_nat (bytes_out p),
     cn_bytes_received := cn_bytes_received s + word_of_nat (bytes_in p)\<rparr>"
  by (cases p) (auto simp: counting_defs split: read_event.split write_event.split)

text \<open>The counters are the bytes of the run, modulo 2 to the 64.\<close>

lemma counters_total:
  "fold counting_step polls s = s\<lparr>cn_bytes_sent := cn_bytes_sent s + word_of_nat (sum_list (map bytes_out polls)),
     cn_bytes_received := cn_bytes_received s + word_of_nat (sum_list (map bytes_in polls))\<rparr>"
  by (induction polls arbitrary: s) (simp_all add: counting_step_bytes)

end
