(* ===== verification/Rust_Text.thy ===== *)
theory Rust_Text
  imports Prelude
begin

text \<open>
  Rust text as the crate uses it. A \<open>String\<close> is a list of Unicode scalar values; its bytes are its
  UTF-8 encoding. \<open>utf8_lossy\<close> is \<open>String::from_utf8_lossy\<close>, which puts one replacement
  character for each maximal ill-formed part, and \<open>trim\<close> is \<open>str::trim\<close>.
\<close>

type_synonym ustring = "nat list"

definition ustring_of :: "string \<Rightarrow> ustring" where
  "ustring_of s = map of_char s"

definition utf8_char :: "nat \<Rightarrow> bytes" where
  "utf8_char c =
    (if c < 0x80 then [word_of_nat c]
     else if c < 0x800 then [word_of_nat (0xC0 + c div 0x40), word_of_nat (0x80 + c mod 0x40)]
     else if c < 0x10000 then
       [word_of_nat (0xE0 + c div 0x1000), word_of_nat (0x80 + c div 0x40 mod 0x40),
        word_of_nat (0x80 + c mod 0x40)]
     else
       [word_of_nat (0xF0 + c div 0x40000), word_of_nat (0x80 + c div 0x1000 mod 0x40),
        word_of_nat (0x80 + c div 0x40 mod 0x40), word_of_nat (0x80 + c mod 0x40)])"

definition utf8_encode :: "ustring \<Rightarrow> bytes" where
  "utf8_encode s = concat (map utf8_char s)"

definition is_ascii :: "ustring \<Rightarrow> bool" where
  "is_ascii s = list_all (\<lambda>c. c < 0x80) s"

definition in_range :: "u8 \<Rightarrow> u8 \<Rightarrow> u8 \<Rightarrow> bool" where
  "in_range lo hi b = (lo \<le> b \<and> b \<le> hi)"

definition cont_bits :: "u8 \<Rightarrow> nat" where
  "cont_bits b = unat b mod 0x40"

text \<open>
  The second byte that may follow a lead byte of three or four bytes: the ranges exclude overlong
  forms, surrogates and values above \<open>10FFFF\<close>.
\<close>

definition second3_ok :: "u8 \<Rightarrow> u8 \<Rightarrow> bool" where
  "second3_ok lead b =
    (if lead = 0xE0 then in_range 0xA0 0xBF b
     else if lead = 0xED then in_range 0x80 0x9F b
     else in_range 0x80 0xBF b)"

definition second4_ok :: "u8 \<Rightarrow> u8 \<Rightarrow> bool" where
  "second4_ok lead b =
    (if lead = 0xF0 then in_range 0x90 0xBF b
     else if lead = 0xF4 then in_range 0x80 0x8F b
     else in_range 0x80 0xBF b)"

definition replacement :: nat where
  "replacement = 0xFFFD"

text \<open>One character of the input: its scalar value and how many bytes it takes.\<close>

definition utf8_next :: "u8 \<Rightarrow> bytes \<Rightarrow> nat \<times> nat" where
  "utf8_next lead more =
    (if lead < 0x80 then (unat lead, 1)
     else if in_range 0xC2 0xDF lead then
       (case more of
          b # _ \<Rightarrow> if in_range 0x80 0xBF b
            then ((unat lead - 0xC0) * 0x40 + cont_bits b, 2) else (replacement, 1)
        | [] \<Rightarrow> (replacement, 1))
     else if in_range 0xE0 0xEF lead then
       (case more of
          b # rest \<Rightarrow> if second3_ok lead b
            then (case rest of
                    c # _ \<Rightarrow> if in_range 0x80 0xBF c
                      then ((unat lead - 0xE0) * 0x1000 + cont_bits b * 0x40 + cont_bits c, 3)
                      else (replacement, 2)
                  | [] \<Rightarrow> (replacement, 2))
            else (replacement, 1)
        | [] \<Rightarrow> (replacement, 1))
     else if in_range 0xF0 0xF4 lead then
       (case more of
          b # rest \<Rightarrow> if second4_ok lead b
            then (case rest of
                    c # rest' \<Rightarrow> if in_range 0x80 0xBF c
                      then (case rest' of
                              d # _ \<Rightarrow> if in_range 0x80 0xBF d
                                then ((unat lead - 0xF0) * 0x40000 + cont_bits b * 0x1000
                                      + cont_bits c * 0x40 + cont_bits d, 4)
                                else (replacement, 3)
                            | [] \<Rightarrow> (replacement, 3))
                      else (replacement, 2)
                  | [] \<Rightarrow> (replacement, 2))
            else (replacement, 1)
        | [] \<Rightarrow> (replacement, 1))
     else (replacement, 1))"

function utf8_lossy :: "bytes \<Rightarrow> ustring" where
  "utf8_lossy [] = []"
| "utf8_lossy (b # bs) = fst (utf8_next b bs) # utf8_lossy (drop (snd (utf8_next b bs) - 1) bs)"
  by pat_completeness auto
termination by (relation "measure length") auto

definition is_whitespace :: "nat \<Rightarrow> bool" where
  "is_whitespace c =
    (9 \<le> c \<and> c \<le> 13 \<or> c = 32 \<or> c = 0x85 \<or> c = 0xA0 \<or> c = 0x1680
     \<or> 0x2000 \<le> c \<and> c \<le> 0x200A \<or> c = 0x2028 \<or> c = 0x2029 \<or> c = 0x202F \<or> c = 0x205F \<or> c = 0x3000)"

definition trim :: "ustring \<Rightarrow> ustring" where
  "trim s = rev (dropWhile is_whitespace (rev (dropWhile is_whitespace s)))"

section \<open>Laws\<close>

lemma is_ascii_encode: "is_ascii s \<Longrightarrow> utf8_encode s = map word_of_nat s"
  by (induction s) (simp_all add: is_ascii_def utf8_encode_def utf8_char_def)

lemma utf8_char_length: "1 \<le> length (utf8_char c) \<and> length (utf8_char c) \<le> 4"
  by (simp add: utf8_char_def)

lemma utf8_encode_length: "length s \<le> length (utf8_encode s)"
proof (induction s)
  case (Cons c s)
  then show ?case using utf8_char_length [of c] by (simp add: utf8_encode_def)
qed simp

lemma utf8_lossy_ascii: "list_all (\<lambda>b. b < 0x80) bs \<Longrightarrow> utf8_lossy bs = map unat bs"
  by (induction bs) (simp_all add: utf8_next_def)

lemma trim_ends:
  "trim s \<noteq> [] \<Longrightarrow> \<not> is_whitespace (hd (trim s)) \<and> \<not> is_whitespace (last (trim s))"
proof -
  assume ne: "trim s \<noteq> []"
  let ?t = "dropWhile is_whitespace s"
  obtain ws where ws: "?t = trim s @ ws"
    unfolding trim_def by (metis rev_append rev_rev_ident takeWhile_dropWhile_id)
  with ne have "\<not> is_whitespace (hd (trim s))"
    by (metis append_is_Nil_conv hd_append2 hd_dropWhile)
  moreover have "\<not> is_whitespace (last (trim s))"
    using ne unfolding trim_def by (metis hd_dropWhile last_rev rev_is_Nil_conv)
  ultimately show ?thesis by blast
qed

lemma trim_idem: "trim (trim s) = trim s"
proof (cases "trim s = []")
  case True
  moreover have "trim [] = []" by (simp add: trim_def)
  ultimately show ?thesis by simp
next
  case False
  with trim_ends [OF False] have "dropWhile is_whitespace (trim s) = trim s"
    "dropWhile is_whitespace (rev (trim s)) = rev (trim s)"
    by (simp_all add: dropWhile_eq_self_iff hd_rev)
  then show ?thesis by (simp add: trim_def [of "trim s"])
qed

end
