(* ===== verification/Zone_Catalog.thy ===== *)
theory Zone_Catalog
  imports Command
begin

text \<open>
  The zone catalog of \<open>src/src/zone_catalog.rs\<close>: the 98 reaction types with their protocol
  codes, keys, labels and device kinds. The codes of the two families with a number
  (\<open>Counting\<close>, \<open>BlockingGroup\<close>) are computed as in the source, with its clamping.
\<close>

section \<open>Definitions\<close>

datatype zone_kind =
    KindBurglary | KindFire | KindSmoke | KindWater | KindGas | KindFreeze | KindTemperature
  | KindPanic | KindMedical | KindTamper | KindTechnical | KindControl | KindOther

primrec zone_kind_key :: "zone_kind \<Rightarrow> string" where
  "zone_kind_key KindBurglary = ''burglary''"
| "zone_kind_key KindFire = ''fire''"
| "zone_kind_key KindSmoke = ''smoke''"
| "zone_kind_key KindWater = ''water''"
| "zone_kind_key KindGas = ''gas''"
| "zone_kind_key KindFreeze = ''freeze''"
| "zone_kind_key KindTemperature = ''temperature''"
| "zone_kind_key KindPanic = ''panic''"
| "zone_kind_key KindMedical = ''medical''"
| "zone_kind_key KindTamper = ''tamper''"
| "zone_kind_key KindTechnical = ''technical''"
| "zone_kind_key KindControl = ''control''"
| "zone_kind_key KindOther = ''other''"

primrec zone_kind_label :: "zone_kind \<Rightarrow> string" where
  "zone_kind_label KindBurglary = ''Burglary''"
| "zone_kind_label KindFire = ''Fire''"
| "zone_kind_label KindSmoke = ''Smoke''"
| "zone_kind_label KindWater = ''Water''"
| "zone_kind_label KindGas = ''Gas''"
| "zone_kind_label KindFreeze = ''Freeze''"
| "zone_kind_label KindTemperature = ''Temperature''"
| "zone_kind_label KindPanic = ''Panic''"
| "zone_kind_label KindMedical = ''Medical''"
| "zone_kind_label KindTamper = ''Tamper''"
| "zone_kind_label KindTechnical = ''Technical''"
| "zone_kind_label KindControl = ''Control''"
| "zone_kind_label KindOther = ''Other''"

record zone_reaction_descriptor =
  zrd_code :: u8
  zrd_key :: string
  zrd_label :: string
  zrd_kind :: zone_kind

text \<open>\<open>n.clamp(lo, hi)\<close>\<close>

definition clamp_u8 :: "u8 \<Rightarrow> u8 \<Rightarrow> u8 \<Rightarrow> u8" where
  "clamp_u8 n lo hi = (if n < lo then lo else if hi < n then hi else n)"

datatype (plugins only:) zone_reaction =
      ZrEntryExit | ZrEntry | ZrDelayedWithSignaling | ZrInteriorDelayed | ZrPerimeter | ZrInstant
    | ZrExit | ZrAudibleSilent | ZrExterior | ZrTamper24h | ZrVibration24h | ZrCashMachine24h
    | ZrPanicAudible | ZrPanicSilent | ZrMedicalButton | ZrMedicalRemote | ZrCounting u8
    | ZrFire24h | ZrFireSmoke24h | ZrFireCombustion24h | ZrFireWater24h | ZrFireTemperature24h
    | ZrFireButton24h | ZrFireDuct24h | ZrFireFlame24h | ZrFireCircuitsProtection24h
    | ZrWaterPressure24h | ZrCo2Pressure24h | ZrValveSensor24h | ZrWaterLevel24h | ZrPumpsStart24h
    | ZrPumpsFailure24h | ZrNoAlarmAction | ZrAuxiliaryGeneral24h | ZrAuxiliaryGas24h
    | ZrAuxiliaryFreeze24h | ZrAuxiliaryHeatLoss24h | ZrAuxiliaryWaterLeak24h
    | ZrAuxiliarySecurityNonBurglary24h | ZrAuxiliaryLowCylinderGasPressure24h
    | ZrAuxiliaryHighTemp24h | ZrAuxiliaryLowTemp24h | ZrTechnicalDoorControl
    | ZrTechnicalDoorButton | ZrTechnicalAcTrouble | ZrTechnicalBatteryTrouble
    | ZrTechnicalGsmTrouble | ZrTechnicalPowerSupplyOverload | ZrTrouble | ZrBlockingGroup u8
    | ZrArming | ZrDisarming | ZrArmDisarm | ZrAlarmClearing | ZrGuardRound
    | ZrEntryExitConditional | ZrEntryExitFinal | ZrExitFinal | ZrBurglary24h
    | ZrExitTimeTerminating | ZrVerificationBlocking | ZrMaskingSensor | ZrOutputsGroupOff
    | ZrOutputsGroupOn | ZrEntryExitInterior | ZrEntryInterior | ZrMonitoringFire
    | ZrMonitoringFirePanelTrouble | ZrUnknown u8

definition zone_reaction_codes :: "(u8 \<times> zone_reaction) list" where
  "zone_reaction_codes = [
    (0, ZrEntryExit), (1, ZrEntry), (2, ZrDelayedWithSignaling), (3, ZrInteriorDelayed),
    (4, ZrPerimeter), (5, ZrInstant), (6, ZrExit), (7, ZrAudibleSilent), (8, ZrExterior),
    (9, ZrTamper24h), (10, ZrVibration24h), (11, ZrCashMachine24h), (12, ZrPanicAudible),
    (13, ZrPanicSilent), (14, ZrMedicalButton), (15, ZrMedicalRemote), (32, ZrFire24h),
    (33, ZrFireSmoke24h), (34, ZrFireCombustion24h), (35, ZrFireWater24h),
    (36, ZrFireTemperature24h), (37, ZrFireButton24h), (38, ZrFireDuct24h), (39, ZrFireFlame24h),
    (40, ZrFireCircuitsProtection24h), (41, ZrWaterPressure24h), (42, ZrCo2Pressure24h),
    (43, ZrValveSensor24h), (44, ZrWaterLevel24h), (45, ZrPumpsStart24h), (46, ZrPumpsFailure24h),
    (47, ZrNoAlarmAction), (48, ZrAuxiliaryGeneral24h), (49, ZrAuxiliaryGas24h),
    (50, ZrAuxiliaryFreeze24h), (51, ZrAuxiliaryHeatLoss24h), (52, ZrAuxiliaryWaterLeak24h),
    (53, ZrAuxiliarySecurityNonBurglary24h), (54, ZrAuxiliaryLowCylinderGasPressure24h),
    (55, ZrAuxiliaryHighTemp24h), (56, ZrAuxiliaryLowTemp24h), (57, ZrTechnicalDoorControl),
    (58, ZrTechnicalDoorButton), (59, ZrTechnicalAcTrouble), (60, ZrTechnicalBatteryTrouble),
    (61, ZrTechnicalGsmTrouble), (62, ZrTechnicalPowerSupplyOverload), (63, ZrTrouble),
    (80, ZrArming), (81, ZrDisarming), (82, ZrArmDisarm), (83, ZrAlarmClearing),
    (84, ZrGuardRound), (85, ZrEntryExitConditional), (86, ZrEntryExitFinal), (87, ZrExitFinal),
    (88, ZrBurglary24h), (89, ZrExitTimeTerminating), (90, ZrVerificationBlocking),
    (91, ZrMaskingSensor), (92, ZrOutputsGroupOff), (93, ZrOutputsGroupOn),
    (94, ZrEntryExitInterior), (95, ZrEntryInterior), (96, ZrMonitoringFire),
    (97, ZrMonitoringFirePanelTrouble)]"

definition zone_reaction_from_code :: "u8 \<Rightarrow> zone_reaction" where
  "zone_reaction_from_code code =
    (if 16 \<le> code \<and> code \<le> 31 then ZrCounting (code - 16 + 1)
     else (if 64 \<le> code \<and> code \<le> 79 then ZrBlockingGroup (code - 64 + 1)
     else (case map_of zone_reaction_codes code of Some r \<Rightarrow> r | None \<Rightarrow> ZrUnknown code)))"

primrec zone_reaction_code :: "zone_reaction \<Rightarrow> u8" where
  "zone_reaction_code ZrEntryExit = 0"
| "zone_reaction_code ZrEntry = 1"
| "zone_reaction_code ZrDelayedWithSignaling = 2"
| "zone_reaction_code ZrInteriorDelayed = 3"
| "zone_reaction_code ZrPerimeter = 4"
| "zone_reaction_code ZrInstant = 5"
| "zone_reaction_code ZrExit = 6"
| "zone_reaction_code ZrAudibleSilent = 7"
| "zone_reaction_code ZrExterior = 8"
| "zone_reaction_code ZrTamper24h = 9"
| "zone_reaction_code ZrVibration24h = 10"
| "zone_reaction_code ZrCashMachine24h = 11"
| "zone_reaction_code ZrPanicAudible = 12"
| "zone_reaction_code ZrPanicSilent = 13"
| "zone_reaction_code ZrMedicalButton = 14"
| "zone_reaction_code ZrMedicalRemote = 15"
| "zone_reaction_code (ZrCounting n) = 16 + (clamp_u8 n 1 16 - 1)"
| "zone_reaction_code ZrFire24h = 32"
| "zone_reaction_code ZrFireSmoke24h = 33"
| "zone_reaction_code ZrFireCombustion24h = 34"
| "zone_reaction_code ZrFireWater24h = 35"
| "zone_reaction_code ZrFireTemperature24h = 36"
| "zone_reaction_code ZrFireButton24h = 37"
| "zone_reaction_code ZrFireDuct24h = 38"
| "zone_reaction_code ZrFireFlame24h = 39"
| "zone_reaction_code ZrFireCircuitsProtection24h = 40"
| "zone_reaction_code ZrWaterPressure24h = 41"
| "zone_reaction_code ZrCo2Pressure24h = 42"
| "zone_reaction_code ZrValveSensor24h = 43"
| "zone_reaction_code ZrWaterLevel24h = 44"
| "zone_reaction_code ZrPumpsStart24h = 45"
| "zone_reaction_code ZrPumpsFailure24h = 46"
| "zone_reaction_code ZrNoAlarmAction = 47"
| "zone_reaction_code ZrAuxiliaryGeneral24h = 48"
| "zone_reaction_code ZrAuxiliaryGas24h = 49"
| "zone_reaction_code ZrAuxiliaryFreeze24h = 50"
| "zone_reaction_code ZrAuxiliaryHeatLoss24h = 51"
| "zone_reaction_code ZrAuxiliaryWaterLeak24h = 52"
| "zone_reaction_code ZrAuxiliarySecurityNonBurglary24h = 53"
| "zone_reaction_code ZrAuxiliaryLowCylinderGasPressure24h = 54"
| "zone_reaction_code ZrAuxiliaryHighTemp24h = 55"
| "zone_reaction_code ZrAuxiliaryLowTemp24h = 56"
| "zone_reaction_code ZrTechnicalDoorControl = 57"
| "zone_reaction_code ZrTechnicalDoorButton = 58"
| "zone_reaction_code ZrTechnicalAcTrouble = 59"
| "zone_reaction_code ZrTechnicalBatteryTrouble = 60"
| "zone_reaction_code ZrTechnicalGsmTrouble = 61"
| "zone_reaction_code ZrTechnicalPowerSupplyOverload = 62"
| "zone_reaction_code ZrTrouble = 63"
| "zone_reaction_code (ZrBlockingGroup n) = 64 + (clamp_u8 n 1 16 - 1)"
| "zone_reaction_code ZrArming = 80"
| "zone_reaction_code ZrDisarming = 81"
| "zone_reaction_code ZrArmDisarm = 82"
| "zone_reaction_code ZrAlarmClearing = 83"
| "zone_reaction_code ZrGuardRound = 84"
| "zone_reaction_code ZrEntryExitConditional = 85"
| "zone_reaction_code ZrEntryExitFinal = 86"
| "zone_reaction_code ZrExitFinal = 87"
| "zone_reaction_code ZrBurglary24h = 88"
| "zone_reaction_code ZrExitTimeTerminating = 89"
| "zone_reaction_code ZrVerificationBlocking = 90"
| "zone_reaction_code ZrMaskingSensor = 91"
| "zone_reaction_code ZrOutputsGroupOff = 92"
| "zone_reaction_code ZrOutputsGroupOn = 93"
| "zone_reaction_code ZrEntryExitInterior = 94"
| "zone_reaction_code ZrEntryInterior = 95"
| "zone_reaction_code ZrMonitoringFire = 96"
| "zone_reaction_code ZrMonitoringFirePanelTrouble = 97"
| "zone_reaction_code (ZrUnknown c) = c"

definition zr_desc :: "u8 \<Rightarrow> string \<Rightarrow> string \<Rightarrow> zone_kind \<Rightarrow> zone_reaction_descriptor" where
  "zr_desc code key label kind = \<lparr>zrd_code = code, zrd_key = key, zrd_label = label, zrd_kind = kind\<rparr>"

definition zone_reaction_catalog :: "zone_reaction_descriptor list" where
  "zone_reaction_catalog = [
    zr_desc 0 ''entry_exit'' ''Entry/Exit'' KindBurglary,
    zr_desc 1 ''entry'' ''Entry'' KindBurglary,
    zr_desc 2 ''delayed_with_signaling'' ''Delayed with Delay Signaling'' KindBurglary,
    zr_desc 3 ''interior_delayed'' ''Interior Delayed'' KindBurglary,
    zr_desc 4 ''perimeter'' ''Perimeter'' KindBurglary,
    zr_desc 5 ''instant'' ''Instant'' KindBurglary,
    zr_desc 6 ''exit'' ''Exit'' KindBurglary,
    zr_desc 7 ''audible_silent'' ''Audible/Silent'' KindBurglary,
    zr_desc 8 ''exterior'' ''Exterior'' KindBurglary,
    zr_desc 9 ''tamper_24h'' ''24h Tamper'' KindTamper,
    zr_desc 10 ''vibration_24h'' ''24h Vibration'' KindBurglary,
    zr_desc 11 ''cash_machine_24h'' ''24h Cash Machine'' KindBurglary,
    zr_desc 12 ''panic_audible'' ''Audible Panic'' KindPanic,
    zr_desc 13 ''panic_silent'' ''Silent Panic'' KindPanic,
    zr_desc 14 ''medical_button'' ''Medical - Button'' KindMedical,
    zr_desc 15 ''medical_remote'' ''Medical - Remote'' KindMedical,
    zr_desc 16 ''counting_l1'' ''Counting L1'' KindBurglary,
    zr_desc 17 ''counting_l2'' ''Counting L2'' KindBurglary,
    zr_desc 18 ''counting_l3'' ''Counting L3'' KindBurglary,
    zr_desc 19 ''counting_l4'' ''Counting L4'' KindBurglary,
    zr_desc 20 ''counting_l5'' ''Counting L5'' KindBurglary,
    zr_desc 21 ''counting_l6'' ''Counting L6'' KindBurglary,
    zr_desc 22 ''counting_l7'' ''Counting L7'' KindBurglary,
    zr_desc 23 ''counting_l8'' ''Counting L8'' KindBurglary,
    zr_desc 24 ''counting_l9'' ''Counting L9'' KindBurglary,
    zr_desc 25 ''counting_l10'' ''Counting L10'' KindBurglary,
    zr_desc 26 ''counting_l11'' ''Counting L11'' KindBurglary,
    zr_desc 27 ''counting_l12'' ''Counting L12'' KindBurglary,
    zr_desc 28 ''counting_l13'' ''Counting L13'' KindBurglary,
    zr_desc 29 ''counting_l14'' ''Counting L14'' KindBurglary,
    zr_desc 30 ''counting_l15'' ''Counting L15'' KindBurglary,
    zr_desc 31 ''counting_l16'' ''Counting L16'' KindBurglary,
    zr_desc 32 ''fire_24h'' ''24h Fire'' KindFire,
    zr_desc 33 ''fire_smoke_24h'' ''24h Fire - Smoke Detector'' KindSmoke,
    zr_desc 34 ''fire_combustion_24h'' ''24h Fire - Combustion'' KindFire,
    zr_desc 35 ''fire_water_sensor_24h'' ''24h Fire - Water Sensor'' KindFire,
    zr_desc 36 ''fire_temperature_24h'' ''24h Fire - Temperature Sensor'' KindTemperature,
    zr_desc 37 ''fire_button_24h'' ''24h Fire - Button'' KindFire,
    zr_desc 38 ''fire_duct_24h'' ''24h Fire - Duct Detector'' KindSmoke,
    zr_desc 39 ''fire_flame_24h'' ''24h Fire - Flame Detector'' KindFire,
    zr_desc 40 ''fire_circuits_protection_24h'' ''24h Fire Circuits Protection'' KindFire,
    zr_desc 41 ''water_pressure_24h'' ''24h Water Pressure Sensor'' KindWater,
    zr_desc 42 ''co2_pressure_24h'' ''24h CO2 Pressure Sensor'' KindGas,
    zr_desc 43 ''valve_sensor_24h'' ''24h Valve Sensor'' KindTechnical,
    zr_desc 44 ''water_level_24h'' ''24h Water Level Sensor'' KindWater,
    zr_desc 45 ''pumps_start_24h'' ''24h Pumps Start'' KindTechnical,
    zr_desc 46 ''pumps_failure_24h'' ''24h Pumps Failure'' KindTechnical,
    zr_desc 47 ''no_alarm_action'' ''No Alarm Action'' KindOther,
    zr_desc 48 ''auxiliary_general_24h'' ''24h Auxiliary - General'' KindTechnical,
    zr_desc 49 ''auxiliary_gas_24h'' ''24h Auxiliary - Gas Sensor'' KindGas,
    zr_desc 50 ''auxiliary_freeze_24h'' ''24h Auxiliary - Freeze'' KindFreeze,
    zr_desc 51 ''auxiliary_heat_loss_24h'' ''24h Auxiliary - Heating Loss'' KindFreeze,
    zr_desc 52 ''auxiliary_water_leak_24h'' ''24h Auxiliary - Water Leak'' KindWater,
    zr_desc 53 ''auxiliary_security_non_burglary_24h'' ''24h Auxiliary - Security (Non-Burglary)'' KindTechnical,
    zr_desc 54 ''auxiliary_low_cylinder_gas_pressure_24h'' ''24h Auxiliary - Low Cylinder Gas Pressure'' KindGas,
    zr_desc 55 ''auxiliary_high_temp_24h'' ''24h Auxiliary - High Temperature'' KindTemperature,
    zr_desc 56 ''auxiliary_low_temp_24h'' ''24h Auxiliary - Low Temperature'' KindTemperature,
    zr_desc 57 ''technical_door_control'' ''Technical - Door Control'' KindTechnical,
    zr_desc 58 ''technical_door_button'' ''Technical - Door Button'' KindControl,
    zr_desc 59 ''technical_ac_trouble'' ''Technical - AC Loss'' KindTechnical,
    zr_desc 60 ''technical_battery_trouble'' ''Technical - Battery Trouble'' KindTechnical,
    zr_desc 61 ''technical_gsm_trouble'' ''Technical - GSM Trouble'' KindTechnical,
    zr_desc 62 ''technical_power_supply_overload'' ''Technical - Power Supply Overload'' KindTechnical,
    zr_desc 63 ''trouble'' ''Trouble'' KindTechnical,
    zr_desc 64 ''blocking_group_1'' ''Blocking - Group 1'' KindControl,
    zr_desc 65 ''blocking_group_2'' ''Blocking - Group 2'' KindControl,
    zr_desc 66 ''blocking_group_3'' ''Blocking - Group 3'' KindControl,
    zr_desc 67 ''blocking_group_4'' ''Blocking - Group 4'' KindControl,
    zr_desc 68 ''blocking_group_5'' ''Blocking - Group 5'' KindControl,
    zr_desc 69 ''blocking_group_6'' ''Blocking - Group 6'' KindControl,
    zr_desc 70 ''blocking_group_7'' ''Blocking - Group 7'' KindControl,
    zr_desc 71 ''blocking_group_8'' ''Blocking - Group 8'' KindControl,
    zr_desc 72 ''blocking_group_9'' ''Blocking - Group 9'' KindControl,
    zr_desc 73 ''blocking_group_10'' ''Blocking - Group 10'' KindControl,
    zr_desc 74 ''blocking_group_11'' ''Blocking - Group 11'' KindControl,
    zr_desc 75 ''blocking_group_12'' ''Blocking - Group 12'' KindControl,
    zr_desc 76 ''blocking_group_13'' ''Blocking - Group 13'' KindControl,
    zr_desc 77 ''blocking_group_14'' ''Blocking - Group 14'' KindControl,
    zr_desc 78 ''blocking_group_15'' ''Blocking - Group 15'' KindControl,
    zr_desc 79 ''blocking_group_16'' ''Blocking - Group 16'' KindControl,
    zr_desc 80 ''arming'' ''Arming'' KindControl,
    zr_desc 81 ''disarming'' ''Disarming'' KindControl,
    zr_desc 82 ''arm_disarm'' ''Arm/Disarm'' KindControl,
    zr_desc 83 ''alarm_clearing'' ''Alarm Clearing'' KindControl,
    zr_desc 84 ''guard_round'' ''Guard Round'' KindOther,
    zr_desc 85 ''entry_exit_conditional'' ''Entry/Exit - Conditional'' KindBurglary,
    zr_desc 86 ''entry_exit_final'' ''Entry/Exit - Final'' KindBurglary,
    zr_desc 87 ''exit_final'' ''Exit - Final'' KindBurglary,
    zr_desc 88 ''burglary_24h'' ''24h Burglary'' KindBurglary,
    zr_desc 89 ''exit_time_terminating'' ''Exit Time Terminating'' KindControl,
    zr_desc 90 ''verification_blocking'' ''Verification Blocking'' KindControl,
    zr_desc 91 ''masking_sensor'' ''Masking Sensor'' KindTamper,
    zr_desc 92 ''outputs_group_off'' ''Outputs Group Off'' KindControl,
    zr_desc 93 ''outputs_group_on'' ''Outputs Group On'' KindControl,
    zr_desc 94 ''entry_exit_interior'' ''Entry/Exit Interior'' KindBurglary,
    zr_desc 95 ''entry_interior'' ''Entry Interior'' KindBurglary,
    zr_desc 96 ''monitoring_fire'' ''Monitoring Fire'' KindFire,
    zr_desc 97 ''monitoring_fire_panel_trouble'' ''Monitoring - Fire Panel Trouble'' KindTechnical]"

definition zone_reaction_key :: "zone_reaction \<Rightarrow> string" where
  "zone_reaction_key r =
    (let c = zone_reaction_code r
     in if unat c < length zone_reaction_catalog then zrd_key (zone_reaction_catalog ! unat c)
        else ''unknown'')"

definition zone_reaction_label :: "zone_reaction \<Rightarrow> string" where
  "zone_reaction_label r =
    (let c = zone_reaction_code r
     in if unat c < length zone_reaction_catalog then zrd_label (zone_reaction_catalog ! unat c)
        else ''Unknown'')"

definition zone_reaction_kind :: "zone_reaction \<Rightarrow> zone_kind" where
  "zone_reaction_kind r =
    (let c = zone_reaction_code r
     in if unat c < length zone_reaction_catalog then zrd_kind (zone_reaction_catalog ! unat c)
        else KindOther)"

section \<open>Codes\<close>

text \<open>The values that \<open>from_code\<close> produces: numbers in range, unknown codes beyond the catalog.\<close>

definition zone_reaction_listed :: "zone_reaction \<Rightarrow> bool" where
  "zone_reaction_listed r =
    (case r of
       ZrCounting n \<Rightarrow> 1 \<le> n \<and> n \<le> 16
     | ZrBlockingGroup n \<Rightarrow> 1 \<le> n \<and> n \<le> 16
     | ZrUnknown c \<Rightarrow> 98 \<le> c
     | _ \<Rightarrow> True)"

lemma zone_reaction_listed_simps [simp]:
  "zone_reaction_listed (ZrCounting n) \<longleftrightarrow> 1 \<le> n \<and> n \<le> 16"
  "zone_reaction_listed (ZrBlockingGroup n) \<longleftrightarrow> 1 \<le> n \<and> n \<le> 16"
  "zone_reaction_listed (ZrUnknown c) \<longleftrightarrow> 98 \<le> c"
  by (simp_all add: zone_reaction_listed_def)

lemma clamp_u8_bounds: "lo \<le> hi \<Longrightarrow> lo \<le> clamp_u8 n lo hi \<and> clamp_u8 n lo hi \<le> hi"
  by (auto simp: clamp_u8_def)

lemma zone_reaction_codes_fst:
  "map fst zone_reaction_codes = map word_of_nat ([0..<16] @ [32..<64] @ [80..<98])"
  by (simp add: zone_reaction_codes_def upt_rec)

lemma zone_reaction_codes_code: "\<forall>(c, r) \<in> set zone_reaction_codes. zone_reaction_code r = c"
  by (simp add: zone_reaction_codes_def)

text \<open>A code in the range of a numbered family is its base plus its clamped number.\<close>

lemma u8_range_shift:
  assumes "a \<le> b" and "unat b \<le> unat a + 15"
  shows "a + (clamp_u8 (b - a + 1) 1 16 - 1) = b" and "1 \<le> b - a + 1" and "b - a + 1 \<le> 16"
proof -
  have d: "unat (b - a) \<le> 15" using assms by (simp add: unat_sub)
  then have n: "unat (b - a + 1) = unat (b - a) + 1"
    by (simp add: unat_word_ariths)
  with d show le: "1 \<le> b - a + 1" "b - a + 1 \<le> 16"
    by (simp_all add: word_le_nat_alt)
  then have "clamp_u8 (b - a + 1) 1 16 = b - a + 1"
    by (simp only: clamp_u8_def not_less [symmetric]) simp
  then show "a + (clamp_u8 (b - a + 1) 1 16 - 1) = b" by simp
qed

lemma zone_reaction_code_from_code: "zone_reaction_code (zone_reaction_from_code c) = c"
proof -
  consider (counting) "16 \<le> c" "c \<le> 31" | (blocking) "64 \<le> c" "c \<le> 79"
    | (other) "\<not> (16 \<le> c \<and> c \<le> 31)" "\<not> (64 \<le> c \<and> c \<le> 79)"
    by blast
  then show ?thesis
  proof cases
    case counting
    then have "16 + (clamp_u8 (c - 16 + 1) 1 16 - 1) = c"
      by (intro u8_range_shift(1)) (simp_all add: word_le_nat_alt)
    with counting show ?thesis by (simp add: zone_reaction_from_code_def)
  next
    case blocking
    then have "\<not> c \<le> 31" by (simp add: word_le_nat_alt)
    moreover from blocking have "64 + (clamp_u8 (c - 64 + 1) 1 16 - 1) = c"
      by (intro u8_range_shift(1)) (simp_all add: word_le_nat_alt)
    ultimately show ?thesis using blocking by (simp add: zone_reaction_from_code_def)
  next
    case other
    then show ?thesis
      using zone_reaction_codes_code
      by (auto simp: zone_reaction_from_code_def dest: map_of_SomeD split: option.splits)
  qed
qed

lemma zone_reaction_codes_range: "\<forall>(c, r) \<in> set zone_reaction_codes. unat c < 98"
  by (simp add: zone_reaction_codes_def)

lemma zone_reaction_codes_distinct: "distinct (map fst zone_reaction_codes)"
  by (simp add: zone_reaction_codes_def)

lemma zone_reaction_codes_no_family:
  "\<forall>(c, r) \<in> set zone_reaction_codes. \<not> (16 \<le> c \<and> c \<le> 31) \<and> \<not> (64 \<le> c \<and> c \<le> 79)"
  by (simp add: zone_reaction_codes_def word_le_nat_alt)

lemma zone_reaction_codes_complete:
  "(zone_reaction_code r, r) \<in> set zone_reaction_codes
    \<or> (\<exists>n. r = ZrCounting n) \<or> (\<exists>n. r = ZrBlockingGroup n) \<or> (\<exists>n. r = ZrUnknown n)"
  by (cases r) (simp_all add: zone_reaction_codes_def)

lemma zone_reaction_from_code_listed: "zone_reaction_listed (zone_reaction_from_code c)"
proof -
  have "zone_reaction_listed r" if "(c, r) \<in> set zone_reaction_codes" for r
    using that by (auto simp: zone_reaction_codes_def zone_reaction_listed_def)
  moreover have "98 \<le> c" if "map_of zone_reaction_codes c = None"
      "\<not> (16 \<le> c \<and> c \<le> 31)" "\<not> (64 \<le> c \<and> c \<le> 79)"
  proof (rule ccontr)
    assume "\<not> 98 \<le> c"
    then have "unat c < 98" by (simp add: word_le_nat_alt)
    then have "unat c \<in> set ([0..<16] @ [32..<64] @ [80..<98])"
      using that(2,3) unfolding set_append set_upt by (auto simp: word_le_nat_alt)
    then have "word_of_nat (unat c) \<in> set (map fst zone_reaction_codes)"
      unfolding zone_reaction_codes_fst by (metis image_eqI list.set_map)
    with that(1) show False by (simp add: map_of_eq_None_iff)
  qed
  ultimately show ?thesis
    using u8_range_shift(2,3) [of 16 c] u8_range_shift(2,3) [of 64 c]
    by (auto simp: zone_reaction_from_code_def word_le_nat_alt dest: map_of_SomeD split: option.splits)
qed

lemma zone_reaction_from_code_code:
  assumes "zone_reaction_listed r"
  shows "zone_reaction_from_code (zone_reaction_code r) = r"
proof -
  have family: "k \<le> k + (clamp_u8 n 1 16 - 1)" "k + (clamp_u8 n 1 16 - 1) \<le> k + 15"
      "k + (clamp_u8 n 1 16 - 1) - k + 1 = n"
    if "1 \<le> n" "n \<le> 16" "unat k < 100" for n k :: u8
  proof -
    have c: "clamp_u8 n 1 16 = n" using that by (auto simp: clamp_u8_def)
    have m: "unat (n - 1) \<le> 15" using that by (simp add: unat_sub word_le_nat_alt)
    then have "unat (k + (n - 1)) = unat k + unat (n - 1)" "unat (k + 15) = unat k + 15"
      using that(3) by (simp_all add: unat_word_ariths)
    with m c show "k \<le> k + (clamp_u8 n 1 16 - 1)" "k + (clamp_u8 n 1 16 - 1) \<le> k + 15"
      by (simp_all add: word_le_nat_alt)
    show "k + (clamp_u8 n 1 16 - 1) - k + 1 = n" by (simp add: c)
  qed
  from zone_reaction_codes_complete [of r]
  consider (code) "(zone_reaction_code r, r) \<in> set zone_reaction_codes" | (counting) n where "r = ZrCounting n"
    | (blocking) n where "r = ZrBlockingGroup n" | (unknown) c where "r = ZrUnknown c"
    by blast
  then show ?thesis
  proof cases
    case code
    with zone_reaction_codes_no_family
    have "\<not> (16 \<le> zone_reaction_code r \<and> zone_reaction_code r \<le> 31)"
      "\<not> (64 \<le> zone_reaction_code r \<and> zone_reaction_code r \<le> 79)"
      by fastforce+
    with code zone_reaction_codes_distinct show ?thesis
      by (auto simp: zone_reaction_from_code_def)
  next
    case (counting n)
    with assms family [of n 16] show ?thesis by (simp add: zone_reaction_from_code_def)
  next
    case (blocking n)
    with assms family [of n 64] show ?thesis
      by (auto simp: zone_reaction_from_code_def word_le_nat_alt)
  next
    case (unknown c)
    have "map_of zone_reaction_codes c = None"
      using assms unknown zone_reaction_codes_range
      by (cases "map_of zone_reaction_codes c") (auto simp: word_le_nat_alt dest!: map_of_SomeD)
    with assms unknown show ?thesis
      by (auto simp: zone_reaction_from_code_def word_le_nat_alt)
  qed
qed

interpretation zone_cat: code_catalog zone_reaction_code "\<lambda>c. Some (zone_reaction_from_code c)"
  zone_reaction_listed
  by unfold_locales (auto simp: zone_reaction_from_code_code zone_reaction_code_from_code)

lemma zone_catalog_codes:
  "map zrd_code zone_reaction_catalog = map word_of_nat [0..<98]"
  by (simp add: zone_reaction_catalog_def zr_desc_def upt_rec)

text \<open>
  The codes of zone reactions are a round trip on every byte, every decoded reaction is one whose
  code is decoded back to it, and the catalog entry at each code is the entry for that code.
\<close>

theorem zone_reaction_codes_roundtrip:
  "zone_reaction_code (zone_reaction_from_code c) = c
    \<and> (zone_reaction_listed r \<longleftrightarrow> (\<exists>b. r = zone_reaction_from_code b))
    \<and> map zrd_code zone_reaction_catalog = map word_of_nat [0..<98]"
  using zone_reaction_code_from_code zone_reaction_from_code_code zone_reaction_from_code_listed
    zone_catalog_codes
  by metis


end
