(* ===== verification/Output_Catalog.thy ===== *)
theory Output_Catalog
  imports Zone_Catalog
begin

text \<open>
  The output catalog of \<open>src/src/output_catalog.rs\<close>: the 124 output functions with their codes,
  keys and labels, and what makes an output controllable, timed or bistable. Durations are
  nanoseconds; the protocol gives tenths of a second.
\<close>

section \<open>Definitions\<close>

datatype output_control = ControlNone | ControlTimed "duration option" | ControlBistable | ControlUnknown

definition control_is_controllable :: "output_control \<Rightarrow> bool" where
  "control_is_controllable c = (c \<noteq> ControlNone)"

fun control_is_timed :: "output_control \<Rightarrow> bool" where
  "control_is_timed (ControlTimed _) = True"
| "control_is_timed _ = False"

definition control_is_bistable :: "output_control \<Rightarrow> bool" where
  "control_is_bistable c = (c = ControlBistable)"

record output_function_descriptor =
  ofd_code :: u8
  ofd_key :: string
  ofd_label :: string

datatype (plugins only:) output_function =
      OfUnused | OfBurglaryAlarm | OfFireAndBurglaryAlarm | OfFireAlarm | OfKeypadAlarm
    | OfKeypadFireAlarm | OfKeypadPanicAlarm | OfKeypadMedicalAlarm | OfTamperAlarm | OfAlarmDay
    | OfDuressAlarm | OfChime | OfSilentAlarm | OfTechnicalAlarm | OfZoneViolation
    | OfVideoDisarmed | OfVideoArmed | OfReadyIndicator | OfBypassesIndicator
    | OfExitDelayIndicator | OfEntryDelayIndicator | OfArmedIndicator | OfAllArmedIndicator
    | OfArmDisarmConfirmation | OfMonoSwitch | OfBiSwitch | OfTimer | OfTroubleIndicator
    | OfMainBoardAcTrouble | OfZonesAcTrouble | OfExpandersAcTrouble | OfMainBoardBatteryTrouble
    | OfZonesBatteryTrouble | OfExpanderBatteryTrouble | OfZoneTrouble | OfDialerActive
    | OfGroundStart | OfMonitoringConfirmation | OfServiceModeIndicator | OfVibrationSensorsTest
    | OfCashMachineBypassIndicator | OfPowerSupply | OfPowerSupplyArmed | OfResettablePowerSupply
    | OfFireDetectorsPowerSupply | OfPartitionBlockedIndicator | OfOutputsLogicAnd
    | OfOutputsLogicOr | OfSynthesizer u8 | OfTelephoneRelayNumbered u8 | OfNoGuardRound
    | OfLongMainBoardAcTrouble | OfLongExpandersAcTrouble | OfOutputsSignalingEnd
    | OfCodeEnteredSignaling | OfCodeUsedSignaling | OfDoorOpenIndicator | OfDoorLongOpenIndicator
    | OfBurglaryAlarmNoTamperNoFire | OfEventsMemory50Percent | OfEventsMemory90Percent
    | OfAutoArmDelaySignaling | OfAutoArmDelayIndicator | OfUnauthorizedDoorOpening
    | OfUnauthorizedDoorOpeningAlarm | OfIpMonitoringTrouble | OfTelephoneLineTrouble
    | OfSynthesizerSelectable | OfTelephoneRelay | OfCardRead | OfCardHold | OfCardReadInModule
    | OfWirelessZoneNoComm | OfWirelessOutputNoComm | OfWirelessDeviceBatteryTrouble
    | OfRollerBlindUp | OfRollerBlindDown | OfExpanderCardHeadA | OfExpanderCardHeadB
    | OfZonesLogicAnd | OfUnverifiedAlarm | OfVerifiedAlarm | OfVerificationWithoutAlarm
    | OfVerificationBypassIndicator | OfZoneTestIndicator | OfArmModeIndicator | OfInternalSiren
    | OfTamperIndicator | OfKeyFobsBatteryTrouble | OfWirelessJammingTrouble | OfThermostat
    | OfZoneMaskingSignaling | OfZoneMaskingIndicator | OfModuleLock | OfUnknown u8

definition output_function_codes :: "(u8 \<times> output_function) list" where
  "output_function_codes = [
    (0, OfUnused), (1, OfBurglaryAlarm), (2, OfFireAndBurglaryAlarm), (3, OfFireAlarm),
    (4, OfKeypadAlarm), (5, OfKeypadFireAlarm), (6, OfKeypadPanicAlarm),
    (7, OfKeypadMedicalAlarm), (8, OfTamperAlarm), (9, OfAlarmDay), (10, OfDuressAlarm),
    (11, OfChime), (12, OfSilentAlarm), (13, OfTechnicalAlarm), (14, OfZoneViolation),
    (15, OfVideoDisarmed), (16, OfVideoArmed), (17, OfReadyIndicator), (18, OfBypassesIndicator),
    (19, OfExitDelayIndicator), (20, OfEntryDelayIndicator), (21, OfArmedIndicator),
    (22, OfAllArmedIndicator), (23, OfArmDisarmConfirmation), (24, OfMonoSwitch),
    (25, OfBiSwitch), (26, OfTimer), (27, OfTroubleIndicator), (28, OfMainBoardAcTrouble),
    (29, OfZonesAcTrouble), (30, OfExpandersAcTrouble), (31, OfMainBoardBatteryTrouble),
    (32, OfZonesBatteryTrouble), (33, OfExpanderBatteryTrouble), (34, OfZoneTrouble),
    (35, OfDialerActive), (36, OfGroundStart), (37, OfMonitoringConfirmation),
    (38, OfServiceModeIndicator), (39, OfVibrationSensorsTest),
    (40, OfCashMachineBypassIndicator), (41, OfPowerSupply), (42, OfPowerSupplyArmed),
    (43, OfResettablePowerSupply), (44, OfFireDetectorsPowerSupply),
    (45, OfPartitionBlockedIndicator), (46, OfOutputsLogicAnd), (47, OfOutputsLogicOr),
    (80, OfNoGuardRound), (81, OfLongMainBoardAcTrouble), (82, OfLongExpandersAcTrouble),
    (83, OfOutputsSignalingEnd), (84, OfCodeEnteredSignaling), (85, OfCodeUsedSignaling),
    (86, OfDoorOpenIndicator), (87, OfDoorLongOpenIndicator), (88, OfBurglaryAlarmNoTamperNoFire),
    (89, OfEventsMemory50Percent), (90, OfEventsMemory90Percent), (91, OfAutoArmDelaySignaling),
    (92, OfAutoArmDelayIndicator), (93, OfUnauthorizedDoorOpening),
    (94, OfUnauthorizedDoorOpeningAlarm), (95, OfIpMonitoringTrouble),
    (96, OfTelephoneLineTrouble), (97, OfSynthesizerSelectable), (98, OfTelephoneRelay),
    (99, OfCardRead), (100, OfCardHold), (101, OfCardReadInModule), (102, OfWirelessZoneNoComm),
    (103, OfWirelessOutputNoComm), (104, OfWirelessDeviceBatteryTrouble), (105, OfRollerBlindUp),
    (106, OfRollerBlindDown), (107, OfExpanderCardHeadA), (108, OfExpanderCardHeadB),
    (109, OfZonesLogicAnd), (110, OfUnverifiedAlarm), (111, OfVerifiedAlarm),
    (112, OfVerificationWithoutAlarm), (113, OfVerificationBypassIndicator),
    (114, OfZoneTestIndicator), (115, OfArmModeIndicator), (116, OfInternalSiren),
    (117, OfTamperIndicator), (118, OfKeyFobsBatteryTrouble), (119, OfWirelessJammingTrouble),
    (120, OfThermostat), (121, OfZoneMaskingSignaling), (122, OfZoneMaskingIndicator),
    (123, OfModuleLock)]"

definition output_function_from_code :: "u8 \<Rightarrow> output_function" where
  "output_function_from_code code =
    (if 48 \<le> code \<and> code \<le> 63 then OfSynthesizer (code - 48)
     else (if 64 \<le> code \<and> code \<le> 79 then OfTelephoneRelayNumbered (code - 64 + 1)
     else (case map_of output_function_codes code of Some r \<Rightarrow> r | None \<Rightarrow> OfUnknown code)))"

primrec output_function_code :: "output_function \<Rightarrow> u8" where
  "output_function_code OfUnused = 0"
| "output_function_code OfBurglaryAlarm = 1"
| "output_function_code OfFireAndBurglaryAlarm = 2"
| "output_function_code OfFireAlarm = 3"
| "output_function_code OfKeypadAlarm = 4"
| "output_function_code OfKeypadFireAlarm = 5"
| "output_function_code OfKeypadPanicAlarm = 6"
| "output_function_code OfKeypadMedicalAlarm = 7"
| "output_function_code OfTamperAlarm = 8"
| "output_function_code OfAlarmDay = 9"
| "output_function_code OfDuressAlarm = 10"
| "output_function_code OfChime = 11"
| "output_function_code OfSilentAlarm = 12"
| "output_function_code OfTechnicalAlarm = 13"
| "output_function_code OfZoneViolation = 14"
| "output_function_code OfVideoDisarmed = 15"
| "output_function_code OfVideoArmed = 16"
| "output_function_code OfReadyIndicator = 17"
| "output_function_code OfBypassesIndicator = 18"
| "output_function_code OfExitDelayIndicator = 19"
| "output_function_code OfEntryDelayIndicator = 20"
| "output_function_code OfArmedIndicator = 21"
| "output_function_code OfAllArmedIndicator = 22"
| "output_function_code OfArmDisarmConfirmation = 23"
| "output_function_code OfMonoSwitch = 24"
| "output_function_code OfBiSwitch = 25"
| "output_function_code OfTimer = 26"
| "output_function_code OfTroubleIndicator = 27"
| "output_function_code OfMainBoardAcTrouble = 28"
| "output_function_code OfZonesAcTrouble = 29"
| "output_function_code OfExpandersAcTrouble = 30"
| "output_function_code OfMainBoardBatteryTrouble = 31"
| "output_function_code OfZonesBatteryTrouble = 32"
| "output_function_code OfExpanderBatteryTrouble = 33"
| "output_function_code OfZoneTrouble = 34"
| "output_function_code OfDialerActive = 35"
| "output_function_code OfGroundStart = 36"
| "output_function_code OfMonitoringConfirmation = 37"
| "output_function_code OfServiceModeIndicator = 38"
| "output_function_code OfVibrationSensorsTest = 39"
| "output_function_code OfCashMachineBypassIndicator = 40"
| "output_function_code OfPowerSupply = 41"
| "output_function_code OfPowerSupplyArmed = 42"
| "output_function_code OfResettablePowerSupply = 43"
| "output_function_code OfFireDetectorsPowerSupply = 44"
| "output_function_code OfPartitionBlockedIndicator = 45"
| "output_function_code OfOutputsLogicAnd = 46"
| "output_function_code OfOutputsLogicOr = 47"
| "output_function_code (OfSynthesizer n) = 48 + min n 15"
| "output_function_code (OfTelephoneRelayNumbered n) = 64 + (clamp_u8 n 1 16 - 1)"
| "output_function_code OfNoGuardRound = 80"
| "output_function_code OfLongMainBoardAcTrouble = 81"
| "output_function_code OfLongExpandersAcTrouble = 82"
| "output_function_code OfOutputsSignalingEnd = 83"
| "output_function_code OfCodeEnteredSignaling = 84"
| "output_function_code OfCodeUsedSignaling = 85"
| "output_function_code OfDoorOpenIndicator = 86"
| "output_function_code OfDoorLongOpenIndicator = 87"
| "output_function_code OfBurglaryAlarmNoTamperNoFire = 88"
| "output_function_code OfEventsMemory50Percent = 89"
| "output_function_code OfEventsMemory90Percent = 90"
| "output_function_code OfAutoArmDelaySignaling = 91"
| "output_function_code OfAutoArmDelayIndicator = 92"
| "output_function_code OfUnauthorizedDoorOpening = 93"
| "output_function_code OfUnauthorizedDoorOpeningAlarm = 94"
| "output_function_code OfIpMonitoringTrouble = 95"
| "output_function_code OfTelephoneLineTrouble = 96"
| "output_function_code OfSynthesizerSelectable = 97"
| "output_function_code OfTelephoneRelay = 98"
| "output_function_code OfCardRead = 99"
| "output_function_code OfCardHold = 100"
| "output_function_code OfCardReadInModule = 101"
| "output_function_code OfWirelessZoneNoComm = 102"
| "output_function_code OfWirelessOutputNoComm = 103"
| "output_function_code OfWirelessDeviceBatteryTrouble = 104"
| "output_function_code OfRollerBlindUp = 105"
| "output_function_code OfRollerBlindDown = 106"
| "output_function_code OfExpanderCardHeadA = 107"
| "output_function_code OfExpanderCardHeadB = 108"
| "output_function_code OfZonesLogicAnd = 109"
| "output_function_code OfUnverifiedAlarm = 110"
| "output_function_code OfVerifiedAlarm = 111"
| "output_function_code OfVerificationWithoutAlarm = 112"
| "output_function_code OfVerificationBypassIndicator = 113"
| "output_function_code OfZoneTestIndicator = 114"
| "output_function_code OfArmModeIndicator = 115"
| "output_function_code OfInternalSiren = 116"
| "output_function_code OfTamperIndicator = 117"
| "output_function_code OfKeyFobsBatteryTrouble = 118"
| "output_function_code OfWirelessJammingTrouble = 119"
| "output_function_code OfThermostat = 120"
| "output_function_code OfZoneMaskingSignaling = 121"
| "output_function_code OfZoneMaskingIndicator = 122"
| "output_function_code OfModuleLock = 123"
| "output_function_code (OfUnknown c) = c"

definition out_desc :: "u8 \<Rightarrow> string \<Rightarrow> string \<Rightarrow> output_function_descriptor" where
  "out_desc code key label = \<lparr>ofd_code = code, ofd_key = key, ofd_label = label\<rparr>"

definition output_function_catalog :: "output_function_descriptor list" where
  "output_function_catalog = [
    out_desc 0 ''unused'' ''Unused'',
    out_desc 1 ''burglary_alarm'' ''Burglary Alarm'',
    out_desc 2 ''fire_and_burglary_alarm'' ''Fire and Burglary Alarm'',
    out_desc 3 ''fire_alarm'' ''Fire Alarm'',
    out_desc 4 ''keypad_alarm'' ''Keypad Alarm'',
    out_desc 5 ''keypad_fire_alarm'' ''Keypad Fire Alarm'',
    out_desc 6 ''keypad_panic_alarm'' ''Keypad Panic Alarm'',
    out_desc 7 ''keypad_medical_alarm'' ''Keypad Medical Alarm'',
    out_desc 8 ''tamper_alarm'' ''Tamper Alarm'',
    out_desc 9 ''alarm_day'' ''Day Alarm'',
    out_desc 10 ''duress_alarm'' ''Duress Alarm'',
    out_desc 11 ''chime'' ''Chime'',
    out_desc 12 ''silent_alarm'' ''Silent Alarm'',
    out_desc 13 ''technical_alarm'' ''Technical Alarm'',
    out_desc 14 ''zone_violation'' ''Zone Violation'',
    out_desc 15 ''video_disarmed'' ''Video Disarmed'',
    out_desc 16 ''video_armed'' ''Video Armed'',
    out_desc 17 ''ready_indicator'' ''Ready Indicator'',
    out_desc 18 ''bypasses_indicator'' ''Bypasses Indicator'',
    out_desc 19 ''exit_delay_indicator'' ''Exit Delay Indicator'',
    out_desc 20 ''entry_delay_indicator'' ''Entry Delay Indicator'',
    out_desc 21 ''armed_indicator'' ''Armed Indicator'',
    out_desc 22 ''all_armed_indicator'' ''All Armed Indicator'',
    out_desc 23 ''arm_disarm_confirmation'' ''Arm/Disarm Confirmation'',
    out_desc 24 ''mono_switch'' ''Mono Switch'',
    out_desc 25 ''bi_switch'' ''Bi Switch'',
    out_desc 26 ''timer'' ''Timer'',
    out_desc 27 ''trouble_indicator'' ''Trouble Indicator'',
    out_desc 28 ''main_board_ac_trouble'' ''Main Board AC Trouble'',
    out_desc 29 ''zones_ac_trouble'' ''Zones AC Trouble'',
    out_desc 30 ''expanders_ac_trouble'' ''Expanders AC Trouble'',
    out_desc 31 ''main_board_battery_trouble'' ''Main Board Battery Trouble'',
    out_desc 32 ''zones_battery_trouble'' ''Zones Battery Trouble'',
    out_desc 33 ''expander_battery_trouble'' ''Expander Battery Trouble'',
    out_desc 34 ''zone_trouble'' ''Zone Trouble'',
    out_desc 35 ''dialer_active'' ''Dialer Active'',
    out_desc 36 ''ground_start'' ''Ground Start'',
    out_desc 37 ''monitoring_confirmation'' ''Monitoring Confirmation'',
    out_desc 38 ''service_mode_indicator'' ''Service Mode Indicator'',
    out_desc 39 ''vibration_sensors_test'' ''Vibration Sensors Test'',
    out_desc 40 ''cash_machine_bypass_indicator'' ''Cash Machine Bypass Indicator'',
    out_desc 41 ''power_supply'' ''Power Supply'',
    out_desc 42 ''power_supply_armed'' ''Power Supply in Armed State'',
    out_desc 43 ''resettable_power_supply'' ''Resettable Power Supply'',
    out_desc 44 ''fire_detectors_power_supply'' ''Fire Detectors Power Supply'',
    out_desc 45 ''partition_blocked_indicator'' ''Partition Blocked Indicator'',
    out_desc 46 ''outputs_logic_and'' ''Outputs Logic AND'',
    out_desc 47 ''outputs_logic_or'' ''Outputs Logic OR'',
    out_desc 48 ''synthesizer_0'' ''Voice Synthesizer 0'',
    out_desc 49 ''synthesizer_1'' ''Voice Synthesizer 1'',
    out_desc 50 ''synthesizer_2'' ''Voice Synthesizer 2'',
    out_desc 51 ''synthesizer_3'' ''Voice Synthesizer 3'',
    out_desc 52 ''synthesizer_4'' ''Voice Synthesizer 4'',
    out_desc 53 ''synthesizer_5'' ''Voice Synthesizer 5'',
    out_desc 54 ''synthesizer_6'' ''Voice Synthesizer 6'',
    out_desc 55 ''synthesizer_7'' ''Voice Synthesizer 7'',
    out_desc 56 ''synthesizer_8'' ''Voice Synthesizer 8'',
    out_desc 57 ''synthesizer_9'' ''Voice Synthesizer 9'',
    out_desc 58 ''synthesizer_10'' ''Voice Synthesizer 10'',
    out_desc 59 ''synthesizer_11'' ''Voice Synthesizer 11'',
    out_desc 60 ''synthesizer_12'' ''Voice Synthesizer 12'',
    out_desc 61 ''synthesizer_13'' ''Voice Synthesizer 13'',
    out_desc 62 ''synthesizer_14'' ''Voice Synthesizer 14'',
    out_desc 63 ''synthesizer_15'' ''Voice Synthesizer 15'',
    out_desc 64 ''telephone_relay_1'' ''Telephone Relay 1'',
    out_desc 65 ''telephone_relay_2'' ''Telephone Relay 2'',
    out_desc 66 ''telephone_relay_3'' ''Telephone Relay 3'',
    out_desc 67 ''telephone_relay_4'' ''Telephone Relay 4'',
    out_desc 68 ''telephone_relay_5'' ''Telephone Relay 5'',
    out_desc 69 ''telephone_relay_6'' ''Telephone Relay 6'',
    out_desc 70 ''telephone_relay_7'' ''Telephone Relay 7'',
    out_desc 71 ''telephone_relay_8'' ''Telephone Relay 8'',
    out_desc 72 ''telephone_relay_9'' ''Telephone Relay 9'',
    out_desc 73 ''telephone_relay_10'' ''Telephone Relay 10'',
    out_desc 74 ''telephone_relay_11'' ''Telephone Relay 11'',
    out_desc 75 ''telephone_relay_12'' ''Telephone Relay 12'',
    out_desc 76 ''telephone_relay_13'' ''Telephone Relay 13'',
    out_desc 77 ''telephone_relay_14'' ''Telephone Relay 14'',
    out_desc 78 ''telephone_relay_15'' ''Telephone Relay 15'',
    out_desc 79 ''telephone_relay_16'' ''Telephone Relay 16'',
    out_desc 80 ''no_guard_round'' ''No Guard Round'',
    out_desc 81 ''long_main_board_ac_trouble'' ''Long Main Board AC Trouble'',
    out_desc 82 ''long_expanders_ac_trouble'' ''Long Expanders AC Trouble'',
    out_desc 83 ''outputs_signaling_end'' ''Outputs Signaling End'',
    out_desc 84 ''code_entered_signaling'' ''Code Entered Signaling'',
    out_desc 85 ''code_used_signaling'' ''Code Used Signaling'',
    out_desc 86 ''door_open_indicator'' ''Door Open Indicator'',
    out_desc 87 ''door_long_open_indicator'' ''Door Long Open Indicator'',
    out_desc 88 ''burglary_alarm_no_tamper_no_fire'' ''Burglary Alarm (No Tamper, No Fire)'',
    out_desc 89 ''events_memory_50_percent'' ''50% Event Log Full'',
    out_desc 90 ''events_memory_90_percent'' ''90% Event Log Full'',
    out_desc 91 ''auto_arm_delay_signaling'' ''Auto-Arm Delay Signaling'',
    out_desc 92 ''auto_arm_delay_indicator'' ''Auto-Arm Delay Indicator'',
    out_desc 93 ''unauthorized_door_opening'' ''Unauthorized Door Opening'',
    out_desc 94 ''unauthorized_door_opening_alarm'' ''Unauthorized Door Opening Alarm'',
    out_desc 95 ''ip_monitoring_trouble'' ''IP Monitoring Trouble'',
    out_desc 96 ''telephone_line_trouble'' ''Telephone Line Trouble'',
    out_desc 97 ''synthesizer'' ''Voice Synthesizer'',
    out_desc 98 ''telephone_relay'' ''Telephone Relay'',
    out_desc 99 ''card_read'' ''Card Read'',
    out_desc 100 ''card_hold'' ''Card Hold'',
    out_desc 101 ''card_read_in_module'' ''Card Read in Module'',
    out_desc 102 ''wireless_zone_no_comm'' ''Wireless Zone No Comm'',
    out_desc 103 ''wireless_output_no_comm'' ''Wireless Output No Comm'',
    out_desc 104 ''wireless_device_battery_trouble'' ''Wireless Device Low Battery'',
    out_desc 105 ''roller_blind_up'' ''Roller Blind Up'',
    out_desc 106 ''roller_blind_down'' ''Roller Blind Down'',
    out_desc 107 ''expander_card_head_a'' ''Card on Expander Head A'',
    out_desc 108 ''expander_card_head_b'' ''Card on Expander Head B'',
    out_desc 109 ''zones_logic_and'' ''Zones Logic AND'',
    out_desc 110 ''unverified_alarm'' ''Unverified Alarm'',
    out_desc 111 ''verified_alarm'' ''Verified Alarm'',
    out_desc 112 ''verification_without_alarm'' ''Verification Without Alarm'',
    out_desc 113 ''verification_bypass_indicator'' ''Verification Bypass Indicator'',
    out_desc 114 ''zone_test_indicator'' ''Zone Test Indicator'',
    out_desc 115 ''arm_mode_indicator'' ''Arm Mode Indicator'',
    out_desc 116 ''internal_siren'' ''Internal Siren'',
    out_desc 117 ''tamper_indicator'' ''Tamper Indicator'',
    out_desc 118 ''key_fobs_battery_trouble'' ''Key Fobs Low Battery'',
    out_desc 119 ''wireless_jamming_trouble'' ''Wireless Module Jamming'',
    out_desc 120 ''thermostat'' ''Thermostat'',
    out_desc 121 ''zone_masking_signaling'' ''Zone Masking Signaling'',
    out_desc 122 ''zone_masking_indicator'' ''Zone Masking Indicator'',
    out_desc 123 ''module_lock'' ''Module Lock'']"

definition output_function_key :: "output_function \<Rightarrow> string" where
  "output_function_key r =
    (let c = output_function_code r
     in if unat c < length output_function_catalog then ofd_key (output_function_catalog ! unat c)
        else ''unknown'')"

definition output_function_label :: "output_function \<Rightarrow> string" where
  "output_function_label r =
    (let c = output_function_code r
     in if unat c < length output_function_catalog then ofd_label (output_function_catalog ! unat c)
        else ''Unknown'')"

definition is_relay_code :: "u8 \<Rightarrow> bool" where
  "is_relay_code c = (64 \<le> c \<and> c \<le> 79 \<or> c = 98)"

definition function_is_controllable :: "output_function \<Rightarrow> bool" where
  "function_is_controllable f =
    (let c = output_function_code f
     in c = 24 \<or> c = 25 \<or> is_relay_code c \<or> c = 105 \<or> c = 106)"

definition control_from_duration :: "output_function \<Rightarrow> duration option \<Rightarrow> output_control" where
  "control_from_duration f d =
    (let c = output_function_code f
     in if c = 24 \<or> c = 105 \<or> c = 106 then ControlTimed d
        else if c = 25 then ControlBistable
        else if is_relay_code c
        then (case d of
                None \<Rightarrow> ControlUnknown
              | Some t \<Rightarrow> if t = 0 then ControlBistable else ControlTimed (Some t))
        else ControlNone)"

definition output_control_of :: "output_function \<Rightarrow> u16 option \<Rightarrow> output_control" where
  "output_control_of f duration_tenths_sec =
    control_from_duration f (map_option (\<lambda>ds. millis (unat ds * 100)) duration_tenths_sec)"

section \<open>Codes\<close>

definition output_function_listed :: "output_function \<Rightarrow> bool" where
  "output_function_listed f =
    (case f of
       OfSynthesizer n \<Rightarrow> n \<le> 15
     | OfTelephoneRelayNumbered n \<Rightarrow> 1 \<le> n \<and> n \<le> 16
     | OfUnknown c \<Rightarrow> 124 \<le> c
     | _ \<Rightarrow> True)"

lemma output_function_listed_simps [simp]:
  "output_function_listed (OfSynthesizer n) \<longleftrightarrow> n \<le> 15"
  "output_function_listed (OfTelephoneRelayNumbered n) \<longleftrightarrow> 1 \<le> n \<and> n \<le> 16"
  "output_function_listed (OfUnknown c) \<longleftrightarrow> 124 \<le> c"
  by (simp_all add: output_function_listed_def)

lemma output_function_codes_fst:
  "map fst output_function_codes = map word_of_nat ([0..<48] @ [80..<124])"
  by (simp add: output_function_codes_def upt_rec)

lemma output_function_codes_code: "\<forall>(c, f) \<in> set output_function_codes. output_function_code f = c"
  by (simp add: output_function_codes_def)

lemma output_function_codes_range:
  "\<forall>(c, f) \<in> set output_function_codes. unat c < 124 \<and> \<not> (48 \<le> c \<and> c \<le> 63) \<and> \<not> (64 \<le> c \<and> c \<le> 79)"
  by (simp add: output_function_codes_def word_le_nat_alt)

lemma output_function_codes_distinct: "distinct (map fst output_function_codes)"
  by (simp add: output_function_codes_def)

lemma output_function_codes_complete:
  "(output_function_code f, f) \<in> set output_function_codes
    \<or> (\<exists>n. f = OfSynthesizer n) \<or> (\<exists>n. f = OfTelephoneRelayNumbered n) \<or> (\<exists>n. f = OfUnknown n)"
  by (cases f) (simp_all add: output_function_codes_def)

lemma output_function_codes_listed: "\<forall>(c, f) \<in> set output_function_codes. output_function_listed f"
  by (simp add: output_function_codes_def output_function_listed_def)

lemma u8_range_min:
  fixes a b :: u8
  assumes "a \<le> b" and "unat b \<le> unat a + 15"
  shows "a + min (b - a) 15 = b" and "b - a \<le> 15"
proof -
  have "unat (b - a) \<le> 15" using assms by (simp add: unat_sub)
  then show "b - a \<le> 15" by (simp add: word_le_nat_alt)
  then show "a + min (b - a) 15 = b" by (simp add: min_def)
qed

lemma output_function_from_code_cases:
  obtains (synthesizer) "48 \<le> c" "c \<le> 63" "output_function_from_code c = OfSynthesizer (c - 48)"
  | (relay) "64 \<le> c" "c \<le> 79" "output_function_from_code c = OfTelephoneRelayNumbered (c - 64 + 1)"
  | (table) f where "output_function_from_code c = f" "(c, f) \<in> set output_function_codes"
  | (unknown) "output_function_from_code c = OfUnknown c" "map_of output_function_codes c = None"
      "\<not> (48 \<le> c \<and> c \<le> 63)" "\<not> (64 \<le> c \<and> c \<le> 79)"
proof (cases "(48 \<le> c \<and> c \<le> 63) \<or> (64 \<le> c \<and> c \<le> 79)")
  case True
  then show ?thesis
    using that(1,2) by (auto simp: output_function_from_code_def word_le_nat_alt)
next
  case False
  show ?thesis
  proof (cases "map_of output_function_codes c")
    case None
    with False show ?thesis by (intro that(4)) (auto simp: output_function_from_code_def)
  next
    case (Some f)
    then have "(c, f) \<in> set output_function_codes" by (rule map_of_SomeD)
    with Some False show ?thesis by (intro that(3) [of f]) (auto simp: output_function_from_code_def)
  qed
qed

lemma output_function_code_from_code: "output_function_code (output_function_from_code c) = c"
proof (cases c rule: output_function_from_code_cases)
  case synthesizer
  with u8_range_min(1) [of 48 c] show ?thesis by (simp add: word_le_nat_alt)
next
  case relay
  have "64 + (clamp_u8 (c - 64 + 1) 1 16 - 1) = c"
    using relay(1,2) by (intro u8_range_shift(1)) (simp_all add: word_le_nat_alt)
  with relay(3) show ?thesis by simp
next
  case (table f)
  with output_function_codes_code show ?thesis by fastforce
next
  case unknown
  then show ?thesis by simp
qed

lemma output_function_codes_unknown:
  assumes "map_of output_function_codes c = None"
    and "\<not> (48 \<le> c \<and> c \<le> 63)" and "\<not> (64 \<le> c \<and> c \<le> 79)"
  shows "124 \<le> c"
proof (rule ccontr)
  assume "\<not> 124 \<le> c"
  then have "unat c < 124" by (simp add: word_le_nat_alt)
  then have "unat c \<in> set ([0..<48] @ [80..<124])"
    using assms(2,3) unfolding set_append set_upt by (auto simp: word_le_nat_alt)
  then have "word_of_nat (unat c) \<in> set (map fst output_function_codes)"
    unfolding output_function_codes_fst by (metis image_eqI list.set_map)
  with assms(1) show False by (simp add: map_of_eq_None_iff)
qed

lemma output_function_from_code_listed: "output_function_listed (output_function_from_code c)"
proof (cases c rule: output_function_from_code_cases)
  case synthesizer
  with u8_range_min(2) [of 48 c] show ?thesis by (simp add: word_le_nat_alt)
next
  case relay
  with u8_range_shift(2,3) [of 64 c] show ?thesis by (simp add: word_le_nat_alt)
next
  case (table f)
  with output_function_codes_listed show ?thesis by fastforce
next
  case unknown
  with output_function_codes_unknown show ?thesis by simp
qed

lemma output_function_from_code_code:
  assumes "output_function_listed f"
  shows "output_function_from_code (output_function_code f) = f"
proof -
  from output_function_codes_complete [of f]
  consider (code) "(output_function_code f, f) \<in> set output_function_codes"
    | (synthesizer) n where "f = OfSynthesizer n" | (relay) n where "f = OfTelephoneRelayNumbered n"
    | (unknown) c where "f = OfUnknown c"
    by blast
  then show ?thesis
  proof cases
    case code
    with output_function_codes_range
    have "\<not> (48 \<le> output_function_code f \<and> output_function_code f \<le> 63)"
      "\<not> (64 \<le> output_function_code f \<and> output_function_code f \<le> 79)"
      by fastforce+
    with code output_function_codes_distinct show ?thesis
      by (auto simp: output_function_from_code_def)
  next
    case (synthesizer n)
    with assms have n: "n \<le> 15" by simp
    then have "unat (48 + n) = 48 + unat n" by (simp add: unat_word_ariths word_le_nat_alt)
    with n synthesizer show ?thesis
      by (simp add: output_function_from_code_def word_le_nat_alt min_def)
  next
    case (relay n)
    with assms have n: "1 \<le> n" "n \<le> 16" by simp_all
    then have "clamp_u8 n 1 16 = n" by (auto simp: clamp_u8_def)
    moreover have "unat (63 + n) = 63 + unat n"
      using n by (simp add: unat_word_ariths word_le_nat_alt)
    ultimately show ?thesis
      using relay n by (simp add: output_function_from_code_def word_le_nat_alt)
  next
    case (unknown c)
    have "map_of output_function_codes c = None"
      using assms unknown output_function_codes_range
      by (cases "map_of output_function_codes c") (auto simp: word_le_nat_alt dest!: map_of_SomeD)
    with assms unknown show ?thesis
      by (auto simp: output_function_from_code_def word_le_nat_alt)
  qed
qed

interpretation output_cat: code_catalog output_function_code "\<lambda>c. Some (output_function_from_code c)"
  output_function_listed
  by unfold_locales (auto simp: output_function_from_code_code output_function_code_from_code)

lemma output_catalog_codes:
  "map ofd_code output_function_catalog = map word_of_nat [0..<124]"
  by (simp add: output_function_catalog_def out_desc_def upt_rec)

text \<open>
  The codes of output functions are a round trip on every byte, every decoded function is one
  whose code is decoded back to it, and the catalog entry at each code is the entry for that code.
\<close>

theorem output_function_codes_roundtrip:
  "output_function_code (output_function_from_code c) = c
    \<and> (output_function_listed f \<longleftrightarrow> (\<exists>b. f = output_function_from_code b))
    \<and> map ofd_code output_function_catalog = map word_of_nat [0..<124]"
  using output_function_code_from_code output_function_from_code_code output_function_from_code_listed
    output_catalog_codes
  by metis

section \<open>Control\<close>

lemma control_from_duration_none: "control_from_duration f d = ControlNone \<longleftrightarrow> \<not> function_is_controllable f"
  by (auto simp: control_from_duration_def function_is_controllable_def Let_def split: option.splits)

text \<open>
  An output is reported controllable exactly when its control mode is not \<open>None\<close>, whatever
  duration was read; a relay with a duration is timed with that duration, or bistable if it is zero;
  and the mode is left unknown only for a relay whose duration was not read.
\<close>

theorem output_control_consistent:
  "(control_is_controllable (control_from_duration f d) \<longleftrightarrow> function_is_controllable f)
    \<and> (control_from_duration f d = ControlUnknown \<longleftrightarrow> is_relay_code (output_function_code f) \<and> d = None)
    \<and> (control_from_duration f d = ControlBistable \<longleftrightarrow>
         output_function_code f = 25 \<or> is_relay_code (output_function_code f) \<and> d = Some 0)"
  using control_from_duration_none [of f d]
  by (auto simp: control_is_controllable_def control_from_duration_def is_relay_code_def Let_def
      split: option.splits if_splits)

end
