(* ===== verification/Partition_Catalog.thy ===== *)
theory Partition_Catalog
  imports Command
begin

text \<open>
  The partition catalog of \<open>src/src/partition_catalog.rs\<close>: partition types, the option bits, the
  deferral timer of automatic arming and the mask of dependent partitions, each read from the bytes
  of a \<open>0xEE\<close> response.
\<close>

section \<open>Partition types\<close>

datatype partition_type =
  PtNormal | PtTimedBlocking | PtDependentAnd | PtDependentOr | PtUnknown u8

record partition_type_descriptor =
  ptd_code :: u8
  ptd_key :: string
  ptd_label :: string

definition partition_type_catalog :: "partition_type_descriptor list" where
  "partition_type_catalog = [
    \<lparr>ptd_code = 0, ptd_key = ''normal'', ptd_label = ''Normal''\<rparr>,
    \<lparr>ptd_code = 1, ptd_key = ''timed_blocking'', ptd_label = ''With Timed Blocking''\<rparr>,
    \<lparr>ptd_code = 2, ptd_key = ''dependent_and'', ptd_label = ''Dependent (AND)''\<rparr>,
    \<lparr>ptd_code = 3, ptd_key = ''dependent_or'', ptd_label = ''Dependent (OR)''\<rparr>]"

definition partition_type_from_code :: "u8 \<Rightarrow> partition_type" where
  "partition_type_from_code code =
    (if code = 0 then PtNormal
     else if code = 1 then PtTimedBlocking
     else if code = 2 then PtDependentAnd
     else if code = 3 then PtDependentOr
     else PtUnknown code)"

primrec partition_type_code :: "partition_type \<Rightarrow> u8" where
  "partition_type_code PtNormal = 0"
| "partition_type_code PtTimedBlocking = 1"
| "partition_type_code PtDependentAnd = 2"
| "partition_type_code PtDependentOr = 3"
| "partition_type_code (PtUnknown c) = c"

definition partition_type_key :: "partition_type \<Rightarrow> string" where
  "partition_type_key t =
    (let c = partition_type_code t
     in if unat c < length partition_type_catalog then ptd_key (partition_type_catalog ! unat c)
        else ''unknown'')"

definition partition_type_label :: "partition_type \<Rightarrow> string" where
  "partition_type_label t =
    (let c = partition_type_code t
     in if unat c < length partition_type_catalog then ptd_label (partition_type_catalog ! unat c)
        else ''Unknown'')"

fun partition_type_listed :: "partition_type \<Rightarrow> bool" where
  "partition_type_listed (PtUnknown c) = (4 \<le> c)"
| "partition_type_listed _ = True"

section \<open>Options\<close>

record partition_options =
  two_codes_to_arm :: bool
  two_codes_to_disarm :: bool
  timer_priority :: bool
  two_codes_on_two_devices :: bool
  alarm_verification :: bool
  exit_delay_can_be_shortened :: bool
  infinite_exit_delay :: bool
  constant_first_code_validity_period :: bool
  constant_blocking_time :: bool
  do_not_disarm_on_alarm :: bool
  auto_arm_can_be_deferred :: bool
  raw_byte_1 :: u8
  raw_byte_2 :: u8

definition partition_options_from_bytes :: "u8 \<Rightarrow> u8 \<Rightarrow> partition_options" where
  "partition_options_from_bytes b1 b2 =
    \<lparr>two_codes_to_arm = (b1 AND 0x01 \<noteq> 0),
     two_codes_to_disarm = (b1 AND 0x02 \<noteq> 0),
     timer_priority = (b1 AND 0x04 \<noteq> 0),
     two_codes_on_two_devices = (b1 AND 0x08 \<noteq> 0),
     alarm_verification = (b1 AND 0x10 \<noteq> 0),
     exit_delay_can_be_shortened = (b1 AND 0x20 \<noteq> 0),
     infinite_exit_delay = (b1 AND 0x40 \<noteq> 0),
     constant_first_code_validity_period = (b1 AND 0x80 \<noteq> 0),
     constant_blocking_time = (b2 AND 0x01 \<noteq> 0),
     do_not_disarm_on_alarm = (b2 AND 0x02 \<noteq> 0),
     auto_arm_can_be_deferred = (b2 AND 0x80 \<noteq> 0),
     raw_byte_1 = b1,
     raw_byte_2 = b2\<rparr>"

section \<open>Deferral timer\<close>

datatype auto_arm_defer_status = DeferInactive | DeferSet | DeferRunning | DeferUnknown u8

record auto_arm_defer_timer =
  defer_status :: auto_arm_defer_status
  defer_time_s :: u16
  defer_raw :: u16

definition defer_timer_from_raw :: "u16 \<Rightarrow> auto_arm_defer_timer" where
  "defer_timer_from_raw raw =
    (let status_bits = ucast (drop_bit 14 raw) :: u8;
         status = (if status_bits = 0 then DeferInactive
                   else if status_bits = 1 then DeferSet
                   else if status_bits = 2 then DeferRunning
                   else DeferUnknown status_bits)
     in \<lparr>defer_status = status, defer_time_s = raw AND 0x3FFF, defer_raw = raw\<rparr>)"

section \<open>Dependent partitions\<close>

definition le32 :: "u8 \<Rightarrow> u8 \<Rightarrow> u8 \<Rightarrow> u8 \<Rightarrow> u32" where
  "le32 b0 b1 b2 b3 =
    ucast b0 OR push_bit 8 (ucast b1) OR push_bit 16 (ucast b2) OR push_bit 24 (ucast b3)"

record dependent_partitions =
  dependent_raw :: u32

definition dependent_from_bytes :: "u8 \<Rightarrow> u8 \<Rightarrow> u8 \<Rightarrow> u8 \<Rightarrow> dependent_partitions" where
  "dependent_from_bytes b0 b1 b2 b3 = \<lparr>dependent_raw = le32 b0 b1 b2 b3\<rparr>"

definition dependent_contains :: "dependent_partitions \<Rightarrow> u8 \<Rightarrow> bool" where
  "dependent_contains d partition_id =
    (if 1 \<le> partition_id \<and> partition_id \<le> 32
     then tst (dependent_raw d) (unat (partition_id - 1))
     else False)"

definition dependent_list :: "dependent_partitions \<Rightarrow> u8 list" where
  "dependent_list d = filter (dependent_contains d) (map word_of_nat [1..<33])"

section \<open>Laws\<close>

interpretation partition_cat: code_catalog partition_type_code
  "\<lambda>c. Some (partition_type_from_code c)" partition_type_listed
proof
  fix t :: partition_type
  assume "partition_type_listed t"
  then show "Some (partition_type_from_code (partition_type_code t)) = Some t"
    by (cases t) (auto simp: partition_type_from_code_def word_le_nat_alt)
next
  fix c :: u8 and t :: partition_type
  assume "Some (partition_type_from_code c) = Some t"
  then show "partition_type_code t = c"
    by (auto simp: partition_type_from_code_def split: if_splits)
qed

lemma le32_bit:
  "n < 32 \<Longrightarrow> bit (le32 b0 b1 b2 b3) n =
    (if n < 8 then bit b0 n else if n < 16 then bit b1 (n - 8)
     else if n < 24 then bit b2 (n - 16) else bit b3 (n - 24))"
  by (auto simp: le32_def bit_simps dest: bit_imp_le_length)

lemma le32_byte_bit:
  assumes "k < 4" and "j < 8"
  shows "bit (le32 b0 b1 b2 b3) (8 * k + j) = bit ([b0, b1, b2, b3] ! k) j"
proof -
  from assms(1) consider "k = 0" | "k = 1" | "k = 2" | "k = 3" by linarith
  then show ?thesis using assms(2) by cases (simp_all add: le32_bit)
qed

lemma defer_timer_raw:
  "defer_time_s (defer_timer_from_raw raw) < 0x4000
    \<and> raw = push_bit 14 (drop_bit 14 raw) OR defer_time_s (defer_timer_from_raw raw)"
proof -
  have mask: "raw AND 0x3FFF = take_bit 14 raw"
    by (simp add: take_bit_eq_mask mask_eq_exp_minus_1)
  have "unat (take_bit 14 raw) < 2 ^ 14"
    unfolding unsigned_take_bit_eq by (rule take_bit_nat_less_exp)
  then have "take_bit 14 raw < 0x4000" by (simp add: word_less_nat_alt)
  moreover have "raw = push_bit 14 (drop_bit 14 raw) OR take_bit 14 raw"
    by (rule bit_word_eqI) (auto simp: bit_simps)
  ultimately show ?thesis by (simp add: defer_timer_from_raw_def Let_def mask)
qed

text \<open>
  The dependent partitions read from the four mask bytes of an extended response are listed
  exactly by their bits: partition \<open>id\<close> from 1 to 32 is contained when bit \<open>(id - 1) mod 8\<close> of
  byte \<open>(id - 1) div 8\<close> is set, and the list holds exactly the contained partitions, in order.
\<close>

theorem dependent_partitions_mask:
  "(dependent_contains (dependent_from_bytes b0 b1 b2 b3) p \<longleftrightarrow>
      1 \<le> unat p \<and> unat p \<le> 32
      \<and> bit ([b0, b1, b2, b3] ! ((unat p - 1) div 8)) ((unat p - 1) mod 8))
    \<and> set (dependent_list d) = {q. dependent_contains d q}
    \<and> sorted (dependent_list d)"
proof (intro conjI)
  show "dependent_contains (dependent_from_bytes b0 b1 b2 b3) p \<longleftrightarrow>
      1 \<le> unat p \<and> unat p \<le> 32
      \<and> bit ([b0, b1, b2, b3] ! ((unat p - 1) div 8)) ((unat p - 1) mod 8)"
  proof (cases "1 \<le> unat p \<and> unat p \<le> 32")
    case True
    then have n: "unat (p - 1) = unat p - 1" and range: "1 \<le> p" "p \<le> 32"
      by (simp_all add: unat_sub word_le_nat_alt)
    have "(unat p - 1) div 8 < 4" using True by (auto simp: div_less_iff_less_mult)
    then have "bit (le32 b0 b1 b2 b3) (8 * ((unat p - 1) div 8) + (unat p - 1) mod 8)
        = bit ([b0, b1, b2, b3] ! ((unat p - 1) div 8)) ((unat p - 1) mod 8)"
      by (rule le32_byte_bit) simp
    then have "bit (le32 b0 b1 b2 b3) (unat p - 1)
        = bit ([b0, b1, b2, b3] ! ((unat p - 1) div 8)) ((unat p - 1) mod 8)"
      by simp
    moreover have "unat p - 1 < LENGTH(32)" using True by auto
    ultimately show ?thesis
      using True range by (simp add: dependent_contains_def dependent_from_bytes_def tst_iff_bit n)
  next
    case False
    then show ?thesis by (auto simp: dependent_contains_def word_le_nat_alt)
  qed
next
  have "q \<in> set (map word_of_nat [1..<33])" if "dependent_contains d q" for q
  proof -
    have "unat q \<in> set [1..<33]"
      using that by (auto simp: dependent_contains_def word_le_nat_alt split: if_splits)
    moreover have "q = word_of_nat (unat q)" by simp
    ultimately show ?thesis by (metis image_eqI list.set_map)
  qed
  then show "set (dependent_list d) = {q. dependent_contains d q}"
    by (auto simp: dependent_list_def)
next
  have "sorted (map (word_of_nat :: nat \<Rightarrow> u8) [1..<33])" by (simp add: upt_rec)
  then show "sorted (dependent_list d)"
    unfolding dependent_list_def by (rule sorted_wrt_filter)
qed

end
