(* ===== verification/Trouble_Types.thy ===== *)
theory Trouble_Types
  imports Command
begin

text \<open>
  The trouble vocabulary: \<open>TroubleType\<close> with its descriptions (\<open>src/src/state.rs\<close>) and the trouble
  catalog with keys, addressing and availability (\<open>src/src/trouble_catalog.rs\<close>).
\<close>

section \<open>Types\<close>

datatype cme_source = GsmModule u8 | PanelSource

datatype (plugins only:) trouble_type =
      MainBoardAcLoss | MainBoardBatteryLow | MainBoardBatteryMissing | MainBoardOutOverload u8
    | MainBoardKpdPowerOverload | MainBoardExPowerOverload | MainBoardDataBusDt1
    | MainBoardDataBusDt2 | MainBoardDataBusDtm | RtcLoss | NoDtrSignal | ExternalModemInitTrouble
    | ExternalModemCmdTrouble | TelephoneLineNoVoltage | TelephoneLineBadSignal
    | TelephoneLineNoSignal | MonitoringStation1Trouble | MonitoringStation2Trouble
    | EepromRtcTrouble | RamMemoryError | MainPanelRestartMemory | TechnicalZoneTrouble u16
    | ExpanderAcLoss u8 | ExpanderBatteryLow u8 | ExpanderBatteryMissing u8
    | ExpanderSupplyOverload u8 | ExpanderNoComm u8 | ExpanderSubstituted u8 | ExpanderTamper u8
    | ExpanderCardReaderHeadA u8 | ExpanderCardReaderHeadB u8 | ExpanderAcuJammedOrShortCircuit u8
    | KeypadNoComm u8 | KeypadSubstituted u8 | KeypadTamper u8 | KeypadInitError u8
    | KeypadRestart u8 | EthmNoLanCable u8 | EthmPingTrouble u8 | EthmServerIdError u8
    | EthmSatelServerConnectionError u8 | EthmMonitoringStation1Error
    | EthmMonitoringStation2Error | GprsMonitoringStation1Error | GprsMonitoringStation2Error
    | IpMonitoringStation1Trouble | IpMonitoringStation2Trouble | TimeServerTrouble | GsmInitError
    | GsmEthmStation1Error u8 | GsmEthmStation2Error u8 | GsmGprsSim1Station1Error u8
    | GsmGprsSim1Station2Error u8 | GsmGprsSim2Station1Error u8 | GsmGprsSim2Station2Error u8
    | GsmSmsSim1Station1Error u8 | GsmSmsSim1Station2Error u8 | GsmSmsSim2Station1Error u8
    | GsmSmsSim2Station2Error u8 | GsmSimPinError u8 u8 | GsmSimLoggingError u8 u8
    | GsmSimCreditLow u8 u8 | GsmSimSmsError u8 u8 | GsmJamming u8 | GsmSettingsCrcError u8
    | GsmModuleMissing u8 | GsmModuleChanged u8 | GsmServerConnError u8
    | GsmMailServerConnError u8 | GsmNtpServerConnError u8 | WirelessDeviceLowBattery u16
    | WirelessDeviceNoComm u16 | WirelessOutputNoComm u16 | MasterKeyFobLowBattery u8
    | UserKeyFobLowBattery u16 | ZoneLongViolationTrouble u16 | ZoneNoViolationTrouble u16
    | ZoneTamperTrouble u16 | ExpanderRestart u8 | AuxiliaryStmTroubles | GenericTrouble u8 u16

section \<open>Descriptions\<close>

text \<open>The format \<open>{:0k}\<close>: decimal, padded with zeros on the left.\<close>

definition show_pad :: "nat \<Rightarrow> nat \<Rightarrow> string" where
  "show_pad k n = replicate (k - length (show_nat n)) (CHR ''0'') @ show_nat n"

primrec trouble_description :: "trouble_type \<Rightarrow> string" where
  "trouble_description MainBoardAcLoss = ''Main Board: AC Power Loss (230V)''"
| "trouble_description MainBoardBatteryLow = ''Main Board: Battery Low Voltage''"
| "trouble_description MainBoardBatteryMissing = ''Main Board: Battery Missing / Disconnected''"
| "trouble_description (MainBoardOutOverload out) =
    ''Main Board: Supply Output #'' @ show_nat (unat out) @ '' Overload''"
| "trouble_description MainBoardKpdPowerOverload =
    ''Main Board: Keypad Power Supply (+KPD) Overload''"
| "trouble_description MainBoardExPowerOverload =
    ''Main Board: Expander Power Supply (+EX1/+EX2) Overload''"
| "trouble_description MainBoardDataBusDt1 = ''Main Board: Data Bus DT1 Communication Error''"
| "trouble_description MainBoardDataBusDt2 = ''Main Board: Data Bus DT2 Communication Error''"
| "trouble_description MainBoardDataBusDtm = ''Main Board: Data Bus DTM Communication Error''"
| "trouble_description RtcLoss = ''Main Board: Real-Time Clock (RTC) Loss / Not Set''"
| "trouble_description NoDtrSignal = ''Main Board: No DTR Signal on RS-232 Port''"
| "trouble_description ExternalModemInitTrouble =
    ''Main Board: External Modem Initialization Error''"
| "trouble_description ExternalModemCmdTrouble = ''Main Board: External Modem Command Error''"
| "trouble_description TelephoneLineNoVoltage = ''Telephone Line: No Voltage''"
| "trouble_description TelephoneLineBadSignal = ''Telephone Line: Bad Signal''"
| "trouble_description TelephoneLineNoSignal = ''Telephone Line: No Dial Tone''"
| "trouble_description MonitoringStation1Trouble = ''Monitoring: Station 1 Transmission Fault''"
| "trouble_description MonitoringStation2Trouble = ''Monitoring: Station 2 Transmission Fault''"
| "trouble_description EepromRtcTrouble = ''Main Board: EEPROM / RTC Access Trouble''"
| "trouble_description RamMemoryError = ''Main Board: RAM Memory Error''"
| "trouble_description MainPanelRestartMemory = ''Main Board: Panel Restart Latched in Memory''"
| "trouble_description (TechnicalZoneTrouble zone) =
    ''Technical Zone #'' @ show_pad 3 (unat zone) @ '': Trouble Detected''"
| "trouble_description (ExpanderAcLoss xp) =
    ''Expander #'' @ show_pad 2 (unat xp) @ '': AC Power Loss''"
| "trouble_description (ExpanderBatteryLow xp) =
    ''Expander #'' @ show_pad 2 (unat xp) @ '': Battery Low Voltage''"
| "trouble_description (ExpanderBatteryMissing xp) =
    ''Expander #'' @ show_pad 2 (unat xp) @ '': Battery Missing''"
| "trouble_description (ExpanderSupplyOverload xp) =
    ''Expander #'' @ show_pad 2 (unat xp) @ '': Power Supply Overload''"
| "trouble_description (ExpanderNoComm xp) =
    ''Expander #'' @ show_pad 2 (unat xp) @ '': No Communication''"
| "trouble_description (ExpanderSubstituted xp) =
    ''Expander #'' @ show_pad 2 (unat xp) @ '': Substituted / Unknown Hardware''"
| "trouble_description (ExpanderTamper xp) =
    ''Expander #'' @ show_pad 2 (unat xp) @ '': Tamper / Sabotage''"
| "trouble_description (ExpanderCardReaderHeadA xp) =
    ''Expander #'' @ show_pad 2 (unat xp) @ '': Card Reader Head A / Synchro Trouble''"
| "trouble_description (ExpanderCardReaderHeadB xp) =
    ''Expander #'' @ show_pad 2 (unat xp) @ '': Card Reader Head B / Charging Trouble''"
| "trouble_description (ExpanderAcuJammedOrShortCircuit xp) =
    ''Expander #'' @ show_pad 2 (unat xp) @ '': Jammed / Addressable Loop Short Circuit''"
| "trouble_description (KeypadNoComm kpd) =
    ''Keypad #'' @ show_pad 2 (unat kpd) @ '': No Communication''"
| "trouble_description (KeypadSubstituted kpd) =
    ''Keypad #'' @ show_pad 2 (unat kpd) @ '': Substituted Keypad''"
| "trouble_description (KeypadTamper kpd) =
    ''Keypad #'' @ show_pad 2 (unat kpd) @ '': Tamper / Sabotage''"
| "trouble_description (KeypadInitError kpd) =
    ''Keypad #'' @ show_pad 2 (unat kpd) @ '': Initialization Error''"
| "trouble_description (KeypadRestart kpd) =
    ''Keypad #'' @ show_pad 2 (unat kpd) @ '': Restart Latched''"
| "trouble_description (EthmNoLanCable mod_id) =
    ''ETHM-1 #'' @ show_pad 2 (unat mod_id) @ '': Ethernet LAN Cable Unplugged''"
| "trouble_description (EthmPingTrouble mod_id) =
    ''ETHM-1 #'' @ show_pad 2 (unat mod_id) @ '': Ping Network Test Failed''"
| "trouble_description (EthmServerIdError mod_id) =
    ''ETHM-1 #'' @ show_pad 2 (unat mod_id) @ '': SATEL Server MAC/ID Verification Error''"
| "trouble_description (EthmSatelServerConnectionError mod_id) =
    ''ETHM-1 #'' @ show_pad 2 (unat mod_id) @ '': No Connection to SATEL Server''"
| "trouble_description EthmMonitoringStation1Error =
    ''ETHM-1: Monitoring Station 1 Connection Error''"
| "trouble_description EthmMonitoringStation2Error =
    ''ETHM-1: Monitoring Station 2 Connection Error''"
| "trouble_description GprsMonitoringStation1Error = ''INT-GSM: GPRS Monitoring Station 1 Error''"
| "trouble_description GprsMonitoringStation2Error = ''INT-GSM: GPRS Monitoring Station 2 Error''"
| "trouble_description IpMonitoringStation1Trouble =
    ''IP Monitoring: Station 1 Communication Trouble''"
| "trouble_description IpMonitoringStation2Trouble =
    ''IP Monitoring: Station 2 Communication Trouble''"
| "trouble_description TimeServerTrouble = ''Network: NTP Time Synchronization Server Error''"
| "trouble_description GsmInitError = ''INT-GSM: GSM Module Initialization Error''"
| "trouble_description (GsmEthmStation1Error addr) =
    ''INT-GSM (Addr '' @ show_nat (unat addr) @ ''): No ETHM connection to monitoring station 1''"
| "trouble_description (GsmEthmStation2Error addr) =
    ''INT-GSM (Addr '' @ show_nat (unat addr) @ ''): No ETHM connection to monitoring station 2''"
| "trouble_description (GsmGprsSim1Station1Error addr) =
    ''INT-GSM (Addr '' @ show_nat (unat addr) @ ''): No GPRS SIM1 connection to monitoring station 1''"
| "trouble_description (GsmGprsSim1Station2Error addr) =
    ''INT-GSM (Addr '' @ show_nat (unat addr) @ ''): No GPRS SIM1 connection to monitoring station 2''"
| "trouble_description (GsmGprsSim2Station1Error addr) =
    ''INT-GSM (Addr '' @ show_nat (unat addr) @ ''): No GPRS SIM2 connection to monitoring station 1''"
| "trouble_description (GsmGprsSim2Station2Error addr) =
    ''INT-GSM (Addr '' @ show_nat (unat addr) @ ''): No GPRS SIM2 connection to monitoring station 2''"
| "trouble_description (GsmSmsSim1Station1Error addr) =
    ''INT-GSM (Addr '' @ show_nat (unat addr) @ ''): No SMS SIM1 connection to monitoring station 1''"
| "trouble_description (GsmSmsSim1Station2Error addr) =
    ''INT-GSM (Addr '' @ show_nat (unat addr) @ ''): No SMS SIM1 connection to monitoring station 2''"
| "trouble_description (GsmSmsSim2Station1Error addr) =
    ''INT-GSM (Addr '' @ show_nat (unat addr) @ ''): No SMS SIM2 connection to monitoring station 1''"
| "trouble_description (GsmSmsSim2Station2Error addr) =
    ''INT-GSM (Addr '' @ show_nat (unat addr) @ ''): No SMS SIM2 connection to monitoring station 2''"
| "trouble_description (GsmSimPinError md sim) =
    ''INT-GSM (Addr '' @ show_nat (unat md) @ ''): SIM'' @ show_nat (unat sim) @ '' Wrong PIN''"
| "trouble_description (GsmSimLoggingError md sim) =
    ''INT-GSM (Addr '' @ show_nat (unat md) @ ''): SIM'' @ show_nat (unat sim) @ '' Network Registration Error''"
| "trouble_description (GsmSimCreditLow md sim) =
    ''INT-GSM (Addr '' @ show_nat (unat md) @ ''): SIM'' @ show_nat (unat sim) @ '' Account Credit Low''"
| "trouble_description (GsmSimSmsError md sim) =
    ''INT-GSM (Addr '' @ show_nat (unat md) @ ''): SIM'' @ show_nat (unat sim) @ '' SMS Sending Error''"
| "trouble_description (GsmJamming addr) =
    ''INT-GSM (Addr '' @ show_nat (unat addr) @ ''): Cellular Jamming Detected''"
| "trouble_description (GsmSettingsCrcError addr) =
    ''INT-GSM (Addr '' @ show_nat (unat addr) @ ''): Settings CRC Checksum Error''"
| "trouble_description (GsmModuleMissing addr) =
    ''INT-GSM (Addr '' @ show_nat (unat addr) @ ''): Module Missing''"
| "trouble_description (GsmModuleChanged addr) =
    ''INT-GSM (Addr '' @ show_nat (unat addr) @ ''): Module Changed''"
| "trouble_description (GsmServerConnError addr) =
    ''INT-GSM (Addr '' @ show_nat (unat addr) @ ''): Server Connection Error''"
| "trouble_description (GsmMailServerConnError addr) =
    ''INT-GSM (Addr '' @ show_nat (unat addr) @ ''): Mail Server Error''"
| "trouble_description (GsmNtpServerConnError addr) =
    ''INT-GSM (Addr '' @ show_nat (unat addr) @ ''): NTP Server Error''"
| "trouble_description (WirelessDeviceLowBattery zone_id) =
    ''Wireless Sensor (Zone #'' @ show_pad 3 (unat zone_id) @ ''): Low Battery''"
| "trouble_description (WirelessDeviceNoComm zone_id) =
    ''Wireless Sensor (Zone #'' @ show_pad 3 (unat zone_id) @ ''): No Radio Communication''"
| "trouble_description (WirelessOutputNoComm output_id) =
    ''Wireless Output #'' @ show_pad 3 (unat output_id) @ '': No Radio Communication''"
| "trouble_description (MasterKeyFobLowBattery master) =
    ''Master User #'' @ show_pad 2 (unat master) @ '' Key Fob: Low Battery''"
| "trouble_description (UserKeyFobLowBattery user_id) =
    ''User #'' @ show_pad 3 (unat user_id) @ '' Key Fob: Low Battery''"
| "trouble_description (ZoneLongViolationTrouble zone_id) =
    ''Zone #'' @ show_pad 3 (unat zone_id) @ '': Long Violation''"
| "trouble_description (ZoneNoViolationTrouble zone_id) =
    ''Zone #'' @ show_pad 3 (unat zone_id) @ '': No Violation''"
| "trouble_description (ZoneTamperTrouble zone_id) =
    ''Zone #'' @ show_pad 3 (unat zone_id) @ '': Tamper''"
| "trouble_description (ExpanderRestart xp) =
    ''Expander #'' @ show_pad 2 (unat xp) @ '': Restart Latched''"
| "trouble_description AuxiliaryStmTroubles = ''Auxiliary Microprocessor (STM) Trouble''"
| "trouble_description (GenericTrouble part bt) =
    ''Diagnostic Trouble (Part '' @ show_nat (unat (part + 1)) @ '', Bit #'' @ show_pad 3 (unat bt) @ '')''"

section \<open>The catalog\<close>

datatype trouble_domain = DomainZone | DomainOutput

datatype trouble_addressing =
    AddrSingle
  | AddrRange u16 u16
  | AddrPair u16 u16 u16 u16

datatype trouble_address = AddressOne u16 | AddressPair u16 u16

record trouble_descriptor =
  td_key :: string
  td_label :: string
  td_addressing :: trouble_addressing
  td_domain :: "trouble_domain option"
  td_has_memory :: bool
  td_has_state :: bool

definition trouble_desc_custom ::
  "string \<Rightarrow> string \<Rightarrow> trouble_addressing \<Rightarrow> trouble_domain option \<Rightarrow> bool \<Rightarrow> bool \<Rightarrow> trouble_descriptor" where
  "trouble_desc_custom key label addr domain has_state has_memory =
    \<lparr>td_key = key, td_label = label, td_addressing = addr, td_domain = domain,
     td_has_memory = has_memory, td_has_state = has_state\<rparr>"

definition trouble_desc ::
  "string \<Rightarrow> string \<Rightarrow> trouble_addressing \<Rightarrow> trouble_domain option \<Rightarrow> trouble_descriptor" where
  "trouble_desc key label addr domain = trouble_desc_custom key label addr domain True True"

definition trouble_catalog :: "trouble_descriptor list" where
  "trouble_catalog = [
    trouble_desc ''main_board_ac_loss'' ''Main Board: AC Power Loss (230V)'' AddrSingle None,
    trouble_desc ''main_board_battery_low'' ''Main Board: Battery Low Voltage'' AddrSingle None,
    trouble_desc ''main_board_battery_missing'' ''Main Board: Battery Missing / Disconnected'' AddrSingle None,
    trouble_desc ''main_board_out_overload'' ''Main Board: Supply Output Overload'' (AddrRange 1 4) None,
    trouble_desc ''main_board_kpd_power_overload'' ''Main Board: Keypad Power Supply (+KPD) Overload'' AddrSingle None,
    trouble_desc ''main_board_ex_power_overload'' ''Main Board: Expander Power Supply (+EX1/+EX2) Overload'' AddrSingle None,
    trouble_desc ''main_board_data_bus_dt1'' ''Main Board: Data Bus DT1 Communication Error'' AddrSingle None,
    trouble_desc ''main_board_data_bus_dt2'' ''Main Board: Data Bus DT2 Communication Error'' AddrSingle None,
    trouble_desc ''main_board_data_bus_dtm'' ''Main Board: Data Bus DTM Communication Error'' AddrSingle None,
    trouble_desc ''rtc_loss'' ''Main Board: Real-Time Clock (RTC) Loss / Not Set'' AddrSingle None,
    trouble_desc ''no_dtr_signal'' ''Main Board: No DTR Signal on RS-232 Port'' AddrSingle None,
    trouble_desc ''external_modem_init_trouble'' ''Main Board: External Modem Initialization Error'' AddrSingle None,
    trouble_desc ''external_modem_cmd_trouble'' ''Main Board: External Modem Command Error'' AddrSingle None,
    trouble_desc ''telephone_line_no_voltage'' ''Telephone Line: No Voltage'' AddrSingle None,
    trouble_desc ''telephone_line_bad_signal'' ''Telephone Line: Bad Signal'' AddrSingle None,
    trouble_desc ''telephone_line_no_signal'' ''Telephone Line: No Dial Tone'' AddrSingle None,
    trouble_desc ''monitoring_station1_trouble'' ''Monitoring: Station 1 Transmission Fault'' AddrSingle None,
    trouble_desc ''monitoring_station2_trouble'' ''Monitoring: Station 2 Transmission Fault'' AddrSingle None,
    trouble_desc ''eeprom_rtc_trouble'' ''Main Board: EEPROM / RTC Access Trouble'' AddrSingle None,
    trouble_desc ''ram_memory_error'' ''Main Board: RAM Memory Error'' AddrSingle None,
    trouble_desc ''main_panel_restart'' ''Main Board: Panel Restart Latched'' AddrSingle None,
    trouble_desc ''technical_zone_trouble'' ''Technical Zone: Trouble Detected'' (AddrRange 1 256) (Some DomainZone),
    trouble_desc ''expander_ac_loss'' ''Expander: AC Power Loss'' (AddrRange 1 64) None,
    trouble_desc ''expander_battery_low'' ''Expander: Battery Low Voltage'' (AddrRange 1 64) None,
    trouble_desc ''expander_battery_missing'' ''Expander: Battery Missing'' (AddrRange 1 64) None,
    trouble_desc ''expander_supply_overload'' ''Expander: Power Supply Overload'' (AddrRange 1 64) None,
    trouble_desc ''expander_no_comm'' ''Expander: No Communication'' (AddrRange 1 64) None,
    trouble_desc ''expander_substituted'' ''Expander: Substituted / Unknown Hardware'' (AddrRange 1 64) None,
    trouble_desc ''expander_tamper'' ''Expander: Tamper / Sabotage'' (AddrRange 1 64) None,
    trouble_desc ''expander_card_reader_head_a'' ''Expander: Card Reader Head A / Synchro Trouble'' (AddrRange 1 64) None,
    trouble_desc ''expander_card_reader_head_b'' ''Expander: Card Reader Head B / Charging Trouble'' (AddrRange 1 64) None,
    trouble_desc ''expander_acu_jammed_or_short_circuit'' ''Expander: Jammed / Addressable Loop Short Circuit'' (AddrRange 1 30) None,
    trouble_desc ''keypad_no_comm'' ''Keypad: No Communication'' (AddrRange 1 8) None,
    trouble_desc ''keypad_substituted'' ''Keypad: Substituted'' (AddrRange 1 8) None,
    trouble_desc ''keypad_tamper'' ''Keypad: Tamper / Sabotage'' (AddrRange 1 8) None,
    trouble_desc ''keypad_init_error'' ''Keypad: Initialization Error'' (AddrRange 1 8) None,
    trouble_desc ''ethm_no_lan_cable'' ''ETHM-1: Ethernet LAN Cable Unplugged'' (AddrRange 1 8) None,
    trouble_desc ''gsm_ethm_station_1_error'' ''INT-GSM/ETHM-1: Station 1 Transmission Error'' (AddrRange 0 7) None,
    trouble_desc ''gsm_ethm_station_2_error'' ''INT-GSM/ETHM-1: Station 2 Transmission Error'' (AddrRange 0 7) None,
    trouble_desc ''gsm_gprs_sim1_station_1_error'' ''INT-GSM: GPRS SIM 1 Station 1 Error'' (AddrRange 0 7) None,
    trouble_desc ''gsm_gprs_sim1_station_2_error'' ''INT-GSM: GPRS SIM 1 Station 2 Error'' (AddrRange 0 7) None,
    trouble_desc ''gsm_gprs_sim2_station_1_error'' ''INT-GSM: GPRS SIM 2 Station 1 Error'' (AddrRange 0 7) None,
    trouble_desc ''gsm_gprs_sim2_station_2_error'' ''INT-GSM: GPRS SIM 2 Station 2 Error'' (AddrRange 0 7) None,
    trouble_desc ''gsm_sms_sim1_station_1_error'' ''INT-GSM: SMS SIM 1 Station 1 Error'' (AddrRange 0 7) None,
    trouble_desc ''gsm_sms_sim1_station_2_error'' ''INT-GSM: SMS SIM 1 Station 2 Error'' (AddrRange 0 7) None,
    trouble_desc ''gsm_sms_sim2_station_1_error'' ''INT-GSM: SMS SIM 2 Station 1 Error'' (AddrRange 0 7) None,
    trouble_desc ''gsm_sms_sim2_station_2_error'' ''INT-GSM: SMS SIM 2 Station 2 Error'' (AddrRange 0 7) None,
    trouble_desc_custom ''zone_long_violation_trouble'' ''Zone: Long Violation'' (AddrRange 1 256) (Some DomainZone) False True,
    trouble_desc_custom ''zone_no_violation_trouble'' ''Zone: No Violation'' (AddrRange 1 256) (Some DomainZone) False True,
    trouble_desc_custom ''zone_tamper_trouble'' ''Zone: Tamper'' (AddrRange 1 256) (Some DomainZone) False True,
    trouble_desc_custom ''expander_restart'' ''Expander: Restart'' (AddrRange 1 64) None False True,
    trouble_desc_custom ''keypad_restart'' ''Keypad: Restart'' (AddrRange 1 8) None False True,
    trouble_desc ''ethm_ping_trouble'' ''ETHM-1: Ping Network Test Failed'' (AddrRange 1 8) None,
    trouble_desc ''ethm_server_id_error'' ''ETHM-1: SATEL Server MAC/ID Verification Error'' (AddrRange 1 8) None,
    trouble_desc ''ethm_satel_server_connection_error'' ''ETHM-1: No Connection to SATEL Server'' (AddrRange 1 8) None,
    trouble_desc ''ethm_monitoring_station1_error'' ''ETHM-1: Monitoring Station 1 Connection Error'' AddrSingle None,
    trouble_desc ''ethm_monitoring_station2_error'' ''ETHM-1: Monitoring Station 2 Connection Error'' AddrSingle None,
    trouble_desc ''gprs_monitoring_station1_error'' ''INT-GSM: GPRS Monitoring Station 1 Error'' AddrSingle None,
    trouble_desc ''gprs_monitoring_station2_error'' ''INT-GSM: GPRS Monitoring Station 2 Error'' AddrSingle None,
    trouble_desc ''ip_monitoring_station1_trouble'' ''IP Monitoring: Station 1 Communication Trouble'' AddrSingle None,
    trouble_desc ''ip_monitoring_station2_trouble'' ''IP Monitoring: Station 2 Communication Trouble'' AddrSingle None,
    trouble_desc ''time_server_trouble'' ''Network: NTP Time Synchronization Server Error'' AddrSingle None,
    trouble_desc ''gsm_init_error'' ''INT-GSM: Module Initialization Error'' AddrSingle None,
    trouble_desc ''gsm_jamming'' ''INT-GSM: Cellular Jamming Detected'' (AddrRange 0 7) None,
    trouble_desc ''gsm_sim_pin_error'' ''INT-GSM: SIM Wrong PIN'' (AddrPair 0 7 1 2) None,
    trouble_desc ''gsm_sim_logging_error'' ''INT-GSM: SIM Network Registration Error'' (AddrPair 0 7 1 2) None,
    trouble_desc ''gsm_sim_credit_low'' ''INT-GSM: SIM Account Credit Low'' (AddrPair 0 7 1 2) None,
    trouble_desc ''gsm_sim_sms_error'' ''INT-GSM: SIM SMS Sending Error'' (AddrPair 0 7 1 2) None,
    trouble_desc ''gsm_settings_crc_error'' ''INT-GSM: Settings CRC Checksum Error'' (AddrRange 0 7) None,
    trouble_desc ''gsm_module_missing'' ''INT-GSM: Module Missing'' (AddrRange 0 7) None,
    trouble_desc ''gsm_module_changed'' ''INT-GSM: Module Changed'' (AddrRange 0 7) None,
    trouble_desc ''gsm_server_conn_error'' ''INT-GSM: Server Connection Error'' (AddrRange 0 7) None,
    trouble_desc ''gsm_mail_server_conn_error'' ''INT-GSM: Mail Server Error'' (AddrRange 0 7) None,
    trouble_desc ''gsm_ntp_server_conn_error'' ''INT-GSM: NTP Server Error'' (AddrRange 0 7) None,
    trouble_desc ''wireless_device_low_battery'' ''Wireless Sensor: Low Battery'' (AddrRange 17 256) (Some DomainZone),
    trouble_desc ''wireless_device_no_comm'' ''Wireless Sensor: No Radio Communication'' (AddrRange 17 256) (Some DomainZone),
    trouble_desc ''wireless_output_no_comm'' ''Wireless Output: No Radio Communication'' (AddrRange 17 256) (Some DomainOutput),
    trouble_desc_custom ''master_key_fob_low_battery'' ''Master User Key Fob: Low Battery'' (AddrRange 1 8) None True False,
    trouble_desc_custom ''user_key_fob_low_battery'' ''User Key Fob: Low Battery'' (AddrRange 1 240) None True False,
    trouble_desc ''auxiliary_stm_troubles'' ''Auxiliary Microprocessor (STM) Trouble'' AddrSingle None]"

primrec trouble_key :: "trouble_type \<Rightarrow> string option" where
  "trouble_key MainBoardAcLoss = Some ''main_board_ac_loss''"
| "trouble_key MainBoardBatteryLow = Some ''main_board_battery_low''"
| "trouble_key MainBoardBatteryMissing = Some ''main_board_battery_missing''"
| "trouble_key (MainBoardOutOverload n) = Some ''main_board_out_overload''"
| "trouble_key MainBoardKpdPowerOverload = Some ''main_board_kpd_power_overload''"
| "trouble_key MainBoardExPowerOverload = Some ''main_board_ex_power_overload''"
| "trouble_key MainBoardDataBusDt1 = Some ''main_board_data_bus_dt1''"
| "trouble_key MainBoardDataBusDt2 = Some ''main_board_data_bus_dt2''"
| "trouble_key MainBoardDataBusDtm = Some ''main_board_data_bus_dtm''"
| "trouble_key RtcLoss = Some ''rtc_loss''"
| "trouble_key NoDtrSignal = Some ''no_dtr_signal''"
| "trouble_key ExternalModemInitTrouble = Some ''external_modem_init_trouble''"
| "trouble_key ExternalModemCmdTrouble = Some ''external_modem_cmd_trouble''"
| "trouble_key TelephoneLineNoVoltage = Some ''telephone_line_no_voltage''"
| "trouble_key TelephoneLineBadSignal = Some ''telephone_line_bad_signal''"
| "trouble_key TelephoneLineNoSignal = Some ''telephone_line_no_signal''"
| "trouble_key MonitoringStation1Trouble = Some ''monitoring_station1_trouble''"
| "trouble_key MonitoringStation2Trouble = Some ''monitoring_station2_trouble''"
| "trouble_key EepromRtcTrouble = Some ''eeprom_rtc_trouble''"
| "trouble_key RamMemoryError = Some ''ram_memory_error''"
| "trouble_key MainPanelRestartMemory = Some ''main_panel_restart''"
| "trouble_key (TechnicalZoneTrouble w) = Some ''technical_zone_trouble''"
| "trouble_key (ExpanderAcLoss n) = Some ''expander_ac_loss''"
| "trouble_key (ExpanderBatteryLow n) = Some ''expander_battery_low''"
| "trouble_key (ExpanderBatteryMissing n) = Some ''expander_battery_missing''"
| "trouble_key (ExpanderSupplyOverload n) = Some ''expander_supply_overload''"
| "trouble_key (ExpanderNoComm n) = Some ''expander_no_comm''"
| "trouble_key (ExpanderSubstituted n) = Some ''expander_substituted''"
| "trouble_key (ExpanderTamper n) = Some ''expander_tamper''"
| "trouble_key (ExpanderCardReaderHeadA n) = Some ''expander_card_reader_head_a''"
| "trouble_key (ExpanderCardReaderHeadB n) = Some ''expander_card_reader_head_b''"
| "trouble_key (ExpanderAcuJammedOrShortCircuit n) = Some ''expander_acu_jammed_or_short_circuit''"
| "trouble_key (KeypadNoComm n) = Some ''keypad_no_comm''"
| "trouble_key (KeypadSubstituted n) = Some ''keypad_substituted''"
| "trouble_key (KeypadTamper n) = Some ''keypad_tamper''"
| "trouble_key (KeypadInitError n) = Some ''keypad_init_error''"
| "trouble_key (EthmNoLanCable n) = Some ''ethm_no_lan_cable''"
| "trouble_key (EthmPingTrouble n) = Some ''ethm_ping_trouble''"
| "trouble_key (EthmServerIdError n) = Some ''ethm_server_id_error''"
| "trouble_key (EthmSatelServerConnectionError n) = Some ''ethm_satel_server_connection_error''"
| "trouble_key EthmMonitoringStation1Error = Some ''ethm_monitoring_station1_error''"
| "trouble_key EthmMonitoringStation2Error = Some ''ethm_monitoring_station2_error''"
| "trouble_key GprsMonitoringStation1Error = Some ''gprs_monitoring_station1_error''"
| "trouble_key GprsMonitoringStation2Error = Some ''gprs_monitoring_station2_error''"
| "trouble_key IpMonitoringStation1Trouble = Some ''ip_monitoring_station1_trouble''"
| "trouble_key IpMonitoringStation2Trouble = Some ''ip_monitoring_station2_trouble''"
| "trouble_key TimeServerTrouble = Some ''time_server_trouble''"
| "trouble_key GsmInitError = Some ''gsm_init_error''"
| "trouble_key (GsmJamming n) = Some ''gsm_jamming''"
| "trouble_key (GsmSimPinError md sim) = Some ''gsm_sim_pin_error''"
| "trouble_key (GsmSimLoggingError md sim) = Some ''gsm_sim_logging_error''"
| "trouble_key (GsmSimCreditLow md sim) = Some ''gsm_sim_credit_low''"
| "trouble_key (GsmSimSmsError md sim) = Some ''gsm_sim_sms_error''"
| "trouble_key (GsmSettingsCrcError n) = Some ''gsm_settings_crc_error''"
| "trouble_key (GsmModuleMissing n) = Some ''gsm_module_missing''"
| "trouble_key (GsmModuleChanged n) = Some ''gsm_module_changed''"
| "trouble_key (GsmServerConnError n) = Some ''gsm_server_conn_error''"
| "trouble_key (GsmMailServerConnError n) = Some ''gsm_mail_server_conn_error''"
| "trouble_key (GsmNtpServerConnError n) = Some ''gsm_ntp_server_conn_error''"
| "trouble_key (WirelessDeviceLowBattery zone_id) = Some ''wireless_device_low_battery''"
| "trouble_key (WirelessDeviceNoComm zone_id) = Some ''wireless_device_no_comm''"
| "trouble_key (WirelessOutputNoComm output_id) = Some ''wireless_output_no_comm''"
| "trouble_key (MasterKeyFobLowBattery n) = Some ''master_key_fob_low_battery''"
| "trouble_key (UserKeyFobLowBattery user_id) = Some ''user_key_fob_low_battery''"
| "trouble_key (GsmEthmStation1Error n) = Some ''gsm_ethm_station_1_error''"
| "trouble_key (GsmEthmStation2Error n) = Some ''gsm_ethm_station_2_error''"
| "trouble_key (GsmGprsSim1Station1Error n) = Some ''gsm_gprs_sim1_station_1_error''"
| "trouble_key (GsmGprsSim1Station2Error n) = Some ''gsm_gprs_sim1_station_2_error''"
| "trouble_key (GsmGprsSim2Station1Error n) = Some ''gsm_gprs_sim2_station_1_error''"
| "trouble_key (GsmGprsSim2Station2Error n) = Some ''gsm_gprs_sim2_station_2_error''"
| "trouble_key (GsmSmsSim1Station1Error n) = Some ''gsm_sms_sim1_station_1_error''"
| "trouble_key (GsmSmsSim1Station2Error n) = Some ''gsm_sms_sim1_station_2_error''"
| "trouble_key (GsmSmsSim2Station1Error n) = Some ''gsm_sms_sim2_station_1_error''"
| "trouble_key (GsmSmsSim2Station2Error n) = Some ''gsm_sms_sim2_station_2_error''"
| "trouble_key (ZoneLongViolationTrouble w) = Some ''zone_long_violation_trouble''"
| "trouble_key (ZoneNoViolationTrouble w) = Some ''zone_no_violation_trouble''"
| "trouble_key (ZoneTamperTrouble w) = Some ''zone_tamper_trouble''"
| "trouble_key (ExpanderRestart n) = Some ''expander_restart''"
| "trouble_key (KeypadRestart n) = Some ''keypad_restart''"
| "trouble_key AuxiliaryStmTroubles = Some ''auxiliary_stm_troubles''"
| "trouble_key (GenericTrouble part bt) = None"

primrec trouble_address_of :: "trouble_type \<Rightarrow> trouble_address option" where
  "trouble_address_of MainBoardAcLoss = Some (AddressOne 1)"
| "trouble_address_of MainBoardBatteryLow = Some (AddressOne 1)"
| "trouble_address_of MainBoardBatteryMissing = Some (AddressOne 1)"
| "trouble_address_of (MainBoardOutOverload n) = Some (AddressOne (ucast n))"
| "trouble_address_of MainBoardKpdPowerOverload = Some (AddressOne 1)"
| "trouble_address_of MainBoardExPowerOverload = Some (AddressOne 1)"
| "trouble_address_of MainBoardDataBusDt1 = Some (AddressOne 1)"
| "trouble_address_of MainBoardDataBusDt2 = Some (AddressOne 1)"
| "trouble_address_of MainBoardDataBusDtm = Some (AddressOne 1)"
| "trouble_address_of RtcLoss = Some (AddressOne 1)"
| "trouble_address_of NoDtrSignal = Some (AddressOne 1)"
| "trouble_address_of ExternalModemInitTrouble = Some (AddressOne 1)"
| "trouble_address_of ExternalModemCmdTrouble = Some (AddressOne 1)"
| "trouble_address_of TelephoneLineNoVoltage = Some (AddressOne 1)"
| "trouble_address_of TelephoneLineBadSignal = Some (AddressOne 1)"
| "trouble_address_of TelephoneLineNoSignal = Some (AddressOne 1)"
| "trouble_address_of MonitoringStation1Trouble = Some (AddressOne 1)"
| "trouble_address_of MonitoringStation2Trouble = Some (AddressOne 1)"
| "trouble_address_of EepromRtcTrouble = Some (AddressOne 1)"
| "trouble_address_of RamMemoryError = Some (AddressOne 1)"
| "trouble_address_of MainPanelRestartMemory = Some (AddressOne 1)"
| "trouble_address_of (TechnicalZoneTrouble w) = Some (AddressOne w)"
| "trouble_address_of (ExpanderAcLoss n) = Some (AddressOne (ucast n))"
| "trouble_address_of (ExpanderBatteryLow n) = Some (AddressOne (ucast n))"
| "trouble_address_of (ExpanderBatteryMissing n) = Some (AddressOne (ucast n))"
| "trouble_address_of (ExpanderSupplyOverload n) = Some (AddressOne (ucast n))"
| "trouble_address_of (ExpanderNoComm n) = Some (AddressOne (ucast n))"
| "trouble_address_of (ExpanderSubstituted n) = Some (AddressOne (ucast n))"
| "trouble_address_of (ExpanderTamper n) = Some (AddressOne (ucast n))"
| "trouble_address_of (ExpanderCardReaderHeadA n) = Some (AddressOne (ucast n))"
| "trouble_address_of (ExpanderCardReaderHeadB n) = Some (AddressOne (ucast n))"
| "trouble_address_of (ExpanderAcuJammedOrShortCircuit n) = Some (AddressOne (ucast n))"
| "trouble_address_of (KeypadNoComm n) = Some (AddressOne (ucast n))"
| "trouble_address_of (KeypadSubstituted n) = Some (AddressOne (ucast n))"
| "trouble_address_of (KeypadTamper n) = Some (AddressOne (ucast n))"
| "trouble_address_of (KeypadInitError n) = Some (AddressOne (ucast n))"
| "trouble_address_of (KeypadRestart n) = Some (AddressOne (ucast n))"
| "trouble_address_of (EthmNoLanCable n) = Some (AddressOne (ucast n))"
| "trouble_address_of (EthmPingTrouble n) = Some (AddressOne (ucast n))"
| "trouble_address_of (EthmServerIdError n) = Some (AddressOne (ucast n))"
| "trouble_address_of (EthmSatelServerConnectionError n) = Some (AddressOne (ucast n))"
| "trouble_address_of EthmMonitoringStation1Error = Some (AddressOne 1)"
| "trouble_address_of EthmMonitoringStation2Error = Some (AddressOne 1)"
| "trouble_address_of GprsMonitoringStation1Error = Some (AddressOne 1)"
| "trouble_address_of GprsMonitoringStation2Error = Some (AddressOne 1)"
| "trouble_address_of IpMonitoringStation1Trouble = Some (AddressOne 1)"
| "trouble_address_of IpMonitoringStation2Trouble = Some (AddressOne 1)"
| "trouble_address_of TimeServerTrouble = Some (AddressOne 1)"
| "trouble_address_of GsmInitError = Some (AddressOne 1)"
| "trouble_address_of (GsmEthmStation1Error n) = Some (AddressOne (ucast n))"
| "trouble_address_of (GsmEthmStation2Error n) = Some (AddressOne (ucast n))"
| "trouble_address_of (GsmGprsSim1Station1Error n) = Some (AddressOne (ucast n))"
| "trouble_address_of (GsmGprsSim1Station2Error n) = Some (AddressOne (ucast n))"
| "trouble_address_of (GsmGprsSim2Station1Error n) = Some (AddressOne (ucast n))"
| "trouble_address_of (GsmGprsSim2Station2Error n) = Some (AddressOne (ucast n))"
| "trouble_address_of (GsmSmsSim1Station1Error n) = Some (AddressOne (ucast n))"
| "trouble_address_of (GsmSmsSim1Station2Error n) = Some (AddressOne (ucast n))"
| "trouble_address_of (GsmSmsSim2Station1Error n) = Some (AddressOne (ucast n))"
| "trouble_address_of (GsmSmsSim2Station2Error n) = Some (AddressOne (ucast n))"
| "trouble_address_of (GsmSimPinError md sim) = Some (AddressPair (ucast md) (ucast sim))"
| "trouble_address_of (GsmSimLoggingError md sim) = Some (AddressPair (ucast md) (ucast sim))"
| "trouble_address_of (GsmSimCreditLow md sim) = Some (AddressPair (ucast md) (ucast sim))"
| "trouble_address_of (GsmSimSmsError md sim) = Some (AddressPair (ucast md) (ucast sim))"
| "trouble_address_of (GsmJamming n) = Some (AddressOne (ucast n))"
| "trouble_address_of (GsmSettingsCrcError n) = Some (AddressOne (ucast n))"
| "trouble_address_of (GsmModuleMissing n) = Some (AddressOne (ucast n))"
| "trouble_address_of (GsmModuleChanged n) = Some (AddressOne (ucast n))"
| "trouble_address_of (GsmServerConnError n) = Some (AddressOne (ucast n))"
| "trouble_address_of (GsmMailServerConnError n) = Some (AddressOne (ucast n))"
| "trouble_address_of (GsmNtpServerConnError n) = Some (AddressOne (ucast n))"
| "trouble_address_of (WirelessDeviceLowBattery zone_id) = Some (AddressOne zone_id)"
| "trouble_address_of (WirelessDeviceNoComm zone_id) = Some (AddressOne zone_id)"
| "trouble_address_of (WirelessOutputNoComm output_id) = Some (AddressOne output_id)"
| "trouble_address_of (MasterKeyFobLowBattery n) = Some (AddressOne (ucast n))"
| "trouble_address_of (UserKeyFobLowBattery user_id) = Some (AddressOne user_id)"
| "trouble_address_of (ZoneLongViolationTrouble w) = Some (AddressOne w)"
| "trouble_address_of (ZoneNoViolationTrouble w) = Some (AddressOne w)"
| "trouble_address_of (ZoneTamperTrouble w) = Some (AddressOne w)"
| "trouble_address_of (ExpanderRestart n) = Some (AddressOne (ucast n))"
| "trouble_address_of AuxiliaryStmTroubles = Some (AddressOne 1)"
| "trouble_address_of (GenericTrouble part bt) = None"

section \<open>Agreement of the catalog with the types\<close>

fun address_announced :: "trouble_addressing \<Rightarrow> trouble_address \<Rightarrow> bool" where
  "address_announced AddrSingle (AddressOne n) = (n = 1)"
| "address_announced (AddrRange lo hi) (AddressOne n) = (lo \<le> n \<and> n \<le> hi)"
| "address_announced (AddrPair alo ahi blo bhi) (AddressPair a b) =
    (alo \<le> a \<and> a \<le> ahi \<and> blo \<le> b \<and> b \<le> bhi)"
| "address_announced _ _ = False"

text \<open>What the number of a trouble counts: zones, outputs, or neither (modules, stations, users).\<close>

fun numbered_domain :: "trouble_type \<Rightarrow> trouble_domain option" where
  "numbered_domain (TechnicalZoneTrouble n) = Some DomainZone"
| "numbered_domain (ZoneLongViolationTrouble n) = Some DomainZone"
| "numbered_domain (ZoneNoViolationTrouble n) = Some DomainZone"
| "numbered_domain (ZoneTamperTrouble n) = Some DomainZone"
| "numbered_domain (WirelessDeviceLowBattery n) = Some DomainZone"
| "numbered_domain (WirelessDeviceNoComm n) = Some DomainZone"
| "numbered_domain (WirelessOutputNoComm n) = Some DomainOutput"
| "numbered_domain _ = None"

text \<open>
  A trouble state (or its memory) is announced when the catalog has an entry with its key whose domain
  is what its number counts, whose addressing covers its address and which says that the state (or
  the memory) is available.
\<close>

definition trouble_announced :: "trouble_type \<Rightarrow> bool \<Rightarrow> bool" where
  "trouble_announced t memory =
    (\<exists>d \<in> set trouble_catalog. trouble_key t = Some (td_key d) \<and> td_domain d = numbered_domain t
      \<and> (case trouble_address_of t of
           Some a \<Rightarrow> address_announced (td_addressing d) a
         | None \<Rightarrow> False)
      \<and> (if memory then td_has_memory d else td_has_state d))"

lemma trouble_announcedI:
  assumes "trouble_desc_custom key label addr domain st me \<in> set trouble_catalog"
    and "trouble_key t = Some key" and "trouble_address_of t = Some a"
    and "address_announced addr a" and "if memory then me else st" and "numbered_domain t = domain"
  shows "trouble_announced t memory"
  unfolding trouble_announced_def
  by (rule bexI [OF _ assms(1)]) (use assms(2-6) in \<open>simp add: trouble_desc_custom_def\<close>)

lemma trouble_catalog_entries:
  "trouble_desc_custom ''main_board_ac_loss'' ''Main Board: AC Power Loss (230V)'' AddrSingle None True True \<in> set trouble_catalog"
  "trouble_desc_custom ''main_board_battery_low'' ''Main Board: Battery Low Voltage'' AddrSingle None True True \<in> set trouble_catalog"
  "trouble_desc_custom ''main_board_battery_missing'' ''Main Board: Battery Missing / Disconnected'' AddrSingle None True True \<in> set trouble_catalog"
  "trouble_desc_custom ''main_board_out_overload'' ''Main Board: Supply Output Overload'' (AddrRange 1 4) None True True \<in> set trouble_catalog"
  "trouble_desc_custom ''main_board_kpd_power_overload'' ''Main Board: Keypad Power Supply (+KPD) Overload'' AddrSingle None True True \<in> set trouble_catalog"
  "trouble_desc_custom ''main_board_ex_power_overload'' ''Main Board: Expander Power Supply (+EX1/+EX2) Overload'' AddrSingle None True True \<in> set trouble_catalog"
  "trouble_desc_custom ''main_board_data_bus_dt1'' ''Main Board: Data Bus DT1 Communication Error'' AddrSingle None True True \<in> set trouble_catalog"
  "trouble_desc_custom ''main_board_data_bus_dt2'' ''Main Board: Data Bus DT2 Communication Error'' AddrSingle None True True \<in> set trouble_catalog"
  "trouble_desc_custom ''main_board_data_bus_dtm'' ''Main Board: Data Bus DTM Communication Error'' AddrSingle None True True \<in> set trouble_catalog"
  "trouble_desc_custom ''rtc_loss'' ''Main Board: Real-Time Clock (RTC) Loss / Not Set'' AddrSingle None True True \<in> set trouble_catalog"
  "trouble_desc_custom ''no_dtr_signal'' ''Main Board: No DTR Signal on RS-232 Port'' AddrSingle None True True \<in> set trouble_catalog"
  "trouble_desc_custom ''external_modem_init_trouble'' ''Main Board: External Modem Initialization Error'' AddrSingle None True True \<in> set trouble_catalog"
  "trouble_desc_custom ''external_modem_cmd_trouble'' ''Main Board: External Modem Command Error'' AddrSingle None True True \<in> set trouble_catalog"
  "trouble_desc_custom ''telephone_line_no_voltage'' ''Telephone Line: No Voltage'' AddrSingle None True True \<in> set trouble_catalog"
  "trouble_desc_custom ''telephone_line_bad_signal'' ''Telephone Line: Bad Signal'' AddrSingle None True True \<in> set trouble_catalog"
  "trouble_desc_custom ''telephone_line_no_signal'' ''Telephone Line: No Dial Tone'' AddrSingle None True True \<in> set trouble_catalog"
  "trouble_desc_custom ''monitoring_station1_trouble'' ''Monitoring: Station 1 Transmission Fault'' AddrSingle None True True \<in> set trouble_catalog"
  "trouble_desc_custom ''monitoring_station2_trouble'' ''Monitoring: Station 2 Transmission Fault'' AddrSingle None True True \<in> set trouble_catalog"
  "trouble_desc_custom ''eeprom_rtc_trouble'' ''Main Board: EEPROM / RTC Access Trouble'' AddrSingle None True True \<in> set trouble_catalog"
  "trouble_desc_custom ''ram_memory_error'' ''Main Board: RAM Memory Error'' AddrSingle None True True \<in> set trouble_catalog"
  "trouble_desc_custom ''main_panel_restart'' ''Main Board: Panel Restart Latched'' AddrSingle None True True \<in> set trouble_catalog"
  "trouble_desc_custom ''technical_zone_trouble'' ''Technical Zone: Trouble Detected'' (AddrRange 1 256) (Some DomainZone) True True \<in> set trouble_catalog"
  "trouble_desc_custom ''expander_ac_loss'' ''Expander: AC Power Loss'' (AddrRange 1 64) None True True \<in> set trouble_catalog"
  "trouble_desc_custom ''expander_battery_low'' ''Expander: Battery Low Voltage'' (AddrRange 1 64) None True True \<in> set trouble_catalog"
  "trouble_desc_custom ''expander_battery_missing'' ''Expander: Battery Missing'' (AddrRange 1 64) None True True \<in> set trouble_catalog"
  "trouble_desc_custom ''expander_supply_overload'' ''Expander: Power Supply Overload'' (AddrRange 1 64) None True True \<in> set trouble_catalog"
  "trouble_desc_custom ''expander_no_comm'' ''Expander: No Communication'' (AddrRange 1 64) None True True \<in> set trouble_catalog"
  "trouble_desc_custom ''expander_substituted'' ''Expander: Substituted / Unknown Hardware'' (AddrRange 1 64) None True True \<in> set trouble_catalog"
  "trouble_desc_custom ''expander_tamper'' ''Expander: Tamper / Sabotage'' (AddrRange 1 64) None True True \<in> set trouble_catalog"
  "trouble_desc_custom ''expander_card_reader_head_a'' ''Expander: Card Reader Head A / Synchro Trouble'' (AddrRange 1 64) None True True \<in> set trouble_catalog"
  "trouble_desc_custom ''expander_card_reader_head_b'' ''Expander: Card Reader Head B / Charging Trouble'' (AddrRange 1 64) None True True \<in> set trouble_catalog"
  "trouble_desc_custom ''expander_acu_jammed_or_short_circuit'' ''Expander: Jammed / Addressable Loop Short Circuit'' (AddrRange 1 30) None True True \<in> set trouble_catalog"
  "trouble_desc_custom ''keypad_no_comm'' ''Keypad: No Communication'' (AddrRange 1 8) None True True \<in> set trouble_catalog"
  "trouble_desc_custom ''keypad_substituted'' ''Keypad: Substituted'' (AddrRange 1 8) None True True \<in> set trouble_catalog"
  "trouble_desc_custom ''keypad_tamper'' ''Keypad: Tamper / Sabotage'' (AddrRange 1 8) None True True \<in> set trouble_catalog"
  "trouble_desc_custom ''keypad_init_error'' ''Keypad: Initialization Error'' (AddrRange 1 8) None True True \<in> set trouble_catalog"
  "trouble_desc_custom ''ethm_no_lan_cable'' ''ETHM-1: Ethernet LAN Cable Unplugged'' (AddrRange 1 8) None True True \<in> set trouble_catalog"
  "trouble_desc_custom ''gsm_ethm_station_1_error'' ''INT-GSM/ETHM-1: Station 1 Transmission Error'' (AddrRange 0 7) None True True \<in> set trouble_catalog"
  "trouble_desc_custom ''gsm_ethm_station_2_error'' ''INT-GSM/ETHM-1: Station 2 Transmission Error'' (AddrRange 0 7) None True True \<in> set trouble_catalog"
  "trouble_desc_custom ''gsm_gprs_sim1_station_1_error'' ''INT-GSM: GPRS SIM 1 Station 1 Error'' (AddrRange 0 7) None True True \<in> set trouble_catalog"
  "trouble_desc_custom ''gsm_gprs_sim1_station_2_error'' ''INT-GSM: GPRS SIM 1 Station 2 Error'' (AddrRange 0 7) None True True \<in> set trouble_catalog"
  "trouble_desc_custom ''gsm_gprs_sim2_station_1_error'' ''INT-GSM: GPRS SIM 2 Station 1 Error'' (AddrRange 0 7) None True True \<in> set trouble_catalog"
  "trouble_desc_custom ''gsm_gprs_sim2_station_2_error'' ''INT-GSM: GPRS SIM 2 Station 2 Error'' (AddrRange 0 7) None True True \<in> set trouble_catalog"
  "trouble_desc_custom ''gsm_sms_sim1_station_1_error'' ''INT-GSM: SMS SIM 1 Station 1 Error'' (AddrRange 0 7) None True True \<in> set trouble_catalog"
  "trouble_desc_custom ''gsm_sms_sim1_station_2_error'' ''INT-GSM: SMS SIM 1 Station 2 Error'' (AddrRange 0 7) None True True \<in> set trouble_catalog"
  "trouble_desc_custom ''gsm_sms_sim2_station_1_error'' ''INT-GSM: SMS SIM 2 Station 1 Error'' (AddrRange 0 7) None True True \<in> set trouble_catalog"
  "trouble_desc_custom ''gsm_sms_sim2_station_2_error'' ''INT-GSM: SMS SIM 2 Station 2 Error'' (AddrRange 0 7) None True True \<in> set trouble_catalog"
  "trouble_desc_custom ''zone_long_violation_trouble'' ''Zone: Long Violation'' (AddrRange 1 256) (Some DomainZone) False True \<in> set trouble_catalog"
  "trouble_desc_custom ''zone_no_violation_trouble'' ''Zone: No Violation'' (AddrRange 1 256) (Some DomainZone) False True \<in> set trouble_catalog"
  "trouble_desc_custom ''zone_tamper_trouble'' ''Zone: Tamper'' (AddrRange 1 256) (Some DomainZone) False True \<in> set trouble_catalog"
  "trouble_desc_custom ''expander_restart'' ''Expander: Restart'' (AddrRange 1 64) None False True \<in> set trouble_catalog"
  "trouble_desc_custom ''keypad_restart'' ''Keypad: Restart'' (AddrRange 1 8) None False True \<in> set trouble_catalog"
  "trouble_desc_custom ''ethm_ping_trouble'' ''ETHM-1: Ping Network Test Failed'' (AddrRange 1 8) None True True \<in> set trouble_catalog"
  "trouble_desc_custom ''ethm_server_id_error'' ''ETHM-1: SATEL Server MAC/ID Verification Error'' (AddrRange 1 8) None True True \<in> set trouble_catalog"
  "trouble_desc_custom ''ethm_satel_server_connection_error'' ''ETHM-1: No Connection to SATEL Server'' (AddrRange 1 8) None True True \<in> set trouble_catalog"
  "trouble_desc_custom ''ethm_monitoring_station1_error'' ''ETHM-1: Monitoring Station 1 Connection Error'' AddrSingle None True True \<in> set trouble_catalog"
  "trouble_desc_custom ''ethm_monitoring_station2_error'' ''ETHM-1: Monitoring Station 2 Connection Error'' AddrSingle None True True \<in> set trouble_catalog"
  "trouble_desc_custom ''gprs_monitoring_station1_error'' ''INT-GSM: GPRS Monitoring Station 1 Error'' AddrSingle None True True \<in> set trouble_catalog"
  "trouble_desc_custom ''gprs_monitoring_station2_error'' ''INT-GSM: GPRS Monitoring Station 2 Error'' AddrSingle None True True \<in> set trouble_catalog"
  "trouble_desc_custom ''ip_monitoring_station1_trouble'' ''IP Monitoring: Station 1 Communication Trouble'' AddrSingle None True True \<in> set trouble_catalog"
  "trouble_desc_custom ''ip_monitoring_station2_trouble'' ''IP Monitoring: Station 2 Communication Trouble'' AddrSingle None True True \<in> set trouble_catalog"
  "trouble_desc_custom ''time_server_trouble'' ''Network: NTP Time Synchronization Server Error'' AddrSingle None True True \<in> set trouble_catalog"
  "trouble_desc_custom ''gsm_init_error'' ''INT-GSM: Module Initialization Error'' AddrSingle None True True \<in> set trouble_catalog"
  "trouble_desc_custom ''gsm_jamming'' ''INT-GSM: Cellular Jamming Detected'' (AddrRange 0 7) None True True \<in> set trouble_catalog"
  "trouble_desc_custom ''gsm_sim_pin_error'' ''INT-GSM: SIM Wrong PIN'' (AddrPair 0 7 1 2) None True True \<in> set trouble_catalog"
  "trouble_desc_custom ''gsm_sim_logging_error'' ''INT-GSM: SIM Network Registration Error'' (AddrPair 0 7 1 2) None True True \<in> set trouble_catalog"
  "trouble_desc_custom ''gsm_sim_credit_low'' ''INT-GSM: SIM Account Credit Low'' (AddrPair 0 7 1 2) None True True \<in> set trouble_catalog"
  "trouble_desc_custom ''gsm_sim_sms_error'' ''INT-GSM: SIM SMS Sending Error'' (AddrPair 0 7 1 2) None True True \<in> set trouble_catalog"
  "trouble_desc_custom ''gsm_settings_crc_error'' ''INT-GSM: Settings CRC Checksum Error'' (AddrRange 0 7) None True True \<in> set trouble_catalog"
  "trouble_desc_custom ''gsm_module_missing'' ''INT-GSM: Module Missing'' (AddrRange 0 7) None True True \<in> set trouble_catalog"
  "trouble_desc_custom ''gsm_module_changed'' ''INT-GSM: Module Changed'' (AddrRange 0 7) None True True \<in> set trouble_catalog"
  "trouble_desc_custom ''gsm_server_conn_error'' ''INT-GSM: Server Connection Error'' (AddrRange 0 7) None True True \<in> set trouble_catalog"
  "trouble_desc_custom ''gsm_mail_server_conn_error'' ''INT-GSM: Mail Server Error'' (AddrRange 0 7) None True True \<in> set trouble_catalog"
  "trouble_desc_custom ''gsm_ntp_server_conn_error'' ''INT-GSM: NTP Server Error'' (AddrRange 0 7) None True True \<in> set trouble_catalog"
  "trouble_desc_custom ''wireless_device_low_battery'' ''Wireless Sensor: Low Battery'' (AddrRange 17 256) (Some DomainZone) True True \<in> set trouble_catalog"
  "trouble_desc_custom ''wireless_device_no_comm'' ''Wireless Sensor: No Radio Communication'' (AddrRange 17 256) (Some DomainZone) True True \<in> set trouble_catalog"
  "trouble_desc_custom ''wireless_output_no_comm'' ''Wireless Output: No Radio Communication'' (AddrRange 17 256) (Some DomainOutput) True True \<in> set trouble_catalog"
  "trouble_desc_custom ''master_key_fob_low_battery'' ''Master User Key Fob: Low Battery'' (AddrRange 1 8) None True False \<in> set trouble_catalog"
  "trouble_desc_custom ''user_key_fob_low_battery'' ''User Key Fob: Low Battery'' (AddrRange 1 240) None True False \<in> set trouble_catalog"
  "trouble_desc_custom ''auxiliary_stm_troubles'' ''Auxiliary Microprocessor (STM) Trouble'' AddrSingle None True True \<in> set trouble_catalog"
  by (simp_all only: trouble_catalog_def trouble_desc_def list.set insert_iff simp_thms)

lemmas trouble_announced_intros = trouble_catalog_entries [THEN trouble_announcedI]

end
