(* ===== verification/State.thy ===== *)
theory State
  imports Rust_Text Zone_Catalog Output_Catalog Partition_Catalog Trouble_Types
begin

text \<open>
  The data model of \<open>src/src/state.rs\<close>: connection state and telemetry, versions, names and
  parameters, the cached zones, outputs and partitions, the trouble records and the shared cache.
  Field names are the source's with a prefix for each structure. The wall clock (\<open>DateTime<Local>\<close>),
  the monotonic clock (\<open>Instant\<close>) and \<open>SystemTime\<close> are read at the call and are arguments. The
  atomic counters are 64-bit words; the temperatures, multiples of one half, are rationals.
  The eleven structures that hold one bit per element and a time stamp are one record,
  \<open>states_data\<close>.
\<close>

section \<open>Connection\<close>

datatype connection_state = Connected | Disconnected | ConnectionLost | Connecting | Handshake

record connection_status =
  cs_state :: connection_state
  cs_failed_attempts :: u32
  cs_last_event_at :: timestamp

definition connection_status_default :: "timestamp \<Rightarrow> connection_status" where
  "connection_status_default instant =
    \<lparr>cs_state = Disconnected, cs_failed_attempts = 0, cs_last_event_at = instant\<rparr>"

datatype connection_type = TcpType ustring u16 | UartType ustring

record connection_statistics =
  st_state :: connection_state
  st_bytes_sent :: u64
  st_bytes_received :: u64
  st_connections_established :: u64
  st_reconnect_attempts :: u64
  st_connections_lost :: u64
  st_timeouts :: u64
  st_crc_errors :: u64
  st_rejected_by_panel :: u64
  st_io_errors :: u64
  st_connected_since :: "timestamp option"
  st_total_connected :: duration
  st_taken_at :: timestamp

record stats_mark =
  sm_non_ping_frames :: u64
  sm_connections_established :: u64
  sm_reconnect_attempts :: u64
  sm_connections_lost :: u64
  sm_timeouts :: u64
  sm_crc_errors :: u64
  sm_rejected_by_panel :: u64
  sm_io_errors :: u64

definition stats_mark_default :: stats_mark where
  "stats_mark_default = \<lparr>
    sm_non_ping_frames = 0,
    sm_connections_established = 0,
    sm_reconnect_attempts = 0,
    sm_connections_lost = 0,
    sm_timeouts = 0,
    sm_crc_errors = 0,
    sm_rejected_by_panel = 0,
    sm_io_errors = 0\<rparr>"

definition stats_min_non_ping_frames :: u64 where
  "stats_min_non_ping_frames = 5"

definition statistics_changed :: "stats_mark \<Rightarrow> stats_mark \<Rightarrow> bool" where
  "statistics_changed prev now =
    (stats_min_non_ping_frames \<le> sat_sub (sm_non_ping_frames now) (sm_non_ping_frames prev)
     \<or> sm_connections_established prev \<noteq> sm_connections_established now
     \<or> sm_reconnect_attempts prev \<noteq> sm_reconnect_attempts now
     \<or> sm_connections_lost prev \<noteq> sm_connections_lost now
     \<or> sm_timeouts prev \<noteq> sm_timeouts now
     \<or> sm_crc_errors prev \<noteq> sm_crc_errors now
     \<or> sm_rejected_by_panel prev \<noteq> sm_rejected_by_panel now
     \<or> sm_io_errors prev \<noteq> sm_io_errors now)"

record connection_telemetry =
  tel_status :: connection_status
  tel_last_connected_at :: "timestamp option"
  tel_last_send_at :: timestamp
  tel_bytes_sent :: u64
  tel_bytes_received :: u64
  tel_connections_established :: u64
  tel_reconnect_attempts :: u64
  tel_connections_lost :: u64
  tel_timeouts :: u64
  tel_crc_errors :: u64
  tel_rejected_by_panel :: u64
  tel_io_errors :: u64
  tel_non_ping_frames :: u64
  tel_connected_since :: "timestamp option"
  tel_total_connected_before :: duration
  tel_last_sent_stats_mark :: stats_mark

definition telemetry_default :: "timestamp \<Rightarrow> connection_telemetry" where
  "telemetry_default instant = \<lparr>
    tel_status = connection_status_default instant,
    tel_last_connected_at = None,
    tel_last_send_at = instant,
    tel_bytes_sent = 0,
    tel_bytes_received = 0,
    tel_connections_established = 0,
    tel_reconnect_attempts = 0,
    tel_connections_lost = 0,
    tel_timeouts = 0,
    tel_crc_errors = 0,
    tel_rejected_by_panel = 0,
    tel_io_errors = 0,
    tel_non_ping_frames = 0,
    tel_connected_since = None,
    tel_total_connected_before = 0,
    tel_last_sent_stats_mark = stats_mark_default\<rparr>"

definition telemetry_stats_mark :: "connection_telemetry \<Rightarrow> stats_mark" where
  "telemetry_stats_mark t = \<lparr>
    sm_non_ping_frames = tel_non_ping_frames t,
    sm_connections_established = tel_connections_established t,
    sm_reconnect_attempts = tel_reconnect_attempts t,
    sm_connections_lost = tel_connections_lost t,
    sm_timeouts = tel_timeouts t,
    sm_crc_errors = tel_crc_errors t,
    sm_rejected_by_panel = tel_rejected_by_panel t,
    sm_io_errors = tel_io_errors t\<rparr>"

definition telemetry_reset :: "timestamp \<Rightarrow> connection_telemetry \<Rightarrow> connection_telemetry" where
  "telemetry_reset now t = t\<lparr>
    tel_bytes_sent := 0,
    tel_bytes_received := 0,
    tel_connections_established := 0,
    tel_reconnect_attempts := 0,
    tel_connections_lost := 0,
    tel_timeouts := 0,
    tel_crc_errors := 0,
    tel_rejected_by_panel := 0,
    tel_io_errors := 0,
    tel_non_ping_frames := 0,
    tel_total_connected_before := 0,
    tel_last_sent_stats_mark := stats_mark_default,
    tel_connected_since := (if cs_state (tel_status t) = Connected then Some now else None)\<rparr>"

definition current_session :: "timestamp \<Rightarrow> connection_telemetry \<Rightarrow> duration" where
  "current_session now t =
    (if cs_state (tel_status t) = Connected
     then (case tel_connected_since t of Some since \<Rightarrow> session_length now since | None \<Rightarrow> 0)
     else 0)"

definition telemetry_statistics :: "timestamp \<Rightarrow> connection_telemetry \<Rightarrow> connection_statistics" where
  "telemetry_statistics now t = \<lparr>
    st_state = cs_state (tel_status t),
    st_bytes_sent = tel_bytes_sent t,
    st_bytes_received = tel_bytes_received t,
    st_connections_established = tel_connections_established t,
    st_reconnect_attempts = tel_reconnect_attempts t,
    st_connections_lost = tel_connections_lost t,
    st_timeouts = tel_timeouts t,
    st_crc_errors = tel_crc_errors t,
    st_rejected_by_panel = tel_rejected_by_panel t,
    st_io_errors = tel_io_errors t,
    st_connected_since = (if cs_state (tel_status t) = Connected then tel_connected_since t else None),
    st_total_connected = duration_saturating_add (tel_total_connected_before t) (current_session now t),
    st_taken_at = now\<rparr>"

section \<open>Versions, names and parameters\<close>

record integra_version =
  iv_model :: ustring
  iv_firmware_version :: ustring
  iv_language :: ustring
  iv_stored_in_flash :: bool
  iv_io_count :: u16
  iv_partition_count :: u16
  iv_read_at :: timestamp

record ethm_capabilities =
  ec_support_32_byte_frames :: bool
  ec_support_8_troubles_groups :: bool
  ec_support_extended_arming_commands :: bool
  ec_reserved_bit3 :: bool
  ec_reserved_bit4 :: bool
  ec_reserved_bit5 :: bool
  ec_reserved_bit6 :: bool
  ec_reserved_bit7 :: bool

record ethm_version =
  ev_version_raw :: ustring
  ev_capabilities :: ethm_capabilities
  ev_read_at :: timestamp

record satel_name =
  sn_name :: ustring
  sn_read_at :: timestamp

record zone_params =
  zp_zone_id :: u16
  zp_reaction :: zone_reaction
  zp_partition :: "u8 option"
  zp_read_at :: timestamp

record output_params =
  op_output_id :: u16
  op_function :: output_function
  op_duration :: "duration option"
  op_control :: output_control
  op_read_at :: timestamp

record partition_params =
  pp_partition_id :: u16
  pp_partition_type :: partition_type
  pp_object_number :: "u8 option"
  pp_options :: "partition_options option"
  pp_auto_arm_defer :: "auto_arm_defer_timer option"
  pp_dependent_partitions :: "dependent_partitions option"
  pp_read_at :: timestamp

datatype temperature_sensor_status =
    NoRead | TempOk | SensorMissing | CommunicationError
  | BlockSensorMissing | BlockCommunicationError | RetryRead

record zone_temperature =
  zt_zone_id :: u16
  zt_temperature :: rat
  zt_read_at :: timestamp

record states_data =
  sd_states :: "bool list"
  sd_read_at :: timestamp

section \<open>Zones, partitions, outputs\<close>

record zone =
  z_id :: u16
  z_zone_name :: ustring
  z_zone_name_read_at :: timestamp
  z_temperature_value :: rat
  z_temperature_read_at :: timestamp
  z_temperature_status :: temperature_sensor_status
  z_temperature_timeout_errors_total :: u32
  z_temperature_sensor_errors_total :: u32
  z_temperature_timeout_errors_current :: u32
  z_temperature_sensor_errors_current :: u32
  z_temperature_blocked_cycles :: u32
  z_tamper_state :: bool
  z_tamper_read_at :: "timestamp option"
  z_alarm_state :: bool
  z_alarm_read_at :: "timestamp option"
  z_violation_state :: bool
  z_violation_read_at :: "timestamp option"
  z_tamper_alarm_state :: bool
  z_tamper_alarm_read_at :: "timestamp option"
  z_alarm_memory_state :: bool
  z_alarm_memory_read_at :: "timestamp option"
  z_tamper_alarm_memory_state :: bool
  z_tamper_alarm_memory_read_at :: "timestamp option"
  z_bypass_state :: bool
  z_bypass_read_at :: "timestamp option"
  z_no_violation_trouble_state :: bool
  z_no_violation_trouble_read_at :: "timestamp option"
  z_long_violation_trouble_state :: bool
  z_long_violation_trouble_read_at :: "timestamp option"
  z_reaction :: "zone_reaction option"
  z_partition :: "u8 option"
  z_params_read_at :: "timestamp option"

definition zone_new :: "timestamp \<Rightarrow> u16 \<Rightarrow> zone" where
  "zone_new now ident = \<lparr>
    z_id = ident,
    z_zone_name = [],
    z_zone_name_read_at = now,
    z_temperature_value = 0,
    z_temperature_read_at = now,
    z_temperature_status = NoRead,
    z_temperature_timeout_errors_total = 0,
    z_temperature_sensor_errors_total = 0,
    z_temperature_timeout_errors_current = 0,
    z_temperature_sensor_errors_current = 0,
    z_temperature_blocked_cycles = 0,
    z_tamper_state = False,
    z_tamper_read_at = None,
    z_alarm_state = False,
    z_alarm_read_at = None,
    z_violation_state = False,
    z_violation_read_at = None,
    z_tamper_alarm_state = False,
    z_tamper_alarm_read_at = None,
    z_alarm_memory_state = False,
    z_alarm_memory_read_at = None,
    z_tamper_alarm_memory_state = False,
    z_tamper_alarm_memory_read_at = None,
    z_bypass_state = False,
    z_bypass_read_at = None,
    z_no_violation_trouble_state = False,
    z_no_violation_trouble_read_at = None,
    z_long_violation_trouble_state = False,
    z_long_violation_trouble_read_at = None,
    z_reaction = None,
    z_partition = None,
    z_params_read_at = None\<rparr>"

definition to_zone_name :: "zone \<Rightarrow> satel_name" where
  "to_zone_name z = \<lparr>sn_name = z_zone_name z, sn_read_at = z_zone_name_read_at z\<rparr>"

definition to_zone_temperature :: "zone \<Rightarrow> zone_temperature" where
  "to_zone_temperature z =
    \<lparr>zt_zone_id = z_id z, zt_temperature = z_temperature_value z, zt_read_at = z_temperature_read_at z\<rparr>"

definition unwrap_or :: "'a option \<Rightarrow> 'a \<Rightarrow> 'a" where
  "unwrap_or x d = (case x of Some y \<Rightarrow> y | None \<Rightarrow> d)"

definition to_zone_params :: "zone \<Rightarrow> zone_params option" where
  "to_zone_params z =
    map_option (\<lambda>r. \<lparr>zp_zone_id = z_id z, zp_reaction = r, zp_partition = z_partition z,
        zp_read_at = unwrap_or (z_params_read_at z) (z_zone_name_read_at z)\<rparr>)
      (z_reaction z)"

record partition =
  p_id :: u16
  p_name :: ustring
  p_name_read_at :: timestamp
  p_armed_suppressed :: bool
  p_armed_suppressed_at :: "timestamp option"
  p_armed_really :: bool
  p_armed_really_at :: "timestamp option"
  p_alarm :: bool
  p_alarm_at :: "timestamp option"
  p_alarm_memory :: bool
  p_alarm_memory_at :: "timestamp option"
  p_entry_time :: bool
  p_entry_time_at :: "timestamp option"
  p_exit_time_gt_10s :: bool
  p_exit_time_gt_10s_at :: "timestamp option"
  p_exit_time_lt_10s :: bool
  p_exit_time_lt_10s_at :: "timestamp option"
  p_partition_type :: "partition_type option"
  p_object_number :: "u8 option"
  p_options :: "partition_options option"
  p_auto_arm_defer :: "auto_arm_defer_timer option"
  p_dependent_partitions :: "dependent_partitions option"
  p_params_read_at :: "timestamp option"

definition partition_new :: "timestamp \<Rightarrow> u16 \<Rightarrow> partition" where
  "partition_new now ident = \<lparr>
    p_id = ident,
    p_name = [],
    p_name_read_at = now,
    p_armed_suppressed = False,
    p_armed_suppressed_at = None,
    p_armed_really = False,
    p_armed_really_at = None,
    p_alarm = False,
    p_alarm_at = None,
    p_alarm_memory = False,
    p_alarm_memory_at = None,
    p_entry_time = False,
    p_entry_time_at = None,
    p_exit_time_gt_10s = False,
    p_exit_time_gt_10s_at = None,
    p_exit_time_lt_10s = False,
    p_exit_time_lt_10s_at = None,
    p_partition_type = None,
    p_object_number = None,
    p_options = None,
    p_auto_arm_defer = None,
    p_dependent_partitions = None,
    p_params_read_at = None\<rparr>"

definition to_partition_name :: "partition \<Rightarrow> satel_name" where
  "to_partition_name p = \<lparr>sn_name = p_name p, sn_read_at = p_name_read_at p\<rparr>"

definition to_partition_params :: "partition \<Rightarrow> partition_params option" where
  "to_partition_params p =
    map_option (\<lambda>t. \<lparr>pp_partition_id = p_id p, pp_partition_type = t,
        pp_object_number = p_object_number p, pp_options = p_options p,
        pp_auto_arm_defer = p_auto_arm_defer p, pp_dependent_partitions = p_dependent_partitions p,
        pp_read_at = unwrap_or (p_params_read_at p) (p_name_read_at p)\<rparr>)
      (p_partition_type p)"

record satel_output =
  o_id :: u16
  o_name :: ustring
  o_name_read_at :: timestamp
  o_state :: bool
  o_state_read_at :: "timestamp option"
  o_function :: "output_function option"
  o_duration :: "duration option"
  o_control :: "output_control option"
  o_params_read_at :: "timestamp option"

definition satel_output_new :: "timestamp \<Rightarrow> u16 \<Rightarrow> satel_output" where
  "satel_output_new now ident = \<lparr>
    o_id = ident,
    o_name = [],
    o_name_read_at = now,
    o_state = False,
    o_state_read_at = None,
    o_function = None,
    o_duration = None,
    o_control = None,
    o_params_read_at = None\<rparr>"

definition to_output_name :: "satel_output \<Rightarrow> satel_name" where
  "to_output_name x = \<lparr>sn_name = o_name x, sn_read_at = o_name_read_at x\<rparr>"

definition to_output_params :: "satel_output \<Rightarrow> output_params option" where
  "to_output_params x =
    map_option (\<lambda>f. \<lparr>op_output_id = o_id x, op_function = f, op_duration = o_duration x,
        op_control = unwrap_or (o_control x) (control_from_duration f (o_duration x)),
        op_read_at = unwrap_or (o_params_read_at x) (o_name_read_at x)\<rparr>)
      (o_function x)"

section \<open>Trouble records\<close>

record main_board_troubles =
  mb_out1_trouble :: bool
  mb_out2_trouble :: bool
  mb_out3_trouble :: bool
  mb_out4_trouble :: bool
  mb_kpd_power_trouble :: bool
  mb_ex1_ex2_power_trouble :: bool
  mb_battery_trouble :: bool
  mb_ac_trouble :: bool
  mb_dt1_trouble :: bool
  mb_dt2_trouble :: bool
  mb_dtm_trouble :: bool
  mb_rtc_trouble :: bool
  mb_no_dtr_signal :: bool
  mb_no_battery_present :: bool
  mb_external_modem_init_trouble :: bool
  mb_external_modem_cmd_trouble :: bool
  mb_tel_line_no_voltage :: bool
  mb_tel_line_bad_signal :: bool
  mb_tel_line_no_signal :: bool
  mb_monitoring_station_1_trouble :: bool
  mb_monitoring_station_2_trouble :: bool
  mb_eeprom_rtc_trouble :: bool
  mb_ram_trouble :: bool
  mb_main_panel_restart :: bool

record ethm_ptsa_troubles =
  ep_ethm_ping_trouble :: bool
  ep_server_id_error :: bool
  ep_no_server_connection :: bool
  ep_no_ethm_mon_station_1 :: bool
  ep_no_ethm_mon_station_2 :: bool
  ep_no_gprs_mon_station_1 :: bool
  ep_no_gprs_mon_station_2 :: bool
  ep_time_server_trouble :: bool
  ep_gsm_init_error :: bool
  ep_ip_mon_station_1_trouble :: bool
  ep_ip_mon_station_2_trouble :: bool

record troubles_part1_data =
  t1_is_memory :: bool
  t1_technical_zones :: "bool list"
  t1_expanders_ac :: "bool list"
  t1_expanders_battery :: "bool list"
  t1_expanders_no_battery :: "bool list"
  t1_main_board :: main_board_troubles
  t1_ethm_ptsa :: ethm_ptsa_troubles
  t1_read_at :: timestamp

record troubles_part2_data =
  t2_is_memory :: bool
  t2_card_readers_head_a_or_synchro :: "bool list"
  t2_card_readers_head_b_or_charging :: "bool list"
  t2_expanders_supply_overload :: "bool list"
  t2_acu_jammed_or_short_circuit :: "bool list"
  t2_read_at :: timestamp

record troubles_memory_part2_data =
  m2_card_readers_head_a_or_synchro :: "bool list"
  m2_card_readers_head_b_or_charging :: "bool list"
  m2_expanders_supply_overload :: "bool list"
  m2_acu_jammed_or_short_circuit :: "bool list"
  m2_keypad_restart :: "bool list"
  m2_expander_restart :: "bool list"
  m2_sim_cme_error :: u16
  m2_sim_cme_error_memory :: u16
  m2_read_at :: timestamp

record troubles_part3_data =
  t3_is_memory :: bool
  t3_acu_jam_levels :: bytes
  t3_wireless_devices_low_battery :: "bool list"
  t3_wireless_devices_no_comm :: "bool list"
  t3_wireless_outputs_no_comm :: "bool list"
  t3_read_at :: timestamp

record troubles_memory_part3_data =
  m3_acu_jammed_or_short_circuit :: "bool list"
  m3_acu_jammed_or_short_circuit_memory :: "bool list"
  m3_wireless_devices_low_battery :: "bool list"
  m3_wireless_devices_no_comm :: "bool list"
  m3_wireless_outputs_no_comm :: "bool list"
  m3_read_at :: timestamp

record troubles_part4_data =
  t4_is_memory :: bool
  t4_expanders_no_comm :: "bool list"
  t4_expanders_substituted :: "bool list"
  t4_keypads_no_comm :: "bool list"
  t4_keypads_substituted :: "bool list"
  t4_ethm_no_lan_or_intrs_no_dsr :: "bool list"
  t4_expanders_tamper :: "bool list"
  t4_keypads_tamper :: "bool list"
  t4_keypad_init_errors :: "bool list"
  t4_auxiliary_stm_troubles :: u8
  t4_read_at :: timestamp

record troubles_part5_data =
  t5_is_memory :: bool
  t5_masters_key_fobs_low_battery :: "bool list"
  t5_users_key_fobs_low_battery :: "bool list"
  t5_read_at :: timestamp

record troubles_memory_part5_data =
  m5_zone_long_violation :: "bool list"
  m5_zone_no_violation :: "bool list"
  m5_zone_tamper :: "bool list"
  m5_read_at :: timestamp

record troubles_part6_data =
  t6_is_memory :: bool
  t6_wireless_devices_low_battery :: "bool list"
  t6_wireless_devices_no_comm :: "bool list"
  t6_wireless_outputs_no_comm :: "bool list"
  t6_read_at :: timestamp

record troubles_part7_data =
  t7_is_memory :: bool
  t7_technical_zones :: "bool list"
  t7_technical_zones_memory :: "bool list"
  t7_acu_jam_levels :: bytes
  t7_read_at :: timestamp

record troubles_memory_part7_data =
  m7_zone_long_violation :: "bool list"
  m7_zone_no_violation :: "bool list"
  m7_zone_tamper :: "bool list"
  m7_read_at :: timestamp

record gsm_module_troubles =
  gm_module_address :: u8
  gm_no_ethm_mon_station_1 :: bool
  gm_no_ethm_mon_station_2 :: bool
  gm_no_gprs_sim1_mon_station_1 :: bool
  gm_no_gprs_sim1_mon_station_2 :: bool
  gm_no_gprs_sim2_mon_station_1 :: bool
  gm_no_gprs_sim2_mon_station_2 :: bool
  gm_no_sms_sim1_mon_station_1 :: bool
  gm_no_sms_sim1_mon_station_2 :: bool
  gm_no_sms_sim2_mon_station_1 :: bool
  gm_no_sms_sim2_mon_station_2 :: bool
  gm_wrong_sim1_pin :: bool
  gm_wrong_sim2_pin :: bool
  gm_sim1_logging_error :: bool
  gm_sim2_logging_error :: bool
  gm_sim1_credit_low :: bool
  gm_sim2_credit_low :: bool
  gm_sim1_sms_error :: bool
  gm_sim2_sms_error :: bool
  gm_gsm_jamming :: bool
  gm_settings_crc_error :: bool
  gm_missing_module :: bool
  gm_changed_module :: bool
  gm_satel_server_conn_error :: bool
  gm_mail_server_conn_error :: bool
  gm_ntp_server_conn_error :: bool
  gm_sim1_cme_error :: u16
  gm_sim2_cme_error :: u16

record troubles_part8_data =
  t8_is_memory :: bool
  t8_gsm_modules :: "gsm_module_troubles list"
  t8_read_at :: timestamp

datatype troubles_data =
    PartData1 troubles_part1_data
  | PartData2 troubles_part2_data
  | MemoryPartData2 troubles_memory_part2_data
  | PartData3 troubles_part3_data
  | MemoryPartData3 troubles_memory_part3_data
  | PartData4 troubles_part4_data
  | PartData5 troubles_part5_data
  | MemoryPartData5 troubles_memory_part5_data
  | PartData6 troubles_part6_data
  | PartData7 troubles_part7_data
  | MemoryPartData7 troubles_memory_part7_data
  | PartData8 troubles_part8_data

section \<open>Status, push configuration, cache\<close>

record system_status =
  ss_service_mode :: bool
  ss_troubles_present :: bool
  ss_troubles_memory :: bool
  ss_rtc :: timestamp

datatype auto_read_item_state =
    ItemActive | ItemNotRequested | ItemUnsupportedByHardware | ItemRejectedByPanel u8

definition hex_digit :: "nat \<Rightarrow> char" where
  "hex_digit n = (if n < 10 then char_of (48 + n) else char_of (55 + n))"

definition show_hex2 :: "u8 \<Rightarrow> string" where
  "show_hex2 b = [hex_digit (unat b div 16), hex_digit (unat b mod 16)]"

definition reject_text :: "u8 \<Rightarrow> string" where
  "reject_text code =
    (if code = 0x01 then ''Error: Unknown user code''
     else if code = 0x02 then ''Error: No access rights''
     else if code = 0x03 then ''Error: User does not exist''
     else if code = 0x04 then ''Error: User already exists''
     else if code = 0x05 then ''Error: Wrong user code''
     else if code = 0x08 then ''Error: Other panel error''
     else ''Error: Rejected (0xEF)'')"

fun item_state_description :: "auto_read_item_state \<Rightarrow> string" where
  "item_state_description ItemActive = ''Active''"
| "item_state_description ItemNotRequested = ''Not requested''"
| "item_state_description ItemUnsupportedByHardware = ''Unsupported by ETHM hardware (requires 14B mask)''"
| "item_state_description (ItemRejectedByPanel code) =
    reject_text code @ '' ('' @ show_hex2 code @ '')''"

record auto_read_item_status =
  ai_name :: string
  ai_state :: auto_read_item_state

record auto_read_report =
  ar_items :: "auto_read_item_status list"
  ar_success_count :: nat
  ar_total_requested :: nat

record satel_state =
  s_connection_type :: "connection_type option"
  s_telemetry :: connection_telemetry
  s_integra_version :: "integra_version option"
  s_ethm_version :: "ethm_version option"
  s_zones :: "zone list"
  s_outputs :: "satel_output list"
  s_partitions :: "partition list"
  s_system_status :: "system_status option"
  s_trouble_flags :: "(trouble_type \<times> bool) \<rightharpoonup> bool"
  s_acu_jam_levels :: "u8 \<rightharpoonup> u8"
  s_cme_errors :: "(cme_source \<times> u8 \<times> bool) \<rightharpoonup> u16"
  s_auto_read_report :: "auto_read_report option"

definition satel_state_new :: "timestamp \<Rightarrow> timestamp \<Rightarrow> satel_state" where
  "satel_state_new now instant = \<lparr>
    s_connection_type = None,
    s_telemetry = telemetry_default instant,
    s_integra_version = None,
    s_ethm_version = None,
    s_zones = map (\<lambda>i. zone_new now (word_of_nat i)) [1..<257],
    s_outputs = map (\<lambda>i. satel_output_new now (word_of_nat i)) [1..<257],
    s_partitions = map (\<lambda>i. partition_new now (word_of_nat i)) [1..<33],
    s_system_status = None,
    s_trouble_flags = Map.empty,
    s_acu_jam_levels = Map.empty,
    s_cme_errors = Map.empty,
    s_auto_read_report = None\<rparr>"

section \<open>Laws\<close>

text \<open>
  The cache is well formed when it holds 256 zones, 256 outputs and 32 partitions, each at the
  index of its number.
\<close>

definition state_wf :: "satel_state \<Rightarrow> bool" where
  "state_wf s =
    (map z_id (s_zones s) = map word_of_nat [1..<257]
     \<and> map o_id (s_outputs s) = map word_of_nat [1..<257]
     \<and> map p_id (s_partitions s) = map word_of_nat [1..<33])"

lemma state_wf_lengths:
  "state_wf s \<Longrightarrow> length (s_zones s) = 256 \<and> length (s_outputs s) = 256 \<and> length (s_partitions s) = 32"
  unfolding state_wf_def by (metis diff_add_inverse2 length_map length_upt add.commute
    numeral_plus_one one_plus_numeral semiring_norm(2,4,5))

lemma state_wf_new: "state_wf (satel_state_new now instant)"
  by (simp add: state_wf_def satel_state_new_def o_def zone_new_def satel_output_new_def partition_new_def
      del: upt_Suc upt_rec_numeral)

lemma statistics_changed_refl: "\<not> statistics_changed m m"
  by (simp add: statistics_changed_def stats_min_non_ping_frames_def sat_sub_def)

text \<open>
  Statistics are worth sending again exactly when at least five frames other than pings were
  counted since the last mark, or another counter differs; a counter that went back (after a reset
  of the frame count alone) does not count as growth, and equal marks never do.
\<close>

theorem statistics_changed_iff:
  "statistics_changed prev now \<longleftrightarrow>
    unat (sm_non_ping_frames prev) + 5 \<le> unat (sm_non_ping_frames now)
    \<or> prev\<lparr>sm_non_ping_frames := 0\<rparr> \<noteq> now\<lparr>sm_non_ping_frames := 0\<rparr>"
proof -
  have "stats_min_non_ping_frames \<le> sat_sub (sm_non_ping_frames now) (sm_non_ping_frames prev) \<longleftrightarrow>
      unat (sm_non_ping_frames prev) + 5 \<le> unat (sm_non_ping_frames now)"
    by (auto simp: stats_min_non_ping_frames_def word_le_nat_alt unat_sat_sub)
  then show ?thesis
    unfolding statistics_changed_def by (cases prev; cases now) auto
qed

theorem statistics_changed_iff_witness:
  "statistics_changed stats_mark_default (stats_mark_default\<lparr>sm_non_ping_frames := 5\<rparr>)
    \<and> \<not> statistics_changed stats_mark_default (stats_mark_default\<lparr>sm_non_ping_frames := 4\<rparr>)
    \<and> statistics_changed stats_mark_default (stats_mark_default\<lparr>sm_timeouts := 1\<rparr>)"
  by (simp add: statistics_changed_iff stats_mark_default_def)

text \<open>
  A statistics snapshot adds the running session to the connected time only while connected and
  never runs backwards from the accumulated time; after a reset the counters are zero, the mark does
  not differ from the counters, and the session starts at the time of the reset exactly if connected.
\<close>

theorem telemetry_snapshot_laws:
  assumes "tel_total_connected_before t \<le> duration_max"
  shows "tel_total_connected_before t \<le> st_total_connected (telemetry_statistics now t)
    \<and> (cs_state (tel_status t) \<noteq> Connected \<longrightarrow>
         st_total_connected (telemetry_statistics now t) = tel_total_connected_before t
         \<and> st_connected_since (telemetry_statistics now t) = None)
    \<and> \<not> statistics_changed (tel_last_sent_stats_mark (telemetry_reset now t))
         (telemetry_stats_mark (telemetry_reset now t))
    \<and> st_total_connected (telemetry_statistics now (telemetry_reset now t)) = 0
    \<and> (st_connected_since (telemetry_statistics now (telemetry_reset now t)) = Some now
         \<longleftrightarrow> cs_state (tel_status t) = Connected)"
proof -
  have "telemetry_stats_mark (telemetry_reset now t) = stats_mark_default"
    by (simp add: telemetry_stats_mark_def telemetry_reset_def stats_mark_default_def)
  then show ?thesis
    using assms
    by (auto simp: telemetry_statistics_def telemetry_reset_def current_session_def
        duration_saturating_add_def session_length_def duration_max_def statistics_changed_refl)
qed

theorem telemetry_snapshot_laws_witness:
  "(0::duration) \<le> st_total_connected (telemetry_statistics 5 (telemetry_default 0))
    \<and> st_total_connected (telemetry_statistics 5 (telemetry_default 0)) = 0
    \<and> st_connected_since (telemetry_statistics 5 (telemetry_default 0)) = None"
  using telemetry_snapshot_laws [of "telemetry_default 0" 5]
  by (simp add: telemetry_default_def connection_status_default_def)

end
