(* ===== verification/Bit_Parsers.thy ===== *)
theory Bit_Parsers
  imports State
begin

text \<open>
  The parsers of state frames: \<open>src/src/parsers/zones.rs\<close>, \<open>outputs.rs\<close> and \<open>partitions.rs\<close>. A
  frame is the command byte and its data; element \<open>n\<close> (counted from 1) is bit \<open>(n - 1) mod 8\<close> of
  data byte \<open>(n - 1) div 8\<close>. \<open>now\<close> is the wall clock at the call.
\<close>

section \<open>Bit masks\<close>

definition byte_bits :: "u8 \<Rightarrow> bool list" where
  "byte_bits byte = map (\<lambda>i. byte AND push_bit i 1 \<noteq> 0) [0..<8]"

text \<open>\<open>extract_bits\<close> of \<open>src/src/parsers/system.rs\<close>; the loop of \<open>process_outputs_state\<close> is the same.\<close>

definition extract_bits :: "bytes \<Rightarrow> bool list" where
  "extract_bits data = concat (map byte_bits data)"

definition parse_partition_bits :: "bytes \<Rightarrow> bool list" where
  "parse_partition_bits data = concat (map byte_bits (take 4 data))"

definition zone_bit :: "u16 list \<Rightarrow> nat \<Rightarrow> u8 \<Rightarrow> nat \<Rightarrow> bool" where
  "zone_bit invert_list byte_idx byte i =
    (let zone_id = word_of_nat (byte_idx * 8 + i + 1);
         raw_state = (byte AND push_bit i 1 \<noteq> 0)
     in if zone_id \<in> set invert_list then \<not> raw_state else raw_state)"

definition parse_bit_states :: "bytes \<Rightarrow> u16 list \<Rightarrow> bool list" where
  "parse_bit_states data invert_list =
    concat (map (\<lambda>(byte_idx, byte). map (zone_bit invert_list byte_idx byte) [0..<8])
      (enumerate 0 data))"

section \<open>Frames\<close>

text \<open>The check every parser starts with: the command byte, then enough data.\<close>

definition frame_data :: "u8 \<Rightarrow> nat \<Rightarrow> bytes \<Rightarrow> bytes satel_result" where
  "frame_data cmd min_len frame =
    (if frame = [] \<or> hd frame \<noteq> cmd then Inl InvalidFrame
     else if length (tl frame) < min_len then Inl InvalidFrame
     else Inr (tl frame))"

definition zones_frame :: "u8 \<Rightarrow> timestamp \<Rightarrow> bytes \<Rightarrow> u16 list \<Rightarrow> states_data satel_result" where
  "zones_frame cmd now frame invert_list =
    bind_result (frame_data cmd 16 frame)
      (\<lambda>data. Inr \<lparr>sd_states = parse_bit_states data invert_list, sd_read_at = now\<rparr>)"

definition process_zones_violation :: "timestamp \<Rightarrow> bytes \<Rightarrow> u16 list \<Rightarrow> states_data satel_result" where
  "process_zones_violation = zones_frame 0x00"

definition process_zones_tamper :: "timestamp \<Rightarrow> bytes \<Rightarrow> u16 list \<Rightarrow> states_data satel_result" where
  "process_zones_tamper = zones_frame 0x01"

definition process_zones_alarm :: "timestamp \<Rightarrow> bytes \<Rightarrow> u16 list \<Rightarrow> states_data satel_result" where
  "process_zones_alarm = zones_frame 0x02"

definition process_zones_tamper_alarm :: "timestamp \<Rightarrow> bytes \<Rightarrow> u16 list \<Rightarrow> states_data satel_result" where
  "process_zones_tamper_alarm = zones_frame 0x03"

definition process_zones_alarm_memory :: "timestamp \<Rightarrow> bytes \<Rightarrow> u16 list \<Rightarrow> states_data satel_result" where
  "process_zones_alarm_memory = zones_frame 0x04"

definition process_zones_tamper_alarm_memory ::
  "timestamp \<Rightarrow> bytes \<Rightarrow> u16 list \<Rightarrow> states_data satel_result" where
  "process_zones_tamper_alarm_memory = zones_frame 0x05"

definition process_zones_bypass :: "timestamp \<Rightarrow> bytes \<Rightarrow> u16 list \<Rightarrow> states_data satel_result" where
  "process_zones_bypass = zones_frame 0x06"

definition process_zones_no_violation_trouble ::
  "timestamp \<Rightarrow> bytes \<Rightarrow> u16 list \<Rightarrow> states_data satel_result" where
  "process_zones_no_violation_trouble = zones_frame 0x07"

definition process_zones_long_violation_trouble ::
  "timestamp \<Rightarrow> bytes \<Rightarrow> u16 list \<Rightarrow> states_data satel_result" where
  "process_zones_long_violation_trouble = zones_frame 0x08"

definition partitions_frame :: "u8 \<Rightarrow> timestamp \<Rightarrow> bytes \<Rightarrow> states_data satel_result" where
  "partitions_frame cmd now frame =
    bind_result (frame_data cmd 4 frame)
      (\<lambda>data. Inr \<lparr>sd_states = parse_partition_bits data, sd_read_at = now\<rparr>)"

definition process_partitions_armed_suppressed :: "timestamp \<Rightarrow> bytes \<Rightarrow> states_data satel_result" where
  "process_partitions_armed_suppressed = partitions_frame 0x09"

definition process_partitions_armed_really :: "timestamp \<Rightarrow> bytes \<Rightarrow> states_data satel_result" where
  "process_partitions_armed_really = partitions_frame 0x0A"

definition process_partitions_entry_time :: "timestamp \<Rightarrow> bytes \<Rightarrow> states_data satel_result" where
  "process_partitions_entry_time = partitions_frame 0x0E"

definition process_partitions_exit_time_gt_10s :: "timestamp \<Rightarrow> bytes \<Rightarrow> states_data satel_result" where
  "process_partitions_exit_time_gt_10s = partitions_frame 0x0F"

definition process_partitions_exit_time_lt_10s :: "timestamp \<Rightarrow> bytes \<Rightarrow> states_data satel_result" where
  "process_partitions_exit_time_lt_10s = partitions_frame 0x10"

definition process_partitions_alarm :: "timestamp \<Rightarrow> bytes \<Rightarrow> states_data satel_result" where
  "process_partitions_alarm = partitions_frame 0x13"

definition process_partitions_alarm_memory :: "timestamp \<Rightarrow> bytes \<Rightarrow> states_data satel_result" where
  "process_partitions_alarm_memory = partitions_frame 0x15"

definition process_outputs_state :: "timestamp \<Rightarrow> bytes \<Rightarrow> states_data satel_result" where
  "process_outputs_state now frame =
    bind_result (frame_data 0x17 16 frame)
      (\<lambda>data. Inr \<lparr>sd_states = extract_bits data, sd_read_at = now\<rparr>)"

text \<open>The raw value counts half degrees from -55; zone 256 is sent as 0.\<close>

definition process_zone_temperature :: "bytes \<Rightarrow> (u16 \<times> rat) satel_result" where
  "process_zone_temperature frame =
    bind_result (frame_data 0x7D 3 frame) (\<lambda>data.
      let zone_id = (if data ! 0 = 0 then 256 else ucast (data ! 0));
          temp_raw = be16 (data ! 1) (data ! 2)
      in if temp_raw = 0xFFFF then Inl TemperatureSensorError
         else Inr (zone_id, of_nat (unat temp_raw) / 2 - 55))"

section \<open>Laws\<close>

lemma byte_bits_length [simp]: "length (byte_bits b) = 8"
  by (simp add: byte_bits_def)

lemma byte_bits_nth: "i < 8 \<Longrightarrow> byte_bits b ! i = bit b i"
  by (simp add: byte_bits_def bit_iff_and_push_bit_not_eq_0)

lemma concat_blocks:
  assumes "\<And>x. x \<in> set xs \<Longrightarrow> length (f x) = 8"
  shows "length (concat (map f xs)) = 8 * length xs"
    and "n < 8 * length xs \<Longrightarrow> concat (map f xs) ! n = f (xs ! (n div 8)) ! (n mod 8)"
proof -
  have "length (concat (map f xs)) = 8 * length xs
    \<and> (\<forall>n < 8 * length xs. concat (map f xs) ! n = f (xs ! (n div 8)) ! (n mod 8))"
    using assms
  proof (induction xs)
    case (Cons x xs)
    then have IH: "length (concat (map f xs)) = 8 * length xs"
      "\<And>n. n < 8 * length xs \<Longrightarrow> concat (map f xs) ! n = f (xs ! (n div 8)) ! (n mod 8)"
      and x: "length (f x) = 8"
      by auto
    have "concat (map f (x # xs)) ! n = f ((x # xs) ! (n div 8)) ! (n mod 8)"
      if "n < 8 * length (x # xs)" for n
    proof (cases "n < 8")
      case True
      with x show ?thesis by (simp add: nth_append)
    next
      case False
      then have "n div 8 = Suc ((n - 8) div 8)" "n mod 8 = (n - 8) mod 8"
        by (simp_all add: le_div_geq le_mod_geq)
      with False x IH(2) [of "n - 8"] that show ?thesis by (simp add: nth_append)
    qed
    with IH(1) x show ?case by simp
  qed simp
  then show "length (concat (map f xs)) = 8 * length xs"
    and "n < 8 * length xs \<Longrightarrow> concat (map f xs) ! n = f (xs ! (n div 8)) ! (n mod 8)"
    by blast+
qed

lemma extract_bits_length [simp]: "length (extract_bits data) = 8 * length data"
  by (simp add: extract_bits_def concat_blocks(1))

lemma extract_bits_nth:
  "n < 8 * length data \<Longrightarrow> extract_bits data ! n = bit (data ! (n div 8)) (n mod 8)"
  by (simp add: extract_bits_def concat_blocks(2) byte_bits_nth)

lemma parse_partition_bits_length: "4 \<le> length data \<Longrightarrow> length (parse_partition_bits data) = 32"
  by (simp add: parse_partition_bits_def concat_blocks(1))

lemma parse_partition_bits_nth:
  assumes "4 \<le> length data" and "n < 32"
  shows "parse_partition_bits data ! n = bit (data ! (n div 8)) (n mod 8)"
proof -
  have "n div 8 < 4" using assms(2) by (simp add: div_less_iff_less_mult)
  with assms show ?thesis
    by (simp add: parse_partition_bits_def concat_blocks(2) byte_bits_nth)
qed

lemma zone_bit_eq:
  "i < 8 \<Longrightarrow> zone_bit ivs k b i = (bit b i \<noteq> (word_of_nat (k * 8 + i + 1) \<in> set ivs))"
  by (auto simp: zone_bit_def Let_def bit_iff_and_push_bit_not_eq_0)

lemma parse_bit_states_length [simp]: "length (parse_bit_states data ivs) = 8 * length data"
  unfolding parse_bit_states_def by (subst concat_blocks(1)) auto

lemma parse_bit_states_nth:
  assumes "n < 8 * length data"
  shows "parse_bit_states data ivs ! n =
    (bit (data ! (n div 8)) (n mod 8) \<noteq> (word_of_nat (n + 1) \<in> set ivs))"
proof -
  have k: "n div 8 < length data" using assms by (simp add: div_less_iff_less_mult)
  have "parse_bit_states data ivs ! n
      = map (zone_bit ivs (n div 8) (data ! (n div 8))) [0..<8] ! (n mod 8)"
    using assms k unfolding parse_bit_states_def
    by (subst concat_blocks(2)) (auto simp: nth_enumerate_eq)
  also have "\<dots> = zone_bit ivs (n div 8) (data ! (n div 8)) (n mod 8)"
    by simp
  also have "\<dots> = (bit (data ! (n div 8)) (n mod 8) \<noteq> (word_of_nat (n div 8 * 8 + n mod 8 + 1) \<in> set ivs))"
    by (rule zone_bit_eq) simp
  finally show ?thesis by simp
qed

lemma frame_data_Inr:
  "frame_data cmd k frame = Inr data \<longleftrightarrow> frame = cmd # data \<and> k \<le> length data"
  by (cases frame) (auto simp: frame_data_def)

lemma frame_data_total:
  "(\<exists>data. frame_data cmd k frame = Inr data) \<or> frame_data cmd k frame = Inl InvalidFrame"
  by (auto simp: frame_data_def)

lemma zones_frame_Inr:
  "zones_frame cmd now frame ivs = Inr d \<longleftrightarrow>
    (\<exists>data. frame = cmd # data \<and> 16 \<le> length data
      \<and> d = \<lparr>sd_states = parse_bit_states data ivs, sd_read_at = now\<rparr>)"
  by (auto simp: zones_frame_def bind_result_Inr_iff frame_data_Inr)

lemma zones_frame_Inl:
  "zones_frame cmd now frame ivs = Inl e \<Longrightarrow> e = InvalidFrame"
  using frame_data_total [of cmd 16 frame] by (auto simp: zones_frame_def)

lemma partitions_frame_Inr:
  "partitions_frame cmd now frame = Inr d \<longleftrightarrow>
    (\<exists>data. frame = cmd # data \<and> 4 \<le> length data
      \<and> d = \<lparr>sd_states = parse_partition_bits data, sd_read_at = now\<rparr>)"
  by (auto simp: partitions_frame_def bind_result_Inr_iff frame_data_Inr)

lemma outputs_frame_Inr:
  "process_outputs_state now frame = Inr d \<longleftrightarrow>
    (\<exists>data. frame = 0x17 # data \<and> 16 \<le> length data
      \<and> d = \<lparr>sd_states = extract_bits data, sd_read_at = now\<rparr>)"
  by (auto simp: process_outputs_state_def bind_result_Inr_iff frame_data_Inr)

text \<open>
  C36. A zone state frame is accepted exactly with its command byte and at least 16 data bytes, and
  every other frame is an \<open>InvalidFrame\<close> error. The state of zone \<open>n\<close> is bit \<open>(n - 1) mod 8\<close> of data
  byte \<open>(n - 1) div 8\<close>, inverted exactly when \<open>n\<close> is in the inversion list, with eight zones for
  every data byte.
\<close>

theorem zones_frame_states:
  "case zones_frame cmd now frame ivs of
     Inl e \<Rightarrow> e = InvalidFrame \<and> \<not> (\<exists>data. frame = cmd # data \<and> 16 \<le> length data)
   | Inr d \<Rightarrow> frame = cmd # tl frame \<and> 16 \<le> length (tl frame) \<and> sd_read_at d = now
       \<and> length (sd_states d) = 8 * length (tl frame)
       \<and> (\<forall>n \<in> {1..8 * length (tl frame)}. sd_states d ! (n - 1) \<longleftrightarrow>
            bit (tl frame ! ((n - 1) div 8)) ((n - 1) mod 8) \<noteq> (word_of_nat n \<in> set ivs))"
proof (cases "zones_frame cmd now frame ivs")
  case (Inl e)
  moreover from this have "\<nexists>data. frame = cmd # data \<and> 16 \<le> length data"
    using zones_frame_Inr [of cmd now frame ivs] by (metis Inl_Inr_False)
  ultimately show ?thesis using zones_frame_Inl by simp
next
  case (Inr d)
  then obtain data where data: "frame = cmd # data" "16 \<le> length data"
    and d: "d = \<lparr>sd_states = parse_bit_states data ivs, sd_read_at = now\<rparr>"
    by (auto simp: zones_frame_Inr)
  have "parse_bit_states data ivs ! (n - 1) \<longleftrightarrow>
      bit (data ! ((n - 1) div 8)) ((n - 1) mod 8) \<noteq> (word_of_nat n \<in> set ivs)"
    if "n \<in> {1..8 * length data}" for n
  proof -
    have "n - 1 < 8 * length data" using that by auto
    from parse_bit_states_nth [OF this, of ivs] that show ?thesis by simp
  qed
  with Inr data d show ?thesis by simp
qed

theorem zones_frame_states_witness:
  "\<exists>d. process_zones_violation 7 (0x00 # 0x81 # replicate 15 0) [2, 8] = Inr d
    \<and> sd_states d ! 0 \<and> sd_states d ! 1 \<and> \<not> sd_states d ! 7 \<and> \<not> sd_states d ! 8"
proof -
  let ?f = "0x00 # 0x81 # replicate 15 0 :: bytes"
  obtain d where d: "zones_frame 0x00 7 ?f [2, 8] = Inr d"
    by (auto simp: zones_frame_Inr)
  have all: "\<forall>n \<in> {1..8 * length (tl ?f)}. sd_states d ! (n - 1) \<longleftrightarrow>
      bit (tl ?f ! ((n - 1) div 8)) ((n - 1) mod 8) \<noteq> (word_of_nat n \<in> set [2, 8 :: u16])"
    using zones_frame_states [where cmd = 0 and now = 7 and frame = ?f and ivs = "[2, 8]"] d by simp
  show ?thesis
    using d all [rule_format, of 1] all [rule_format, of 2] all [rule_format, of 8]
      all [rule_format, of 9]
    by (auto simp: process_zones_violation_def bit_numeral_rec)
qed

text \<open>
  A temperature frame of at least three data bytes gives the zone number (zone 256 is sent as 0)
  and the temperature \<open>raw / 2 - 55\<close> degrees, which is between -55 and 32712 and a multiple of one
  half; the raw value \<open>FFFF\<close> is the sensor error, any other frame an invalid frame.
\<close>

theorem process_zone_temperature_cases:
  "process_zone_temperature (0x7D # z # h # l # rest) =
     (if h = 0xFF \<and> l = 0xFF then Inl TemperatureSensorError
      else Inr (if z = 0 then 256 else ucast z, (256 * of_nat (unat h) + of_nat (unat l)) / 2 - 55))
   \<and> (process_zone_temperature frame = Inl InvalidFrame \<longleftrightarrow>
        \<not> (\<exists>z h l rest. frame = 0x7D # z # h # l # rest))"
proof
  have "be16 h l = 0xFFFF \<longleftrightarrow> h = 0xFF \<and> l = 0xFF"
  proof -
    have "be16 0xFF 0xFF = 0xFFFF" by (simp add: be16_def)
    then show ?thesis by (metis be16_inject)
  qed
  then show "process_zone_temperature (0x7D # z # h # l # rest) =
     (if h = 0xFF \<and> l = 0xFF then Inl TemperatureSensorError
      else Inr (if z = 0 then 256 else ucast z, (256 * of_nat (unat h) + of_nat (unat l)) / 2 - 55))"
    by (simp add: process_zone_temperature_def frame_data_def Let_def unat_be16)
next
  have "3 \<le> length data \<longleftrightarrow> (\<exists>z h l rest. data = z # h # l # rest)" for data :: bytes
    by (auto simp: Suc_le_length_iff numeral_3_eq_3)
  then show "process_zone_temperature frame = Inl InvalidFrame \<longleftrightarrow>
        \<not> (\<exists>z h l rest. frame = 0x7D # z # h # l # rest)"
    using frame_data_total [of "0x7D" 3 frame]
    by (cases frame) (auto simp: process_zone_temperature_def bind_result_Inl_iff frame_data_Inr Let_def
        frame_data_def not_less split: if_splits)
qed

end
