(* ===== verification/Trouble_Frames.thy ===== *)
theory Trouble_Frames
  imports Bit_Parsers
begin

text \<open>
  The trouble frames of \<open>src/src/parsers/system.rs\<close>: the table of field rules for each command with
  its evaluation (\<open>decode_troubles\<close>), and the parsers that fill the trouble records. A rule that reads
  a slice is evaluated with \<open>sub_list\<close>; \<open>rules_local\<close> shows that no rule reads past the length
  that was checked, so the source's slicing cannot panic.
\<close>

section \<open>Items and rules\<close>

datatype trouble_item =
    ItemFlag trouble_type bool bool
  | ItemAcuJamLevel u8 u8
  | ItemCmeError cme_source u8 bool u16

datatype field_rule =
    Bitmask nat nat u16 bool "u16 \<Rightarrow> trouble_type"
  | ModuleMask nat bool "u8 \<Rightarrow> trouble_type"
  | Custom bool "bytes \<Rightarrow> bool \<Rightarrow> trouble_item list"
  | BitmaskLimit nat nat nat u16 bool "u16 \<Rightarrow> trouble_type"

definition decode_system_troubles :: "bytes \<Rightarrow> bool \<Rightarrow> trouble_item list" where
  "decode_system_troubles data memory =
    (if length data < 43 then []
     else let b1 = data ! 40; b2 = data ! 41; b3 = data ! 42
     in map (\<lambda>(t, active). ItemFlag t memory active)
      [(MainBoardOutOverload 1, b1 AND push_bit 0 1 \<noteq> 0),
       (MainBoardOutOverload 2, b1 AND push_bit 1 1 \<noteq> 0),
       (MainBoardOutOverload 3, b1 AND push_bit 2 1 \<noteq> 0),
       (MainBoardOutOverload 4, b1 AND push_bit 3 1 \<noteq> 0),
       (MainBoardKpdPowerOverload, b1 AND push_bit 4 1 \<noteq> 0),
       (MainBoardExPowerOverload, b1 AND push_bit 5 1 \<noteq> 0),
       (MainBoardBatteryLow, b1 AND push_bit 6 1 \<noteq> 0),
       (MainBoardAcLoss, b1 AND push_bit 7 1 \<noteq> 0),
       (MainBoardDataBusDt1, b2 AND push_bit 0 1 \<noteq> 0),
       (MainBoardDataBusDt2, b2 AND push_bit 1 1 \<noteq> 0),
       (MainBoardDataBusDtm, b2 AND push_bit 2 1 \<noteq> 0),
       (RtcLoss, b2 AND push_bit 3 1 \<noteq> 0),
       (NoDtrSignal, b2 AND push_bit 4 1 \<noteq> 0),
       (MainBoardBatteryMissing, b2 AND push_bit 5 1 \<noteq> 0),
       (ExternalModemInitTrouble, b2 AND push_bit 6 1 \<noteq> 0),
       (ExternalModemCmdTrouble, b2 AND push_bit 7 1 \<noteq> 0),
       (TelephoneLineNoVoltage, b3 AND push_bit 0 1 \<noteq> 0),
       (TelephoneLineBadSignal, b3 AND push_bit 1 1 \<noteq> 0),
       (TelephoneLineNoSignal, b3 AND push_bit 2 1 \<noteq> 0),
       (MonitoringStation1Trouble, b3 AND push_bit 3 1 \<noteq> 0),
       (MonitoringStation2Trouble, b3 AND push_bit 4 1 \<noteq> 0),
       (EepromRtcTrouble, b3 AND push_bit 5 1 \<noteq> 0),
       (RamMemoryError, b3 AND push_bit 6 1 \<noteq> 0),
       (MainPanelRestartMemory, b3 AND push_bit 7 1 \<noteq> 0)])"

definition decode_ethm_ptsa_status :: "bytes \<Rightarrow> bool \<Rightarrow> trouble_item list" where
  "decode_ethm_ptsa_status data memory =
    (if length data < 47 then []
     else let p4 = data ! 46
     in map (\<lambda>(t, active). ItemFlag t memory active)
      [(EthmMonitoringStation1Error, p4 AND push_bit 0 1 \<noteq> 0),
       (EthmMonitoringStation2Error, p4 AND push_bit 1 1 \<noteq> 0),
       (GprsMonitoringStation1Error, p4 AND push_bit 2 1 \<noteq> 0),
       (GprsMonitoringStation2Error, p4 AND push_bit 3 1 \<noteq> 0),
       (TimeServerTrouble, p4 AND push_bit 4 1 \<noteq> 0),
       (GsmInitError, p4 AND push_bit 5 1 \<noteq> 0),
       (IpMonitoringStation1Trouble, p4 AND push_bit 6 1 \<noteq> 0),
       (IpMonitoringStation2Trouble, p4 AND push_bit 7 1 \<noteq> 0)])"

definition decode_aux_stm :: "bytes \<Rightarrow> bool \<Rightarrow> trouble_item list" where
  "decode_aux_stm data memory =
    (if length data > 29 then [ItemFlag AuxiliaryStmTroubles memory (data ! 29 \<noteq> 0)] else [])"

definition decode_acu_jam_level :: "bytes \<Rightarrow> bool \<Rightarrow> trouble_item list" where
  "decode_acu_jam_level data memory =
    map (\<lambda>i. ItemAcuJamLevel (word_of_nat (i + 1)) (data ! i)) [0..<min 15 (length data)]"

definition decode_acu_jam_level_16_30 :: "bytes \<Rightarrow> bool \<Rightarrow> trouble_item list" where
  "decode_acu_jam_level_16_30 data memory =
    (if length data < 47 then []
     else map (\<lambda>i. ItemAcuJamLevel (word_of_nat (i + 16)) (data ! (32 + i))) [0..<15])"

definition gsm_flags :: "nat \<Rightarrow> u8 \<Rightarrow> u8 \<Rightarrow> u8 \<Rightarrow> u8 \<Rightarrow> (trouble_type \<times> bool) list" where
  "gsm_flags md b0 b1 b2 b3 =
    (let m = word_of_nat md; off = md * 8
     in [(GsmEthmStation1Error m, b0 AND push_bit 0 1 \<noteq> 0),
         (GsmEthmStation2Error m, b0 AND push_bit 1 1 \<noteq> 0),
         (GsmGprsSim1Station1Error m, b0 AND push_bit 2 1 \<noteq> 0),
         (GsmGprsSim1Station2Error m, b0 AND push_bit 3 1 \<noteq> 0),
         (GsmGprsSim2Station1Error m, b0 AND push_bit 4 1 \<noteq> 0),
         (GsmGprsSim2Station2Error m, b0 AND push_bit 5 1 \<noteq> 0),
         (GsmSmsSim1Station1Error m, b0 AND push_bit 6 1 \<noteq> 0),
         (GsmSmsSim1Station2Error m, b0 AND push_bit 7 1 \<noteq> 0),
         (GsmSmsSim2Station1Error m, b1 AND push_bit 0 1 \<noteq> 0),
         (GsmSmsSim2Station2Error m, b1 AND push_bit 1 1 \<noteq> 0),
         (GsmSimPinError m 1, b1 AND push_bit 2 1 \<noteq> 0),
         (GsmSimPinError m 2, b1 AND push_bit 3 1 \<noteq> 0),
         (GsmSimLoggingError m 1, b1 AND push_bit 4 1 \<noteq> 0),
         (GsmSimLoggingError m 2, b1 AND push_bit 5 1 \<noteq> 0),
         (GsmSimCreditLow m 1, b1 AND push_bit 6 1 \<noteq> 0),
         (GsmSimCreditLow m 2, b1 AND push_bit 7 1 \<noteq> 0),
         (GsmSimSmsError m 1, b2 AND push_bit 0 1 \<noteq> 0),
         (GsmSimSmsError m 2, b2 AND push_bit 1 1 \<noteq> 0),
         (GsmJamming m, b2 AND push_bit 2 1 \<noteq> 0),
         (GsmSettingsCrcError m, b2 AND push_bit 3 1 \<noteq> 0),
         (GsmModuleMissing m, b2 AND push_bit 4 1 \<noteq> 0),
         (GsmModuleChanged m, b2 AND push_bit 5 1 \<noteq> 0),
         (GsmServerConnError m, b2 AND push_bit 6 1 \<noteq> 0),
         (GsmMailServerConnError m, b2 AND push_bit 7 1 \<noteq> 0),
         (GsmNtpServerConnError m, b3 AND push_bit 0 1 \<noteq> 0)]
      @ map (\<lambda>i. (GenericTrouble 7 (word_of_nat (off * 8 + 3 * 8 + i)), b3 AND push_bit i 1 \<noteq> 0)) [1..<8])"

fun is_generic :: "trouble_type \<Rightarrow> bool" where
  "is_generic t = (case t of GenericTrouble _ _ \<Rightarrow> True | _ \<Rightarrow> False)"

definition gsm_module_items :: "bytes \<Rightarrow> bool \<Rightarrow> nat \<Rightarrow> trouble_item list" where
  "gsm_module_items data memory md =
    (let off = md * 8; m = word_of_nat md;
         flags = gsm_flags md (data ! off) (data ! (off + 1)) (data ! (off + 2)) (data ! (off + 3));
         sim1_cme = be16 (data ! (off + 4)) (data ! (off + 5));
         sim2_cme = be16 (data ! (off + 6)) (data ! (off + 7))
     in map (\<lambda>(t, active). ItemFlag t memory active)
          (filter (\<lambda>(t, active). \<not> is_generic t \<or> active) flags)
        @ [ItemCmeError (GsmModule m) 1 memory sim1_cme, ItemCmeError (GsmModule m) 2 memory sim2_cme])"

text \<open>The loop over the eight modules stops at the first one that is not complete.\<close>

definition decode_gsm_block :: "bytes \<Rightarrow> bool \<Rightarrow> trouble_item list" where
  "decode_gsm_block data memory =
    concat (map (gsm_module_items data memory)
      (takeWhile (\<lambda>md. md * 8 + 8 \<le> length data) [0..<8]))"

definition decode_panel_cme :: "bytes \<Rightarrow> bool \<Rightarrow> trouble_item list" where
  "decode_panel_cme data memory =
    (if 39 \<le> length data
     then [ItemCmeError PanelSource 1 False (be16 (data ! 35) (data ! 36)),
           ItemCmeError PanelSource 1 True (be16 (data ! 37) (data ! 38))]
     else [])"

text \<open>\<open>get_rules\<close>: the expected data length and the rules of each command.\<close>

definition get_rules :: "u8 \<Rightarrow> (nat \<times> field_rule list) option" where
  "get_rules cmd =
    (if cmd = 0x1B then Some (47, [
       Bitmask 0 16 1 False TechnicalZoneTrouble,
       Bitmask 16 8 1 False (\<lambda>x. ExpanderAcLoss (ucast x)),
       Bitmask 24 8 1 False (\<lambda>x. ExpanderBatteryLow (ucast x)),
       Bitmask 32 8 1 False (\<lambda>x. ExpanderBatteryMissing (ucast x)),
       Custom False decode_system_troubles,
       ModuleMask 43 False EthmPingTrouble,
       ModuleMask 44 False EthmServerIdError,
       ModuleMask 45 False EthmSatelServerConnectionError,
       Custom False decode_ethm_ptsa_status])
     else if cmd = 0x20 then Some (47, [
       Bitmask 0 16 1 True TechnicalZoneTrouble,
       Bitmask 16 8 1 True (\<lambda>x. ExpanderAcLoss (ucast x)),
       Bitmask 24 8 1 True (\<lambda>x. ExpanderBatteryLow (ucast x)),
       Bitmask 32 8 1 True (\<lambda>x. ExpanderBatteryMissing (ucast x)),
       Custom True decode_system_troubles,
       ModuleMask 43 True EthmPingTrouble,
       ModuleMask 44 True EthmServerIdError,
       ModuleMask 45 True EthmSatelServerConnectionError,
       Custom True decode_ethm_ptsa_status])
     else if cmd = 0x1C then Some (26, [
       Bitmask 0 8 1 False (\<lambda>x. ExpanderCardReaderHeadA (ucast x)),
       Bitmask 8 8 1 False (\<lambda>x. ExpanderCardReaderHeadB (ucast x)),
       Bitmask 16 8 1 False (\<lambda>x. ExpanderSupplyOverload (ucast x)),
       Bitmask 24 2 1 False (\<lambda>x. ExpanderAcuJammedOrShortCircuit (ucast x))])
     else if cmd = 0x21 then Some (39, [
       Bitmask 0 8 1 True (\<lambda>x. ExpanderCardReaderHeadA (ucast x)),
       Bitmask 8 8 1 True (\<lambda>x. ExpanderCardReaderHeadB (ucast x)),
       Bitmask 16 8 1 True (\<lambda>x. ExpanderSupplyOverload (ucast x)),
       Bitmask 24 2 1 True (\<lambda>x. ExpanderAcuJammedOrShortCircuit (ucast x)),
       ModuleMask 26 True KeypadRestart,
       Bitmask 27 8 1 True (\<lambda>x. ExpanderRestart (ucast x)),
       Custom True decode_panel_cme])
     else if cmd = 0x1D then Some (60, [
       Custom False decode_acu_jam_level,
       Bitmask 15 15 17 False WirelessDeviceLowBattery,
       Bitmask 30 15 17 False WirelessDeviceNoComm,
       Bitmask 45 15 17 False WirelessOutputNoComm])
     else if cmd = 0x22 then Some (60, [
       BitmaskLimit 0 2 14 17 False (\<lambda>x. ExpanderAcuJammedOrShortCircuit (ucast x)),
       BitmaskLimit 2 2 14 17 True (\<lambda>x. ExpanderAcuJammedOrShortCircuit (ucast x)),
       Bitmask 15 15 17 True WirelessDeviceLowBattery,
       Bitmask 30 15 17 True WirelessDeviceNoComm,
       Bitmask 45 15 17 True WirelessOutputNoComm])
     else if cmd = 0x1E then Some (30, [
       Bitmask 0 8 1 False (\<lambda>x. ExpanderNoComm (ucast x)),
       Bitmask 8 8 1 False (\<lambda>x. ExpanderSubstituted (ucast x)),
       ModuleMask 16 False KeypadNoComm,
       ModuleMask 17 False KeypadSubstituted,
       ModuleMask 18 False EthmNoLanCable,
       Bitmask 19 8 1 False (\<lambda>x. ExpanderTamper (ucast x)),
       ModuleMask 27 False KeypadTamper,
       ModuleMask 28 False KeypadInitError,
       Custom False decode_aux_stm])
     else if cmd = 0x23 then Some (30, [
       Bitmask 0 8 1 True (\<lambda>x. ExpanderNoComm (ucast x)),
       Bitmask 8 8 1 True (\<lambda>x. ExpanderSubstituted (ucast x)),
       ModuleMask 16 True KeypadNoComm,
       ModuleMask 17 True KeypadSubstituted,
       ModuleMask 18 True EthmNoLanCable,
       Bitmask 19 8 1 True (\<lambda>x. ExpanderTamper (ucast x)),
       ModuleMask 27 True KeypadTamper,
       ModuleMask 28 True KeypadInitError,
       Custom True decode_aux_stm])
     else if cmd = 0x1F then Some (31, [
       ModuleMask 0 False MasterKeyFobLowBattery,
       Bitmask 1 30 1 False UserKeyFobLowBattery])
     else if cmd = 0x24 then Some (48, [
       Bitmask 0 16 1 True ZoneLongViolationTrouble,
       Bitmask 16 16 1 True ZoneNoViolationTrouble,
       Bitmask 32 16 1 True ZoneTamperTrouble])
     else if cmd = 0x2C then Some (45, [
       Bitmask 0 15 137 False WirelessDeviceLowBattery,
       Bitmask 15 15 137 False WirelessDeviceNoComm,
       Bitmask 30 15 137 False WirelessOutputNoComm])
     else if cmd = 0x2E then Some (45, [
       Bitmask 0 15 137 True WirelessDeviceLowBattery,
       Bitmask 15 15 137 True WirelessDeviceNoComm,
       Bitmask 30 15 137 True WirelessOutputNoComm])
     else if cmd = 0x2D then Some (47, [
       Bitmask 0 16 129 False TechnicalZoneTrouble,
       Bitmask 16 16 129 True TechnicalZoneTrouble,
       Custom False decode_acu_jam_level_16_30])
     else if cmd = 0x2F then Some (48, [
       Bitmask 0 16 129 True ZoneLongViolationTrouble,
       Bitmask 16 16 129 True ZoneNoViolationTrouble,
       Bitmask 32 16 129 True ZoneTamperTrouble])
     else if cmd = 0x30 then Some (64, [
       Custom False decode_gsm_block])
     else if cmd = 0x31 then Some (64, [
       Custom True decode_gsm_block])
     else None)"

fun rule_items :: "bytes \<Rightarrow> field_rule \<Rightarrow> trouble_item list" where
  "rule_items data (Bitmask offset len start_num memory ctor) =
    map (\<lambda>(i, active). ItemFlag (ctor (start_num + word_of_nat i)) memory active)
      (enumerate 0 (extract_bits (sub_list offset (offset + len) data)))"
| "rule_items data (ModuleMask offset memory ctor) =
    map (\<lambda>i. ItemFlag (ctor (word_of_nat (i + 1))) memory (data ! offset AND push_bit i 1 \<noteq> 0)) [0..<8]"
| "rule_items data (BitmaskLimit offset len limit start_num memory ctor) =
    map (\<lambda>(i, active). ItemFlag (ctor (start_num + word_of_nat i)) memory active)
      (take limit (enumerate 0 (extract_bits (sub_list offset (offset + len) data))))"
| "rule_items data (Custom memory extractor) = extractor data memory"

definition decode_troubles :: "u8 \<Rightarrow> bytes \<Rightarrow> trouble_item list satel_result" where
  "decode_troubles cmd data =
    (case get_rules cmd of
       None \<Rightarrow> Inl InvalidFrame
     | Some (expected_len, rules) \<Rightarrow>
         if length data < expected_len then Inl InvalidFrame
         else Inr (concat (map (rule_items data) rules)))"

section \<open>Trouble records\<close>

text \<open>The parsers for two commands check the command byte against both.\<close>

definition frame_data2 :: "u8 \<Rightarrow> u8 \<Rightarrow> nat \<Rightarrow> bytes \<Rightarrow> bytes satel_result" where
  "frame_data2 cmd cmd' min_len frame =
    (if frame = [] \<or> (hd frame \<noteq> cmd \<and> hd frame \<noteq> cmd') then Inl InvalidFrame
     else if length (tl frame) < min_len then Inl InvalidFrame
     else Inr (tl frame))"

definition process_troubles_part1 :: "timestamp \<Rightarrow> bytes \<Rightarrow> troubles_part1_data satel_result" where
  "process_troubles_part1 now frame =
    bind_result (frame_data2 0x1B 0x20 47 frame) (\<lambda>data.
      let b1 = data ! 40;
          b2 = data ! 41;
          b3 = data ! 42;
          main_board = \<lparr>mb_out1_trouble = (b1 AND push_bit 0 1 \<noteq> 0),
           mb_out2_trouble = (b1 AND push_bit 1 1 \<noteq> 0),
           mb_out3_trouble = (b1 AND push_bit 2 1 \<noteq> 0),
           mb_out4_trouble = (b1 AND push_bit 3 1 \<noteq> 0),
           mb_kpd_power_trouble = (b1 AND push_bit 4 1 \<noteq> 0),
           mb_ex1_ex2_power_trouble = (b1 AND push_bit 5 1 \<noteq> 0),
           mb_battery_trouble = (b1 AND push_bit 6 1 \<noteq> 0),
           mb_ac_trouble = (b1 AND push_bit 7 1 \<noteq> 0),
           mb_dt1_trouble = (b2 AND push_bit 0 1 \<noteq> 0),
           mb_dt2_trouble = (b2 AND push_bit 1 1 \<noteq> 0),
           mb_dtm_trouble = (b2 AND push_bit 2 1 \<noteq> 0),
           mb_rtc_trouble = (b2 AND push_bit 3 1 \<noteq> 0),
           mb_no_dtr_signal = (b2 AND push_bit 4 1 \<noteq> 0),
           mb_no_battery_present = (b2 AND push_bit 5 1 \<noteq> 0),
           mb_external_modem_init_trouble = (b2 AND push_bit 6 1 \<noteq> 0),
           mb_external_modem_cmd_trouble = (b2 AND push_bit 7 1 \<noteq> 0),
           mb_tel_line_no_voltage = (b3 AND push_bit 0 1 \<noteq> 0),
           mb_tel_line_bad_signal = (b3 AND push_bit 1 1 \<noteq> 0),
           mb_tel_line_no_signal = (b3 AND push_bit 2 1 \<noteq> 0),
           mb_monitoring_station_1_trouble = (b3 AND push_bit 3 1 \<noteq> 0),
           mb_monitoring_station_2_trouble = (b3 AND push_bit 4 1 \<noteq> 0),
           mb_eeprom_rtc_trouble = (b3 AND push_bit 5 1 \<noteq> 0),
           mb_ram_trouble = (b3 AND push_bit 6 1 \<noteq> 0),
           mb_main_panel_restart = (b3 AND push_bit 7 1 \<noteq> 0)\<rparr>;
          p1 = data ! 43;
          p2 = data ! 44;
          p3 = data ! 45;
          p4 = data ! 46;
          ethm_ptsa = \<lparr>ep_ethm_ping_trouble = (p1 \<noteq> 0),
           ep_server_id_error = (p2 \<noteq> 0),
           ep_no_server_connection = (p3 \<noteq> 0),
           ep_no_ethm_mon_station_1 = (p4 AND push_bit 0 1 \<noteq> 0),
           ep_no_ethm_mon_station_2 = (p4 AND push_bit 1 1 \<noteq> 0),
           ep_no_gprs_mon_station_1 = (p4 AND push_bit 2 1 \<noteq> 0),
           ep_no_gprs_mon_station_2 = (p4 AND push_bit 3 1 \<noteq> 0),
           ep_time_server_trouble = (p4 AND push_bit 4 1 \<noteq> 0),
           ep_gsm_init_error = (p4 AND push_bit 5 1 \<noteq> 0),
           ep_ip_mon_station_1_trouble = (p4 AND push_bit 6 1 \<noteq> 0),
           ep_ip_mon_station_2_trouble = (p4 AND push_bit 7 1 \<noteq> 0)\<rparr>
      in Inr \<lparr>t1_is_memory = (hd frame = 0x20),
           t1_technical_zones = extract_bits (sub_list 0 16 data),
           t1_expanders_ac = extract_bits (sub_list 16 24 data),
           t1_expanders_battery = extract_bits (sub_list 24 32 data),
           t1_expanders_no_battery = extract_bits (sub_list 32 40 data),
           t1_main_board = main_board,
           t1_ethm_ptsa = ethm_ptsa,
           t1_read_at = now\<rparr>)"

definition process_troubles_part2 :: "timestamp \<Rightarrow> bytes \<Rightarrow> troubles_part2_data satel_result" where
  "process_troubles_part2 now frame =
    bind_result (frame_data 0x1C 26 frame) (\<lambda>data.
      Inr \<lparr>t2_is_memory = False,
           t2_card_readers_head_a_or_synchro = extract_bits (sub_list 0 8 data),
           t2_card_readers_head_b_or_charging = extract_bits (sub_list 8 16 data),
           t2_expanders_supply_overload = extract_bits (sub_list 16 24 data),
           t2_acu_jammed_or_short_circuit = extract_bits (sub_list 24 26 data),
           t2_read_at = now\<rparr>)"

definition process_troubles_memory_part2 :: "timestamp \<Rightarrow> bytes \<Rightarrow> troubles_memory_part2_data satel_result" where
  "process_troubles_memory_part2 now frame =
    bind_result (frame_data 0x21 39 frame) (\<lambda>data.
      Inr \<lparr>m2_card_readers_head_a_or_synchro = extract_bits (sub_list 0 8 data),
           m2_card_readers_head_b_or_charging = extract_bits (sub_list 8 16 data),
           m2_expanders_supply_overload = extract_bits (sub_list 16 24 data),
           m2_acu_jammed_or_short_circuit = extract_bits (sub_list 24 26 data),
           m2_keypad_restart = extract_bits (sub_list 26 27 data),
           m2_expander_restart = extract_bits (sub_list 27 35 data),
           m2_sim_cme_error = be16 (data ! 35) (data ! 36),
           m2_sim_cme_error_memory = be16 (data ! 37) (data ! 38),
           m2_read_at = now\<rparr>)"

definition process_troubles_part3 :: "timestamp \<Rightarrow> bytes \<Rightarrow> troubles_part3_data satel_result" where
  "process_troubles_part3 now frame =
    bind_result (frame_data 0x1D 60 frame) (\<lambda>data.
      Inr \<lparr>t3_is_memory = False,
           t3_acu_jam_levels = sub_list 0 15 data,
           t3_wireless_devices_low_battery = extract_bits (sub_list 15 30 data),
           t3_wireless_devices_no_comm = extract_bits (sub_list 30 45 data),
           t3_wireless_outputs_no_comm = extract_bits (sub_list 45 60 data),
           t3_read_at = now\<rparr>)"

definition process_troubles_memory_part3 :: "timestamp \<Rightarrow> bytes \<Rightarrow> troubles_memory_part3_data satel_result" where
  "process_troubles_memory_part3 now frame =
    bind_result (frame_data 0x22 60 frame) (\<lambda>data.
      Inr \<lparr>m3_acu_jammed_or_short_circuit = extract_bits (sub_list 0 2 data),
           m3_acu_jammed_or_short_circuit_memory = extract_bits (sub_list 2 4 data),
           m3_wireless_devices_low_battery = extract_bits (sub_list 15 30 data),
           m3_wireless_devices_no_comm = extract_bits (sub_list 30 45 data),
           m3_wireless_outputs_no_comm = extract_bits (sub_list 45 60 data),
           m3_read_at = now\<rparr>)"

definition process_troubles_part4 :: "timestamp \<Rightarrow> bytes \<Rightarrow> troubles_part4_data satel_result" where
  "process_troubles_part4 now frame =
    bind_result (frame_data2 0x1E 0x23 30 frame) (\<lambda>data.
      Inr \<lparr>t4_is_memory = (hd frame = 0x23),
           t4_expanders_no_comm = extract_bits (sub_list 0 8 data),
           t4_expanders_substituted = extract_bits (sub_list 8 16 data),
           t4_keypads_no_comm = extract_bits (sub_list 16 17 data),
           t4_keypads_substituted = extract_bits (sub_list 17 18 data),
           t4_ethm_no_lan_or_intrs_no_dsr = extract_bits (sub_list 18 19 data),
           t4_expanders_tamper = extract_bits (sub_list 19 27 data),
           t4_keypads_tamper = extract_bits (sub_list 27 28 data),
           t4_keypad_init_errors = extract_bits (sub_list 28 29 data),
           t4_auxiliary_stm_troubles = data ! 29,
           t4_read_at = now\<rparr>)"

definition process_troubles_part5 :: "timestamp \<Rightarrow> bytes \<Rightarrow> troubles_part5_data satel_result" where
  "process_troubles_part5 now frame =
    bind_result (frame_data 0x1F 31 frame) (\<lambda>data.
      Inr \<lparr>t5_is_memory = False,
           t5_masters_key_fobs_low_battery = extract_bits (sub_list 0 1 data),
           t5_users_key_fobs_low_battery = extract_bits (sub_list 1 31 data),
           t5_read_at = now\<rparr>)"

definition process_troubles_memory_part5 :: "timestamp \<Rightarrow> bytes \<Rightarrow> troubles_memory_part5_data satel_result" where
  "process_troubles_memory_part5 now frame =
    bind_result (frame_data 0x24 48 frame) (\<lambda>data.
      Inr \<lparr>m5_zone_long_violation = extract_bits (sub_list 0 16 data),
           m5_zone_no_violation = extract_bits (sub_list 16 32 data),
           m5_zone_tamper = extract_bits (sub_list 32 48 data),
           m5_read_at = now\<rparr>)"

definition process_troubles_part6 :: "timestamp \<Rightarrow> bytes \<Rightarrow> troubles_part6_data satel_result" where
  "process_troubles_part6 now frame =
    bind_result (frame_data2 0x2C 0x2E 45 frame) (\<lambda>data.
      Inr \<lparr>t6_is_memory = (hd frame = 0x2E),
           t6_wireless_devices_low_battery = extract_bits (sub_list 0 15 data),
           t6_wireless_devices_no_comm = extract_bits (sub_list 15 30 data),
           t6_wireless_outputs_no_comm = extract_bits (sub_list 30 45 data),
           t6_read_at = now\<rparr>)"

definition process_troubles_part7 :: "timestamp \<Rightarrow> bytes \<Rightarrow> troubles_part7_data satel_result" where
  "process_troubles_part7 now frame =
    bind_result (frame_data 0x2D 47 frame) (\<lambda>data.
      Inr \<lparr>t7_is_memory = False,
           t7_technical_zones = extract_bits (sub_list 0 16 data),
           t7_technical_zones_memory = extract_bits (sub_list 16 32 data),
           t7_acu_jam_levels = sub_list 32 47 data,
           t7_read_at = now\<rparr>)"

definition process_troubles_memory_part7 :: "timestamp \<Rightarrow> bytes \<Rightarrow> troubles_memory_part7_data satel_result" where
  "process_troubles_memory_part7 now frame =
    bind_result (frame_data 0x2F 48 frame) (\<lambda>data.
      Inr \<lparr>m7_zone_long_violation = extract_bits (sub_list 0 16 data),
           m7_zone_no_violation = extract_bits (sub_list 16 32 data),
           m7_zone_tamper = extract_bits (sub_list 32 48 data),
           m7_read_at = now\<rparr>)"

definition gsm_module_troubles_of :: "nat \<Rightarrow> bytes \<Rightarrow> gsm_module_troubles" where
  "gsm_module_troubles_of addr chunk =
    (let b0 = chunk ! 0; b1 = chunk ! 1; b2 = chunk ! 2; b3 = chunk ! 3
     in \<lparr>gm_module_address = word_of_nat addr,
       gm_no_ethm_mon_station_1 = (b0 AND push_bit 0 1 \<noteq> 0),
       gm_no_ethm_mon_station_2 = (b0 AND push_bit 1 1 \<noteq> 0),
       gm_no_gprs_sim1_mon_station_1 = (b0 AND push_bit 2 1 \<noteq> 0),
       gm_no_gprs_sim1_mon_station_2 = (b0 AND push_bit 3 1 \<noteq> 0),
       gm_no_gprs_sim2_mon_station_1 = (b0 AND push_bit 4 1 \<noteq> 0),
       gm_no_gprs_sim2_mon_station_2 = (b0 AND push_bit 5 1 \<noteq> 0),
       gm_no_sms_sim1_mon_station_1 = (b0 AND push_bit 6 1 \<noteq> 0),
       gm_no_sms_sim1_mon_station_2 = (b0 AND push_bit 7 1 \<noteq> 0),
       gm_no_sms_sim2_mon_station_1 = (b1 AND push_bit 0 1 \<noteq> 0),
       gm_no_sms_sim2_mon_station_2 = (b1 AND push_bit 1 1 \<noteq> 0),
       gm_wrong_sim1_pin = (b1 AND push_bit 2 1 \<noteq> 0),
       gm_wrong_sim2_pin = (b1 AND push_bit 3 1 \<noteq> 0),
       gm_sim1_logging_error = (b1 AND push_bit 4 1 \<noteq> 0),
       gm_sim2_logging_error = (b1 AND push_bit 5 1 \<noteq> 0),
       gm_sim1_credit_low = (b1 AND push_bit 6 1 \<noteq> 0),
       gm_sim2_credit_low = (b1 AND push_bit 7 1 \<noteq> 0),
       gm_sim1_sms_error = (b2 AND push_bit 0 1 \<noteq> 0),
       gm_sim2_sms_error = (b2 AND push_bit 1 1 \<noteq> 0),
       gm_gsm_jamming = (b2 AND push_bit 2 1 \<noteq> 0),
       gm_settings_crc_error = (b2 AND push_bit 3 1 \<noteq> 0),
       gm_missing_module = (b2 AND push_bit 4 1 \<noteq> 0),
       gm_changed_module = (b2 AND push_bit 5 1 \<noteq> 0),
       gm_satel_server_conn_error = (b2 AND push_bit 6 1 \<noteq> 0),
       gm_mail_server_conn_error = (b2 AND push_bit 7 1 \<noteq> 0),
       gm_ntp_server_conn_error = (b3 AND push_bit 0 1 \<noteq> 0),
       gm_sim1_cme_error = be16 (chunk ! 4) (chunk ! 5),
       gm_sim2_cme_error = be16 (chunk ! 6) (chunk ! 7)\<rparr>)"

definition process_troubles_part8 :: "timestamp \<Rightarrow> bytes \<Rightarrow> troubles_part8_data satel_result" where
  "process_troubles_part8 now frame =
    bind_result (frame_data2 0x30 0x31 64 frame) (\<lambda>data.
      Inr \<lparr>t8_is_memory = (hd frame = 0x31),
           t8_gsm_modules = map (\<lambda>addr. gsm_module_troubles_of addr (sub_list (addr * 8) ((addr + 1) * 8) data)) [0..<8],
           t8_read_at = now\<rparr>)"

definition process_troubles_frame :: "timestamp \<Rightarrow> bytes \<Rightarrow> troubles_data satel_result" where
  "process_troubles_frame now frame =
    (if frame = [] then Inl InvalidFrame
     else if hd frame = 0x1B \<or> hd frame = 0x20
     then map_sum id PartData1 (process_troubles_part1 now frame)
     else if hd frame = 0x1C
     then map_sum id PartData2 (process_troubles_part2 now frame)
     else if hd frame = 0x21
     then map_sum id MemoryPartData2 (process_troubles_memory_part2 now frame)
     else if hd frame = 0x1D
     then map_sum id PartData3 (process_troubles_part3 now frame)
     else if hd frame = 0x22
     then map_sum id MemoryPartData3 (process_troubles_memory_part3 now frame)
     else if hd frame = 0x1E \<or> hd frame = 0x23
     then map_sum id PartData4 (process_troubles_part4 now frame)
     else if hd frame = 0x1F
     then map_sum id PartData5 (process_troubles_part5 now frame)
     else if hd frame = 0x24
     then map_sum id MemoryPartData5 (process_troubles_memory_part5 now frame)
     else if hd frame = 0x2C \<or> hd frame = 0x2E
     then map_sum id PartData6 (process_troubles_part6 now frame)
     else if hd frame = 0x2D
     then map_sum id PartData7 (process_troubles_part7 now frame)
     else if hd frame = 0x2F
     then map_sum id MemoryPartData7 (process_troubles_memory_part7 now frame)
     else if hd frame = 0x30 \<or> hd frame = 0x31
     then map_sum id PartData8 (process_troubles_part8 now frame)
     else Inl InvalidFrame)"

named_theorems announced \<open>troubles that the catalog announces\<close>

lemma unat_ucast_u8_u16: "unat (ucast (n :: u8) :: u16) = unat n"
  using byte_less_256 [of n]
  by (simp add: unsigned_ucast_eq unsigned_take_bit_eq take_bit_nat_def del: byte_less_256)

section \<open>Which troubles the catalog announces\<close>

text \<open>One introduction rule for each trouble, with the numbers the catalog entry allows.\<close>

lemma announced_main_board_ac_loss [announced]:
  "trouble_announced MainBoardAcLoss m"
  by (rule trouble_announced_intros(1), simp, rule trouble_address_of.simps) (simp_all add: word_le_nat_alt unat_ucast_u8_u16)

lemma announced_main_board_battery_low [announced]:
  "trouble_announced MainBoardBatteryLow m"
  by (rule trouble_announced_intros(2), simp, rule trouble_address_of.simps) (simp_all add: word_le_nat_alt unat_ucast_u8_u16)

lemma announced_main_board_battery_missing [announced]:
  "trouble_announced MainBoardBatteryMissing m"
  by (rule trouble_announced_intros(3), simp, rule trouble_address_of.simps) (simp_all add: word_le_nat_alt unat_ucast_u8_u16)

lemma announced_main_board_out_overload [announced]:
  "1 \<le> unat n \<Longrightarrow> unat n \<le> 4 \<Longrightarrow> trouble_announced (MainBoardOutOverload n) m"
  by (rule trouble_announced_intros(4), simp, rule trouble_address_of.simps) (simp_all add: word_le_nat_alt unat_ucast_u8_u16)

lemma announced_main_board_kpd_power_overload [announced]:
  "trouble_announced MainBoardKpdPowerOverload m"
  by (rule trouble_announced_intros(5), simp, rule trouble_address_of.simps) (simp_all add: word_le_nat_alt unat_ucast_u8_u16)

lemma announced_main_board_ex_power_overload [announced]:
  "trouble_announced MainBoardExPowerOverload m"
  by (rule trouble_announced_intros(6), simp, rule trouble_address_of.simps) (simp_all add: word_le_nat_alt unat_ucast_u8_u16)

lemma announced_main_board_data_bus_dt1 [announced]:
  "trouble_announced MainBoardDataBusDt1 m"
  by (rule trouble_announced_intros(7), simp, rule trouble_address_of.simps) (simp_all add: word_le_nat_alt unat_ucast_u8_u16)

lemma announced_main_board_data_bus_dt2 [announced]:
  "trouble_announced MainBoardDataBusDt2 m"
  by (rule trouble_announced_intros(8), simp, rule trouble_address_of.simps) (simp_all add: word_le_nat_alt unat_ucast_u8_u16)

lemma announced_main_board_data_bus_dtm [announced]:
  "trouble_announced MainBoardDataBusDtm m"
  by (rule trouble_announced_intros(9), simp, rule trouble_address_of.simps) (simp_all add: word_le_nat_alt unat_ucast_u8_u16)

lemma announced_rtc_loss [announced]:
  "trouble_announced RtcLoss m"
  by (rule trouble_announced_intros(10), simp, rule trouble_address_of.simps) (simp_all add: word_le_nat_alt unat_ucast_u8_u16)

lemma announced_no_dtr_signal [announced]:
  "trouble_announced NoDtrSignal m"
  by (rule trouble_announced_intros(11), simp, rule trouble_address_of.simps) (simp_all add: word_le_nat_alt unat_ucast_u8_u16)

lemma announced_external_modem_init_trouble [announced]:
  "trouble_announced ExternalModemInitTrouble m"
  by (rule trouble_announced_intros(12), simp, rule trouble_address_of.simps) (simp_all add: word_le_nat_alt unat_ucast_u8_u16)

lemma announced_external_modem_cmd_trouble [announced]:
  "trouble_announced ExternalModemCmdTrouble m"
  by (rule trouble_announced_intros(13), simp, rule trouble_address_of.simps) (simp_all add: word_le_nat_alt unat_ucast_u8_u16)

lemma announced_telephone_line_no_voltage [announced]:
  "trouble_announced TelephoneLineNoVoltage m"
  by (rule trouble_announced_intros(14), simp, rule trouble_address_of.simps) (simp_all add: word_le_nat_alt unat_ucast_u8_u16)

lemma announced_telephone_line_bad_signal [announced]:
  "trouble_announced TelephoneLineBadSignal m"
  by (rule trouble_announced_intros(15), simp, rule trouble_address_of.simps) (simp_all add: word_le_nat_alt unat_ucast_u8_u16)

lemma announced_telephone_line_no_signal [announced]:
  "trouble_announced TelephoneLineNoSignal m"
  by (rule trouble_announced_intros(16), simp, rule trouble_address_of.simps) (simp_all add: word_le_nat_alt unat_ucast_u8_u16)

lemma announced_monitoring_station1_trouble [announced]:
  "trouble_announced MonitoringStation1Trouble m"
  by (rule trouble_announced_intros(17), simp, rule trouble_address_of.simps) (simp_all add: word_le_nat_alt unat_ucast_u8_u16)

lemma announced_monitoring_station2_trouble [announced]:
  "trouble_announced MonitoringStation2Trouble m"
  by (rule trouble_announced_intros(18), simp, rule trouble_address_of.simps) (simp_all add: word_le_nat_alt unat_ucast_u8_u16)

lemma announced_eeprom_rtc_trouble [announced]:
  "trouble_announced EepromRtcTrouble m"
  by (rule trouble_announced_intros(19), simp, rule trouble_address_of.simps) (simp_all add: word_le_nat_alt unat_ucast_u8_u16)

lemma announced_ram_memory_error [announced]:
  "trouble_announced RamMemoryError m"
  by (rule trouble_announced_intros(20), simp, rule trouble_address_of.simps) (simp_all add: word_le_nat_alt unat_ucast_u8_u16)

lemma announced_main_panel_restart [announced]:
  "trouble_announced MainPanelRestartMemory m"
  by (rule trouble_announced_intros(21), simp, rule trouble_address_of.simps) (simp_all add: word_le_nat_alt unat_ucast_u8_u16)

lemma announced_technical_zone_trouble [announced]:
  "1 \<le> unat n \<Longrightarrow> unat n \<le> 256 \<Longrightarrow> trouble_announced (TechnicalZoneTrouble n) m"
  by (rule trouble_announced_intros(22), simp, rule trouble_address_of.simps) (simp_all add: word_le_nat_alt unat_ucast_u8_u16)

lemma announced_expander_ac_loss [announced]:
  "1 \<le> unat n \<Longrightarrow> unat n \<le> 64 \<Longrightarrow> trouble_announced (ExpanderAcLoss n) m"
  by (rule trouble_announced_intros(23), simp, rule trouble_address_of.simps) (simp_all add: word_le_nat_alt unat_ucast_u8_u16)

lemma announced_expander_battery_low [announced]:
  "1 \<le> unat n \<Longrightarrow> unat n \<le> 64 \<Longrightarrow> trouble_announced (ExpanderBatteryLow n) m"
  by (rule trouble_announced_intros(24), simp, rule trouble_address_of.simps) (simp_all add: word_le_nat_alt unat_ucast_u8_u16)

lemma announced_expander_battery_missing [announced]:
  "1 \<le> unat n \<Longrightarrow> unat n \<le> 64 \<Longrightarrow> trouble_announced (ExpanderBatteryMissing n) m"
  by (rule trouble_announced_intros(25), simp, rule trouble_address_of.simps) (simp_all add: word_le_nat_alt unat_ucast_u8_u16)

lemma announced_expander_supply_overload [announced]:
  "1 \<le> unat n \<Longrightarrow> unat n \<le> 64 \<Longrightarrow> trouble_announced (ExpanderSupplyOverload n) m"
  by (rule trouble_announced_intros(26), simp, rule trouble_address_of.simps) (simp_all add: word_le_nat_alt unat_ucast_u8_u16)

lemma announced_expander_no_comm [announced]:
  "1 \<le> unat n \<Longrightarrow> unat n \<le> 64 \<Longrightarrow> trouble_announced (ExpanderNoComm n) m"
  by (rule trouble_announced_intros(27), simp, rule trouble_address_of.simps) (simp_all add: word_le_nat_alt unat_ucast_u8_u16)

lemma announced_expander_substituted [announced]:
  "1 \<le> unat n \<Longrightarrow> unat n \<le> 64 \<Longrightarrow> trouble_announced (ExpanderSubstituted n) m"
  by (rule trouble_announced_intros(28), simp, rule trouble_address_of.simps) (simp_all add: word_le_nat_alt unat_ucast_u8_u16)

lemma announced_expander_tamper [announced]:
  "1 \<le> unat n \<Longrightarrow> unat n \<le> 64 \<Longrightarrow> trouble_announced (ExpanderTamper n) m"
  by (rule trouble_announced_intros(29), simp, rule trouble_address_of.simps) (simp_all add: word_le_nat_alt unat_ucast_u8_u16)

lemma announced_expander_card_reader_head_a [announced]:
  "1 \<le> unat n \<Longrightarrow> unat n \<le> 64 \<Longrightarrow> trouble_announced (ExpanderCardReaderHeadA n) m"
  by (rule trouble_announced_intros(30), simp, rule trouble_address_of.simps) (simp_all add: word_le_nat_alt unat_ucast_u8_u16)

lemma announced_expander_card_reader_head_b [announced]:
  "1 \<le> unat n \<Longrightarrow> unat n \<le> 64 \<Longrightarrow> trouble_announced (ExpanderCardReaderHeadB n) m"
  by (rule trouble_announced_intros(31), simp, rule trouble_address_of.simps) (simp_all add: word_le_nat_alt unat_ucast_u8_u16)

lemma announced_expander_acu_jammed_or_short_circuit [announced]:
  "1 \<le> unat n \<Longrightarrow> unat n \<le> 30 \<Longrightarrow> trouble_announced (ExpanderAcuJammedOrShortCircuit n) m"
  by (rule trouble_announced_intros(32), simp, rule trouble_address_of.simps) (simp_all add: word_le_nat_alt unat_ucast_u8_u16)

lemma announced_keypad_no_comm [announced]:
  "1 \<le> unat n \<Longrightarrow> unat n \<le> 8 \<Longrightarrow> trouble_announced (KeypadNoComm n) m"
  by (rule trouble_announced_intros(33), simp, rule trouble_address_of.simps) (simp_all add: word_le_nat_alt unat_ucast_u8_u16)

lemma announced_keypad_substituted [announced]:
  "1 \<le> unat n \<Longrightarrow> unat n \<le> 8 \<Longrightarrow> trouble_announced (KeypadSubstituted n) m"
  by (rule trouble_announced_intros(34), simp, rule trouble_address_of.simps) (simp_all add: word_le_nat_alt unat_ucast_u8_u16)

lemma announced_keypad_tamper [announced]:
  "1 \<le> unat n \<Longrightarrow> unat n \<le> 8 \<Longrightarrow> trouble_announced (KeypadTamper n) m"
  by (rule trouble_announced_intros(35), simp, rule trouble_address_of.simps) (simp_all add: word_le_nat_alt unat_ucast_u8_u16)

lemma announced_keypad_init_error [announced]:
  "1 \<le> unat n \<Longrightarrow> unat n \<le> 8 \<Longrightarrow> trouble_announced (KeypadInitError n) m"
  by (rule trouble_announced_intros(36), simp, rule trouble_address_of.simps) (simp_all add: word_le_nat_alt unat_ucast_u8_u16)

lemma announced_ethm_no_lan_cable [announced]:
  "1 \<le> unat n \<Longrightarrow> unat n \<le> 8 \<Longrightarrow> trouble_announced (EthmNoLanCable n) m"
  by (rule trouble_announced_intros(37), simp, rule trouble_address_of.simps) (simp_all add: word_le_nat_alt unat_ucast_u8_u16)

lemma announced_gsm_ethm_station_1_error [announced]:
  "unat n \<le> 7 \<Longrightarrow> trouble_announced (GsmEthmStation1Error n) m"
  by (rule trouble_announced_intros(38), simp, rule trouble_address_of.simps) (simp_all add: word_le_nat_alt unat_ucast_u8_u16)

lemma announced_gsm_ethm_station_2_error [announced]:
  "unat n \<le> 7 \<Longrightarrow> trouble_announced (GsmEthmStation2Error n) m"
  by (rule trouble_announced_intros(39), simp, rule trouble_address_of.simps) (simp_all add: word_le_nat_alt unat_ucast_u8_u16)

lemma announced_gsm_gprs_sim1_station_1_error [announced]:
  "unat n \<le> 7 \<Longrightarrow> trouble_announced (GsmGprsSim1Station1Error n) m"
  by (rule trouble_announced_intros(40), simp, rule trouble_address_of.simps) (simp_all add: word_le_nat_alt unat_ucast_u8_u16)

lemma announced_gsm_gprs_sim1_station_2_error [announced]:
  "unat n \<le> 7 \<Longrightarrow> trouble_announced (GsmGprsSim1Station2Error n) m"
  by (rule trouble_announced_intros(41), simp, rule trouble_address_of.simps) (simp_all add: word_le_nat_alt unat_ucast_u8_u16)

lemma announced_gsm_gprs_sim2_station_1_error [announced]:
  "unat n \<le> 7 \<Longrightarrow> trouble_announced (GsmGprsSim2Station1Error n) m"
  by (rule trouble_announced_intros(42), simp, rule trouble_address_of.simps) (simp_all add: word_le_nat_alt unat_ucast_u8_u16)

lemma announced_gsm_gprs_sim2_station_2_error [announced]:
  "unat n \<le> 7 \<Longrightarrow> trouble_announced (GsmGprsSim2Station2Error n) m"
  by (rule trouble_announced_intros(43), simp, rule trouble_address_of.simps) (simp_all add: word_le_nat_alt unat_ucast_u8_u16)

lemma announced_gsm_sms_sim1_station_1_error [announced]:
  "unat n \<le> 7 \<Longrightarrow> trouble_announced (GsmSmsSim1Station1Error n) m"
  by (rule trouble_announced_intros(44), simp, rule trouble_address_of.simps) (simp_all add: word_le_nat_alt unat_ucast_u8_u16)

lemma announced_gsm_sms_sim1_station_2_error [announced]:
  "unat n \<le> 7 \<Longrightarrow> trouble_announced (GsmSmsSim1Station2Error n) m"
  by (rule trouble_announced_intros(45), simp, rule trouble_address_of.simps) (simp_all add: word_le_nat_alt unat_ucast_u8_u16)

lemma announced_gsm_sms_sim2_station_1_error [announced]:
  "unat n \<le> 7 \<Longrightarrow> trouble_announced (GsmSmsSim2Station1Error n) m"
  by (rule trouble_announced_intros(46), simp, rule trouble_address_of.simps) (simp_all add: word_le_nat_alt unat_ucast_u8_u16)

lemma announced_gsm_sms_sim2_station_2_error [announced]:
  "unat n \<le> 7 \<Longrightarrow> trouble_announced (GsmSmsSim2Station2Error n) m"
  by (rule trouble_announced_intros(47), simp, rule trouble_address_of.simps) (simp_all add: word_le_nat_alt unat_ucast_u8_u16)

lemma announced_zone_long_violation_trouble [announced]:
  "1 \<le> unat n \<Longrightarrow> unat n \<le> 256 \<Longrightarrow> trouble_announced (ZoneLongViolationTrouble n) True"
  by (rule trouble_announced_intros(48), simp, rule trouble_address_of.simps) (simp_all add: word_le_nat_alt unat_ucast_u8_u16)

lemma announced_zone_no_violation_trouble [announced]:
  "1 \<le> unat n \<Longrightarrow> unat n \<le> 256 \<Longrightarrow> trouble_announced (ZoneNoViolationTrouble n) True"
  by (rule trouble_announced_intros(49), simp, rule trouble_address_of.simps) (simp_all add: word_le_nat_alt unat_ucast_u8_u16)

lemma announced_zone_tamper_trouble [announced]:
  "1 \<le> unat n \<Longrightarrow> unat n \<le> 256 \<Longrightarrow> trouble_announced (ZoneTamperTrouble n) True"
  by (rule trouble_announced_intros(50), simp, rule trouble_address_of.simps) (simp_all add: word_le_nat_alt unat_ucast_u8_u16)

lemma announced_expander_restart [announced]:
  "1 \<le> unat n \<Longrightarrow> unat n \<le> 64 \<Longrightarrow> trouble_announced (ExpanderRestart n) True"
  by (rule trouble_announced_intros(51), simp, rule trouble_address_of.simps) (simp_all add: word_le_nat_alt unat_ucast_u8_u16)

lemma announced_keypad_restart [announced]:
  "1 \<le> unat n \<Longrightarrow> unat n \<le> 8 \<Longrightarrow> trouble_announced (KeypadRestart n) True"
  by (rule trouble_announced_intros(52), simp, rule trouble_address_of.simps) (simp_all add: word_le_nat_alt unat_ucast_u8_u16)

lemma announced_ethm_ping_trouble [announced]:
  "1 \<le> unat n \<Longrightarrow> unat n \<le> 8 \<Longrightarrow> trouble_announced (EthmPingTrouble n) m"
  by (rule trouble_announced_intros(53), simp, rule trouble_address_of.simps) (simp_all add: word_le_nat_alt unat_ucast_u8_u16)

lemma announced_ethm_server_id_error [announced]:
  "1 \<le> unat n \<Longrightarrow> unat n \<le> 8 \<Longrightarrow> trouble_announced (EthmServerIdError n) m"
  by (rule trouble_announced_intros(54), simp, rule trouble_address_of.simps) (simp_all add: word_le_nat_alt unat_ucast_u8_u16)

lemma announced_ethm_satel_server_connection_error [announced]:
  "1 \<le> unat n \<Longrightarrow> unat n \<le> 8 \<Longrightarrow> trouble_announced (EthmSatelServerConnectionError n) m"
  by (rule trouble_announced_intros(55), simp, rule trouble_address_of.simps) (simp_all add: word_le_nat_alt unat_ucast_u8_u16)

lemma announced_ethm_monitoring_station1_error [announced]:
  "trouble_announced EthmMonitoringStation1Error m"
  by (rule trouble_announced_intros(56), simp, rule trouble_address_of.simps) (simp_all add: word_le_nat_alt unat_ucast_u8_u16)

lemma announced_ethm_monitoring_station2_error [announced]:
  "trouble_announced EthmMonitoringStation2Error m"
  by (rule trouble_announced_intros(57), simp, rule trouble_address_of.simps) (simp_all add: word_le_nat_alt unat_ucast_u8_u16)

lemma announced_gprs_monitoring_station1_error [announced]:
  "trouble_announced GprsMonitoringStation1Error m"
  by (rule trouble_announced_intros(58), simp, rule trouble_address_of.simps) (simp_all add: word_le_nat_alt unat_ucast_u8_u16)

lemma announced_gprs_monitoring_station2_error [announced]:
  "trouble_announced GprsMonitoringStation2Error m"
  by (rule trouble_announced_intros(59), simp, rule trouble_address_of.simps) (simp_all add: word_le_nat_alt unat_ucast_u8_u16)

lemma announced_ip_monitoring_station1_trouble [announced]:
  "trouble_announced IpMonitoringStation1Trouble m"
  by (rule trouble_announced_intros(60), simp, rule trouble_address_of.simps) (simp_all add: word_le_nat_alt unat_ucast_u8_u16)

lemma announced_ip_monitoring_station2_trouble [announced]:
  "trouble_announced IpMonitoringStation2Trouble m"
  by (rule trouble_announced_intros(61), simp, rule trouble_address_of.simps) (simp_all add: word_le_nat_alt unat_ucast_u8_u16)

lemma announced_time_server_trouble [announced]:
  "trouble_announced TimeServerTrouble m"
  by (rule trouble_announced_intros(62), simp, rule trouble_address_of.simps) (simp_all add: word_le_nat_alt unat_ucast_u8_u16)

lemma announced_gsm_init_error [announced]:
  "trouble_announced GsmInitError m"
  by (rule trouble_announced_intros(63), simp, rule trouble_address_of.simps) (simp_all add: word_le_nat_alt unat_ucast_u8_u16)

lemma announced_gsm_jamming [announced]:
  "unat n \<le> 7 \<Longrightarrow> trouble_announced (GsmJamming n) m"
  by (rule trouble_announced_intros(64), simp, rule trouble_address_of.simps) (simp_all add: word_le_nat_alt unat_ucast_u8_u16)

lemma announced_gsm_sim_pin_error [announced]:
  "unat n \<le> 7 \<Longrightarrow> 1 \<le> unat k \<Longrightarrow> unat k \<le> 2 \<Longrightarrow> trouble_announced (GsmSimPinError n k) m"
  by (rule trouble_announced_intros(65), simp, rule trouble_address_of.simps) (simp_all add: word_le_nat_alt unat_ucast_u8_u16)

lemma announced_gsm_sim_logging_error [announced]:
  "unat n \<le> 7 \<Longrightarrow> 1 \<le> unat k \<Longrightarrow> unat k \<le> 2 \<Longrightarrow> trouble_announced (GsmSimLoggingError n k) m"
  by (rule trouble_announced_intros(66), simp, rule trouble_address_of.simps) (simp_all add: word_le_nat_alt unat_ucast_u8_u16)

lemma announced_gsm_sim_credit_low [announced]:
  "unat n \<le> 7 \<Longrightarrow> 1 \<le> unat k \<Longrightarrow> unat k \<le> 2 \<Longrightarrow> trouble_announced (GsmSimCreditLow n k) m"
  by (rule trouble_announced_intros(67), simp, rule trouble_address_of.simps) (simp_all add: word_le_nat_alt unat_ucast_u8_u16)

lemma announced_gsm_sim_sms_error [announced]:
  "unat n \<le> 7 \<Longrightarrow> 1 \<le> unat k \<Longrightarrow> unat k \<le> 2 \<Longrightarrow> trouble_announced (GsmSimSmsError n k) m"
  by (rule trouble_announced_intros(68), simp, rule trouble_address_of.simps) (simp_all add: word_le_nat_alt unat_ucast_u8_u16)

lemma announced_gsm_settings_crc_error [announced]:
  "unat n \<le> 7 \<Longrightarrow> trouble_announced (GsmSettingsCrcError n) m"
  by (rule trouble_announced_intros(69), simp, rule trouble_address_of.simps) (simp_all add: word_le_nat_alt unat_ucast_u8_u16)

lemma announced_gsm_module_missing [announced]:
  "unat n \<le> 7 \<Longrightarrow> trouble_announced (GsmModuleMissing n) m"
  by (rule trouble_announced_intros(70), simp, rule trouble_address_of.simps) (simp_all add: word_le_nat_alt unat_ucast_u8_u16)

lemma announced_gsm_module_changed [announced]:
  "unat n \<le> 7 \<Longrightarrow> trouble_announced (GsmModuleChanged n) m"
  by (rule trouble_announced_intros(71), simp, rule trouble_address_of.simps) (simp_all add: word_le_nat_alt unat_ucast_u8_u16)

lemma announced_gsm_server_conn_error [announced]:
  "unat n \<le> 7 \<Longrightarrow> trouble_announced (GsmServerConnError n) m"
  by (rule trouble_announced_intros(72), simp, rule trouble_address_of.simps) (simp_all add: word_le_nat_alt unat_ucast_u8_u16)

lemma announced_gsm_mail_server_conn_error [announced]:
  "unat n \<le> 7 \<Longrightarrow> trouble_announced (GsmMailServerConnError n) m"
  by (rule trouble_announced_intros(73), simp, rule trouble_address_of.simps) (simp_all add: word_le_nat_alt unat_ucast_u8_u16)

lemma announced_gsm_ntp_server_conn_error [announced]:
  "unat n \<le> 7 \<Longrightarrow> trouble_announced (GsmNtpServerConnError n) m"
  by (rule trouble_announced_intros(74), simp, rule trouble_address_of.simps) (simp_all add: word_le_nat_alt unat_ucast_u8_u16)

lemma announced_wireless_device_low_battery [announced]:
  "17 \<le> unat n \<Longrightarrow> unat n \<le> 256 \<Longrightarrow> trouble_announced (WirelessDeviceLowBattery n) m"
  by (rule trouble_announced_intros(75), simp, rule trouble_address_of.simps) (simp_all add: word_le_nat_alt unat_ucast_u8_u16)

lemma announced_wireless_device_no_comm [announced]:
  "17 \<le> unat n \<Longrightarrow> unat n \<le> 256 \<Longrightarrow> trouble_announced (WirelessDeviceNoComm n) m"
  by (rule trouble_announced_intros(76), simp, rule trouble_address_of.simps) (simp_all add: word_le_nat_alt unat_ucast_u8_u16)

lemma announced_wireless_output_no_comm [announced]:
  "17 \<le> unat n \<Longrightarrow> unat n \<le> 256 \<Longrightarrow> trouble_announced (WirelessOutputNoComm n) m"
  by (rule trouble_announced_intros(77), simp, rule trouble_address_of.simps) (simp_all add: word_le_nat_alt unat_ucast_u8_u16)

lemma announced_master_key_fob_low_battery [announced]:
  "1 \<le> unat n \<Longrightarrow> unat n \<le> 8 \<Longrightarrow> trouble_announced (MasterKeyFobLowBattery n) False"
  by (rule trouble_announced_intros(78), simp, rule trouble_address_of.simps) (simp_all add: word_le_nat_alt unat_ucast_u8_u16)

lemma announced_user_key_fob_low_battery [announced]:
  "1 \<le> unat n \<Longrightarrow> unat n \<le> 240 \<Longrightarrow> trouble_announced (UserKeyFobLowBattery n) False"
  by (rule trouble_announced_intros(79), simp, rule trouble_address_of.simps) (simp_all add: word_le_nat_alt unat_ucast_u8_u16)

lemma announced_auxiliary_stm_troubles [announced]:
  "trouble_announced AuxiliaryStmTroubles m"
  by (rule trouble_announced_intros(80), simp, rule trouble_address_of.simps) (simp_all add: word_le_nat_alt unat_ucast_u8_u16)

section \<open>The rule table\<close>

text \<open>How far into the data a rule reads.\<close>

fun rule_end :: "field_rule \<Rightarrow> nat" where
  "rule_end (Bitmask offset len _ _ _) = offset + len"
| "rule_end (ModuleMask offset _ _) = offset + 1"
| "rule_end (BitmaskLimit offset len _ _ _ _) = offset + len"
| "rule_end (Custom _ _) = 0"

text \<open>An item that the catalog announces, or an active reserved bit.\<close>

definition item_ok :: "trouble_item \<Rightarrow> bool" where
  "item_ok item =
    (case item of
       ItemFlag t memory active \<Rightarrow> trouble_announced t memory \<or> is_generic t \<and> active
     | ItemAcuJamLevel md level \<Rightarrow> 1 \<le> unat md \<and> unat md \<le> 30
     | ItemCmeError source sim memory code \<Rightarrow> 1 \<le> unat sim \<and> unat sim \<le> 2)"

text \<open>A rule whose troubles the catalog announces, for every index the rule can reach.\<close>

fun rule_ok :: "field_rule \<Rightarrow> bool" where
  "rule_ok (Bitmask offset len start_num memory ctor) =
    (\<forall>i < 8 * len. trouble_announced (ctor (start_num + word_of_nat i)) memory)"
| "rule_ok (ModuleMask offset memory ctor) =
    (\<forall>i < 8. trouble_announced (ctor (word_of_nat (i + 1))) memory)"
| "rule_ok (BitmaskLimit offset len limit start_num memory ctor) =
    (\<forall>i < limit. trouble_announced (ctor (start_num + word_of_nat i)) memory)"
| "rule_ok (Custom memory extractor) = (\<forall>data. list_all item_ok (extractor data memory))"

lemma sub_list_length_le: "length (sub_list a b xs) \<le> b - a"
  by (simp add: sub_list_def)

lemma set_enumerate0: "(i, x) \<in> set (enumerate 0 xs) \<Longrightarrow> i < length xs \<and> xs ! i = x"
  by (simp add: in_set_enumerate_eq)

lemma set_take_enumerate0:
  "(i, x) \<in> set (take k (enumerate 0 xs)) \<Longrightarrow> i < k \<and> i < length xs \<and> xs ! i = x"
  by (auto simp: in_set_conv_nth nth_enumerate_eq)

lemma rule_items_ok: "rule_ok r \<Longrightarrow> list_all item_ok (rule_items data r)"
proof (cases r)
  case (Bitmask offset len start_num memory ctor)
  assume "rule_ok r"
  moreover have "i < 8 * len" if "i < length (extract_bits (sub_list offset (offset + len) data))" for i
    using that sub_list_length_le [of offset "offset + len" data] by simp
  ultimately show ?thesis
    using Bitmask by (auto simp: list_all_iff item_ok_def dest!: set_enumerate0)
next
  case (BitmaskLimit offset len limit start_num memory ctor)
  assume "rule_ok r"
  with BitmaskLimit show ?thesis
    by (auto simp: list_all_iff item_ok_def dest!: set_take_enumerate0)
next
  case (ModuleMask offset memory ctor)
  assume "rule_ok r"
  with ModuleMask show ?thesis by (auto simp: list_all_iff item_ok_def)
next
  case (Custom memory extractor)
  assume "rule_ok r"
  with Custom show ?thesis by simp
qed

lemma unat_start_plus:
  "unat st + i < 65536 \<Longrightarrow> unat (st + word_of_nat i :: u16) = unat st + i"
  by (simp add: unat_word_ariths unat_of_nat)

lemma unat_ucast_u16_u8: "unat x < 256 \<Longrightarrow> unat (ucast (x :: u16) :: u8) = unat x"
  by (simp add: unsigned_ucast_eq unsigned_take_bit_eq take_bit_nat_def)

lemma unat_small_u8: "i < 256 \<Longrightarrow> unat (word_of_nat i :: u8) = i"
  by (simp add: unat_of_nat)

lemma unat_small_suc: "i < 255 \<Longrightarrow> unat (1 + word_of_nat i :: u8) = Suc i"
  by (simp add: unat_word_ariths unat_of_nat)

lemmas announced_simps = unat_start_plus unat_ucast_u16_u8 unat_small_u8 unat_small_suc

lemma item_ok_flag: "trouble_announced t memory \<Longrightarrow> item_ok (ItemFlag t memory active)"
  by (simp add: item_ok_def)

lemma custom_system_ok: "list_all item_ok (decode_system_troubles data memory)"
  by (auto simp: decode_system_troubles_def Let_def intro!: item_ok_flag announced)

lemma custom_ethm_ok: "list_all item_ok (decode_ethm_ptsa_status data memory)"
  by (auto simp: decode_ethm_ptsa_status_def Let_def intro!: item_ok_flag announced)

lemma custom_aux_ok: "list_all item_ok (decode_aux_stm data memory)"
  by (auto simp: decode_aux_stm_def intro!: item_ok_flag announced)

lemma custom_acu_ok: "list_all item_ok (decode_acu_jam_level data memory)"
  by (auto simp: decode_acu_jam_level_def list_all_iff item_ok_def unat_of_nat
      simp del: of_nat_Suc of_nat_add)

lemma custom_acu_16_30_ok: "list_all item_ok (decode_acu_jam_level_16_30 data memory)"
  by (auto simp: decode_acu_jam_level_16_30_def list_all_iff item_ok_def unat_of_nat
      simp del: of_nat_Suc of_nat_add)

lemma custom_panel_cme_ok: "list_all item_ok (decode_panel_cme data memory)"
  by (simp add: decode_panel_cme_def item_ok_def)

lemma gsm_flags_ok:
  assumes "md < 8" and "(t, active) \<in> set (gsm_flags md b0 b1 b2 b3)" and "\<not> is_generic t \<or> active"
  shows "item_ok (ItemFlag t memory active)"
proof (cases "is_generic t")
  case True
  with assms(3) show ?thesis by (simp add: item_ok_def)
next
  case False
  have m: "unat (word_of_nat md :: u8) \<le> 7" using assms(1) by (simp add: unat_of_nat)
  from assms(2) False show ?thesis
    unfolding gsm_flags_def Let_def
    by (auto intro!: item_ok_flag announced m)
qed

lemma custom_gsm_ok: "list_all item_ok (decode_gsm_block data memory)"
proof -
  have "list_all item_ok (gsm_module_items data memory md)" if "md < 8" for md
    using gsm_flags_ok [OF that]
    by (auto simp: gsm_module_items_def Let_def list_all_iff item_ok_def [of "ItemCmeError _ _ _ _"])
  then show ?thesis
    by (auto simp: decode_gsm_block_def list_all_iff dest!: set_takeWhileD)
qed

lemmas custom_ok = custom_system_ok custom_ethm_ok custom_aux_ok custom_acu_ok custom_acu_16_30_ok
  custom_panel_cme_ok custom_gsm_ok

lemma rules_table:
  assumes "get_rules cmd = Some (expected_len, rules)"
  shows "list_all (\<lambda>r. rule_ok r \<and> rule_end r \<le> expected_len) rules"
  using assms
  by (auto simp: get_rules_def custom_ok announced_simps intro!: announced split: if_splits)

text \<open>A rule that reads nothing behind the first \<open>n\<close> bytes of the data, custom extractors included.\<close>

definition rule_local :: "nat \<Rightarrow> field_rule \<Rightarrow> bool" where
  "rule_local n r = (\<forall>data. n \<le> length data \<longrightarrow> rule_items (take n data) r = rule_items data r)"

lemma sub_list_take: "b \<le> n \<Longrightarrow> sub_list a b (take n xs) = sub_list a b xs"
  by (simp add: sub_list_def drop_take min_def)

lemma bits_local:
  "offset + len \<le> n \<Longrightarrow> rule_local n (Bitmask offset len st memory ctor)"
  "offset + len \<le> n \<Longrightarrow> rule_local n (BitmaskLimit offset len limit st memory ctor)"
  "offset < n \<Longrightarrow> rule_local n (ModuleMask offset memory module_ctor)"
  by (simp_all add: rule_local_def sub_list_take)

lemma system_local:
  "rule_local 47 (Custom memory decode_system_troubles)"
  "rule_local 47 (Custom memory decode_ethm_ptsa_status)"
  by (simp_all add: rule_local_def decode_system_troubles_def decode_ethm_ptsa_status_def Let_def)

lemma module_local:
  "rule_local 30 (Custom memory decode_aux_stm)"
  "rule_local 60 (Custom memory decode_acu_jam_level)"
  "rule_local 47 (Custom memory decode_acu_jam_level_16_30)"
  "rule_local 39 (Custom memory decode_panel_cme)"
  by (simp_all add: rule_local_def decode_aux_stm_def decode_acu_jam_level_def decode_acu_jam_level_16_30_def
      decode_panel_cme_def)

lemma gsm_local: "rule_local 64 (Custom memory decode_gsm_block)"
proof -
  have "gsm_module_items (take 64 data) memory md = gsm_module_items data memory md" if "md < 8" for data md
    using that by (simp add: gsm_module_items_def Let_def)
  moreover have "takeWhile (\<lambda>md. md * 8 + 8 \<le> length data) [0..<8] = [0..<8]" if "64 \<le> length data" for data :: bytes
    using that by (simp add: takeWhile_eq_all_conv)
  then have "decode_gsm_block data memory = concat (map (gsm_module_items data memory) [0..<8])"
    if "64 \<le> length data" for data
    using that by (simp only: decode_gsm_block_def)
  moreover from calculation(1) have "map (gsm_module_items (take 64 data) memory) [0..<8]
      = map (gsm_module_items data memory) [0..<8]" for data
    by (intro map_cong) auto
  ultimately show ?thesis by (simp add: rule_local_def del: upt_conv_Cons map_eq_conv)
qed

lemma rules_local:
  assumes "get_rules cmd = Some (expected_len, rules)"
  shows "list_all (rule_local expected_len) rules"
  using assms by (auto simp: get_rules_def bits_local system_local module_local gsm_local split: if_splits)

text \<open>
  C37. No trouble frame is read out of bounds, and what it yields is what the trouble catalog announces.
  The bytes behind the length that was checked for a command make no difference to what is decoded,
  and every mask of its rules ends within that length. Every flag decoded has a catalog entry with its
  key, whose domain (zone, output or none) is what the number of the trouble counts, whose addressing
  covers that number, and which says that the state or the memory that the flag reports is available;
  the only flags without an entry are the reserved bits, reported only when set. Every jamming level is
  for a module from 1 to 30 and every modem error for SIM 1 or 2.
\<close>

theorem decode_troubles_announced:
  "(\<forall>expected_len rules. get_rules cmd = Some (expected_len, rules) \<longrightarrow>
      list_all (\<lambda>r. rule_end r \<le> expected_len) rules
      \<and> (expected_len \<le> length data \<longrightarrow> decode_troubles cmd (take expected_len data) = decode_troubles cmd data))
   \<and> (case decode_troubles cmd data of
        Inl e \<Rightarrow> e = InvalidFrame
      | Inr items \<Rightarrow> list_all item_ok items)"
proof (intro conjI allI impI)
  fix expected_len rules
  assume rules: "get_rules cmd = Some (expected_len, rules)"
  then show "list_all (\<lambda>r. rule_end r \<le> expected_len) rules"
    using rules_table by (auto simp: list_all_iff)
  assume "expected_len \<le> length data"
  then show "decode_troubles cmd (take expected_len data) = decode_troubles cmd data"
    using rules rules_local [OF rules]
    by (simp add: decode_troubles_def list_all_iff rule_local_def cong: map_cong)
next
  show "case decode_troubles cmd data of Inl e \<Rightarrow> e = InvalidFrame | Inr items \<Rightarrow> list_all item_ok items"
  proof (cases "get_rules cmd")
    case (Some p)
    then obtain expected_len rules where rules: "get_rules cmd = Some (expected_len, rules)"
      by (cases p) auto
    then have "list_all item_ok (concat (map (rule_items data) rules))"
      using rules_table [OF rules] rule_items_ok [of _ data]
      by (fastforce simp: list_all_iff)
    with rules show ?thesis by (simp add: decode_troubles_def)
  qed (simp add: decode_troubles_def)
qed

theorem decode_troubles_announced_witness:
  "case decode_troubles 0x1F (replicate 31 0x80) of
     Inl e \<Rightarrow> e = InvalidFrame | Inr items \<Rightarrow> list_all item_ok items"
  using decode_troubles_announced [of "0x1F" "replicate 31 0x80"] by blast

section \<open>The records agree with the items\<close>

text \<open>The items of numbered troubles, one for each of a list of states, from number one on.\<close>

definition numbered_items :: "bool \<Rightarrow> (nat \<Rightarrow> trouble_type) \<Rightarrow> bool list \<Rightarrow> trouble_item list" where
  "numbered_items memory ctor states = map (\<lambda>(i, active). ItemFlag (ctor i) memory active) (enumerate 1 states)"

text \<open>
  The items a record of the first trouble frame stands for. The record keeps one bit for the modules
  with a failed ping, a wrong server identifier and no server connection; the items tell the modules
  apart, so their states are given beside the record.
\<close>

definition part1_items ::
  "troubles_part1_data \<Rightarrow> bool list \<Rightarrow> bool list \<Rightarrow> bool list \<Rightarrow> trouble_item list" where
  "part1_items d ping ids server =
    (let m = t1_is_memory d; mb = t1_main_board d; ep = t1_ethm_ptsa d
     in numbered_items m (\<lambda>n. TechnicalZoneTrouble (word_of_nat n)) (t1_technical_zones d)
      @ numbered_items m (\<lambda>n. ExpanderAcLoss (word_of_nat n)) (t1_expanders_ac d)
      @ numbered_items m (\<lambda>n. ExpanderBatteryLow (word_of_nat n)) (t1_expanders_battery d)
      @ numbered_items m (\<lambda>n. ExpanderBatteryMissing (word_of_nat n)) (t1_expanders_no_battery d)
      @ [ItemFlag (MainBoardOutOverload 1) m (mb_out1_trouble mb),
         ItemFlag (MainBoardOutOverload 2) m (mb_out2_trouble mb),
         ItemFlag (MainBoardOutOverload 3) m (mb_out3_trouble mb),
         ItemFlag (MainBoardOutOverload 4) m (mb_out4_trouble mb),
         ItemFlag MainBoardKpdPowerOverload m (mb_kpd_power_trouble mb),
         ItemFlag MainBoardExPowerOverload m (mb_ex1_ex2_power_trouble mb),
         ItemFlag MainBoardBatteryLow m (mb_battery_trouble mb),
         ItemFlag MainBoardAcLoss m (mb_ac_trouble mb),
         ItemFlag MainBoardDataBusDt1 m (mb_dt1_trouble mb),
         ItemFlag MainBoardDataBusDt2 m (mb_dt2_trouble mb),
         ItemFlag MainBoardDataBusDtm m (mb_dtm_trouble mb),
         ItemFlag RtcLoss m (mb_rtc_trouble mb),
         ItemFlag NoDtrSignal m (mb_no_dtr_signal mb),
         ItemFlag MainBoardBatteryMissing m (mb_no_battery_present mb),
         ItemFlag ExternalModemInitTrouble m (mb_external_modem_init_trouble mb),
         ItemFlag ExternalModemCmdTrouble m (mb_external_modem_cmd_trouble mb),
         ItemFlag TelephoneLineNoVoltage m (mb_tel_line_no_voltage mb),
         ItemFlag TelephoneLineBadSignal m (mb_tel_line_bad_signal mb),
         ItemFlag TelephoneLineNoSignal m (mb_tel_line_no_signal mb),
         ItemFlag MonitoringStation1Trouble m (mb_monitoring_station_1_trouble mb),
         ItemFlag MonitoringStation2Trouble m (mb_monitoring_station_2_trouble mb),
         ItemFlag EepromRtcTrouble m (mb_eeprom_rtc_trouble mb),
         ItemFlag RamMemoryError m (mb_ram_trouble mb),
         ItemFlag MainPanelRestartMemory m (mb_main_panel_restart mb)]
      @ numbered_items m (\<lambda>n. EthmPingTrouble (word_of_nat n)) ping
      @ numbered_items m (\<lambda>n. EthmServerIdError (word_of_nat n)) ids
      @ numbered_items m (\<lambda>n. EthmSatelServerConnectionError (word_of_nat n)) server
      @ [ItemFlag EthmMonitoringStation1Error m (ep_no_ethm_mon_station_1 ep),
         ItemFlag EthmMonitoringStation2Error m (ep_no_ethm_mon_station_2 ep),
         ItemFlag GprsMonitoringStation1Error m (ep_no_gprs_mon_station_1 ep),
         ItemFlag GprsMonitoringStation2Error m (ep_no_gprs_mon_station_2 ep),
         ItemFlag TimeServerTrouble m (ep_time_server_trouble ep),
         ItemFlag GsmInitError m (ep_gsm_init_error ep),
         ItemFlag IpMonitoringStation1Trouble m (ep_ip_mon_station_1_trouble ep),
         ItemFlag IpMonitoringStation2Trouble m (ep_ip_mon_station_2_trouble ep)])"

lemma enumerate_Suc_map: "enumerate (Suc n) xs = map (\<lambda>(i, x). (Suc i, x)) (enumerate n xs)"
  by (induction xs arbitrary: n) simp_all

lemma ucast_number: "ucast (word_of_nat n :: u16) = (word_of_nat n :: u8)"
  by (simp add: unsigned_of_nat word_of_nat_eq_iff)

lemma bitmask_items:
  "rule_items data (Bitmask offset len 1 memory (\<lambda>x. ctor (ucast x)))
    = numbered_items memory (\<lambda>n. ctor (word_of_nat n :: u8)) (extract_bits (sub_list offset (offset + len) data))"
  "rule_items data (Bitmask offset len 1 memory wide)
    = numbered_items memory (\<lambda>n. wide (word_of_nat n)) (extract_bits (sub_list offset (offset + len) data))"
  by (simp_all add: numbered_items_def enumerate_Suc_map comp_def case_prod_beta ucast_number flip: of_nat_Suc)

lemma module_mask_items:
  "rule_items data (ModuleMask offset memory ctor)
    = numbered_items memory (\<lambda>n. ctor (word_of_nat n)) (extract_bits [data ! offset])"
  by (simp add: numbered_items_def extract_bits_def byte_bits_def upt_rec)

lemma byte_nonzero: "b \<noteq> (0 :: u8) \<longleftrightarrow> True \<in> set (extract_bits [b])"
proof -
  have "b \<noteq> 0 \<longleftrightarrow> (\<exists>i < 8. bit b i)"
    using bit_imp_le_length [of b] by (auto simp: bit_eq_iff)
  also have "\<dots> \<longleftrightarrow> True \<in> set (extract_bits [b])"
    by (auto simp: in_set_conv_nth extract_bits_nth)
  finally show ?thesis .
qed

text \<open>
  C38. The two decoders of the main trouble frame (state \<open>1B\<close> and memory \<open>20\<close>) agree: whenever the
  record parser accepts a frame, the item decoder accepts its data, and its items are, in order and
  with the record's memory flag, exactly the record's 128 technical zones, the three supply states of
  the 64 expanders, the 24 main board states and the 8 monitoring states, and between these the states
  of 8 modules for the ping, the server identifier and the server connection, of which the record says
  whether there is any.
\<close>

theorem troubles_part1_agree:
  assumes "process_troubles_part1 now frame = Inr d"
  shows "length (t1_technical_zones d) = 128 \<and> length (t1_expanders_ac d) = 64
    \<and> length (t1_expanders_battery d) = 64 \<and> length (t1_expanders_no_battery d) = 64
    \<and> (\<exists>ping ids server. length ping = 8 \<and> length ids = 8 \<and> length server = 8
      \<and> decode_troubles (hd frame) (tl frame) = Inr (part1_items d ping ids server)
      \<and> ep_ethm_ping_trouble (t1_ethm_ptsa d) = (True \<in> set ping)
      \<and> ep_server_id_error (t1_ethm_ptsa d) = (True \<in> set ids)
      \<and> ep_no_server_connection (t1_ethm_ptsa d) = (True \<in> set server))"
proof -
  let ?data = "tl frame"
  have cmd: "hd frame = 0x1B \<or> hd frame = 0x20" and len: "47 \<le> length ?data"
    and data: "frame_data2 0x1B 0x20 47 frame = Inr ?data"
    using assms by (auto simp: process_troubles_part1_def bind_result_Inr_iff frame_data2_def not_less split: if_splits)
  let ?m = "hd frame = 0x20"
  have items: "decode_troubles (hd frame) ?data = Inr
      (rule_items ?data (Bitmask 0 16 1 ?m TechnicalZoneTrouble)
       @ rule_items ?data (Bitmask 16 8 1 ?m (\<lambda>x. ExpanderAcLoss (ucast x)))
       @ rule_items ?data (Bitmask 24 8 1 ?m (\<lambda>x. ExpanderBatteryLow (ucast x)))
       @ rule_items ?data (Bitmask 32 8 1 ?m (\<lambda>x. ExpanderBatteryMissing (ucast x)))
       @ decode_system_troubles ?data ?m
       @ rule_items ?data (ModuleMask 43 ?m EthmPingTrouble)
       @ rule_items ?data (ModuleMask 44 ?m EthmServerIdError)
       @ rule_items ?data (ModuleMask 45 ?m EthmSatelServerConnectionError)
       @ decode_ethm_ptsa_status ?data ?m)"
    using cmd len by (auto simp: decode_troubles_def get_rules_def simp del: rule_items.simps(1-3))
  also have "\<dots> = Inr (part1_items d (extract_bits [?data ! 43]) (extract_bits [?data ! 44]) (extract_bits [?data ! 45]))"
    using assms len unfolding bitmask_items module_mask_items
    by (auto simp: process_troubles_part1_def data part1_items_def Let_def
        decode_system_troubles_def decode_ethm_ptsa_status_def)
  finally have decoded: "decode_troubles (hd frame) ?data
    = Inr (part1_items d (extract_bits [?data ! 43]) (extract_bits [?data ! 44]) (extract_bits [?data ! 45]))" .
  have fields: "length (t1_technical_zones d) = 128" "length (t1_expanders_ac d) = 64"
    "length (t1_expanders_battery d) = 64" "length (t1_expanders_no_battery d) = 64"
    "ep_ethm_ping_trouble (t1_ethm_ptsa d) = (?data ! 43 \<noteq> 0)"
    "ep_server_id_error (t1_ethm_ptsa d) = (?data ! 44 \<noteq> 0)"
    "ep_no_server_connection (t1_ethm_ptsa d) = (?data ! 45 \<noteq> 0)"
    using assms len by (auto simp: process_troubles_part1_def data Let_def)
  show ?thesis
    using decoded fields(1-4) fields(5-7) [unfolded byte_nonzero]
    by (intro conjI exI [of _ "extract_bits [?data ! 43]"] exI [of _ "extract_bits [?data ! 44]"]
        exI [of _ "extract_bits [?data ! 45]"]) simp_all
qed

theorem troubles_part1_agree_witness:
  "\<exists>items. decode_troubles 0x1B (replicate 47 0x80) = Inr items
    \<and> ItemFlag MainBoardAcLoss False True \<in> set items \<and> ItemFlag MainBoardBatteryMissing False False \<in> set items"
proof -
  obtain d where d: "process_troubles_part1 0 (0x1B # replicate 47 0x80) = Inr d"
    by (simp add: process_troubles_part1_def frame_data2_def Let_def)
  then have "t1_is_memory d = False" "mb_ac_trouble (t1_main_board d) = True"
    "mb_no_battery_present (t1_main_board d) = False"
    by (auto simp: process_troubles_part1_def frame_data2_def Let_def)
  with troubles_part1_agree [OF d] show ?thesis by (auto simp: part1_items_def Let_def)
qed

end
