(* ===== verification/Event.thy ===== *)
theory Event
  imports State
begin

text \<open>
  The events broadcast to subscribers (\<open>src/src/event.rs\<close>). Operations return the events they send,
  in order; the broadcast channel itself is the crate \<open>tokio\<close>.
\<close>

datatype sync_category = SyncZones | SyncOutputs | SyncPartitions | SyncTemperatures

primrec sync_category_text :: "sync_category \<Rightarrow> string" where
  "sync_category_text SyncZones = ''zones''"
| "sync_category_text SyncOutputs = ''outputs''"
| "sync_category_text SyncPartitions = ''partitions''"
| "sync_category_text SyncTemperatures = ''temperatures''"

text \<open>The constructors of \<open>SatelEvent\<close> with the prefix \<open>Ev\<close>; an element event carries its number.\<close>

datatype (plugins only: code) satel_event =
    EvConnectionChanged connection_state
  | EvConnectionStatistics connection_statistics
  | EvZoneViolation u16 bool
  | EvZoneTamper u16 bool
  | EvZoneAlarm u16 bool
  | EvZoneTamperAlarm u16 bool
  | EvZoneAlarmMemory u16 bool
  | EvZoneTamperAlarmMemory u16 bool
  | EvZoneBypass u16 bool
  | EvZoneNoViolationTrouble u16 bool
  | EvZoneLongViolationTrouble u16 bool
  | EvPartitionArmed u16 bool
  | EvPartitionArmedReally u16 bool
  | EvPartitionAlarm u16 bool
  | EvPartitionAlarmMemory u16 bool
  | EvPartitionEntryTime u16 bool
  | EvPartitionExitTimeGt10s u16 bool
  | EvPartitionExitTimeLt10s u16 bool
  | EvOutputChanged u16 bool
  | EvZoneTemperatureChanged u16 rat
  | EvZoneTemperatureError u16 temperature_sensor_status
  | EvZoneNameReceived u16 ustring
  | EvZoneParamsReceived u16 zone_params
  | EvOutputNameReceived u16 ustring
  | EvOutputParamsReceived u16 output_params
  | EvPartitionNameReceived u16 ustring
  | EvPartitionParamsReceived u16 partition_params
  | EvIntegraVersionReceived integra_version
  | EvEthmVersionReceived ethm_version
  | EvPanelMessage satel_result_code
  | EvAutoReadConfigured auto_read_report
  | EvTrouble trouble_type bool
  | EvTroubleMemory trouble_type bool
  | EvAcuJamLevel u8 u8
  | EvCmeError cme_source u8 u16 bool
  | EvSystemStatusChanged system_status
  | EvSyncStarted sync_category u16
  | EvSyncProgress sync_category u16 u16 ustring
  | EvSyncFinished sync_category u16 u16 "string option"
  | EvConfigUpdated

end
