(* ===== verification/Config.thy ===== *)
theory Config
  imports Command Rust_Text
begin

text \<open>
  The client configuration of \<open>src/src/config.rs\<close>: its fields with their defaults, the checks of
  \<open>validate\<close> in their order and with their messages, and which background activities are enabled.
\<close>

section \<open>Definitions\<close>

datatype connection_config =
    TcpConfig ustring u16
  | UartConfig ustring u32

definition connection_config_default :: connection_config where
  "connection_config_default = TcpConfig (ustring_of ''localhost'') 7094"

fun is_uart :: "connection_config \<Rightarrow> bool" where
  "is_uart (UartConfig _ _) = True"
| "is_uart (TcpConfig _ _) = False"

record temperature_probe =
  probe_zone_id :: u16
  probe_interval_minutes :: u64
  probe_max_timeout_errors :: u32
  probe_max_sensor_errors :: u32
  probe_unblock_enabled :: bool
  probe_unblock_after_cycles :: u32

definition min_unblock_after_cycles :: u32 where
  "min_unblock_after_cycles = 10"

text \<open>The fields of \<open>Config\<close>, each with the prefix \<open>cfg_\<close>.\<close>

record config =
  cfg_connection :: connection_config
  cfg_encryption :: bool
  cfg_integration_key :: "ustring option"
  cfg_read_timeout_ms :: u64
  cfg_write_timeout_ms :: u64
  cfg_temp_read_timeout_ms :: u64
  cfg_buffer_timeout_ms :: u64
  cfg_user_code :: "ustring option"
  cfg_auto_reconnect :: bool
  cfg_temp_blocking_enabled :: bool
  cfg_temp_max_timeout_errors :: u32
  cfg_temp_max_sensor_errors :: u32
  cfg_io_tamper_invert :: "u16 list"
  cfg_io_alarm_invert :: "u16 list"
  cfg_io_violation_invert :: "u16 list"
  cfg_io_tamper_alarm_invert :: "u16 list"
  cfg_io_alarm_memory_invert :: "u16 list"
  cfg_io_tamper_alarm_memory_invert :: "u16 list"
  cfg_io_bypass_invert :: "u16 list"
  cfg_io_no_violation_trouble_invert :: "u16 list"
  cfg_io_long_violation_trouble_invert :: "u16 list"
  cfg_auto_read_zones_violation :: bool
  cfg_auto_read_zones_tamper :: bool
  cfg_auto_read_zones_alarm :: bool
  cfg_auto_read_zones_tamper_alarm :: bool
  cfg_auto_read_zones_alarm_memory :: bool
  cfg_auto_read_zones_tamper_alarm_memory :: bool
  cfg_auto_read_zones_bypass :: bool
  cfg_auto_read_zones_no_violation_trouble :: bool
  cfg_auto_read_zones_long_violation_trouble :: bool
  cfg_auto_read_partitions_armed_suppressed :: bool
  cfg_auto_read_partitions_armed_really :: bool
  cfg_auto_read_partitions_alarm :: bool
  cfg_auto_read_partitions_alarm_memory :: bool
  cfg_auto_read_partitions_entry_time :: bool
  cfg_auto_read_partitions_exit_time :: bool
  cfg_auto_read_outputs_state :: bool
  cfg_auto_read_system_troubles :: bool
  cfg_auto_read_troubles_memory :: bool
  cfg_temperature_probes :: "temperature_probe list"
  cfg_emit_unchanged_temperatures :: bool
  cfg_emit_unchanged_zones :: bool
  cfg_emit_unchanged_outputs :: bool
  cfg_emit_unchanged_partitions :: bool
  cfg_emit_unchanged_troubles :: bool
  cfg_emit_unchanged_system_status :: bool
  cfg_extended_name_read :: bool
  cfg_max_missed_pings :: u32

definition config_default :: config where
  "config_default = \<lparr>
    cfg_connection = connection_config_default,
    cfg_encryption = False,
    cfg_integration_key = None,
    cfg_read_timeout_ms = 2000,
    cfg_write_timeout_ms = 500,
    cfg_temp_read_timeout_ms = 2000,
    cfg_buffer_timeout_ms = 10000,
    cfg_user_code = None,
    cfg_auto_reconnect = True,
    cfg_temp_blocking_enabled = True,
    cfg_temp_max_timeout_errors = 4,
    cfg_temp_max_sensor_errors = 10,
    cfg_io_tamper_invert = [],
    cfg_io_alarm_invert = [],
    cfg_io_violation_invert = [],
    cfg_io_tamper_alarm_invert = [],
    cfg_io_alarm_memory_invert = [],
    cfg_io_tamper_alarm_memory_invert = [],
    cfg_io_bypass_invert = [],
    cfg_io_no_violation_trouble_invert = [],
    cfg_io_long_violation_trouble_invert = [],
    cfg_auto_read_zones_violation = False,
    cfg_auto_read_zones_tamper = False,
    cfg_auto_read_zones_alarm = False,
    cfg_auto_read_zones_tamper_alarm = False,
    cfg_auto_read_zones_alarm_memory = False,
    cfg_auto_read_zones_tamper_alarm_memory = False,
    cfg_auto_read_zones_bypass = False,
    cfg_auto_read_zones_no_violation_trouble = False,
    cfg_auto_read_zones_long_violation_trouble = False,
    cfg_auto_read_partitions_armed_suppressed = False,
    cfg_auto_read_partitions_armed_really = False,
    cfg_auto_read_partitions_alarm = False,
    cfg_auto_read_partitions_alarm_memory = False,
    cfg_auto_read_partitions_entry_time = False,
    cfg_auto_read_partitions_exit_time = False,
    cfg_auto_read_outputs_state = False,
    cfg_auto_read_system_troubles = False,
    cfg_auto_read_troubles_memory = False,
    cfg_temperature_probes = [],
    cfg_emit_unchanged_temperatures = False,
    cfg_emit_unchanged_zones = False,
    cfg_emit_unchanged_outputs = False,
    cfg_emit_unchanged_partitions = False,
    cfg_emit_unchanged_troubles = False,
    cfg_emit_unchanged_system_status = False,
    cfg_extended_name_read = True,
    cfg_max_missed_pings = 3\<rparr>"

fun validate_probes :: "u16 list \<Rightarrow> temperature_probe list \<Rightarrow> unit satel_result" where
  "validate_probes seen_zones [] = Inr ()"
| "validate_probes seen_zones (probe # probes) =
    (if probe_zone_id probe = 0 \<or> probe_zone_id probe > 256
     then Inl (InvalidConfig (''invalid zone_id '' @ show_nat (unat (probe_zone_id probe))
            @ '' in temperature_probes (must be 1..=256)''))
     else if probe_zone_id probe \<in> set seen_zones
     then Inl (InvalidConfig (''duplicate zone_id '' @ show_nat (unat (probe_zone_id probe))
            @ '' in temperature_probes''))
     else if probe_unblock_enabled probe \<and> probe_unblock_after_cycles probe < min_unblock_after_cycles
     then Inl (InvalidConfig (''unblock_after_cycles for zone '' @ show_nat (unat (probe_zone_id probe))
            @ '' is '' @ show_nat (unat (probe_unblock_after_cycles probe))
            @ '', minimum is '' @ show_nat (unat min_unblock_after_cycles)))
     else validate_probes (probe_zone_id probe # seen_zones) probes)"

definition validate_encryption :: "config \<Rightarrow> unit satel_result" where
  "validate_encryption c =
    (if cfg_encryption c
     then case cfg_integration_key c of
        None \<Rightarrow> Inl (InvalidIntegrationKey ''encryption is enabled but integration_key is not set'')
      | Some key \<Rightarrow>
          (let len = length (utf8_encode key)
           in if len = 0 \<or> len > 12
              then Inl (InvalidIntegrationKey
                (''integration_key must be 1-12 characters long, got '' @ show_nat len))
              else if \<not> is_ascii key
              then Inl (InvalidIntegrationKey ''integration_key must contain only ASCII characters'')
              else if is_uart (cfg_connection c)
              then Inl (InvalidIntegrationKey
                ''encryption is only supported for TCP connections (ETHM-1 Plus), not UART (INT-RS)'')
              else Inr ())
     else Inr ())"

definition validate :: "config \<Rightarrow> unit satel_result" where
  "validate c =
    bind_result (validate_encryption c) (\<lambda>_. validate_probes [] (cfg_temperature_probes c))"

definition is_auto_read_enabled :: "config \<Rightarrow> bool" where
  "is_auto_read_enabled c =
    (cfg_auto_read_zones_violation c
     \<or> cfg_auto_read_zones_tamper c
     \<or> cfg_auto_read_zones_alarm c
     \<or> cfg_auto_read_zones_tamper_alarm c
     \<or> cfg_auto_read_zones_alarm_memory c
     \<or> cfg_auto_read_zones_tamper_alarm_memory c
     \<or> cfg_auto_read_zones_bypass c
     \<or> cfg_auto_read_zones_no_violation_trouble c
     \<or> cfg_auto_read_zones_long_violation_trouble c
     \<or> cfg_auto_read_partitions_armed_suppressed c
     \<or> cfg_auto_read_partitions_armed_really c
     \<or> cfg_auto_read_partitions_alarm c
     \<or> cfg_auto_read_partitions_alarm_memory c
     \<or> cfg_auto_read_partitions_entry_time c
     \<or> cfg_auto_read_partitions_exit_time c
     \<or> cfg_auto_read_outputs_state c
     \<or> cfg_auto_read_system_troubles c
     \<or> cfg_auto_read_troubles_memory c)"

definition is_polling_enabled :: "config \<Rightarrow> bool" where
  "is_polling_enabled c = (cfg_temperature_probes c \<noteq> [])"

section \<open>What validation guarantees\<close>

definition probe_ok :: "temperature_probe \<Rightarrow> bool" where
  "probe_ok p =
    (1 \<le> unat (probe_zone_id p) \<and> unat (probe_zone_id p) \<le> 256
     \<and> (probe_unblock_enabled p \<longrightarrow> 10 \<le> unat (probe_unblock_after_cycles p)))"

lemma probe_zone_in_range:
  "\<not> (probe_zone_id p = 0 \<or> probe_zone_id p > 256) \<longleftrightarrow>
    1 \<le> unat (probe_zone_id p) \<and> unat (probe_zone_id p) \<le> 256"
proof -
  have "unat (probe_zone_id p) \<noteq> 0 \<longleftrightarrow> probe_zone_id p \<noteq> 0" by (simp add: unat_eq_0)
  then show ?thesis by (auto simp: word_less_nat_alt)
qed

lemma validate_probes_ok:
  "validate_probes seen probes = Inr () \<longleftrightarrow>
    list_all probe_ok probes \<and> distinct (map probe_zone_id probes)
    \<and> set (map probe_zone_id probes) \<inter> set seen = {}"
proof (induction probes arbitrary: seen)
  case (Cons p probes)
  then show ?case
    using probe_zone_in_range [of p]
    by (auto simp: probe_ok_def min_unblock_after_cycles_def word_less_nat_alt)
qed simp

lemma validate_encryption_ok:
  "validate_encryption c = Inr () \<longleftrightarrow>
    (cfg_encryption c \<longrightarrow>
      (\<exists>key. cfg_integration_key c = Some key \<and> 1 \<le> length key \<and> length key \<le> 12
        \<and> is_ascii key \<and> \<not> is_uart (cfg_connection c)))"
proof (cases "cfg_encryption c")
  case True
  show ?thesis
  proof (cases "cfg_integration_key c")
    case None
    with True show ?thesis by (simp add: validate_encryption_def)
  next
    case (Some key)
    show ?thesis
    proof (cases "is_ascii key")
      case ascii: True
      then have "length (utf8_encode key) = length key" by (simp add: is_ascii_encode)
      with True Some ascii show ?thesis
        by (simp add: validate_encryption_def Let_def Suc_le_eq)
    next
      case False
      with True Some show ?thesis by (simp add: validate_encryption_def Let_def)
    qed
  qed
qed (simp add: validate_encryption_def)

text \<open>
  A configuration passes validation exactly when its encryption settings are usable (a key of 1
  to 12 ASCII characters on a TCP connection) and its temperature probes have distinct zone numbers
  from 1 to 256 with an unblocking period of at least ten cycles where unblocking is enabled.
\<close>

theorem validate_ok_iff:
  "validate c = Inr () \<longleftrightarrow>
    (cfg_encryption c \<longrightarrow>
      (\<exists>key. cfg_integration_key c = Some key \<and> 1 \<le> length key \<and> length key \<le> 12
        \<and> is_ascii key \<and> \<not> is_uart (cfg_connection c)))
    \<and> list_all probe_ok (cfg_temperature_probes c)
    \<and> distinct (map probe_zone_id (cfg_temperature_probes c))"
  using validate_encryption_ok [of c] validate_probes_ok [of "[]" "cfg_temperature_probes c"]
  by (auto simp: validate_def bind_result_Inr_iff)

text \<open>A configuration with encryption and two probes is accepted; one more character is too many.\<close>

theorem validate_ok_iff_witness:
  "\<exists>c. cfg_encryption c \<and> validate c = Inr ()
    \<and> validate (c\<lparr>cfg_integration_key := Some (ustring_of ''0123456789abc'')\<rparr>) \<noteq> Inr ()"
proof -
  let ?p = "\<lambda>z. \<lparr>probe_zone_id = z, probe_interval_minutes = 1, probe_max_timeout_errors = 4, probe_max_sensor_errors = 10,
    probe_unblock_enabled = True, probe_unblock_after_cycles = 10\<rparr>"
  let ?c = "config_default\<lparr>cfg_encryption := True, cfg_integration_key := Some (ustring_of ''0123456789ab''),
    cfg_temperature_probes := [?p 1, ?p 256]\<rparr>"
  have "validate ?c = Inr ()"
    unfolding validate_ok_iff
    by (simp add: config_default_def connection_config_default_def probe_ok_def ustring_of_def is_ascii_def)
  moreover have "validate (?c\<lparr>cfg_integration_key := Some (ustring_of ''0123456789abc'')\<rparr>) \<noteq> Inr ()"
    unfolding validate_ok_iff by (simp add: ustring_of_def)
  ultimately show ?thesis by (intro exI [of _ ?c]) simp
qed

lemma config_default_valid: "validate config_default = Inr ()"
  by (simp add: validate_def validate_encryption_def config_default_def)

end
