(* ===== verification/Cache.thy ===== *)
theory Cache
  imports Bit_Parsers Trouble_Frames Event Config
begin

text \<open>
  The updates of the cached state, \<open>src/src/client_internal.rs\<close>. Every operation takes the state and
  returns it updated together with the events it broadcasts, in order. The seventeen flag updates
  are one loop (\<open>update_flags\<close>) over the elements and the states read from the panel, with the
  fields of their category; the laws of the loop are proved once, in the locale \<open>flag_category\<close>, and
  interpreted for every category. The locks are held for a whole update and are not poisoned.
\<close>

section \<open>Versions and system status\<close>

definition update_integra_version_internal ::
  "integra_version \<Rightarrow> satel_state \<Rightarrow> satel_state \<times> satel_event list" where
  "update_integra_version_internal version s =
    (s\<lparr>s_integra_version := Some version\<rparr>, [EvIntegraVersionReceived version])"

definition update_ethm_version_internal ::
  "ethm_version \<Rightarrow> satel_state \<Rightarrow> satel_state \<times> satel_event list" where
  "update_ethm_version_internal version s =
    (s\<lparr>s_ethm_version := Some version\<rparr>, [EvEthmVersionReceived version])"

definition update_system_status_internal ::
  "config \<Rightarrow> system_status \<Rightarrow> satel_state \<Rightarrow> satel_state \<times> satel_event list" where
  "update_system_status_internal c status s =
    (if s_system_status s \<noteq> Some status \<or> cfg_emit_unchanged_system_status c
     then (s\<lparr>s_system_status := Some status\<rparr>, [EvSystemStatusChanged status])
     else (s, []))"

section \<open>Flag updates\<close>

text \<open>
  One element: the state is written and the event sent when it is asked for, on the first read, on a
  change, or when the configuration emits unchanged states.
\<close>

definition flag_due :: "('a \<Rightarrow> bool) \<Rightarrow> ('a \<Rightarrow> timestamp option) \<Rightarrow> bool \<Rightarrow> bool \<Rightarrow> bool \<Rightarrow> 'a \<Rightarrow> bool" where
  "flag_due state_of read_at_of emit_all emit_unchanged new_state x =
    (let is_initial = (read_at_of x = None);
         changed = (state_of x \<noteq> new_state)
     in emit_all \<or> is_initial \<or> changed \<or> emit_unchanged)"

text \<open>The loop over the read states; states beyond the last element are ignored.\<close>

fun update_flags ::
  "('a \<Rightarrow> u16) \<Rightarrow> ('a \<Rightarrow> bool) \<Rightarrow> ('a \<Rightarrow> timestamp option) \<Rightarrow> (bool \<Rightarrow> timestamp \<Rightarrow> 'a \<Rightarrow> 'a)
    \<Rightarrow> (u16 \<Rightarrow> bool \<Rightarrow> satel_event) \<Rightarrow> bool \<Rightarrow> bool \<Rightarrow> timestamp \<Rightarrow> bool list \<Rightarrow> 'a list
    \<Rightarrow> 'a list \<times> satel_event list" where
  "update_flags ident state_of read_at_of set_flag event emit_all emit_unchanged read_at [] xs = (xs, [])"
| "update_flags ident state_of read_at_of set_flag event emit_all emit_unchanged read_at (b # bs) [] = ([], [])"
| "update_flags ident state_of read_at_of set_flag event emit_all emit_unchanged read_at (b # bs) (x # xs) =
    (let (xs', evs) = update_flags ident state_of read_at_of set_flag event emit_all emit_unchanged read_at bs xs
     in if flag_due state_of read_at_of emit_all emit_unchanged b x
        then (set_flag b read_at x # xs', event (ident x) b # evs)
        else (x # xs', evs))"

subsection \<open>The categories\<close>

definition set_zone_tamper :: "bool \<Rightarrow> timestamp \<Rightarrow> zone \<Rightarrow> zone" where
  "set_zone_tamper b t x = x\<lparr>z_tamper_state := b, z_tamper_read_at := Some t\<rparr>"

definition update_zones_tamper_internal ::
  "config \<Rightarrow> states_data \<Rightarrow> bool \<Rightarrow> satel_state \<Rightarrow> satel_state \<times> satel_event list" where
  "update_zones_tamper_internal c d emit_all s =
    (let (xs, evs) = update_flags z_id z_tamper_state z_tamper_read_at set_zone_tamper EvZoneTamper
       emit_all (cfg_emit_unchanged_zones c) (sd_read_at d) (sd_states d) (s_zones s)
     in (s\<lparr>s_zones := xs\<rparr>, evs))"

definition set_zone_alarm :: "bool \<Rightarrow> timestamp \<Rightarrow> zone \<Rightarrow> zone" where
  "set_zone_alarm b t x = x\<lparr>z_alarm_state := b, z_alarm_read_at := Some t\<rparr>"

definition update_zones_alarm_internal ::
  "config \<Rightarrow> states_data \<Rightarrow> bool \<Rightarrow> satel_state \<Rightarrow> satel_state \<times> satel_event list" where
  "update_zones_alarm_internal c d emit_all s =
    (let (xs, evs) = update_flags z_id z_alarm_state z_alarm_read_at set_zone_alarm EvZoneAlarm
       emit_all (cfg_emit_unchanged_zones c) (sd_read_at d) (sd_states d) (s_zones s)
     in (s\<lparr>s_zones := xs\<rparr>, evs))"

definition set_zone_violation :: "bool \<Rightarrow> timestamp \<Rightarrow> zone \<Rightarrow> zone" where
  "set_zone_violation b t x = x\<lparr>z_violation_state := b, z_violation_read_at := Some t\<rparr>"

definition update_zones_violation_internal ::
  "config \<Rightarrow> states_data \<Rightarrow> bool \<Rightarrow> satel_state \<Rightarrow> satel_state \<times> satel_event list" where
  "update_zones_violation_internal c d emit_all s =
    (let (xs, evs) = update_flags z_id z_violation_state z_violation_read_at set_zone_violation EvZoneViolation
       emit_all (cfg_emit_unchanged_zones c) (sd_read_at d) (sd_states d) (s_zones s)
     in (s\<lparr>s_zones := xs\<rparr>, evs))"

definition set_zone_tamper_alarm :: "bool \<Rightarrow> timestamp \<Rightarrow> zone \<Rightarrow> zone" where
  "set_zone_tamper_alarm b t x = x\<lparr>z_tamper_alarm_state := b, z_tamper_alarm_read_at := Some t\<rparr>"

definition update_zones_tamper_alarm_internal ::
  "config \<Rightarrow> states_data \<Rightarrow> bool \<Rightarrow> satel_state \<Rightarrow> satel_state \<times> satel_event list" where
  "update_zones_tamper_alarm_internal c d emit_all s =
    (let (xs, evs) = update_flags z_id z_tamper_alarm_state z_tamper_alarm_read_at set_zone_tamper_alarm EvZoneTamperAlarm
       emit_all (cfg_emit_unchanged_zones c) (sd_read_at d) (sd_states d) (s_zones s)
     in (s\<lparr>s_zones := xs\<rparr>, evs))"

definition set_zone_alarm_memory :: "bool \<Rightarrow> timestamp \<Rightarrow> zone \<Rightarrow> zone" where
  "set_zone_alarm_memory b t x = x\<lparr>z_alarm_memory_state := b, z_alarm_memory_read_at := Some t\<rparr>"

definition update_zones_alarm_memory_internal ::
  "config \<Rightarrow> states_data \<Rightarrow> bool \<Rightarrow> satel_state \<Rightarrow> satel_state \<times> satel_event list" where
  "update_zones_alarm_memory_internal c d emit_all s =
    (let (xs, evs) = update_flags z_id z_alarm_memory_state z_alarm_memory_read_at set_zone_alarm_memory EvZoneAlarmMemory
       emit_all (cfg_emit_unchanged_zones c) (sd_read_at d) (sd_states d) (s_zones s)
     in (s\<lparr>s_zones := xs\<rparr>, evs))"

definition set_zone_tamper_alarm_memory :: "bool \<Rightarrow> timestamp \<Rightarrow> zone \<Rightarrow> zone" where
  "set_zone_tamper_alarm_memory b t x = x\<lparr>z_tamper_alarm_memory_state := b, z_tamper_alarm_memory_read_at := Some t\<rparr>"

definition update_zones_tamper_alarm_memory_internal ::
  "config \<Rightarrow> states_data \<Rightarrow> bool \<Rightarrow> satel_state \<Rightarrow> satel_state \<times> satel_event list" where
  "update_zones_tamper_alarm_memory_internal c d emit_all s =
    (let (xs, evs) = update_flags z_id z_tamper_alarm_memory_state z_tamper_alarm_memory_read_at set_zone_tamper_alarm_memory EvZoneTamperAlarmMemory
       emit_all (cfg_emit_unchanged_zones c) (sd_read_at d) (sd_states d) (s_zones s)
     in (s\<lparr>s_zones := xs\<rparr>, evs))"

definition set_zone_bypass :: "bool \<Rightarrow> timestamp \<Rightarrow> zone \<Rightarrow> zone" where
  "set_zone_bypass b t x = x\<lparr>z_bypass_state := b, z_bypass_read_at := Some t\<rparr>"

definition update_zones_bypass_internal ::
  "config \<Rightarrow> states_data \<Rightarrow> bool \<Rightarrow> satel_state \<Rightarrow> satel_state \<times> satel_event list" where
  "update_zones_bypass_internal c d emit_all s =
    (let (xs, evs) = update_flags z_id z_bypass_state z_bypass_read_at set_zone_bypass EvZoneBypass
       emit_all (cfg_emit_unchanged_zones c) (sd_read_at d) (sd_states d) (s_zones s)
     in (s\<lparr>s_zones := xs\<rparr>, evs))"

definition set_zone_no_violation_trouble :: "bool \<Rightarrow> timestamp \<Rightarrow> zone \<Rightarrow> zone" where
  "set_zone_no_violation_trouble b t x = x\<lparr>z_no_violation_trouble_state := b, z_no_violation_trouble_read_at := Some t\<rparr>"

definition update_zones_no_violation_trouble_internal ::
  "config \<Rightarrow> states_data \<Rightarrow> bool \<Rightarrow> satel_state \<Rightarrow> satel_state \<times> satel_event list" where
  "update_zones_no_violation_trouble_internal c d emit_all s =
    (let (xs, evs) = update_flags z_id z_no_violation_trouble_state z_no_violation_trouble_read_at set_zone_no_violation_trouble EvZoneNoViolationTrouble
       emit_all (cfg_emit_unchanged_zones c) (sd_read_at d) (sd_states d) (s_zones s)
     in (s\<lparr>s_zones := xs\<rparr>, evs))"

definition set_zone_long_violation_trouble :: "bool \<Rightarrow> timestamp \<Rightarrow> zone \<Rightarrow> zone" where
  "set_zone_long_violation_trouble b t x = x\<lparr>z_long_violation_trouble_state := b, z_long_violation_trouble_read_at := Some t\<rparr>"

definition update_zones_long_violation_trouble_internal ::
  "config \<Rightarrow> states_data \<Rightarrow> bool \<Rightarrow> satel_state \<Rightarrow> satel_state \<times> satel_event list" where
  "update_zones_long_violation_trouble_internal c d emit_all s =
    (let (xs, evs) = update_flags z_id z_long_violation_trouble_state z_long_violation_trouble_read_at set_zone_long_violation_trouble EvZoneLongViolationTrouble
       emit_all (cfg_emit_unchanged_zones c) (sd_read_at d) (sd_states d) (s_zones s)
     in (s\<lparr>s_zones := xs\<rparr>, evs))"

definition set_partition_armed :: "bool \<Rightarrow> timestamp \<Rightarrow> partition \<Rightarrow> partition" where
  "set_partition_armed b t x = x\<lparr>p_armed_suppressed := b, p_armed_suppressed_at := Some t\<rparr>"

definition update_partitions_armed_internal ::
  "config \<Rightarrow> states_data \<Rightarrow> bool \<Rightarrow> satel_state \<Rightarrow> satel_state \<times> satel_event list" where
  "update_partitions_armed_internal c d emit_all s =
    (let (xs, evs) = update_flags p_id p_armed_suppressed p_armed_suppressed_at set_partition_armed EvPartitionArmed
       emit_all (cfg_emit_unchanged_partitions c) (sd_read_at d) (sd_states d) (s_partitions s)
     in (s\<lparr>s_partitions := xs\<rparr>, evs))"

definition set_partition_armed_really :: "bool \<Rightarrow> timestamp \<Rightarrow> partition \<Rightarrow> partition" where
  "set_partition_armed_really b t x = x\<lparr>p_armed_really := b, p_armed_really_at := Some t\<rparr>"

definition update_partitions_armed_really_internal ::
  "config \<Rightarrow> states_data \<Rightarrow> bool \<Rightarrow> satel_state \<Rightarrow> satel_state \<times> satel_event list" where
  "update_partitions_armed_really_internal c d emit_all s =
    (let (xs, evs) = update_flags p_id p_armed_really p_armed_really_at set_partition_armed_really EvPartitionArmedReally
       emit_all (cfg_emit_unchanged_partitions c) (sd_read_at d) (sd_states d) (s_partitions s)
     in (s\<lparr>s_partitions := xs\<rparr>, evs))"

definition set_partition_alarm :: "bool \<Rightarrow> timestamp \<Rightarrow> partition \<Rightarrow> partition" where
  "set_partition_alarm b t x = x\<lparr>p_alarm := b, p_alarm_at := Some t\<rparr>"

definition update_partitions_alarm_internal ::
  "config \<Rightarrow> states_data \<Rightarrow> bool \<Rightarrow> satel_state \<Rightarrow> satel_state \<times> satel_event list" where
  "update_partitions_alarm_internal c d emit_all s =
    (let (xs, evs) = update_flags p_id p_alarm p_alarm_at set_partition_alarm EvPartitionAlarm
       emit_all (cfg_emit_unchanged_partitions c) (sd_read_at d) (sd_states d) (s_partitions s)
     in (s\<lparr>s_partitions := xs\<rparr>, evs))"

definition set_partition_alarm_memory :: "bool \<Rightarrow> timestamp \<Rightarrow> partition \<Rightarrow> partition" where
  "set_partition_alarm_memory b t x = x\<lparr>p_alarm_memory := b, p_alarm_memory_at := Some t\<rparr>"

definition update_partitions_alarm_memory_internal ::
  "config \<Rightarrow> states_data \<Rightarrow> bool \<Rightarrow> satel_state \<Rightarrow> satel_state \<times> satel_event list" where
  "update_partitions_alarm_memory_internal c d emit_all s =
    (let (xs, evs) = update_flags p_id p_alarm_memory p_alarm_memory_at set_partition_alarm_memory EvPartitionAlarmMemory
       emit_all (cfg_emit_unchanged_partitions c) (sd_read_at d) (sd_states d) (s_partitions s)
     in (s\<lparr>s_partitions := xs\<rparr>, evs))"

definition set_partition_entry_time :: "bool \<Rightarrow> timestamp \<Rightarrow> partition \<Rightarrow> partition" where
  "set_partition_entry_time b t x = x\<lparr>p_entry_time := b, p_entry_time_at := Some t\<rparr>"

definition update_partitions_entry_time_internal ::
  "config \<Rightarrow> states_data \<Rightarrow> bool \<Rightarrow> satel_state \<Rightarrow> satel_state \<times> satel_event list" where
  "update_partitions_entry_time_internal c d emit_all s =
    (let (xs, evs) = update_flags p_id p_entry_time p_entry_time_at set_partition_entry_time EvPartitionEntryTime
       emit_all (cfg_emit_unchanged_partitions c) (sd_read_at d) (sd_states d) (s_partitions s)
     in (s\<lparr>s_partitions := xs\<rparr>, evs))"

definition set_partition_exit_time_gt_10s :: "bool \<Rightarrow> timestamp \<Rightarrow> partition \<Rightarrow> partition" where
  "set_partition_exit_time_gt_10s b t x = x\<lparr>p_exit_time_gt_10s := b, p_exit_time_gt_10s_at := Some t\<rparr>"

definition update_partitions_exit_time_gt_10s_internal ::
  "config \<Rightarrow> states_data \<Rightarrow> bool \<Rightarrow> satel_state \<Rightarrow> satel_state \<times> satel_event list" where
  "update_partitions_exit_time_gt_10s_internal c d emit_all s =
    (let (xs, evs) = update_flags p_id p_exit_time_gt_10s p_exit_time_gt_10s_at set_partition_exit_time_gt_10s EvPartitionExitTimeGt10s
       emit_all (cfg_emit_unchanged_partitions c) (sd_read_at d) (sd_states d) (s_partitions s)
     in (s\<lparr>s_partitions := xs\<rparr>, evs))"

definition set_partition_exit_time_lt_10s :: "bool \<Rightarrow> timestamp \<Rightarrow> partition \<Rightarrow> partition" where
  "set_partition_exit_time_lt_10s b t x = x\<lparr>p_exit_time_lt_10s := b, p_exit_time_lt_10s_at := Some t\<rparr>"

definition update_partitions_exit_time_lt_10s_internal ::
  "config \<Rightarrow> states_data \<Rightarrow> bool \<Rightarrow> satel_state \<Rightarrow> satel_state \<times> satel_event list" where
  "update_partitions_exit_time_lt_10s_internal c d emit_all s =
    (let (xs, evs) = update_flags p_id p_exit_time_lt_10s p_exit_time_lt_10s_at set_partition_exit_time_lt_10s EvPartitionExitTimeLt10s
       emit_all (cfg_emit_unchanged_partitions c) (sd_read_at d) (sd_states d) (s_partitions s)
     in (s\<lparr>s_partitions := xs\<rparr>, evs))"

definition set_output_state :: "bool \<Rightarrow> timestamp \<Rightarrow> satel_output \<Rightarrow> satel_output" where
  "set_output_state b t x = x\<lparr>o_state := b, o_state_read_at := Some t\<rparr>"

definition update_outputs_state_internal ::
  "config \<Rightarrow> states_data \<Rightarrow> bool \<Rightarrow> satel_state \<Rightarrow> satel_state \<times> satel_event list" where
  "update_outputs_state_internal c d emit_all s =
    (let (xs, evs) = update_flags o_id o_state o_state_read_at set_output_state EvOutputChanged
       emit_all (cfg_emit_unchanged_outputs c) (sd_read_at d) (sd_states d) (s_outputs s)
     in (s\<lparr>s_outputs := xs\<rparr>, evs))"

section \<open>Troubles\<close>

fun trouble_step :: "bool \<Rightarrow> trouble_item \<Rightarrow> satel_state \<Rightarrow> satel_state \<times> satel_event list" where
  "trouble_step emit_unchanged (ItemFlag trouble memory active) s =
    (let prev = unwrap_or (s_trouble_flags s (trouble, memory)) False
     in (s\<lparr>s_trouble_flags := (s_trouble_flags s)((trouble, memory) \<mapsto> active)\<rparr>,
         if prev \<noteq> active \<or> emit_unchanged
         then [if memory then EvTroubleMemory trouble active else EvTrouble trouble active] else []))"
| "trouble_step emit_unchanged (ItemAcuJamLevel md level) s =
    (let prev = unwrap_or (s_acu_jam_levels s md) 0
     in (s\<lparr>s_acu_jam_levels := (s_acu_jam_levels s)(md \<mapsto> level)\<rparr>,
         if prev \<noteq> level \<or> emit_unchanged then [EvAcuJamLevel md level] else []))"
| "trouble_step emit_unchanged (ItemCmeError source sim memory code) s =
    (let prev = unwrap_or (s_cme_errors s (source, sim, memory)) 0
     in (s\<lparr>s_cme_errors := (s_cme_errors s)((source, sim, memory) \<mapsto> code)\<rparr>,
         if prev \<noteq> code \<or> emit_unchanged then [EvCmeError source sim code memory] else []))"

fun trouble_loop :: "bool \<Rightarrow> trouble_item list \<Rightarrow> satel_state \<Rightarrow> satel_state \<times> satel_event list" where
  "trouble_loop emit_unchanged [] s = (s, [])"
| "trouble_loop emit_unchanged (item # items) s =
    (let (s', evs) = trouble_step emit_unchanged item s;
         (s'', evs') = trouble_loop emit_unchanged items s'
     in (s'', evs @ evs'))"

definition update_troubles_internal ::
  "config \<Rightarrow> command \<Rightarrow> bytes \<Rightarrow> satel_state \<Rightarrow> unit satel_result \<times> satel_state \<times> satel_event list" where
  "update_troubles_internal c cmd data s =
    (case decode_troubles (command_to_byte cmd) data of
       Inl e \<Rightarrow> (Inl e, s, [])
     | Inr items \<Rightarrow> (let (s', evs) = trouble_loop (cfg_emit_unchanged_troubles c) items s
                     in (Inr (), s', evs)))"

section \<open>What a subscriber knows\<close>

text \<open>
  A subscriber that follows one flag keeps the last value it was sent: \<open>ev b\<close> is the event that
  announces the value \<open>b\<close>, \<open>v\<close> what it knew before.
\<close>

fun view_after :: "(bool \<Rightarrow> satel_event) \<Rightarrow> bool option \<Rightarrow> satel_event list \<Rightarrow> bool option" where
  "view_after ev v [] = v"
| "view_after ev v (e # es) =
    view_after ev (if e = ev True then Some True else if e = ev False then Some False else v) es"

lemma view_after_append: "view_after ev v (es @ es') = view_after ev (view_after ev v es) es'"
  by (induction es arbitrary: v) simp_all

lemma view_after_other: "(\<And>b. ev b \<notin> set es) \<Longrightarrow> view_after ev v es = v"
proof (induction es arbitrary: v)
  case (Cons e es)
  then have "e \<noteq> ev b" for b by (metis list.set_intros(1))
  with Cons show ?case by simp
qed simp

text \<open>The cached value of a flag: nothing until it was read once.\<close>

definition flag_view :: "('a \<Rightarrow> bool) \<Rightarrow> ('a \<Rightarrow> timestamp option) \<Rightarrow> 'a \<Rightarrow> bool option" where
  "flag_view state_of read_at_of x = (if read_at_of x = None then None else Some (state_of x))"

subsection \<open>The laws of a category\<close>

locale flag_category =
  fixes ident :: "'a \<Rightarrow> u16" and state_of :: "'a \<Rightarrow> bool" and read_at_of :: "'a \<Rightarrow> timestamp option"
    and set_flag :: "bool \<Rightarrow> timestamp \<Rightarrow> 'a \<Rightarrow> 'a" and event :: "u16 \<Rightarrow> bool \<Rightarrow> satel_event"
  assumes ident_set: "ident (set_flag b t x) = ident x"
    and state_set: "state_of (set_flag b t x) = b"
    and read_at_set: "read_at_of (set_flag b t x) = Some t"
    and event_inject: "event i b = event j b' \<longleftrightarrow> i = j \<and> b = b'"
begin

abbreviation update :: "bool \<Rightarrow> bool \<Rightarrow> timestamp \<Rightarrow> bool list \<Rightarrow> 'a list \<Rightarrow> 'a list \<times> satel_event list" where
  "update \<equiv> update_flags ident state_of read_at_of set_flag event"

lemma update_length: "length (fst (update a u t bs xs)) = length xs"
  by (induction bs xs rule: list_induct2')
    (auto simp: case_prod_beta Let_def)

lemma update_ident: "map ident (fst (update a u t bs xs)) = map ident xs"
  by (induction bs xs rule: list_induct2')
    (auto simp: case_prod_beta Let_def ident_set)

lemma update_events: "set (snd (update a u t bs xs)) \<subseteq> (\<Union>x \<in> set xs. range (event (ident x)))"
  by (induction bs xs rule: list_induct2')
    (auto simp: case_prod_beta Let_def)

lemma update_frame:
  assumes "\<And>b t x. g (set_flag b t x) = g x"
  shows "map g (fst (update a u t bs xs)) = map g xs"
  by (induction bs xs rule: list_induct2')
    (auto simp: case_prod_beta Let_def assms)

lemma update_nth:
  "k < length xs \<Longrightarrow> fst (update a u t bs xs) ! k =
    (if k < length bs \<and> flag_due state_of read_at_of a u (bs ! k) (xs ! k)
     then set_flag (bs ! k) t (xs ! k) else xs ! k)"
proof (induction bs arbitrary: k xs)
  case Nil
  then show ?case by simp
next
  case (Cons b bs)
  then obtain x xs' where xs: "xs = x # xs'" by (cases xs) auto
  show ?case
  proof (cases k)
    case 0
    then show ?thesis by (simp add: xs case_prod_beta Let_def)
  next
    case (Suc k')
    with Cons.prems Cons.IH [of k' xs'] show ?thesis by (simp add: xs case_prod_beta Let_def)
  qed
qed

text \<open>Every element that was read is up to date afterwards.\<close>

lemma update_state:
  "k < length xs \<Longrightarrow> k < length bs \<Longrightarrow>
    flag_view state_of read_at_of (fst (update a u t bs xs) ! k) = Some (bs ! k)"
  by (auto simp: update_nth flag_view_def flag_due_def state_set read_at_set)

lemma update_all: "snd (update True u t bs xs) = map (\<lambda>(b, x). event (ident x) b) (zip bs xs)"
  by (induction bs xs rule: list_induct2')
    (auto simp: case_prod_beta Let_def flag_due_def)

text \<open>The events tell a subscriber exactly what the cache holds.\<close>

lemma update_view:
  "distinct (map ident xs) \<Longrightarrow> k < length xs \<Longrightarrow>
    view_after (event (ident (xs ! k))) (flag_view state_of read_at_of (xs ! k)) (snd (update a u t bs xs))
    = flag_view state_of read_at_of (fst (update a u t bs xs) ! k)"
proof (induction bs arbitrary: k xs)
  case (Cons b bs)
  then obtain x xs' where xs: "xs = x # xs'" by (cases xs) auto
  with Cons.prems have dist: "distinct (map ident xs')" and new: "ident x \<notin> ident ` set xs'" by auto
  show ?case
  proof (cases k)
    case 0
    have "event (ident x) b' \<notin> set (snd (update a u t bs xs'))" for b'
      using update_events [of a u t bs xs'] new by (auto simp: event_inject)
    then have "view_after (event (ident x)) v (snd (update a u t bs xs')) = v" for v
      by (rule view_after_other)
    with 0 show ?thesis
      by (auto simp: xs case_prod_beta Let_def event_inject flag_view_def state_set read_at_set)
  next
    case (Suc k')
    then have "k' < length xs'" and "ident x \<noteq> ident (xs' ! k')"
      using Cons.prems xs new by auto
    with Suc Cons.IH [OF dist, of k'] show ?thesis
      by (simp add: xs case_prod_beta Let_def event_inject)
  qed
qed simp

end

interpretation zone_tamper: flag_category z_id z_tamper_state z_tamper_read_at set_zone_tamper EvZoneTamper
  by unfold_locales (simp_all add: set_zone_tamper_def)

interpretation zone_alarm: flag_category z_id z_alarm_state z_alarm_read_at set_zone_alarm EvZoneAlarm
  by unfold_locales (simp_all add: set_zone_alarm_def)

interpretation zone_violation: flag_category z_id z_violation_state z_violation_read_at set_zone_violation EvZoneViolation
  by unfold_locales (simp_all add: set_zone_violation_def)

interpretation zone_tamper_alarm: flag_category z_id z_tamper_alarm_state z_tamper_alarm_read_at set_zone_tamper_alarm EvZoneTamperAlarm
  by unfold_locales (simp_all add: set_zone_tamper_alarm_def)

interpretation zone_alarm_memory: flag_category z_id z_alarm_memory_state z_alarm_memory_read_at set_zone_alarm_memory EvZoneAlarmMemory
  by unfold_locales (simp_all add: set_zone_alarm_memory_def)

interpretation zone_tamper_alarm_memory: flag_category z_id z_tamper_alarm_memory_state z_tamper_alarm_memory_read_at set_zone_tamper_alarm_memory EvZoneTamperAlarmMemory
  by unfold_locales (simp_all add: set_zone_tamper_alarm_memory_def)

interpretation zone_bypass: flag_category z_id z_bypass_state z_bypass_read_at set_zone_bypass EvZoneBypass
  by unfold_locales (simp_all add: set_zone_bypass_def)

interpretation zone_no_violation_trouble: flag_category z_id z_no_violation_trouble_state z_no_violation_trouble_read_at set_zone_no_violation_trouble EvZoneNoViolationTrouble
  by unfold_locales (simp_all add: set_zone_no_violation_trouble_def)

interpretation zone_long_violation_trouble: flag_category z_id z_long_violation_trouble_state z_long_violation_trouble_read_at set_zone_long_violation_trouble EvZoneLongViolationTrouble
  by unfold_locales (simp_all add: set_zone_long_violation_trouble_def)

interpretation partition_armed: flag_category p_id p_armed_suppressed p_armed_suppressed_at set_partition_armed EvPartitionArmed
  by unfold_locales (simp_all add: set_partition_armed_def)

interpretation partition_armed_really: flag_category p_id p_armed_really p_armed_really_at set_partition_armed_really EvPartitionArmedReally
  by unfold_locales (simp_all add: set_partition_armed_really_def)

interpretation partition_alarm: flag_category p_id p_alarm p_alarm_at set_partition_alarm EvPartitionAlarm
  by unfold_locales (simp_all add: set_partition_alarm_def)

interpretation partition_alarm_memory: flag_category p_id p_alarm_memory p_alarm_memory_at set_partition_alarm_memory EvPartitionAlarmMemory
  by unfold_locales (simp_all add: set_partition_alarm_memory_def)

interpretation partition_entry_time: flag_category p_id p_entry_time p_entry_time_at set_partition_entry_time EvPartitionEntryTime
  by unfold_locales (simp_all add: set_partition_entry_time_def)

interpretation partition_exit_time_gt_10s: flag_category p_id p_exit_time_gt_10s p_exit_time_gt_10s_at set_partition_exit_time_gt_10s EvPartitionExitTimeGt10s
  by unfold_locales (simp_all add: set_partition_exit_time_gt_10s_def)

interpretation partition_exit_time_lt_10s: flag_category p_id p_exit_time_lt_10s p_exit_time_lt_10s_at set_partition_exit_time_lt_10s EvPartitionExitTimeLt10s
  by unfold_locales (simp_all add: set_partition_exit_time_lt_10s_def)

interpretation output_state: flag_category o_id o_state o_state_read_at set_output_state EvOutputChanged
  by unfold_locales (simp_all add: set_output_state_def)

lemmas flag_set_defs =
  set_zone_tamper_def
  set_zone_alarm_def
  set_zone_violation_def
  set_zone_tamper_alarm_def
  set_zone_alarm_memory_def
  set_zone_tamper_alarm_memory_def
  set_zone_bypass_def
  set_zone_no_violation_trouble_def
  set_zone_long_violation_trouble_def
  set_partition_armed_def
  set_partition_armed_really_def
  set_partition_alarm_def
  set_partition_alarm_memory_def
  set_partition_entry_time_def
  set_partition_exit_time_gt_10s_def
  set_partition_exit_time_lt_10s_def
  set_output_state_def

lemmas flag_update_frame =
  zone_tamper.update_frame
  zone_alarm.update_frame
  zone_violation.update_frame
  zone_tamper_alarm.update_frame
  zone_alarm_memory.update_frame
  zone_tamper_alarm_memory.update_frame
  zone_bypass.update_frame
  zone_no_violation_trouble.update_frame
  zone_long_violation_trouble.update_frame
  partition_armed.update_frame
  partition_armed_really.update_frame
  partition_alarm.update_frame
  partition_alarm_memory.update_frame
  partition_entry_time.update_frame
  partition_exit_time_gt_10s.update_frame
  partition_exit_time_lt_10s.update_frame
  output_state.update_frame

lemmas flag_update_events =
  zone_tamper.update_events
  zone_alarm.update_events
  zone_violation.update_events
  zone_tamper_alarm.update_events
  zone_alarm_memory.update_events
  zone_tamper_alarm_memory.update_events
  zone_bypass.update_events
  zone_no_violation_trouble.update_events
  zone_long_violation_trouble.update_events
  partition_armed.update_events
  partition_armed_really.update_events
  partition_alarm.update_events
  partition_alarm_memory.update_events
  partition_entry_time.update_events
  partition_exit_time_gt_10s.update_events
  partition_exit_time_lt_10s.update_events
  output_state.update_events

lemmas flag_update_ident =
  zone_tamper.update_ident
  zone_alarm.update_ident
  zone_violation.update_ident
  zone_tamper_alarm.update_ident
  zone_alarm_memory.update_ident
  zone_tamper_alarm_memory.update_ident
  zone_bypass.update_ident
  zone_no_violation_trouble.update_ident
  zone_long_violation_trouble.update_ident
  partition_armed.update_ident
  partition_armed_really.update_ident
  partition_alarm.update_ident
  partition_alarm_memory.update_ident
  partition_entry_time.update_ident
  partition_exit_time_gt_10s.update_ident
  partition_exit_time_lt_10s.update_ident
  output_state.update_ident

lemmas flag_update_view =
  zone_tamper.update_view
  zone_alarm.update_view
  zone_violation.update_view
  zone_tamper_alarm.update_view
  zone_alarm_memory.update_view
  zone_tamper_alarm_memory.update_view
  zone_bypass.update_view
  zone_no_violation_trouble.update_view
  zone_long_violation_trouble.update_view
  partition_armed.update_view
  partition_armed_really.update_view
  partition_alarm.update_view
  partition_alarm_memory.update_view
  partition_entry_time.update_view
  partition_exit_time_gt_10s.update_view
  partition_exit_time_lt_10s.update_view
  output_state.update_view

lemmas flag_update_nth =
  zone_tamper.update_nth
  zone_alarm.update_nth
  zone_violation.update_nth
  zone_tamper_alarm.update_nth
  zone_alarm_memory.update_nth
  zone_tamper_alarm_memory.update_nth
  zone_bypass.update_nth
  zone_no_violation_trouble.update_nth
  zone_long_violation_trouble.update_nth
  partition_armed.update_nth
  partition_armed_really.update_nth
  partition_alarm.update_nth
  partition_alarm_memory.update_nth
  partition_entry_time.update_nth
  partition_exit_time_gt_10s.update_nth
  partition_exit_time_lt_10s.update_nth
  output_state.update_nth

lemmas flag_update_length =
  zone_tamper.update_length
  zone_alarm.update_length
  zone_violation.update_length
  zone_tamper_alarm.update_length
  zone_alarm_memory.update_length
  zone_tamper_alarm_memory.update_length
  zone_bypass.update_length
  zone_no_violation_trouble.update_length
  zone_long_violation_trouble.update_length
  partition_armed.update_length
  partition_armed_really.update_length
  partition_alarm.update_length
  partition_alarm_memory.update_length
  partition_entry_time.update_length
  partition_exit_time_gt_10s.update_length
  partition_exit_time_lt_10s.update_length
  output_state.update_length

lemmas flag_update_all =
  zone_tamper.update_all
  zone_alarm.update_all
  zone_violation.update_all
  zone_tamper_alarm.update_all
  zone_alarm_memory.update_all
  zone_tamper_alarm_memory.update_all
  zone_bypass.update_all
  zone_no_violation_trouble.update_all
  zone_long_violation_trouble.update_all
  partition_armed.update_all
  partition_armed_really.update_all
  partition_alarm.update_all
  partition_alarm_memory.update_all
  partition_entry_time.update_all
  partition_exit_time_gt_10s.update_all
  partition_exit_time_lt_10s.update_all
  output_state.update_all

lemmas flag_update_defs =
  update_zones_tamper_internal_def
  update_zones_alarm_internal_def
  update_zones_violation_internal_def
  update_zones_tamper_alarm_internal_def
  update_zones_alarm_memory_internal_def
  update_zones_tamper_alarm_memory_internal_def
  update_zones_bypass_internal_def
  update_zones_no_violation_trouble_internal_def
  update_zones_long_violation_trouble_internal_def
  update_partitions_armed_internal_def
  update_partitions_armed_really_internal_def
  update_partitions_alarm_internal_def
  update_partitions_alarm_memory_internal_def
  update_partitions_entry_time_internal_def
  update_partitions_exit_time_gt_10s_internal_def
  update_partitions_exit_time_lt_10s_internal_def
  update_outputs_state_internal_def

subsection \<open>All categories\<close>

text \<open>The categories by the event that announces them, and the cached value of element \<open>n\<close> (from 1).\<close>

datatype flag_category_name =
    CatZoneTamper
  | CatZoneAlarm
  | CatZoneViolation
  | CatZoneTamperAlarm
  | CatZoneAlarmMemory
  | CatZoneTamperAlarmMemory
  | CatZoneBypass
  | CatZoneNoViolationTrouble
  | CatZoneLongViolationTrouble
  | CatPartitionArmed
  | CatPartitionArmedReally
  | CatPartitionAlarm
  | CatPartitionAlarmMemory
  | CatPartitionEntryTime
  | CatPartitionExitTimeGt10s
  | CatPartitionExitTimeLt10s
  | CatOutputChanged

primrec category_event :: "flag_category_name \<Rightarrow> u16 \<Rightarrow> bool \<Rightarrow> satel_event" where
  "category_event CatZoneTamper = EvZoneTamper"
| "category_event CatZoneAlarm = EvZoneAlarm"
| "category_event CatZoneViolation = EvZoneViolation"
| "category_event CatZoneTamperAlarm = EvZoneTamperAlarm"
| "category_event CatZoneAlarmMemory = EvZoneAlarmMemory"
| "category_event CatZoneTamperAlarmMemory = EvZoneTamperAlarmMemory"
| "category_event CatZoneBypass = EvZoneBypass"
| "category_event CatZoneNoViolationTrouble = EvZoneNoViolationTrouble"
| "category_event CatZoneLongViolationTrouble = EvZoneLongViolationTrouble"
| "category_event CatPartitionArmed = EvPartitionArmed"
| "category_event CatPartitionArmedReally = EvPartitionArmedReally"
| "category_event CatPartitionAlarm = EvPartitionAlarm"
| "category_event CatPartitionAlarmMemory = EvPartitionAlarmMemory"
| "category_event CatPartitionEntryTime = EvPartitionEntryTime"
| "category_event CatPartitionExitTimeGt10s = EvPartitionExitTimeGt10s"
| "category_event CatPartitionExitTimeLt10s = EvPartitionExitTimeLt10s"
| "category_event CatOutputChanged = EvOutputChanged"

definition element_view :: "('a \<Rightarrow> bool) \<Rightarrow> ('a \<Rightarrow> timestamp option) \<Rightarrow> 'a list \<Rightarrow> nat \<Rightarrow> bool option" where
  "element_view state_of read_at_of xs n =
    (if 1 \<le> n \<and> n \<le> length xs then flag_view state_of read_at_of (xs ! (n - 1)) else None)"

primrec category_view :: "flag_category_name \<Rightarrow> satel_state \<Rightarrow> nat \<Rightarrow> bool option" where
  "category_view CatZoneTamper s = element_view z_tamper_state z_tamper_read_at (s_zones s)"
| "category_view CatZoneAlarm s = element_view z_alarm_state z_alarm_read_at (s_zones s)"
| "category_view CatZoneViolation s = element_view z_violation_state z_violation_read_at (s_zones s)"
| "category_view CatZoneTamperAlarm s = element_view z_tamper_alarm_state z_tamper_alarm_read_at (s_zones s)"
| "category_view CatZoneAlarmMemory s = element_view z_alarm_memory_state z_alarm_memory_read_at (s_zones s)"
| "category_view CatZoneTamperAlarmMemory s = element_view z_tamper_alarm_memory_state z_tamper_alarm_memory_read_at (s_zones s)"
| "category_view CatZoneBypass s = element_view z_bypass_state z_bypass_read_at (s_zones s)"
| "category_view CatZoneNoViolationTrouble s = element_view z_no_violation_trouble_state z_no_violation_trouble_read_at (s_zones s)"
| "category_view CatZoneLongViolationTrouble s = element_view z_long_violation_trouble_state z_long_violation_trouble_read_at (s_zones s)"
| "category_view CatPartitionArmed s = element_view p_armed_suppressed p_armed_suppressed_at (s_partitions s)"
| "category_view CatPartitionArmedReally s = element_view p_armed_really p_armed_really_at (s_partitions s)"
| "category_view CatPartitionAlarm s = element_view p_alarm p_alarm_at (s_partitions s)"
| "category_view CatPartitionAlarmMemory s = element_view p_alarm_memory p_alarm_memory_at (s_partitions s)"
| "category_view CatPartitionEntryTime s = element_view p_entry_time p_entry_time_at (s_partitions s)"
| "category_view CatPartitionExitTimeGt10s s = element_view p_exit_time_gt_10s p_exit_time_gt_10s_at (s_partitions s)"
| "category_view CatPartitionExitTimeLt10s s = element_view p_exit_time_lt_10s p_exit_time_lt_10s_at (s_partitions s)"
| "category_view CatOutputChanged s = element_view o_state o_state_read_at (s_outputs s)"

primrec category_update ::
  "flag_category_name \<Rightarrow> config \<Rightarrow> states_data \<Rightarrow> bool \<Rightarrow> satel_state \<Rightarrow> satel_state \<times> satel_event list" where
  "category_update CatZoneTamper = update_zones_tamper_internal"
| "category_update CatZoneAlarm = update_zones_alarm_internal"
| "category_update CatZoneViolation = update_zones_violation_internal"
| "category_update CatZoneTamperAlarm = update_zones_tamper_alarm_internal"
| "category_update CatZoneAlarmMemory = update_zones_alarm_memory_internal"
| "category_update CatZoneTamperAlarmMemory = update_zones_tamper_alarm_memory_internal"
| "category_update CatZoneBypass = update_zones_bypass_internal"
| "category_update CatZoneNoViolationTrouble = update_zones_no_violation_trouble_internal"
| "category_update CatZoneLongViolationTrouble = update_zones_long_violation_trouble_internal"
| "category_update CatPartitionArmed = update_partitions_armed_internal"
| "category_update CatPartitionArmedReally = update_partitions_armed_really_internal"
| "category_update CatPartitionAlarm = update_partitions_alarm_internal"
| "category_update CatPartitionAlarmMemory = update_partitions_alarm_memory_internal"
| "category_update CatPartitionEntryTime = update_partitions_entry_time_internal"
| "category_update CatPartitionExitTimeGt10s = update_partitions_exit_time_gt_10s_internal"
| "category_update CatPartitionExitTimeLt10s = update_partitions_exit_time_lt_10s_internal"
| "category_update CatOutputChanged = update_outputs_state_internal"

primrec category_size :: "flag_category_name \<Rightarrow> nat" where
  "category_size CatZoneTamper = 256"
| "category_size CatZoneAlarm = 256"
| "category_size CatZoneViolation = 256"
| "category_size CatZoneTamperAlarm = 256"
| "category_size CatZoneAlarmMemory = 256"
| "category_size CatZoneTamperAlarmMemory = 256"
| "category_size CatZoneBypass = 256"
| "category_size CatZoneNoViolationTrouble = 256"
| "category_size CatZoneLongViolationTrouble = 256"
| "category_size CatPartitionArmed = 32"
| "category_size CatPartitionArmedReally = 32"
| "category_size CatPartitionAlarm = 32"
| "category_size CatPartitionAlarmMemory = 32"
| "category_size CatPartitionEntryTime = 32"
| "category_size CatPartitionExitTimeGt10s = 32"
| "category_size CatPartitionExitTimeLt10s = 32"
| "category_size CatOutputChanged = 256"

lemma element_view_cong:
  "map (flag_view state_of read_at_of) xs = map (flag_view state_of read_at_of) ys \<Longrightarrow>
    element_view state_of read_at_of xs n = element_view state_of read_at_of ys n"
  unfolding element_view_def
  by (metis (no_types, lifting) Suc_diff_1 Suc_le_lessD less_le_trans nth_map length_map
      less_one not_less zero_less_one diff_less)

lemma category_view_frame:
  "k' \<noteq> k \<Longrightarrow> category_view k' (fst (category_update k c d e s)) n = category_view k' s n"
  by (cases k; cases k')
    (auto simp: flag_update_defs case_prod_beta flag_update_frame flag_view_def flag_set_defs
      intro!: element_view_cong)

lemma category_events_own:
  "k' \<noteq> k \<Longrightarrow> category_event k' i b \<notin> set (snd (category_update k c d e s))"
  by (cases k; cases k')
    (auto simp: flag_update_defs case_prod_beta dest!: flag_update_events [THEN subsetD])

lemma category_update_wf: "state_wf s \<Longrightarrow> state_wf (fst (category_update k c d e s))"
  by (cases k) (simp_all add: state_wf_def flag_update_defs case_prod_beta flag_update_ident)

lemma distinct_idents: "m \<le> 256 \<Longrightarrow> distinct (map (word_of_nat :: nat \<Rightarrow> u16) [1..<Suc m])"
  by (auto simp: distinct_map inj_on_def word_of_nat_eq_iff take_bit_nat_eq_self)

context flag_category
begin

lemma update_element_view:
  assumes ids: "map ident xs = map word_of_nat [1..<Suc (length xs)]" and size: "length xs \<le> 256"
    and n: "1 \<le> n" "n \<le> length xs"
  shows "view_after (event (word_of_nat n)) (element_view state_of read_at_of xs n) (snd (update a u t bs xs))
    = element_view state_of read_at_of (fst (update a u t bs xs)) n"
proof -
  have dist: "distinct (map ident xs)" unfolding ids by (rule distinct_idents [OF size])
  have lt: "n - 1 < length xs" using n by auto
  then have "ident (xs ! (n - 1)) = map ident xs ! (n - 1)" by simp
  also have "\<dots> = word_of_nat n" unfolding ids using n by (simp add: nth_upt del: upt_Suc)
  finally have ident: "ident (xs ! (n - 1)) = word_of_nat n" .
  from update_view [OF dist lt, unfolded ident, of a u t bs] n show ?thesis
    by (simp add: element_view_def update_length)
qed

lemma update_element_read:
  "1 \<le> n \<Longrightarrow> n \<le> length xs \<Longrightarrow> n \<le> length bs \<Longrightarrow>
    element_view state_of read_at_of (fst (update a u t bs xs)) n = Some (bs ! (n - 1))"
  using update_state [of "n - 1" xs bs a u t] by (simp add: element_view_def update_length)

end

lemma wf_idents:
  assumes "state_wf s"
  shows "map z_id (s_zones s) = map word_of_nat [1..<Suc (length (s_zones s))]"
    and "map o_id (s_outputs s) = map word_of_nat [1..<Suc (length (s_outputs s))]"
    and "map p_id (s_partitions s) = map word_of_nat [1..<Suc (length (s_partitions s))]"
proof -
  have "Suc 256 = 257" "Suc 32 = 33" by simp_all
  then show "map z_id (s_zones s) = map word_of_nat [1..<Suc (length (s_zones s))]"
    and "map o_id (s_outputs s) = map word_of_nat [1..<Suc (length (s_outputs s))]"
    and "map p_id (s_partitions s) = map word_of_nat [1..<Suc (length (s_partitions s))]"
    using assms state_wf_lengths [OF assms] unfolding state_wf_def by metis+
qed

lemmas flag_element_view =
  zone_tamper.update_element_view
  zone_alarm.update_element_view
  zone_violation.update_element_view
  zone_tamper_alarm.update_element_view
  zone_alarm_memory.update_element_view
  zone_tamper_alarm_memory.update_element_view
  zone_bypass.update_element_view
  zone_no_violation_trouble.update_element_view
  zone_long_violation_trouble.update_element_view
  partition_armed.update_element_view
  partition_armed_really.update_element_view
  partition_alarm.update_element_view
  partition_alarm_memory.update_element_view
  partition_entry_time.update_element_view
  partition_exit_time_gt_10s.update_element_view
  partition_exit_time_lt_10s.update_element_view
  output_state.update_element_view

lemmas flag_element_read =
  zone_tamper.update_element_read
  zone_alarm.update_element_read
  zone_violation.update_element_read
  zone_tamper_alarm.update_element_read
  zone_alarm_memory.update_element_read
  zone_tamper_alarm_memory.update_element_read
  zone_bypass.update_element_read
  zone_no_violation_trouble.update_element_read
  zone_long_violation_trouble.update_element_read
  partition_armed.update_element_read
  partition_armed_really.update_element_read
  partition_alarm.update_element_read
  partition_alarm_memory.update_element_read
  partition_entry_time.update_element_read
  partition_exit_time_gt_10s.update_element_read
  partition_exit_time_lt_10s.update_element_read
  output_state.update_element_read

lemma category_update_own_view:
  assumes wf: "state_wf s" and n: "1 \<le> n" "n \<le> category_size k"
  shows "view_after (category_event k (word_of_nat n)) (category_view k s n) (snd (category_update k c d e s))
    = category_view k (fst (category_update k c d e s)) n"
  using n state_wf_lengths [OF wf]
  by (cases k)
    (simp_all add: flag_update_defs case_prod_beta flag_element_view wf_idents [OF wf] del: upt_Suc)

text \<open>
  After an update a subscriber that knew the cached flags before knows them again, for the updated
  category and for every other.
\<close>

lemma category_update_view:
  assumes "state_wf s" and "1 \<le> n" and "n \<le> category_size k'"
  shows "view_after (category_event k' (word_of_nat n)) (category_view k' s n) (snd (category_update k c d e s))
    = category_view k' (fst (category_update k c d e s)) n"
proof (cases "k' = k")
  case True
  with assms category_update_own_view show ?thesis by blast
next
  case False
  then have "category_event k' i b \<notin> set (snd (category_update k c d e s))" for i b
    by (rule category_events_own)
  then have "view_after (category_event k' i) v (snd (category_update k c d e s)) = v" for i v
    by (rule view_after_other)
  with category_view_frame [OF False] show ?thesis by simp
qed

text \<open>After a complete read every flag of the category is known and as read.\<close>

lemma category_update_read:
  assumes wf: "state_wf s" and n: "1 \<le> n" "n \<le> category_size k" "n \<le> length (sd_states d)"
  shows "category_view k (fst (category_update k c d e s)) n = Some (sd_states d ! (n - 1))"
  using n state_wf_lengths [OF wf]
  by (cases k) (simp_all add: flag_update_defs case_prod_beta flag_element_read)

text \<open>The trouble flags: a flag that was never reported counts as inactive.\<close>

definition trouble_flag :: "satel_state \<Rightarrow> trouble_type \<Rightarrow> bool \<Rightarrow> bool" where
  "trouble_flag s trouble memory = unwrap_or (s_trouble_flags s (trouble, memory)) False"

definition trouble_event :: "trouble_type \<Rightarrow> bool \<Rightarrow> bool \<Rightarrow> satel_event" where
  "trouble_event trouble memory active =
    (if memory then EvTroubleMemory trouble active else EvTrouble trouble active)"

lemma trouble_event_inject: "trouble_event t m b = trouble_event t' m' b' \<longleftrightarrow> t = t' \<and> m = m' \<and> b = b'"
  by (auto simp: trouble_event_def)

lemma trouble_step_view:
  "view_after (trouble_event t m) (Some (trouble_flag s t m)) (snd (trouble_step u item s))
    = Some (trouble_flag (fst (trouble_step u item s)) t m)"
proof (cases item)
  case (ItemFlag t' m' active)
  have "(if m' then EvTroubleMemory t' active else EvTrouble t' active) = trouble_event t' m' active"
    by (simp add: trouble_event_def)
  then show ?thesis
    by (auto simp: ItemFlag Let_def trouble_flag_def unwrap_or_def trouble_event_inject)
next
  case ItemAcuJamLevel
  then show ?thesis by (auto simp: Let_def trouble_flag_def trouble_event_def)
next
  case ItemCmeError
  then show ?thesis by (auto simp: Let_def trouble_flag_def trouble_event_def)
qed

lemma trouble_loop_view:
  "view_after (trouble_event t m) (Some (trouble_flag s t m)) (snd (trouble_loop u items s))
    = Some (trouble_flag (fst (trouble_loop u items s)) t m)"
proof (induction items arbitrary: s)
  case (Cons item items)
  show ?case
    using trouble_step_view [of t m s u item] Cons.IH [of "fst (trouble_step u item s)"]
    by (simp add: case_prod_beta Let_def view_after_append)
qed simp

lemma trouble_step_frame:
  "s_zones (fst (trouble_step u item s)) = s_zones s \<and> s_outputs (fst (trouble_step u item s)) = s_outputs s
    \<and> s_partitions (fst (trouble_step u item s)) = s_partitions s
    \<and> s_telemetry (fst (trouble_step u item s)) = s_telemetry s
    \<and> category_event k i b \<notin> set (snd (trouble_step u item s))"
  by (cases item; cases k) (auto simp: Let_def)

lemma trouble_loop_frame:
  "s_zones (fst (trouble_loop u items s)) = s_zones s \<and> s_outputs (fst (trouble_loop u items s)) = s_outputs s
    \<and> s_partitions (fst (trouble_loop u items s)) = s_partitions s
    \<and> s_telemetry (fst (trouble_loop u items s)) = s_telemetry s
    \<and> category_event k i b \<notin> set (snd (trouble_loop u items s))"
proof (induction items arbitrary: s)
  case (Cons item items)
  show ?case
    using trouble_step_frame [of u item s k i b] Cons.IH [of "fst (trouble_step u item s)"]
    by (simp add: case_prod_beta Let_def)
qed simp

end
