(* ===== verification/System_Parser.thy ===== *)
theory System_Parser
  imports Bit_Parsers Config
begin

text \<open>
  The remaining parsers of \<open>src/src/parsers/system.rs\<close>: the versions of the communication module and
  of the panel, the clock and status frame, and the report on the configuration of push
  notifications. The calendar of \<open>chrono\<close> (\<open>with_ymd_and_hms(..).single()\<close>) is the argument \<open>civil\<close>,
  which gives no time for a date that does not exist or is ambiguous. An index out of range is a
  panic, the value \<open>None\<close> of \<open>process_auto_read_response\<close>.
\<close>

section \<open>Versions\<close>

definition process_ethm_version :: "timestamp \<Rightarrow> bytes \<Rightarrow> ethm_version satel_result" where
  "process_ethm_version now frame =
    bind_result (frame_data 0x7C 12 frame) (\<lambda>data.
      let caps_byte = data ! 11
      in Inr \<lparr>ev_version_raw = trim (utf8_lossy (sub_list 0 11 data)),
          ev_capabilities = \<lparr>
            ec_support_32_byte_frames = (caps_byte AND 0x01 \<noteq> 0),
            ec_support_8_troubles_groups = (caps_byte AND 0x02 \<noteq> 0),
            ec_support_extended_arming_commands = (caps_byte AND 0x04 \<noteq> 0),
            ec_reserved_bit3 = (caps_byte AND 0x08 \<noteq> 0),
            ec_reserved_bit4 = (caps_byte AND 0x10 \<noteq> 0),
            ec_reserved_bit5 = (caps_byte AND 0x20 \<noteq> 0),
            ec_reserved_bit6 = (caps_byte AND 0x40 \<noteq> 0),
            ec_reserved_bit7 = (caps_byte AND 0x80 \<noteq> 0)\<rparr>,
          ev_read_at = now\<rparr>)"

definition integra_models :: "(u8 \<times> string \<times> u16 \<times> u16) list" where
  "integra_models =
    [(0, ''INTEGRA 24'', 24, 4),
     (1, ''INTEGRA 32'', 32, 16),
     (2, ''INTEGRA 64'', 64, 32),
     (3, ''INTEGRA 128'', 128, 32),
     (4, ''INTEGRA 128-WRL SIM300'', 128, 32),
     (132, ''INTEGRA 128-WRL LEON'', 128, 32),
     (66, ''INTEGRA 64 Plus'', 64, 32),
     (67, ''INTEGRA 128 Plus'', 128, 32),
     (72, ''INTEGRA 256 Plus'', 256, 32),
     (8, ''INTEGRA 256 Plus'', 256, 32)]"

definition integra_model :: "u8 \<Rightarrow> string \<times> u16 \<times> u16" where
  "integra_model type_code =
    (case map_of integra_models type_code of
       Some m \<Rightarrow> m
     | None \<Rightarrow> (''Unknown INTEGRA'', 0, 0))"

definition integra_language :: "u8 \<Rightarrow> string" where
  "integra_language lang_code =
    (if lang_code = 0 then ''PL'' else if lang_code = 1 then ''EN'' else ''Other'')"

definition process_integra_version :: "timestamp \<Rightarrow> bytes \<Rightarrow> integra_version satel_result" where
  "process_integra_version now frame =
    bind_result (frame_data 0x7E 14 frame) (\<lambda>data.
      let (model, io_count, partition_count) = integra_model (data ! 0)
      in Inr \<lparr>iv_model = ustring_of model,
          iv_firmware_version = trim (utf8_lossy (sub_list 1 12 data)),
          iv_language = ustring_of (integra_language (data ! 12)),
          iv_stored_in_flash = (data ! 13 = 255),
          iv_io_count = io_count,
          iv_partition_count = partition_count,
          iv_read_at = now\<rparr>)"

section \<open>Clock and status\<close>

definition bcd_to_u8 :: "u8 \<Rightarrow> u8" where
  "bcd_to_u8 bcd = drop_bit 4 bcd * 10 + (bcd AND 0x0F)"

type_synonym calendar = "int \<Rightarrow> nat \<Rightarrow> nat \<Rightarrow> nat \<Rightarrow> nat \<Rightarrow> nat \<Rightarrow> timestamp option"

definition rtc_fields :: "bytes \<Rightarrow> int \<times> nat \<times> nat \<times> nat \<times> nat \<times> nat \<times> u8" where
  "rtc_fields data =
    (let bcd = (\<lambda>i. unat (bcd_to_u8 (data ! i)))
     in if 8 \<le> length data
        then (int (bcd 0) * 100 + int (bcd 1), bcd 2, bcd 3, bcd 4, bcd 5, bcd 6, data ! 7)
        else (2000 + int (bcd 0), bcd 1, bcd 2, bcd 3, bcd 4, bcd 5, data ! 6))"

definition process_rtc_and_status :: "calendar \<Rightarrow> timestamp \<Rightarrow> bytes \<Rightarrow> system_status satel_result" where
  "process_rtc_and_status civil now frame =
    bind_result (frame_data 0x1A 7 frame) (\<lambda>data.
      let (year, month, day, hour, mins, sec, status_byte) = rtc_fields data
      in Inr \<lparr>ss_service_mode = (status_byte AND push_bit 7 1 \<noteq> 0),
          ss_troubles_present = (status_byte AND push_bit 6 1 \<noteq> 0),
          ss_troubles_memory = (status_byte AND push_bit 5 1 \<noteq> 0),
          ss_rtc = unwrap_or (civil year month day hour mins sec) now\<rparr>)"

section \<open>The push configuration report\<close>

definition auto_read_defs :: "config \<Rightarrow> (string \<times> nat \<times> bool) list" where
  "auto_read_defs c =
    [(''Zone violations (0x00)'', 0, cfg_auto_read_zones_violation c),
     (''Zone tampers (0x01)'', 0, cfg_auto_read_zones_tamper c),
     (''Zone alarms (0x02)'', 0, cfg_auto_read_zones_alarm c),
     (''Zone tamper alarms (0x03)'', 0, cfg_auto_read_zones_tamper_alarm c),
     (''Zone alarm memory (0x04)'', 0, cfg_auto_read_zones_alarm_memory c),
     (''Zone tamper alarm memory (0x05)'', 0, cfg_auto_read_zones_tamper_alarm_memory c),
     (''Zone bypasses (0x06)'', 0, cfg_auto_read_zones_bypass c),
     ((''Zone '' @ [CHR 0x27] @ ''no violation'' @ [CHR 0x27] @ '' trouble (0x07)''), 0, cfg_auto_read_zones_no_violation_trouble c),
     ((''Zone '' @ [CHR 0x27] @ ''long violation'' @ [CHR 0x27] @ '' trouble (0x08)''), 1, cfg_auto_read_zones_long_violation_trouble c),
     (''Partitions armed suppressed (0x09)'', 1, cfg_auto_read_partitions_armed_suppressed c),
     (''Partitions armed really (0x0A)'', 1, cfg_auto_read_partitions_armed_really c),
     (''Partitions alarm (0x13)'', 2, cfg_auto_read_partitions_alarm c),
     (''Partitions alarm memory (0x15)'', 2, cfg_auto_read_partitions_alarm_memory c),
     (''Partitions entry time (0x0E)'', 1, cfg_auto_read_partitions_entry_time c),
     (''Partitions exit time (0x0F, 0x10)'', 1, cfg_auto_read_partitions_exit_time c),
     (''Outputs state (0x17)'', 2, cfg_auto_read_outputs_state c),
     (''System troubles (0x1A-0x30)'', 3, cfg_auto_read_system_troubles c),
     (''Troubles memory (0x20-0x31)'', 4, cfg_auto_read_troubles_memory c)]"

text \<open>The three ways a category ends; \<open>error_code\<close> is the code of a rejecting result frame.\<close>

definition auto_read_item_state_of :: "nat \<Rightarrow> bool \<Rightarrow> u8 option \<Rightarrow> nat \<Rightarrow> bool \<Rightarrow> auto_read_item_state" where
  "auto_read_item_state_of mask_len is_success error_code byte_idx requested =
    (if \<not> requested then ItemNotRequested
     else if mask_len \<le> byte_idx then ItemUnsupportedByHardware
     else if is_success then ItemActive
     else ItemRejectedByPanel (unwrap_or error_code 0x08))"

definition process_auto_read_response :: "config \<Rightarrow> bool \<Rightarrow> bytes \<Rightarrow> auto_read_report option" where
  "process_auto_read_response c support_14_byte response =
    (let mask_len = (if support_14_byte then 14 else 12);
         is_success = (response \<noteq> [] \<and>
           (hd response = 0x7F \<or> hd response = 0xEF \<and> get response 1 = Some 0xFF))
     in if \<not> is_success \<and> response = [] then None
        else let error_code = (if \<not> is_success \<and> hd response = 0xEF then get response 1 else None);
             items = map (\<lambda>(name, byte_idx, requested).
               \<lparr>ai_name = name,
                ai_state = auto_read_item_state_of mask_len is_success error_code byte_idx requested\<rparr>)
               (auto_read_defs c)
        in Some \<lparr>ar_items = items,
            ar_success_count = length (filter (\<lambda>i. ai_state i = ItemActive) items),
            ar_total_requested = length (filter (\<lambda>i. ai_state i \<noteq> ItemNotRequested) items)\<rparr>)"

section \<open>Laws\<close>

lemma integra_model_limits:
  "integra_model t = (name, io, parts) \<Longrightarrow>
    unat io \<le> 256 \<and> unat parts \<le> 32 \<and> (io = 0 \<longleftrightarrow> t \<notin> fst ` set integra_models) \<and> (io = 0 \<longleftrightarrow> parts = 0)"
  by (auto simp: integra_model_def integra_models_def split: if_splits)

lemma process_integra_version_Inr:
  "process_integra_version now frame = Inr v \<longleftrightarrow>
    (\<exists>data. frame = 0x7E # data \<and> 14 \<le> length data
      \<and> v = \<lparr>iv_model = ustring_of (fst (integra_model (data ! 0))),
          iv_firmware_version = trim (utf8_lossy (sub_list 1 12 data)),
          iv_language = ustring_of (integra_language (data ! 12)),
          iv_stored_in_flash = (data ! 13 = 255),
          iv_io_count = fst (snd (integra_model (data ! 0))),
          iv_partition_count = snd (snd (integra_model (data ! 0))),
          iv_read_at = now\<rparr>)"
  by (auto simp: process_integra_version_def bind_result_Inr_iff frame_data_Inr case_prod_beta)

text \<open>
  A panel version frame is accepted exactly with command 0x7E and at least fourteen data bytes.
  The counts it reports never exceed the 256 elements and 32 partitions of the cache, and they are
  zero (which the name queries refuse) exactly for a panel type outside the table.
\<close>

theorem integra_version_limits:
  "case process_integra_version now frame of
     Inl e \<Rightarrow> e = InvalidFrame \<and> \<not> (\<exists>data. frame = 0x7E # data \<and> 14 \<le> length data)
   | Inr v \<Rightarrow> unat (iv_io_count v) \<le> 256 \<and> unat (iv_partition_count v) \<le> 32
       \<and> (iv_io_count v = 0 \<longleftrightarrow> frame ! 1 \<notin> fst ` set integra_models)
       \<and> (iv_io_count v = 0 \<longleftrightarrow> iv_partition_count v = 0)
       \<and> (iv_stored_in_flash v \<longleftrightarrow> frame ! 14 = 0xFF)"
proof (cases "process_integra_version now frame")
  case (Inl e)
  then have "frame_data 0x7E 14 frame = Inl e"
    by (auto simp: process_integra_version_def bind_result_Inl_iff case_prod_beta)
  moreover from this have "e = InvalidFrame" by (auto simp: frame_data_def split: if_splits)
  moreover from calculation have "\<nexists>data. frame = 0x7E # data \<and> 14 \<le> length data"
    using frame_data_Inr [of "0x7E" 14 frame] by auto
  ultimately show ?thesis using Inl by simp
next
  case (Inr v)
  then obtain data where data: "frame = 0x7E # data" "14 \<le> length data"
    and v: "iv_io_count v = fst (snd (integra_model (data ! 0)))"
      "iv_partition_count v = snd (snd (integra_model (data ! 0)))"
      "iv_stored_in_flash v = (data ! 13 = 255)"
    by (auto simp: process_integra_version_Inr)
  obtain name io parts where m: "integra_model (data ! 0) = (name, io, parts)"
    by (metis prod_cases3)
  have "frame ! 1 = data ! 0" "frame ! 14 = data ! 13" using data by simp_all
  with integra_model_limits [OF m] m v Inr show ?thesis
    by (simp only: sum.case fst_conv snd_conv refl simp_thms) blast
qed

text \<open>Two decimal digits in one byte, the inverse of \<open>bcd_to_u8\<close>.\<close>

definition bcd_of :: "nat \<Rightarrow> u8" where
  "bcd_of n = word_of_nat (n div 10 * 16 + n mod 10)"

lemma unat_bcd_to_u8: "unat (bcd_to_u8 b) = unat b div 16 * 10 + unat b mod 16"
proof -
  have low: "unat (b AND 0x0F) = unat b mod 16"
    using take_bit_eq_mask [of 4 "unat b"]
    by (simp add: unsigned_and_eq take_bit_eq_mod mask_eq_exp_minus_1)
  have high: "unat (drop_bit 4 b) = unat b div 16"
    by (simp add: drop_bit_eq_div unat_div)
  have "unat b div 16 * 10 + unat b mod 16 < 256"
    using byte_less_256 [of b] by linarith
  then show ?thesis
    by (simp add: bcd_to_u8_def unat_word_ariths low high)
qed

lemma bcd_to_u8_bcd_of: "n < 100 \<Longrightarrow> unat (bcd_to_u8 (bcd_of n)) = n"
proof -
  assume n: "n < 100"
  then have "n div 10 * 16 + n mod 10 < 256" by (auto simp: div_less_iff_less_mult)
  then have "unat (bcd_of n) = n div 10 * 16 + n mod 10"
    by (simp only: bcd_of_def unat_of_nat) simp
  then show ?thesis by (simp add: unat_bcd_to_u8)
qed

text \<open>
  C40. The clock frame of a panel is read back exactly: a date and time sent as seven decimal-coded
  bytes is handed field by field to the calendar, the panel's clock is the time the calendar gives
  (the local clock if there is none), and the three top bits of the status byte are the flags.
\<close>

theorem rtc_frame_roundtrip:
  assumes "y < 10000" and "m < 100" and "d < 100" and "h < 100" and "mi < 100" and "s < 100"
  shows "process_rtc_and_status civil now
      (0x1A # map bcd_of [y div 100, y mod 100, m, d, h, mi, s] @ status # rest)
    = Inr \<lparr>ss_service_mode = bit status 7, ss_troubles_present = bit status 6,
        ss_troubles_memory = bit status 5,
        ss_rtc = (case civil (int y) m d h mi s of Some t \<Rightarrow> t | None \<Rightarrow> now)\<rparr>"
proof -
  let ?data = "map bcd_of [y div 100, y mod 100, m, d, h, mi, s] @ status # rest"
  have y: "y div 100 < 100" "y mod 100 < 100" "int (y div 100) * 100 + int (y mod 100) = int y"
    using assms(1) by (simp_all add: div_less_iff_less_mult zdiv_int zmod_int)
  have "rtc_fields ?data = (int y, m, d, h, mi, s, status)"
    using assms y by (simp add: rtc_fields_def bcd_to_u8_bcd_of nth_Cons')
  moreover have "frame_data 0x1A 7 (0x1A # ?data) = Inr ?data"
    by (simp add: frame_data_def)
  ultimately show ?thesis
    by (simp only: process_rtc_and_status_def bind_result.simps Let_def split_conv)
      (simp add: bit_iff_and_push_bit_not_eq_0 unwrap_or_def)
qed

theorem rtc_frame_roundtrip_witness:
  "process_rtc_and_status (\<lambda>y m d h mi s. if m = 2 \<and> d = 30 then None else Some (y * 1000 + int s)) 5
      [0x1A, 0x20, 0x24, 0x02, 0x29, 0x13, 0x45, 0x59, 0xA0]
    = Inr \<lparr>ss_service_mode = True, ss_troubles_present = False, ss_troubles_memory = True,
        ss_rtc = 2024059\<rparr>"
  using rtc_frame_roundtrip [of 2024 2 29 13 45 59
      "\<lambda>y m d h mi s. if m = 2 \<and> d = 30 then None else Some (y * 1000 + int s)" 5 "0xA0" "[]"]
  by (simp add: bcd_of_def bit_numeral_rec)

lemma auto_read_defs_bytes: "(name, k, requested) \<in> set (auto_read_defs c) \<Longrightarrow> k < 12"
  by (auto simp: auto_read_defs_def)

text \<open>
  The report on a push configuration: the parser fails (an index panic) exactly on an empty
  response. Otherwise every requested category is active if the panel accepted the mask (0x7F, or the
  result code 0xFF) and is rejected with the panel's code if not (code 8 when the answer carries
  none); a category that was not requested is never active; and the success count is all of the
  requested ones or none. No category is ever reported as unsupported by the hardware, for either
  mask length.
\<close>

theorem auto_read_report_laws:
  "case process_auto_read_response c wide response of
     None \<Rightarrow> response = []
   | Some r \<Rightarrow> (\<exists>b rest. response = b # rest
       \<and> (let accepted = (b = 0x7F \<or> b = 0xEF \<and> get rest 0 = Some 0xFF);
              verdict = (if accepted then ItemActive
                else ItemRejectedByPanel (case get rest 0 of Some k \<Rightarrow> if b = 0xEF then k else 8 | None \<Rightarrow> 8))
          in ar_items r = map (\<lambda>(name, k, requested).
                 \<lparr>ai_name = name, ai_state = (if requested then verdict else ItemNotRequested)\<rparr>) (auto_read_defs c)
            \<and> ar_total_requested r = length (filter (\<lambda>x. snd (snd x)) (auto_read_defs c))
            \<and> ar_success_count r = (if accepted then ar_total_requested r else 0)))"
proof (cases response)
  case Nil
  then show ?thesis by (simp add: process_auto_read_response_def)
next
  case (Cons b rest)
  have get1: "get (b # rest) 1 = get rest 0" by (simp add: get_def)
  define ok where "ok = (b = 0x7F \<or> b = 0xEF \<and> get rest 0 = Some 0xFF)"
  define code where "code = (if \<not> ok \<and> b = 0xEF then get rest 0 else None)"
  define len :: nat where "len = (if wide then 14 else 12)"
  define verdict where "verdict = (if ok then ItemActive
    else ItemRejectedByPanel (case get rest 0 of Some k \<Rightarrow> if b = 0xEF then k else 8 | None \<Rightarrow> 8))"
  let ?raw = "map (\<lambda>(name, k, requested).
    \<lparr>ai_name = name, ai_state = auto_read_item_state_of len ok code k requested\<rparr>) (auto_read_defs c)"
  let ?items = "map (\<lambda>(name, k, requested).
    \<lparr>ai_name = name, ai_state = (if requested then verdict else ItemNotRequested)\<rparr>) (auto_read_defs c)"
  have state: "auto_read_item_state_of len ok code k requested
      = (if requested then verdict else ItemNotRequested)" if "k < 12" for k requested
    using that by (auto simp: auto_read_item_state_of_def unwrap_or_def len_def code_def verdict_def
        split: option.splits)
  have items: "?raw = ?items"
  proof (rule map_cong [OF refl])
    fix x assume x: "x \<in> set (auto_read_defs c)"
    obtain name k requested where d: "x = (name, k, requested)" by (metis prod_cases3)
    with x have "k < 12" by (simp add: auto_read_defs_bytes)
    from state [OF this] show "(case x of (name, k, requested) \<Rightarrow>
        \<lparr>ai_name = name, ai_state = auto_read_item_state_of len ok code k requested\<rparr>)
      = (case x of (name, k, requested) \<Rightarrow>
        \<lparr>ai_name = name, ai_state = (if requested then verdict else ItemNotRequested)\<rparr>)"
      by (simp only: d split_conv)
  qed
  have count: "length (filter (\<lambda>i. ai_state i \<noteq> ItemNotRequested) ?items)
      = length (filter (\<lambda>x. snd (snd x)) (auto_read_defs c))"
    "length (filter (\<lambda>i. ai_state i = ItemActive) ?items)
      = (if ok then length (filter (\<lambda>x. snd (snd x)) (auto_read_defs c)) else 0)"
    by (simp_all add: filter_map o_def case_prod_beta verdict_def)
  have "process_auto_read_response c wide response = Some \<lparr>ar_items = ?raw,
      ar_success_count = length (filter (\<lambda>i. ai_state i = ItemActive) ?raw),
      ar_total_requested = length (filter (\<lambda>i. ai_state i \<noteq> ItemNotRequested) ?raw)\<rparr>"
    unfolding process_auto_read_response_def Let_def Cons list.sel get1 code_def ok_def len_def
    by (simp only: list.distinct simp_thms if_False)
  then have "process_auto_read_response c wide response = Some \<lparr>ar_items = ?items,
      ar_success_count = (if ok then length (filter (\<lambda>x. snd (snd x)) (auto_read_defs c)) else 0),
      ar_total_requested = length (filter (\<lambda>x. snd (snd x)) (auto_read_defs c))\<rparr>"
    unfolding items count .
  then show ?thesis
    unfolding verdict_def ok_def by (simp only: Cons option.case Let_def auto_read_report.simps) blast
qed

end
