(* ===== verification/Auto_Requester.thy ===== *)
theory Auto_Requester
  imports Cache System_Parser
begin

text \<open>
  The task that applies unsolicited frames and connection messages to the cache,
  \<open>src/src/auto_requester.rs\<close>, and the messages it receives, \<open>StateWorkerMessage\<close> of
  \<open>src/src/worker.rs\<close>. The channel keeps the order of the messages; a run of the task is
  \<open>handle_messages\<close> over the messages with the wall clock at each of them. A send to the broadcast
  channel is an element of the list of events.
\<close>

section \<open>Messages\<close>

datatype state_worker_message =
    MsgFrame bytes
  | MsgStatusChanged connection_state
  | MsgIntegraVersion integra_version
  | MsgEthmVersion ethm_version
  | MsgAutoReadReport auto_read_report

section \<open>Frames\<close>

text \<open>\<open>if let Ok(d) = parse { let _ = update(d); }\<close>: a frame that does not parse changes nothing.\<close>

definition on_ok ::
  "'d satel_result \<Rightarrow> ('d \<Rightarrow> satel_state \<times> satel_event list) \<Rightarrow> satel_state \<Rightarrow> satel_state \<times> satel_event list" where
  "on_ok r f s = (case r of Inl _ \<Rightarrow> (s, []) | Inr d \<Rightarrow> f d)"

definition is_trouble_command :: "u8 \<Rightarrow> bool" where
  "is_trouble_command b =
    (0x1B \<le> b \<and> b \<le> 0x1F \<or> b = 0x2C \<or> b = 0x2D \<or> b = 0x30 \<or> 0x20 \<le> b \<and> b \<le> 0x24
     \<or> b = 0x2E \<or> b = 0x2F \<or> b = 0x31)"

definition handle_auto_frame ::
  "calendar \<Rightarrow> config \<Rightarrow> timestamp \<Rightarrow> bytes \<Rightarrow> satel_state \<Rightarrow> satel_state \<times> satel_event list" where
  "handle_auto_frame civil c now frame s =
    (if frame = [] then (s, [])
     else let b = hd frame in
       if b = 0x00 then on_ok (process_zones_violation now frame (cfg_io_violation_invert c))
         (\<lambda>d. update_zones_violation_internal c d False s) s else
       if b = 0x01 then on_ok (process_zones_tamper now frame (cfg_io_tamper_invert c))
         (\<lambda>d. update_zones_tamper_internal c d False s) s else
       if b = 0x02 then on_ok (process_zones_alarm now frame (cfg_io_alarm_invert c))
         (\<lambda>d. update_zones_alarm_internal c d False s) s else
       if b = 0x03 then on_ok (process_zones_tamper_alarm now frame (cfg_io_tamper_alarm_invert c))
         (\<lambda>d. update_zones_tamper_alarm_internal c d False s) s else
       if b = 0x04 then on_ok (process_zones_alarm_memory now frame (cfg_io_alarm_memory_invert c))
         (\<lambda>d. update_zones_alarm_memory_internal c d False s) s else
       if b = 0x05 then on_ok (process_zones_tamper_alarm_memory now frame (cfg_io_tamper_alarm_memory_invert c))
         (\<lambda>d. update_zones_tamper_alarm_memory_internal c d False s) s else
       if b = 0x06 then on_ok (process_zones_bypass now frame (cfg_io_bypass_invert c))
         (\<lambda>d. update_zones_bypass_internal c d False s) s else
       if b = 0x07 then on_ok (process_zones_no_violation_trouble now frame (cfg_io_no_violation_trouble_invert c))
         (\<lambda>d. update_zones_no_violation_trouble_internal c d False s) s else
       if b = 0x08 then on_ok (process_zones_long_violation_trouble now frame (cfg_io_long_violation_trouble_invert c))
         (\<lambda>d. update_zones_long_violation_trouble_internal c d False s) s else
       if b = 0x09 then on_ok (process_partitions_armed_suppressed now frame)
         (\<lambda>d. update_partitions_armed_internal c d False s) s else
       if b = 0x0A then on_ok (process_partitions_armed_really now frame)
         (\<lambda>d. update_partitions_armed_really_internal c d False s) s else
       if b = 0x13 then on_ok (process_partitions_alarm now frame)
         (\<lambda>d. update_partitions_alarm_internal c d False s) s else
       if b = 0x0E then on_ok (process_partitions_entry_time now frame)
         (\<lambda>d. update_partitions_entry_time_internal c d False s) s else
       if b = 0x0F then on_ok (process_partitions_exit_time_gt_10s now frame)
         (\<lambda>d. update_partitions_exit_time_gt_10s_internal c d False s) s else
       if b = 0x10 then on_ok (process_partitions_exit_time_lt_10s now frame)
         (\<lambda>d. update_partitions_exit_time_lt_10s_internal c d False s) s else
       if b = 0x15 then on_ok (process_partitions_alarm_memory now frame)
         (\<lambda>d. update_partitions_alarm_memory_internal c d False s) s else
       if b = 0x17 then on_ok (process_outputs_state now frame)
         (\<lambda>d. update_outputs_state_internal c d False s) s else
       if b = 0x1A then on_ok (process_rtc_and_status civil now frame)
         (\<lambda>status. update_system_status_internal c status s) s else
       if is_trouble_command b then
         (case command_from_byte b of
            Some cmd \<Rightarrow> snd (update_troubles_internal c cmd (tl frame) s)
          | None \<Rightarrow> (s, [])) else
       if b = 0xEF then
         (let code = unwrap_or (get frame 1) 0xFF
          in if code \<noteq> 0xFF then (s, [EvPanelMessage (result_from_byte code)]) else (s, []))
       else (s, []))"

section \<open>The message loop\<close>

definition refresh_stats_mark :: "satel_state \<Rightarrow> satel_state" where
  "refresh_stats_mark s = s\<lparr>s_telemetry := (s_telemetry s)\<lparr>
    tel_last_sent_stats_mark := telemetry_stats_mark (s_telemetry s)\<rparr>\<rparr>"

fun handle_state_message ::
  "calendar \<Rightarrow> config \<Rightarrow> timestamp \<Rightarrow> state_worker_message \<Rightarrow> satel_state \<Rightarrow> satel_state \<times> satel_event list" where
  "handle_state_message civil c now (MsgFrame frame) s = handle_auto_frame civil c now frame s"
| "handle_state_message civil c now (MsgStatusChanged st) s =
    (let s' = refresh_stats_mark s
     in (s', [EvConnectionChanged st, EvConnectionStatistics (telemetry_statistics now (s_telemetry s'))]))"
| "handle_state_message civil c now (MsgIntegraVersion v) s = update_integra_version_internal v s"
| "handle_state_message civil c now (MsgEthmVersion v) s = update_ethm_version_internal v s"
| "handle_state_message civil c now (MsgAutoReadReport report) s =
    (s\<lparr>s_auto_read_report := Some report\<rparr>, [EvAutoReadConfigured report])"

fun handle_messages ::
  "calendar \<Rightarrow> config \<Rightarrow> (timestamp \<times> state_worker_message) list \<Rightarrow> satel_state \<Rightarrow> satel_state \<times> satel_event list" where
  "handle_messages civil c [] s = (s, [])"
| "handle_messages civil c ((now, msg) # msgs) s =
    (let (s', evs) = handle_state_message civil c now msg s;
         (s'', evs') = handle_messages civil c msgs s'
     in (s'', evs @ evs'))"

section \<open>Laws\<close>

lemma handle_auto_frame_cases:
  assumes idle: "P (s, [])" and flags: "\<And>k d. P (category_update k c d False s)"
    and status: "\<And>st. P (update_system_status_internal c st s)"
    and troubles: "\<And>cmd data. P (snd (update_troubles_internal c cmd data s))"
    and panel: "\<And>r. P (s, [EvPanelMessage r])"
  shows "P (handle_auto_frame civil c now frame s)"
proof -
  note upd = flags [of CatZoneTamper, simplified]
    flags [of CatZoneAlarm, simplified]
    flags [of CatZoneViolation, simplified]
    flags [of CatZoneTamperAlarm, simplified]
    flags [of CatZoneAlarmMemory, simplified]
    flags [of CatZoneTamperAlarmMemory, simplified]
    flags [of CatZoneBypass, simplified]
    flags [of CatZoneNoViolationTrouble, simplified]
    flags [of CatZoneLongViolationTrouble, simplified]
    flags [of CatPartitionArmed, simplified]
    flags [of CatPartitionArmedReally, simplified]
    flags [of CatPartitionAlarm, simplified]
    flags [of CatPartitionAlarmMemory, simplified]
    flags [of CatPartitionEntryTime, simplified]
    flags [of CatPartitionExitTimeGt10s, simplified]
    flags [of CatPartitionExitTimeLt10s, simplified]
    flags [of CatOutputChanged, simplified]
  have cond: "P x \<Longrightarrow> P y \<Longrightarrow> P (if q then x else y)" for q x y by simp
  have parsed: "(\<And>d. P (f d)) \<Longrightarrow> P (on_ok r f s)" for r :: "'d satel_result" and f
    using idle by (simp add: on_ok_def split: sum.split)
  have cmd: "P (case oc of Some cmd \<Rightarrow> snd (update_troubles_internal c cmd data s) | None \<Rightarrow> (s, []))" for oc data
    using idle troubles by (simp split: option.split)
  show ?thesis
    unfolding handle_auto_frame_def Let_def
    by (intro cond parsed cmd idle status panel upd)
qed

text \<open>What a message may do to the flags of the cache, for every category and element.\<close>

definition flags_followed :: "satel_state \<Rightarrow> satel_state \<times> satel_event list \<Rightarrow> bool" where
  "flags_followed s r = (state_wf (fst r) \<and>
    (\<forall>k n. 1 \<le> n \<and> n \<le> category_size k \<longrightarrow>
      view_after (category_event k (word_of_nat n)) (category_view k s n) (snd r) = category_view k (fst r) n))"

definition troubles_followed :: "satel_state \<Rightarrow> satel_state \<times> satel_event list \<Rightarrow> bool" where
  "troubles_followed s r = (\<forall>t m.
    view_after (trouble_event t m) (Some (trouble_flag s t m)) (snd r) = Some (trouble_flag (fst r) t m))"

lemma flags_followed_same:
  assumes "state_wf s" and "s_zones s' = s_zones s" "s_outputs s' = s_outputs s" "s_partitions s' = s_partitions s"
    and "\<And>k i b. category_event k i b \<notin> set evs"
  shows "flags_followed s (s', evs)"
proof -
  have "view_after (category_event k i) v evs = v" for k i v
    by (rule view_after_other) (rule assms(5))
  moreover have "category_view k s' n = category_view k s n" for k n
    using assms by (cases k) simp_all
  ultimately show ?thesis using assms by (simp add: flags_followed_def state_wf_def)
qed

lemma troubles_followed_same:
  assumes "s_trouble_flags s' = s_trouble_flags s" and "\<And>t m b. trouble_event t m b \<notin> set evs"
  shows "troubles_followed s (s', evs)"
proof -
  have "view_after (trouble_event t m) v evs = v" for t m v
    by (rule view_after_other) (rule assms(2))
  then show ?thesis using assms(1) by (simp add: troubles_followed_def trouble_flag_def)
qed

lemma category_event_no_trouble: "category_event k i b \<noteq> trouble_event t m b'"
  by (cases k) (simp_all add: trouble_event_def)

lemma category_update_troubles: "troubles_followed s (category_update k c d e s)"
proof -
  have "trouble_event t m b \<notin> set (snd (category_update k c d e s))" for t m b
    by (cases k)
      (auto simp: flag_update_defs case_prod_beta trouble_event_def dest!: flag_update_events [THEN subsetD])
  moreover have "s_trouble_flags (fst (category_update k c d e s)) = s_trouble_flags s"
    by (cases k) (simp_all add: flag_update_defs case_prod_beta)
  ultimately show ?thesis using troubles_followed_same by (metis prod.collapse)
qed

lemma update_troubles_followed:
  assumes "state_wf s"
  shows "flags_followed s (snd (update_troubles_internal c cmd data s))"
    and "troubles_followed s (snd (update_troubles_internal c cmd data s))"
proof -
  have "flags_followed s (trouble_loop u items s)" for u items
    using flags_followed_same [OF assms, of "fst (trouble_loop u items s)" "snd (trouble_loop u items s)"]
      trouble_loop_frame [of u items s] by simp
  then show "flags_followed s (snd (update_troubles_internal c cmd data s))"
    using flags_followed_same [OF assms, of s "[]"]
    by (simp add: update_troubles_internal_def case_prod_beta split: sum.splits)
  have "troubles_followed s (trouble_loop u items s)" for u items
    using trouble_loop_view by (simp add: troubles_followed_def)
  then show "troubles_followed s (snd (update_troubles_internal c cmd data s))"
    using troubles_followed_same [of s s "[]"]
    by (simp add: update_troubles_internal_def case_prod_beta split: sum.splits)
qed

lemma category_events_flag:
  "category_event k i b \<notin> {EvSystemStatusChanged st, EvPanelMessage r, EvConnectionChanged cs,
     EvConnectionStatistics cst, EvIntegraVersionReceived iv, EvEthmVersionReceived ev, EvAutoReadConfigured ar}"
  by (cases k) simp_all

lemma trouble_events_flag:
  "trouble_event t m b \<notin> {EvSystemStatusChanged st, EvPanelMessage r, EvConnectionChanged cs,
     EvConnectionStatistics cst, EvIntegraVersionReceived iv, EvEthmVersionReceived ev, EvAutoReadConfigured ar}"
  by (simp add: trouble_event_def)

lemma handle_auto_frame_followed:
  assumes "state_wf s"
  shows "flags_followed s (handle_auto_frame civil c now frame s)
    \<and> troubles_followed s (handle_auto_frame civil c now frame s)"
proof (rule handle_auto_frame_cases [where P = "\<lambda>r. flags_followed s r \<and> troubles_followed s r"])
  show "flags_followed s (s, []) \<and> troubles_followed s (s, [])"
    using assms by (simp add: flags_followed_same troubles_followed_same)
next
  fix k d
  show "flags_followed s (category_update k c d False s) \<and> troubles_followed s (category_update k c d False s)"
    using category_update_view [OF assms] category_update_wf [OF assms] category_update_troubles
    by (simp add: flags_followed_def)
next
  fix st
  show "flags_followed s (update_system_status_internal c st s) \<and> troubles_followed s (update_system_status_internal c st s)"
    using assms category_events_flag trouble_events_flag
    by (auto simp: update_system_status_internal_def
        intro!: flags_followed_same troubles_followed_same)
next
  fix cmd data
  show "flags_followed s (snd (update_troubles_internal c cmd data s))
    \<and> troubles_followed s (snd (update_troubles_internal c cmd data s))"
    using update_troubles_followed [OF assms] by blast
next
  fix r
  show "flags_followed s (s, [EvPanelMessage r]) \<and> troubles_followed s (s, [EvPanelMessage r])"
    using assms category_events_flag trouble_events_flag
    by (auto intro!: flags_followed_same troubles_followed_same)
qed

lemma handle_state_message_followed:
  assumes "state_wf s"
  shows "flags_followed s (handle_state_message civil c now msg s)
    \<and> troubles_followed s (handle_state_message civil c now msg s)"
  using assms handle_auto_frame_followed [OF assms] category_events_flag trouble_events_flag
  by (cases msg)
    (auto simp: update_integra_version_internal_def update_ethm_version_internal_def refresh_stats_mark_def
      Let_def intro!: flags_followed_same troubles_followed_same)

lemma handle_messages_followed:
  "state_wf s \<Longrightarrow> flags_followed s (handle_messages civil c msgs s)
    \<and> troubles_followed s (handle_messages civil c msgs s)"
proof (induction msgs arbitrary: s)
  case Nil
  then show ?case by (simp add: flags_followed_same troubles_followed_same)
next
  case (Cons m msgs)
  obtain now msg where m: "m = (now, msg)" by (cases m)
  let ?r = "handle_state_message civil c now msg s"
  from handle_state_message_followed [OF Cons.prems, of civil c now msg]
  have one: "flags_followed s ?r" "troubles_followed s ?r" by auto
  then have "state_wf (fst ?r)" by (simp add: flags_followed_def)
  from Cons.IH [OF this] one show ?case
    by (simp add: m case_prod_beta Let_def flags_followed_def troubles_followed_def view_after_append)
qed

text \<open>
  C7. The broadcast events are a faithful log of the cache. Whatever messages the task receives, in
  whatever order, a subscriber that knew a flag of a zone, a partition or an output before, and
  keeps the last value it is sent for it, knows afterwards exactly what the cache holds: for each of
  the seventeen categories and every element. The cache stays well formed.
\<close>

theorem subscriber_follows_cache:
  assumes "state_wf s" and "1 \<le> n" and "n \<le> category_size k"
  shows "case handle_messages civil c msgs s of (s', evs) \<Rightarrow>
    state_wf s' \<and> view_after (category_event k (word_of_nat n)) (category_view k s n) evs = category_view k s' n"
  using handle_messages_followed [OF assms(1), of civil c msgs] assms(2,3)
  by (auto simp: flags_followed_def case_prod_beta)

theorem subscriber_follows_cache_witness:
  "case handle_messages (\<lambda>y m d h mi s. None) config_default
      [(3, MsgFrame (0x01 # 0x80 # replicate 15 0)), (4, MsgStatusChanged Connected), (5, MsgFrame (0x01 # replicate 16 0))]
      (satel_state_new 0 0) of (s', evs) \<Rightarrow>
    view_after (EvZoneTamper 8) None evs = category_view CatZoneTamper s' 8"
proof -
  have view: "category_view CatZoneTamper (satel_state_new 0 0) 8 = None"
    by (simp add: satel_state_new_def element_view_def flag_view_def zone_new_def del: upt_Suc upt_rec_numeral)
  show ?thesis
    using subscriber_follows_cache [OF state_wf_new [of 0 0], of 8 CatZoneTamper "\<lambda>y m d h mi s. None" config_default
        "[(3, MsgFrame (0x01 # 0x80 # replicate 15 0)), (4, MsgStatusChanged Connected), (5, MsgFrame (0x01 # replicate 16 0))]"]
    unfolding view by (simp add: case_prod_beta del: handle_messages.simps)
qed

text \<open>
  The trouble events are a faithful log too: a subscriber that takes a trouble nobody reported
  as inactive and keeps the last value sent for it, separately for present troubles and the trouble
  memory, knows after any run of messages what the cache holds.
\<close>

theorem subscriber_follows_troubles:
  assumes "state_wf s"
  shows "case handle_messages civil c msgs s of (s', evs) \<Rightarrow>
    view_after (trouble_event t m) (Some (trouble_flag s t m)) evs = Some (trouble_flag s' t m)"
  using handle_messages_followed [OF assms(1), of civil c msgs]
  by (auto simp: troubles_followed_def case_prod_beta)

theorem subscriber_follows_troubles_witness:
  "case handle_messages (\<lambda>y m d h mi s. None) config_default [(3, MsgFrame (0x1B # replicate 47 0xFF))]
      (satel_state_new 0 0) of (s', evs) \<Rightarrow>
    view_after (EvTrouble MainBoardAcLoss) (Some False) evs = Some (trouble_flag s' MainBoardAcLoss False)"
proof -
  have new: "trouble_flag (satel_state_new 0 0) MainBoardAcLoss False = False"
    by (simp add: trouble_flag_def satel_state_new_def unwrap_or_def)
  have ev: "trouble_event MainBoardAcLoss False = EvTrouble MainBoardAcLoss"
    by (simp add: trouble_event_def fun_eq_iff)
  show ?thesis
    using subscriber_follows_troubles [OF state_wf_new [of 0 0], of MainBoardAcLoss False
        "\<lambda>y m d h mi s. None" config_default "[(3, MsgFrame (0x1B # replicate 47 0xFF))]"]
    unfolding new ev .
qed

text \<open>The push frames: command, category, data bytes needed, and the inversion list of the category.\<close>

definition push_table :: "(u8 \<times> flag_category_name \<times> nat \<times> (config \<Rightarrow> u16 list)) list" where
  "push_table =
    [(0x00, CatZoneViolation, 16, cfg_io_violation_invert),
     (0x01, CatZoneTamper, 16, cfg_io_tamper_invert),
     (0x02, CatZoneAlarm, 16, cfg_io_alarm_invert),
     (0x03, CatZoneTamperAlarm, 16, cfg_io_tamper_alarm_invert),
     (0x04, CatZoneAlarmMemory, 16, cfg_io_alarm_memory_invert),
     (0x05, CatZoneTamperAlarmMemory, 16, cfg_io_tamper_alarm_memory_invert),
     (0x06, CatZoneBypass, 16, cfg_io_bypass_invert),
     (0x07, CatZoneNoViolationTrouble, 16, cfg_io_no_violation_trouble_invert),
     (0x08, CatZoneLongViolationTrouble, 16, cfg_io_long_violation_trouble_invert),
     (0x09, CatPartitionArmed, 4, \<lambda>_. []),
     (0x0A, CatPartitionArmedReally, 4, \<lambda>_. []),
     (0x13, CatPartitionAlarm, 4, \<lambda>_. []),
     (0x0E, CatPartitionEntryTime, 4, \<lambda>_. []),
     (0x0F, CatPartitionExitTimeGt10s, 4, \<lambda>_. []),
     (0x10, CatPartitionExitTimeLt10s, 4, \<lambda>_. []),
     (0x15, CatPartitionAlarmMemory, 4, \<lambda>_. []),
     (0x17, CatOutputChanged, 16, \<lambda>_. [])]"

definition push_bits :: "u8 \<Rightarrow> bytes \<Rightarrow> u16 list \<Rightarrow> bool list" where
  "push_bits b data ivs =
    (if b = 0x17 then extract_bits data else if b \<le> 8 then parse_bit_states data ivs
     else parse_partition_bits data)"

lemma zones_frame_ok: "16 \<le> length data \<Longrightarrow>
    zones_frame b now (b # data) ivs = Inr \<lparr>sd_states = parse_bit_states data ivs, sd_read_at = now\<rparr>"
  by (simp add: zones_frame_def frame_data_def)

lemma partitions_frame_ok: "4 \<le> length data \<Longrightarrow>
    partitions_frame b now (b # data) = Inr \<lparr>sd_states = parse_partition_bits data, sd_read_at = now\<rparr>"
  by (simp add: partitions_frame_def frame_data_def)

lemma outputs_frame_ok: "16 \<le> length data \<Longrightarrow>
    process_outputs_state now (0x17 # data) = Inr \<lparr>sd_states = extract_bits data, sd_read_at = now\<rparr>"
  by (simp add: process_outputs_state_def frame_data_def)

lemma push_update:
  assumes "(b, k, len, inverted) \<in> set push_table" and "len \<le> length data"
  shows "handle_auto_frame civil c now (b # data) s
      = category_update k c \<lparr>sd_states = push_bits b data (inverted c), sd_read_at = now\<rparr> False s"
  using assms unfolding push_table_def list.set insert_iff empty_iff prod.inject
  by (elim disjE conjE FalseE)
    (simp_all only: handle_auto_frame_def on_ok_def Let_def push_bits_def list.sel list.simps if_False
      zones_frame_ok partitions_frame_ok outputs_frame_ok sum.case
      process_zones_violation_def process_zones_tamper_def process_zones_alarm_def process_zones_tamper_alarm_def
      process_zones_alarm_memory_def
      process_zones_tamper_alarm_memory_def process_zones_bypass_def process_zones_no_violation_trouble_def process_zones_long_violation_trouble_def
      process_partitions_armed_suppressed_def process_partitions_armed_really_def process_partitions_alarm_def process_partitions_entry_time_def
      process_partitions_exit_time_gt_10s_def process_partitions_exit_time_lt_10s_def process_partitions_alarm_memory_def category_update.simps,
      simp_all)

lemma push_bits_nth:
  assumes "(b, k, len, inverted) \<in> set push_table" and "len \<le> length data"
    and "n < 8 * length data" and "n < category_size k"
  shows "n < length (push_bits b data (inverted c))"
    and "push_bits b data (inverted c) ! n
      = (bit (data ! (n div 8)) (n mod 8) \<noteq> (word_of_nat (n + 1) \<in> set (inverted c)))"
  using assms unfolding push_table_def list.set insert_iff empty_iff prod.inject
  by (elim disjE conjE FalseE;
      simp add: push_bits_def parse_bit_states_nth extract_bits_nth parse_partition_bits_nth
        parse_partition_bits_length)+

text \<open>
  C19. A push frame is mirrored in the cache: for each of the seventeen flag commands with enough data
  bytes, the cached flag of every element the frame covers is its bit, inverted exactly for the zones
  on the inversion list of that category.
\<close>

theorem push_frame_mirrored:
  assumes "state_wf s" and "(b, k, len, inverted) \<in> set push_table" and "len \<le> length data"
    and "1 \<le> n" and "n \<le> category_size k" and "n \<le> 8 * length data"
  shows "category_view k (fst (handle_auto_frame civil c now (b # data) s)) n
    = Some (bit (data ! ((n - 1) div 8)) ((n - 1) mod 8) \<noteq> (word_of_nat n \<in> set (inverted c)))"
proof -
  have "n - 1 < 8 * length data" "n - 1 < category_size k" and n: "n - 1 + 1 = n" using assms(4-6) by auto
  note bits = push_bits_nth [OF assms(2,3) this(1,2), of c, unfolded n]
  have "n \<le> length (push_bits b data (inverted c))" using bits(1) n by linarith
  then show ?thesis
    using category_update_read [OF assms(1,4,5), of "\<lparr>sd_states = push_bits b data (inverted c), sd_read_at = now\<rparr>" c False]
      bits(2)
    by (simp add: push_update [OF assms(2,3)])
qed

theorem push_frame_mirrored_witness:
  "category_view CatPartitionAlarm (fst (handle_auto_frame (\<lambda>y m d h mi s. None) config_default 9
      [0x13, 0x00, 0x02, 0x00, 0x00] (satel_state_new 0 0))) 10 = Some True"
proof -
  have row: "(0x13, CatPartitionAlarm, 4, \<lambda>_. []) \<in> set push_table" by (simp add: push_table_def)
  show ?thesis
    using push_frame_mirrored [OF state_wf_new row, of "[0x00, 0x02, 0x00, 0x00]" 10]
    by (simp add: bit_numeral_rec)
qed

end
