(* ===== verification/Push_Mask.thy ===== *)
theory Push_Mask
  imports Auto_Requester
begin

text \<open>
  The mask of push notifications sent with command 0x7F,
  \<open>satel_connection_worker_connect_build_push_mask\<close> of \<open>src/src/worker.rs\<close>. Bit \<open>n\<close> of the mask asks
  the panel to send the frames with command byte \<open>n\<close> on its own.
\<close>

text \<open>The statements \<open>if enabled { mask[k] |= 1 << b; }\<close> in their order.\<close>

definition push_mask_bits :: "config \<Rightarrow> (bool \<times> nat \<times> nat) list" where
  "push_mask_bits c =
    [(cfg_auto_read_zones_violation c, 0, 0),
     (cfg_auto_read_zones_tamper c, 0, 1),
     (cfg_auto_read_zones_alarm c, 0, 2),
     (cfg_auto_read_zones_tamper_alarm c, 0, 3),
     (cfg_auto_read_zones_alarm_memory c, 0, 4),
     (cfg_auto_read_zones_tamper_alarm_memory c, 0, 5),
     (cfg_auto_read_zones_bypass c, 0, 6),
     (cfg_auto_read_zones_no_violation_trouble c, 0, 7),
     (cfg_auto_read_zones_long_violation_trouble c, 1, 0),
     (cfg_auto_read_partitions_armed_suppressed c, 1, 1),
     (cfg_auto_read_partitions_armed_really c, 1, 2),
     (cfg_auto_read_partitions_alarm c, 2, 3),
     (cfg_auto_read_partitions_alarm_memory c, 2, 5),
     (cfg_auto_read_partitions_entry_time c, 1, 6),
     (cfg_auto_read_partitions_exit_time c, 1, 7),
     (cfg_auto_read_partitions_exit_time c, 2, 0),
     (cfg_auto_read_outputs_state c, 2, 7),
     (cfg_auto_read_system_troubles c, 3, 2),
     (cfg_auto_read_system_troubles c, 3, 3),
     (cfg_auto_read_system_troubles c, 3, 4),
     (cfg_auto_read_system_troubles c, 3, 5),
     (cfg_auto_read_system_troubles c, 3, 6),
     (cfg_auto_read_system_troubles c, 3, 7),
     (cfg_auto_read_system_troubles c, 5, 4),
     (cfg_auto_read_system_troubles c, 5, 5),
     (cfg_auto_read_system_troubles c, 6, 0),
     (cfg_auto_read_troubles_memory c, 4, 0),
     (cfg_auto_read_troubles_memory c, 4, 1),
     (cfg_auto_read_troubles_memory c, 4, 2),
     (cfg_auto_read_troubles_memory c, 4, 3),
     (cfg_auto_read_troubles_memory c, 4, 4),
     (cfg_auto_read_troubles_memory c, 5, 6),
     (cfg_auto_read_troubles_memory c, 5, 7),
     (cfg_auto_read_troubles_memory c, 6, 1)]"

fun mask_set :: "bool \<times> nat \<times> nat \<Rightarrow> bytes \<Rightarrow> bytes" where
  "mask_set (enabled, k, b) msk = (if enabled then msk[k := msk ! k OR push_bit b 1] else msk)"

definition build_push_mask :: "config \<Rightarrow> bool \<Rightarrow> bytes" where
  "build_push_mask c support_14_byte_mask =
    fold mask_set (push_mask_bits c) (replicate (if support_14_byte_mask then 14 else 12) 0)"

section \<open>What the mask asks for\<close>

text \<open>The specification: which option asks for the frames of a command.\<close>

definition push_requested :: "config \<Rightarrow> nat \<Rightarrow> bool" where
  "push_requested c n =
    (if n = 0x00 then cfg_auto_read_zones_violation c
     else if n = 0x01 then cfg_auto_read_zones_tamper c
     else if n = 0x02 then cfg_auto_read_zones_alarm c
     else if n = 0x03 then cfg_auto_read_zones_tamper_alarm c
     else if n = 0x04 then cfg_auto_read_zones_alarm_memory c
     else if n = 0x05 then cfg_auto_read_zones_tamper_alarm_memory c
     else if n = 0x06 then cfg_auto_read_zones_bypass c
     else if n = 0x07 then cfg_auto_read_zones_no_violation_trouble c
     else if n = 0x08 then cfg_auto_read_zones_long_violation_trouble c
     else if n = 0x09 then cfg_auto_read_partitions_armed_suppressed c
     else if n = 0x0A then cfg_auto_read_partitions_armed_really c
     else if n = 0x0E then cfg_auto_read_partitions_entry_time c
     else if n = 0x0F \<or> n = 0x10 then cfg_auto_read_partitions_exit_time c
     else if n = 0x13 then cfg_auto_read_partitions_alarm c
     else if n = 0x15 then cfg_auto_read_partitions_alarm_memory c
     else if n = 0x17 then cfg_auto_read_outputs_state c
     else if 0x1A \<le> n \<and> n \<le> 0x1F \<or> n = 0x2C \<or> n = 0x2D \<or> n = 0x30 then cfg_auto_read_system_troubles c
     else if 0x20 \<le> n \<and> n \<le> 0x24 \<or> n = 0x2E \<or> n = 0x2F \<or> n = 0x31 then cfg_auto_read_troubles_memory c
     else False)"

definition mask_bit :: "bytes \<Rightarrow> nat \<Rightarrow> bool" where
  "mask_bit msk n = (n < 8 * length msk \<and> bit (msk ! (n div 8)) (n mod 8))"

lemma mask_set_length [simp]: "length (mask_set x msk) = length msk"
  by (cases x) simp

lemma fold_mask_length [simp]: "length (fold mask_set xs msk) = length msk"
  by (induction xs arbitrary: msk) simp_all

lemma mask_set_bit:
  assumes "k < length msk" and "b < 8"
  shows "mask_bit (mask_set (e, k, b) msk) n \<longleftrightarrow> mask_bit msk n \<or> e \<and> n = 8 * k + b"
proof -
  have "n div 8 = k \<and> n mod 8 = b \<longleftrightarrow> n = 8 * k + b" using assms(2) by auto
  then show ?thesis
    using assms
    by (auto simp: mask_bit_def nth_list_update bit_or_iff bit_exp_iff)
qed

lemma fold_mask_bit:
  "list_all (\<lambda>(e, k, b). k < length msk \<and> b < 8) xs \<Longrightarrow>
    mask_bit (fold mask_set xs msk) n \<longleftrightarrow>
      mask_bit msk n \<or> (\<exists>(e, k, b) \<in> set xs. e \<and> n = 8 * k + b)"
proof (induction xs arbitrary: msk)
  case (Cons x xs)
  obtain e k b where x: "x = (e, k, b)" by (metis prod_cases3)
  with Cons show ?case by (auto simp: mask_set_bit case_prod_beta simp del: mask_set.simps)
qed simp

lemma mask_bits_requested: "(\<exists>(e, k, b) \<in> set (push_mask_bits c). e \<and> n = 8 * k + b) \<longleftrightarrow> push_requested c n"
proof -
  have "0x1A \<le> n \<and> n \<le> 0x1F \<longleftrightarrow> n = 0x1A \<or> n = 0x1B \<or> n = 0x1C \<or> n = 0x1D \<or> n = 0x1E \<or> n = 0x1F"
    "0x20 \<le> n \<and> n \<le> 0x24 \<longleftrightarrow> n = 0x20 \<or> n = 0x21 \<or> n = 0x22 \<or> n = 0x23 \<or> n = 0x24"
    by auto
  then show ?thesis
    unfolding push_requested_def push_mask_bits_def by auto
qed

lemma build_push_mask_length: "length (build_push_mask c wide) = (if wide then 14 else 12)"
  by (simp add: build_push_mask_def)

lemma build_push_mask_bit: "mask_bit (build_push_mask c wide) n \<longleftrightarrow> push_requested c n"
proof -
  have "\<not> mask_bit (replicate k 0) n" for k
    by (auto simp: mask_bit_def nth_replicate div_less_iff_less_mult mult.commute)
  moreover have "list_all (\<lambda>(e, k, b). k < length (replicate (if wide then 14 else 12) (0 :: u8)) \<and> b < 8)
      (push_mask_bits c)"
    by (simp add: push_mask_bits_def)
  ultimately show ?thesis
    unfolding build_push_mask_def using mask_bits_requested [of c n] by (simp add: fold_mask_bit del: mask_set.simps)
qed

lemma mask_eq_iff: "length m = length m' \<Longrightarrow> m = m' \<longleftrightarrow> (\<forall>n. mask_bit m n = mask_bit m' n)"
proof
  assume len: "length m = length m'" and all: "\<forall>n. mask_bit m n = mask_bit m' n"
  show "m = m'"
  proof (rule nth_equalityI [OF len])
    fix i assume i: "i < length m"
    show "m ! i = m' ! i"
    proof (rule bit_word_eqI)
      fix j assume "j < LENGTH(8)"
      then have "(8 * i + j) div 8 = i" "(8 * i + j) mod 8 = j" "8 * i + j < 8 * length m"
        using i by auto
      with all len show "bit (m ! i) j = bit (m' ! i) j"
        unfolding mask_bit_def by metis
    qed
  qed
qed simp

text \<open>
  C31. The push mask asks for exactly the enabled categories: it is 12 bytes long, or 14 for modules
  that support it, and bit \<open>n\<close> is set exactly if the option that covers the frames of command \<open>n\<close> is
  enabled. Both lengths ask for the same frames.
\<close>

theorem push_mask_requests:
  "length (build_push_mask c wide) = (if wide then 14 else 12)
    \<and> (n < 8 * length (build_push_mask c wide)
        \<and> bit (build_push_mask c wide ! (n div 8)) (n mod 8) \<longleftrightarrow> push_requested c n)"
  using build_push_mask_length build_push_mask_bit by (simp add: mask_bit_def)

text \<open>The options that the mask depends on; two masks are equal exactly if these are.\<close>

definition auto_read_options :: "config \<Rightarrow> bool list" where
  "auto_read_options c = map (push_requested c)
    [0x00, 0x01, 0x02, 0x03, 0x04, 0x05, 0x06, 0x07, 0x08, 0x09, 0x0A, 0x0E, 0x0F, 0x13, 0x15, 0x17, 0x1A, 0x20]"

lemma auto_read_options_eq:
  "auto_read_options c = [cfg_auto_read_zones_violation c, cfg_auto_read_zones_tamper c,
    cfg_auto_read_zones_alarm c, cfg_auto_read_zones_tamper_alarm c, cfg_auto_read_zones_alarm_memory c,
    cfg_auto_read_zones_tamper_alarm_memory c, cfg_auto_read_zones_bypass c,
    cfg_auto_read_zones_no_violation_trouble c, cfg_auto_read_zones_long_violation_trouble c,
    cfg_auto_read_partitions_armed_suppressed c, cfg_auto_read_partitions_armed_really c,
    cfg_auto_read_partitions_entry_time c, cfg_auto_read_partitions_exit_time c,
    cfg_auto_read_partitions_alarm c, cfg_auto_read_partitions_alarm_memory c,
    cfg_auto_read_outputs_state c, cfg_auto_read_system_troubles c, cfg_auto_read_troubles_memory c]"
  by (simp add: auto_read_options_def push_requested_def)

lemma push_requested_options: "auto_read_options c = auto_read_options c' \<Longrightarrow> push_requested c n = push_requested c' n"
  unfolding auto_read_options_eq by (simp add: push_requested_def)

lemma build_push_mask_eq_iff:
  "build_push_mask c wide = build_push_mask c' wide \<longleftrightarrow> auto_read_options c = auto_read_options c'"
proof -
  have "build_push_mask c wide = build_push_mask c' wide
      \<longleftrightarrow> (\<forall>n. push_requested c n = push_requested c' n)"
    by (subst mask_eq_iff) (simp_all add: build_push_mask_length build_push_mask_bit)
  also have "\<dots> \<longleftrightarrow> auto_read_options c = auto_read_options c'"
  proof
    assume "\<forall>n. push_requested c n = push_requested c' n"
    then show "auto_read_options c = auto_read_options c'" by (simp add: auto_read_options_def)
  next
    assume "auto_read_options c = auto_read_options c'"
    then show "\<forall>n. push_requested c n = push_requested c' n" by (intro allI) (rule push_requested_options)
  qed
  finally show ?thesis .
qed

lemma is_auto_read_enabled_mask: "is_auto_read_enabled c \<longleftrightarrow> True \<in> set (auto_read_options c)"
  unfolding auto_read_options_eq is_auto_read_enabled_def by auto

definition push_commands :: "nat list" where
  "push_commands =
    [0x00, 0x01, 0x02, 0x03, 0x04, 0x05, 0x06, 0x07, 0x08, 0x09, 0x0A, 0x0E, 0x0F, 0x10, 0x13, 0x15, 0x17,
     0x1A, 0x1B, 0x1C, 0x1D, 0x1E, 0x1F, 0x20, 0x21, 0x22, 0x23, 0x24, 0x2C, 0x2D, 0x2E, 0x2F, 0x30, 0x31]"

lemma push_commands_handled:
  "list_all (\<lambda>n. word_of_nat n \<in> fst ` set push_table \<or> word_of_nat n = (0x1A :: u8)
    \<or> is_trouble_command (word_of_nat n)) push_commands"
  by (simp add: push_commands_def push_table_def is_trouble_command_def)

lemma push_commands_known: "list_all (\<lambda>n. command_from_byte (word_of_nat n) \<noteq> None) push_commands"
  by (simp add: push_commands_def command_from_byte_def command_codes_def)

text \<open>
  Whatever the mask asks for is handled: a command byte with a set bit is one of the seventeen flag
  commands, the status command or a trouble command of the push handler, and a known command code.
\<close>

theorem push_requests_handled:
  assumes "n < 8 * length (build_push_mask c wide)" and "bit (build_push_mask c wide ! (n div 8)) (n mod 8)"
  shows "(word_of_nat n \<in> fst ` set push_table \<or> word_of_nat n = (0x1A :: u8) \<or> is_trouble_command (word_of_nat n))
    \<and> command_from_byte (word_of_nat n) \<noteq> None"
proof -
  have "push_requested c n"
    using assms build_push_mask_bit [of c wide n] by (simp add: mask_bit_def)
  then have "n \<in> set push_commands"
    by (auto simp: push_requested_def push_commands_def split: if_splits)
  then show ?thesis
    using push_commands_handled push_commands_known unfolding list_all_iff by blast
qed

theorem push_requests_handled_witness:
  "is_trouble_command (word_of_nat 0x31 :: u8)"
proof -
  have "build_push_mask (config_default\<lparr>cfg_auto_read_troubles_memory := True\<rparr>) True ! (0x31 div 8) = 2"
    by (simp add: build_push_mask_def push_mask_bits_def config_default_def)
  then show ?thesis
    using push_requests_handled [of "0x31" "config_default\<lparr>cfg_auto_read_troubles_memory := True\<rparr>" True]
    by (simp add: build_push_mask_length bit_numeral_rec push_table_def)
qed

end
