(* ===== verification/Names_Parser.thy ===== *)
theory Names_Parser
  imports Bit_Parsers
begin

text \<open>
  The parsers of device name responses (command 0xEE), \<open>src/src/parsers/names.rs\<close>. The response
  carries the device type, the number, a kind code, a name of sixteen bytes and, for the extended
  device types, further fields. The decoder of code page 1250 (\<open>encoding_rs\<close>) is the argument
  \<open>cp1250\<close>: it gives the text and whether the bytes had errors.
\<close>

type_synonym codepage = "bytes \<Rightarrow> ustring \<times> bool"

definition decode_name :: "codepage \<Rightarrow> bytes \<Rightarrow> ustring" where
  "decode_name cp1250 raw =
    (let (name, has_errors) = cp1250 raw
     in if has_errors then trim (utf8_lossy raw) else trim name)"

section \<open>Zones\<close>

definition process_zone_response ::
  "codepage \<Rightarrow> timestamp \<Rightarrow> bytes \<Rightarrow> (u16 \<times> satel_name \<times> zone_params) satel_result" where
  "process_zone_response cp1250 now frame =
    bind_result (frame_data 0xEE 19 frame) (\<lambda>data.
      let dev_type = data ! 0
      in if dev_type \<noteq> 1 \<and> dev_type \<noteq> 5 then Inl InvalidFrame
         else if dev_type = 5 \<and> length data < 20 then Inl InvalidFrame
         else let ident = (if data ! 1 = 0 then 256 else ucast (data ! 1));
                  name = decode_name cp1250 (sub_list 3 19 data);
                  part = (if dev_type = 5
                    then if 1 \<le> data ! 19 \<and> data ! 19 \<le> 32 then Some (data ! 19) else None
                    else None)
              in Inr (ident, \<lparr>sn_name = name, sn_read_at = now\<rparr>,
                  \<lparr>zp_zone_id = ident, zp_reaction = zone_reaction_from_code (data ! 2),
                   zp_partition = part, zp_read_at = now\<rparr>))"

section \<open>Outputs\<close>

definition process_output_response ::
  "codepage \<Rightarrow> timestamp \<Rightarrow> bytes \<Rightarrow> (u16 \<times> satel_name \<times> output_params) satel_result" where
  "process_output_response cp1250 now frame =
    bind_result (frame_data 0xEE 19 frame) (\<lambda>data.
      let dev_type = data ! 0
      in if dev_type \<noteq> 4 \<and> dev_type \<noteq> 17 then Inl InvalidFrame
         else if dev_type = 17 \<and> length data < 21 then Inl InvalidFrame
         else let ident = (if data ! 1 = 0 then 256 else ucast (data ! 1));
                  function = output_function_from_code (data ! 2);
                  name = decode_name cp1250 (sub_list 3 19 data);
                  duration_ds = be16 (data ! 19) (data ! 20);
                  (dur, control) = (if dev_type = 17
                    then (Some (millis (unat duration_ds * 100)), output_control_of function (Some duration_ds))
                    else (None, output_control_of function None))
              in Inr (ident, \<lparr>sn_name = name, sn_read_at = now\<rparr>,
                  \<lparr>op_output_id = ident, op_function = function, op_duration = dur,
                   op_control = control, op_read_at = now\<rparr>))"

section \<open>Partitions\<close>

definition process_partition_response ::
  "codepage \<Rightarrow> timestamp \<Rightarrow> bytes \<Rightarrow> (u16 \<times> satel_name \<times> partition_params) satel_result" where
  "process_partition_response cp1250 now frame =
    bind_result (frame_data 0xEE 19 frame) (\<lambda>data.
      let dev_type = data ! 0
      in if dev_type \<noteq> 0 \<and> dev_type \<noteq> 16 \<and> dev_type \<noteq> 18 \<and> dev_type \<noteq> 19 then Inl InvalidFrame
         else if dev_type = 16 \<and> length data < 20 then Inl InvalidFrame
         else if dev_type = 18 \<and> length data < 24 then Inl InvalidFrame
         else if dev_type = 19 \<and> length data < 28 then Inl InvalidFrame
         else let ident = ucast (data ! 1);
                  name = decode_name cp1250 (sub_list 3 19 data)
              in Inr (ident, \<lparr>sn_name = name, sn_read_at = now\<rparr>,
                  \<lparr>pp_partition_id = ident,
                   pp_partition_type = partition_type_from_code (data ! 2),
                   pp_object_number = (if dev_type \<ge> 16 then Some (data ! 19) else None),
                   pp_options = (if dev_type \<ge> 18
                     then Some (partition_options_from_bytes (data ! 20) (data ! 21)) else None),
                   pp_auto_arm_defer = (if dev_type \<ge> 18
                     then Some (defer_timer_from_raw (be16 (data ! 22) (data ! 23))) else None),
                   pp_dependent_partitions = (if dev_type = 19
                     then Some (dependent_from_bytes (data ! 24) (data ! 25) (data ! 26) (data ! 27))
                     else None),
                   pp_read_at = now\<rparr>))"

section \<open>The single results\<close>

definition name_of_response :: "(u16 \<times> satel_name \<times> 'p) satel_result \<Rightarrow> (u16 \<times> satel_name) satel_result" where
  "name_of_response r = bind_result r (\<lambda>(ident, name, params). Inr (ident, name))"

definition params_of_response :: "(u16 \<times> satel_name \<times> 'p) satel_result \<Rightarrow> (u16 \<times> 'p) satel_result" where
  "params_of_response r = bind_result r (\<lambda>(ident, name, params). Inr (ident, params))"

definition process_partition_name :: "codepage \<Rightarrow> timestamp \<Rightarrow> bytes \<Rightarrow> (u16 \<times> satel_name) satel_result" where
  "process_partition_name cp1250 now data = name_of_response (process_partition_response cp1250 now data)"

definition process_zone_name :: "codepage \<Rightarrow> timestamp \<Rightarrow> bytes \<Rightarrow> (u16 \<times> satel_name) satel_result" where
  "process_zone_name cp1250 now data = name_of_response (process_zone_response cp1250 now data)"

definition process_output_name :: "codepage \<Rightarrow> timestamp \<Rightarrow> bytes \<Rightarrow> (u16 \<times> satel_name) satel_result" where
  "process_output_name cp1250 now data = name_of_response (process_output_response cp1250 now data)"

definition process_zone_params :: "codepage \<Rightarrow> timestamp \<Rightarrow> bytes \<Rightarrow> (u16 \<times> zone_params) satel_result" where
  "process_zone_params cp1250 now data = params_of_response (process_zone_response cp1250 now data)"

definition process_output_params :: "codepage \<Rightarrow> timestamp \<Rightarrow> bytes \<Rightarrow> (u16 \<times> output_params) satel_result" where
  "process_output_params cp1250 now data = params_of_response (process_output_response cp1250 now data)"

definition process_partition_params ::
  "codepage \<Rightarrow> timestamp \<Rightarrow> bytes \<Rightarrow> (u16 \<times> partition_params) satel_result" where
  "process_partition_params cp1250 now data = params_of_response (process_partition_response cp1250 now data)"

section \<open>Laws\<close>

lemma response_number:
  fixes b :: u8
  shows "b \<noteq> 0 \<Longrightarrow> Suc 0 \<le> unat (ucast b :: u16)" and "unat (ucast b :: u16) \<le> 256"
proof -
  have "unat (ucast b :: u16) = unat b"
    using byte_less_256 [of b]
    by (simp add: unsigned_ucast_eq unsigned_take_bit_eq take_bit_nat_def del: byte_less_256)
  then show "b \<noteq> 0 \<Longrightarrow> Suc 0 \<le> unat (ucast b :: u16)" and "unat (ucast b :: u16) \<le> 256"
    using less_imp_le [OF byte_less_256 [of b]] unat_eq_0 [of b] by (auto simp: Suc_le_eq)
qed

lemma process_zone_response_Inr:
  "process_zone_response cp now frame = Inr (ident, name, params) \<Longrightarrow>
    1 \<le> unat ident \<and> unat ident \<le> 256 \<and> zp_zone_id params = ident
    \<and> sn_read_at name = now \<and> zp_read_at params = now"
  by (auto simp: process_zone_response_def bind_result_Inr_iff frame_data_Inr Let_def response_number
      split: if_splits)

lemma process_output_response_Inr:
  "process_output_response cp now frame = Inr (ident, name, params) \<Longrightarrow>
    1 \<le> unat ident \<and> unat ident \<le> 256 \<and> op_output_id params = ident
    \<and> sn_read_at name = now \<and> op_read_at params = now"
  by (auto simp: process_output_response_def bind_result_Inr_iff frame_data_Inr Let_def response_number
      split: if_splits)

text \<open>
  The device types of partition responses are levels of one layout. The same bytes answered
  with a higher type give the same number, name and kind, and add fields without changing the ones
  below: type 16 adds the object number, type 18 the options and the deferral timer, type 19 the
  dependent partitions.
\<close>

theorem partition_response_levels:
  assumes "28 \<le> length rest + 1"
  shows "\<exists>name params. process_partition_response cp now (0xEE # 19 # rest)
        = Inr (ucast (hd rest), name, params)
    \<and> process_partition_response cp now (0xEE # 18 # rest)
        = Inr (ucast (hd rest), name, params\<lparr>pp_dependent_partitions := None\<rparr>)
    \<and> process_partition_response cp now (0xEE # 16 # rest)
        = Inr (ucast (hd rest), name, params\<lparr>pp_dependent_partitions := None,
            pp_options := None, pp_auto_arm_defer := None\<rparr>)
    \<and> process_partition_response cp now (0xEE # 0 # rest)
        = Inr (ucast (hd rest), name, params\<lparr>pp_dependent_partitions := None,
            pp_options := None, pp_auto_arm_defer := None, pp_object_number := None\<rparr>)
    \<and> pp_dependent_partitions params \<noteq> None \<and> pp_options params \<noteq> None
    \<and> pp_auto_arm_defer params \<noteq> None \<and> pp_object_number params = Some (rest ! 18)"
proof -
  have len: "19 \<le> length (t # rest)" "\<not> length (t # rest) < 20" "\<not> length (t # rest) < 24"
    "\<not> length (t # rest) < 28" for t :: u8
    using assms by auto
  have data: "frame_data 0xEE 19 (0xEE # t # rest) = Inr (t # rest)" for t
    using len(1) by (simp add: frame_data_def)
  have hd: "rest ! 0 = hd rest" using assms by (cases rest) auto
  have sub: "sub_list 3 19 (t # rest) = sub_list 2 18 rest" for t :: u8
    by (simp add: sub_list_def)
  show ?thesis
    using assms
    by (simp add: process_partition_response_def data Let_def hd sub)
qed

theorem partition_response_levels_witness:
  "\<exists>name params. process_partition_response (\<lambda>b. (map unat b, False)) 7
      (0xEE # 19 # 3 # 1 # replicate 16 0x20 @ [2, 0x81, 1, 0x40, 5, 1, 0, 0, 0x80])
      = Inr (3, name, params)
    \<and> pp_object_number params = Some 2 \<and> pp_dependent_partitions params \<noteq> None"
proof -
  let ?rest = "3 # 1 # replicate 16 0x20 @ [2, 0x81, 1, 0x40, 5, 1, 0, 0, 0x80] :: bytes"
  have len: "28 \<le> length ?rest + 1" by simp
  have at: "?rest ! 18 = 2" "ucast (hd ?rest) = (3 :: u16)" by (simp_all add: nth_append)
  show ?thesis
    using partition_response_levels [OF len, of "\<lambda>b. (map unat b, False)" 7] unfolding at by blast
qed

end
