(* ===== verification/Client_Core.thy ===== *)
theory Client_Core
  imports Push_Mask Names_Parser
begin

text \<open>
  The client handle \<open>SatelIntegra\<close> of \<open>src/src/client.rs\<close>: its state, the exchange of a command with
  the connection worker, and the operations on the configuration and the connection. An operation
  takes the client and returns a result and the client; \<open>bind_op\<close> is the \<open>?\<close> operator. The worker's
  answers are part of the client: \<open>cl_answers\<close> holds the answers to the coming exchanges, each with
  the time at which it arrives, and \<open>cl_links\<close> those to connect and disconnect requests. When there
  is no answer left the worker is gone. \<open>cl_sent\<close> and \<open>cl_events\<close> log the messages sent to the worker
  and the broadcast events. Between exchanges the clock stands at \<open>cl_now\<close>.
\<close>

section \<open>State\<close>

datatype internal_message =
    ExchangeStandard bytes duration duration timestamp duration
  | ExchangePriority bytes duration duration
  | ConnectMessage
  | DisconnectMessage

record client =
  cl_config :: config
  cl_state :: satel_state
  cl_worker :: bool
  cl_auto_read_dirty :: bool
  cl_zone_type :: u8
  cl_output_type :: u8
  cl_partition_type :: u8
  cl_zone_confirmed :: bool
  cl_output_confirmed :: bool
  cl_partition_confirmed :: bool
  cl_now :: timestamp
  cl_events :: "satel_event list"
  cl_sent :: "internal_message list"
  cl_answers :: "(bytes satel_result \<times> timestamp) list"
  cl_links :: "(unit satel_result \<times> timestamp) list"

type_synonym 'a op = "client \<Rightarrow> 'a satel_result \<times> client"

section \<open>Operations\<close>

definition ret_op :: "'a \<Rightarrow> 'a op" where
  "ret_op x c = (Inr x, c)"

definition lift_op :: "'a satel_result \<Rightarrow> 'a op" where
  "lift_op r c = (r, c)"

definition bind_op :: "'a op \<Rightarrow> ('a \<Rightarrow> 'b op) \<Rightarrow> 'b op" where
  "bind_op f g c = (case f c of (Inl e, c') \<Rightarrow> (Inl e, c') | (Inr x, c') \<Rightarrow> g x c')"

definition modify_op :: "(client \<Rightarrow> client) \<Rightarrow> unit op" where
  "modify_op f c = (Inr (), f c)"

definition emit_op :: "satel_event list \<Rightarrow> unit op" where
  "emit_op evs = modify_op (\<lambda>c. c\<lparr>cl_events := cl_events c @ evs\<rparr>)"

definition cache_op :: "(config \<Rightarrow> satel_state \<Rightarrow> satel_state \<times> satel_event list) \<Rightarrow> unit op" where
  "cache_op f c = (let (s', evs) = f (cl_config c) (cl_state c)
     in (Inr (), c\<lparr>cl_state := s', cl_events := cl_events c @ evs\<rparr>))"

lemmas op_defs = ret_op_def lift_op_def bind_op_def modify_op_def emit_op_def cache_op_def

section \<open>Creation\<close>

definition zone_type_for :: "bool \<Rightarrow> u8" where
  "zone_type_for extended = (if extended then 5 else 1)"

definition output_type_for :: "bool \<Rightarrow> u8" where
  "output_type_for extended = (if extended then 17 else 4)"

definition partition_type_for :: "bool \<Rightarrow> u8" where
  "partition_type_for extended = (if extended then 19 else 0)"

definition client_new :: "timestamp \<Rightarrow> timestamp \<Rightarrow> config \<Rightarrow> client" where
  "client_new now instant cfg = \<lparr>
    cl_config = cfg,
    cl_state = satel_state_new now instant,
    cl_worker = True,
    cl_auto_read_dirty = False,
    cl_zone_type = zone_type_for (cfg_extended_name_read cfg),
    cl_output_type = output_type_for (cfg_extended_name_read cfg),
    cl_partition_type = partition_type_for (cfg_extended_name_read cfg),
    cl_zone_confirmed = False,
    cl_output_confirmed = False,
    cl_partition_confirmed = False,
    cl_now = now,
    cl_events = [],
    cl_sent = [],
    cl_answers = [],
    cl_links = []\<rparr>"

definition reset_session :: "bool \<Rightarrow> client \<Rightarrow> client" where
  "reset_session extended c = c\<lparr>
    cl_zone_type := zone_type_for extended,
    cl_output_type := output_type_for extended,
    cl_partition_type := partition_type_for extended,
    cl_zone_confirmed := False,
    cl_output_confirmed := False,
    cl_partition_confirmed := False\<rparr>"

section \<open>Messages to the worker\<close>

definition take_answer :: "bytes op" where
  "take_answer c = (case cl_answers c of
     [] \<Rightarrow> (Inl WorkerDropped, c)
   | (r, t) # rest \<Rightarrow> (r, c\<lparr>cl_answers := rest, cl_now := t\<rparr>))"

definition take_link :: "unit op" where
  "take_link c = (case cl_links c of
     [] \<Rightarrow> (Inl WorkerDropped, c)
   | (r, t) # rest \<Rightarrow> (r, c\<lparr>cl_links := rest, cl_now := t\<rparr>))"

definition send_message :: "internal_message \<Rightarrow> unit op" where
  "send_message msg = modify_op (\<lambda>c. c\<lparr>cl_sent := cl_sent c @ [msg]\<rparr>)"

definition exchange :: "bytes \<Rightarrow> duration option \<Rightarrow> duration option \<Rightarrow> bytes op" where
  "exchange data write_timeout read_timeout c =
    (let cfg = cl_config c
     in bind_op (send_message (ExchangeStandard data
          (unwrap_or write_timeout (millis (unat (cfg_write_timeout_ms cfg))))
          (unwrap_or read_timeout (millis (unat (cfg_read_timeout_ms cfg))))
          (cl_now c) (millis (unat (cfg_buffer_timeout_ms cfg)))))
        (\<lambda>_. take_answer) c)"

definition exchange_priority :: "bytes \<Rightarrow> duration option \<Rightarrow> duration option \<Rightarrow> bytes op" where
  "exchange_priority data write_timeout read_timeout c =
    (let cfg = cl_config c
     in bind_op (send_message (ExchangePriority data
          (unwrap_or write_timeout (millis (unat (cfg_write_timeout_ms cfg))))
          (unwrap_or read_timeout (millis (unat (cfg_read_timeout_ms cfg))))))
        (\<lambda>_. take_answer) c)"

section \<open>Connection and configuration\<close>

text \<open>
  The first call starts the worker, which answers with the result of its first connection attempt;
  later calls send it a message.
\<close>

definition connect :: "unit op" where
  "connect c = bind_op (lift_op (validate (cl_config c)))
    (\<lambda>_. bind_op (modify_op (reset_session (cfg_extended_name_read (cl_config c))))
    (\<lambda>_. if cl_worker c
          then bind_op (modify_op (\<lambda>c. c\<lparr>cl_worker := False\<rparr>)) (\<lambda>_. take_link)
          else bind_op (send_message ConnectMessage) (\<lambda>_. take_link))) c"

definition disconnect :: "unit op" where
  "disconnect = bind_op (send_message DisconnectMessage) (\<lambda>_. take_link)"

definition hot_reload_config :: "config \<Rightarrow> unit op" where
  "hot_reload_config new_config c = bind_op (lift_op (validate new_config)) (\<lambda>_ c.
    let guard = cl_config c;
        merged = new_config\<lparr>cfg_connection := cfg_connection guard,
          cfg_encryption := cfg_encryption guard,
          cfg_integration_key := cfg_integration_key guard\<rparr>;
        mask_changed = (build_push_mask guard True \<noteq> build_push_mask merged True);
        ext = cfg_extended_name_read merged;
        extended_changed = (cfg_extended_name_read guard \<noteq> ext);
        c = c\<lparr>cl_config := merged\<rparr>;
        c = (if mask_changed then c\<lparr>cl_auto_read_dirty := True\<rparr> else c);
        c = (if extended_changed then reset_session ext c else c)
    in emit_op [EvConfigUpdated] c) c"

text \<open>\<open>let _ = self.disconnect().await\<close>: the result is dropped.\<close>

definition ignore_op :: "'a op \<Rightarrow> unit op" where
  "ignore_op f c = (Inr (), snd (f c))"

definition reload_config :: "config \<Rightarrow> unit op" where
  "reload_config new_config = bind_op (lift_op (validate new_config))
    (\<lambda>_. bind_op (modify_op (\<lambda>c. c\<lparr>cl_config := new_config\<rparr>))
    (\<lambda>_. bind_op (emit_op [EvConfigUpdated])
    (\<lambda>_ c. if cs_state (tel_status (s_telemetry (cl_state c))) \<noteq> Disconnected
            then bind_op (ignore_op disconnect) (\<lambda>_. connect) c
            else ret_op () c)))"

definition client_statistics :: "client \<Rightarrow> connection_statistics" where
  "client_statistics c = telemetry_statistics (cl_now c) (s_telemetry (cl_state c))"

definition reset_statistics :: "client \<Rightarrow> client" where
  "reset_statistics c = c\<lparr>cl_state := (cl_state c)\<lparr>
    s_telemetry := telemetry_reset (cl_now c) (s_telemetry (cl_state c))\<rparr>\<rparr>"

section \<open>Versions\<close>

definition get_integra_version :: "integra_version op" where
  "get_integra_version = bind_op (exchange [command_to_byte IntegraVersion] None None)
    (\<lambda>response c. bind_op (lift_op (process_integra_version (cl_now c) response))
      (\<lambda>version. bind_op (cache_op (\<lambda>_. update_integra_version_internal version))
        (\<lambda>_. ret_op version)) c)"

definition get_ethm_version :: "ethm_version op" where
  "get_ethm_version = bind_op (exchange [command_to_byte ModuleVersion] None None)
    (\<lambda>response c. bind_op (lift_op (process_ethm_version (cl_now c) response))
      (\<lambda>version. bind_op (cache_op (\<lambda>_. update_ethm_version_internal version))
        (\<lambda>_. ret_op version)) c)"

definition get_cached_version :: "client \<Rightarrow> integra_version option" where
  "get_cached_version c = s_integra_version (cl_state c)"

definition auto_read_report_of :: "client \<Rightarrow> auto_read_report option" where
  "auto_read_report_of c = s_auto_read_report (cl_state c)"

section \<open>Laws\<close>

lemma bind_op_assoc: "bind_op (bind_op f g) h = bind_op f (\<lambda>x. bind_op (g x) h)"
  by (rule ext) (simp add: bind_op_def split: prod.splits sum.splits)

lemma bind_ret_op: "bind_op (ret_op x) g = g x"
  by (rule ext) (simp add: op_defs)

lemma bind_op_ret: "bind_op f ret_op = f"
  by (rule ext) (simp add: op_defs split: prod.splits sum.splits)

lemma bind_op_Inr: "f c = (Inr x, c') \<Longrightarrow> bind_op f g c = g x c'"
  and bind_op_Inl: "f c = (Inl e, c') \<Longrightarrow> bind_op f g c = (Inl e, c')"
  by (simp_all add: bind_op_def)

lemma exchange_answer:
  "cl_answers c = (r, t) # rest \<Longrightarrow> exchange data wt rt c =
    (r, c\<lparr>cl_sent := cl_sent c @ [ExchangeStandard data
        (unwrap_or wt (millis (unat (cfg_write_timeout_ms (cl_config c)))))
        (unwrap_or rt (millis (unat (cfg_read_timeout_ms (cl_config c)))))
        (cl_now c) (millis (unat (cfg_buffer_timeout_ms (cl_config c))))],
      cl_answers := rest, cl_now := t\<rparr>)"
  by (simp add: exchange_def send_message_def take_answer_def op_defs Let_def)

text \<open>An exchange changes nothing but the queues and the clock.\<close>

lemma exchange_frame:
  "exchange data wt rt c = (r, c') \<Longrightarrow>
    cl_config c' = cl_config c \<and> cl_state c' = cl_state c \<and> cl_events c' = cl_events c
    \<and> cl_zone_type c' = cl_zone_type c \<and> cl_output_type c' = cl_output_type c
    \<and> cl_partition_type c' = cl_partition_type c \<and> cl_zone_confirmed c' = cl_zone_confirmed c
    \<and> cl_output_confirmed c' = cl_output_confirmed c \<and> cl_partition_confirmed c' = cl_partition_confirmed c
    \<and> length (cl_sent c') = length (cl_sent c) + 1"
  by (auto simp: exchange_def send_message_def take_answer_def op_defs Let_def split: list.splits prod.splits)

lemma validate_merged:
  "validate c = Inr () \<Longrightarrow> validate c' = Inr () \<Longrightarrow>
    validate (c'\<lparr>cfg_connection := cfg_connection c, cfg_encryption := cfg_encryption c,
      cfg_integration_key := cfg_integration_key c\<rparr>) = Inr ()"
  by (auto simp: validate_def bind_result_Inr_iff validate_encryption_ok)

text \<open>The merged configuration of a hot reload is as valid as the settings that were kept.\<close>

lemma validate_preserved:
  assumes "validate new = Inr ()"
  shows "validate (new\<lparr>cfg_connection := cfg_connection c, cfg_encryption := cfg_encryption c,
      cfg_integration_key := cfg_integration_key c\<rparr>) = validate_encryption c"
    (is "validate ?merged = _")
proof -
  have "validate_probes [] (cfg_temperature_probes new) = Inr ()"
    using assms by (auto simp: validate_def bind_result_Inr_iff)
  moreover have "validate_encryption ?merged = validate_encryption c"
    by (simp add: validate_encryption_def)
  ultimately show ?thesis
    by (cases "validate_encryption c") (simp_all add: validate_def)
qed

lemma auto_read_options_connection:
  "auto_read_options (c\<lparr>cfg_connection := conn, cfg_encryption := enc, cfg_integration_key := key\<rparr>)
    = auto_read_options c"
  by (simp add: auto_read_options_eq)

text \<open>
  C27. A hot reload refuses an invalid configuration without changing anything. A valid one replaces
  every setting except the connection, the encryption and the key, which stay as they are. The result
  is as valid as those kept settings: the check of the whole result gives what the check of the old
  encryption settings gives, so a client created with an invalid key keeps an invalid configuration
  although the reload succeeds. The mask is marked for sending exactly if an
  auto-read option changed (or it was marked before), the name query session restarts exactly if
  extended reading changed, and one event announces the change; nothing is sent to the panel.
\<close>

theorem hot_reload_config_laws:
  "case hot_reload_config new c of
     (Inl e, c') \<Rightarrow> validate new = Inl e \<and> c' = c
   | (Inr _, c') \<Rightarrow> validate new = Inr ()
       \<and> cl_config c' = new\<lparr>cfg_connection := cfg_connection (cl_config c),
           cfg_encryption := cfg_encryption (cl_config c),
           cfg_integration_key := cfg_integration_key (cl_config c)\<rparr>
       \<and> validate (cl_config c') = validate_encryption (cl_config c)
       \<and> (cl_auto_read_dirty c' \<longleftrightarrow>
           cl_auto_read_dirty c \<or> auto_read_options new \<noteq> auto_read_options (cl_config c))
       \<and> (if cfg_extended_name_read new = cfg_extended_name_read (cl_config c)
          then cl_zone_type c' = cl_zone_type c \<and> cl_zone_confirmed c' = cl_zone_confirmed c
          else cl_zone_type c' = zone_type_for (cfg_extended_name_read new) \<and> \<not> cl_zone_confirmed c')
       \<and> cl_events c' = cl_events c @ [EvConfigUpdated] \<and> cl_sent c' = cl_sent c
       \<and> cl_state c' = cl_state c"
proof (cases "validate new")
  case (Inl e)
  then show ?thesis by (simp add: hot_reload_config_def op_defs)
next
  case (Inr u)
  then show ?thesis
    using validate_preserved [of new "cl_config c"]
    by (auto simp: hot_reload_config_def op_defs Let_def reset_session_def build_push_mask_eq_iff
        auto_read_options_connection)
qed

theorem hot_reload_config_laws_witness:
  "case hot_reload_config (config_default\<lparr>cfg_connection := UartConfig [] 9600, cfg_auto_read_outputs_state := True\<rparr>)
      (client_new 0 0 config_default) of (r, c') \<Rightarrow>
    r = Inr () \<and> cl_auto_read_dirty c' \<and> cfg_auto_read_outputs_state (cl_config c')
    \<and> cfg_connection (cl_config c') = cfg_connection config_default"
proof -
  let ?new = "config_default\<lparr>cfg_connection := UartConfig [] 9600, cfg_auto_read_outputs_state := True\<rparr>"
  have new: "validate ?new = Inr ()"
    by (simp add: validate_def validate_encryption_def config_default_def)
  have opts: "auto_read_options ?new \<noteq> auto_read_options config_default"
    by (simp add: auto_read_options_eq config_default_def)
  show ?thesis
    using hot_reload_config_laws [of ?new "client_new 0 0 config_default"] new opts
    by (auto simp: client_new_def split: prod.splits sum.splits)
qed

end
