(* ===== verification/Client_Queries.thy ===== *)
theory Client_Queries
  imports Client_Core
begin

text \<open>
  The state queries of the client, \<open>src/src/client.rs\<close>: the \<open>get_\<close> and \<open>refresh_\<close> operations for the
  flags of zones, partitions and outputs, the system status and the troubles. Each sends a command,
  parses the answer and applies it to the cache; \<open>refresh_\<close> emits an event for every element.
\<close>

section \<open>Flags\<close>

text \<open>The common body: exchange, parse with the clock and the inversion list, update.\<close>

definition query_flags ::
  "bytes \<Rightarrow> (timestamp \<Rightarrow> config \<Rightarrow> bytes \<Rightarrow> states_data satel_result)
    \<Rightarrow> (config \<Rightarrow> states_data \<Rightarrow> bool \<Rightarrow> satel_state \<Rightarrow> satel_state \<times> satel_event list) \<Rightarrow> bool \<Rightarrow> unit op" where
  "query_flags cmd parse update emit_all = bind_op (exchange cmd None None)
    (\<lambda>response c. bind_op (lift_op (parse (cl_now c) (cl_config c) response))
      (\<lambda>result. cache_op (\<lambda>cfg. update cfg result emit_all)) c)"

definition get_zones_tamper :: "unit op" where
  "get_zones_tamper = query_flags [command_to_byte ZonesTamper, 0x00]
    (\<lambda>now cfg response. process_zones_tamper now response (cfg_io_tamper_invert cfg))
    update_zones_tamper_internal False"

definition get_zones_alarm :: "unit op" where
  "get_zones_alarm = query_flags [command_to_byte ZonesAlarm, 0x00]
    (\<lambda>now cfg response. process_zones_alarm now response (cfg_io_alarm_invert cfg))
    update_zones_alarm_internal False"

definition get_zones_violation :: "unit op" where
  "get_zones_violation = query_flags [command_to_byte ZonesViolation, 0x00]
    (\<lambda>now cfg response. process_zones_violation now response (cfg_io_violation_invert cfg))
    update_zones_violation_internal False"

definition get_zones_tamper_alarm :: "unit op" where
  "get_zones_tamper_alarm = query_flags [command_to_byte ZonesTamperAlarm, 0x00]
    (\<lambda>now cfg response. process_zones_tamper_alarm now response (cfg_io_tamper_alarm_invert cfg))
    update_zones_tamper_alarm_internal False"

definition get_zones_alarm_memory :: "unit op" where
  "get_zones_alarm_memory = query_flags [command_to_byte ZonesAlarmMemory, 0x00]
    (\<lambda>now cfg response. process_zones_alarm_memory now response (cfg_io_alarm_memory_invert cfg))
    update_zones_alarm_memory_internal False"

definition get_zones_tamper_alarm_memory :: "unit op" where
  "get_zones_tamper_alarm_memory = query_flags [command_to_byte ZonesTamperAlarmMemory, 0x00]
    (\<lambda>now cfg response. process_zones_tamper_alarm_memory now response (cfg_io_tamper_alarm_memory_invert cfg))
    update_zones_tamper_alarm_memory_internal False"

definition get_zones_bypass :: "unit op" where
  "get_zones_bypass = query_flags [command_to_byte ZonesBypass, 0x00]
    (\<lambda>now cfg response. process_zones_bypass now response (cfg_io_bypass_invert cfg))
    update_zones_bypass_internal False"

definition get_zones_no_violation_trouble :: "unit op" where
  "get_zones_no_violation_trouble = query_flags [command_to_byte ZonesNoViolationTrouble, 0x00]
    (\<lambda>now cfg response. process_zones_no_violation_trouble now response (cfg_io_no_violation_trouble_invert cfg))
    update_zones_no_violation_trouble_internal False"

definition get_zones_long_violation_trouble :: "unit op" where
  "get_zones_long_violation_trouble = query_flags [command_to_byte ZonesLongViolationTrouble, 0x00]
    (\<lambda>now cfg response. process_zones_long_violation_trouble now response (cfg_io_long_violation_trouble_invert cfg))
    update_zones_long_violation_trouble_internal False"

definition get_partitions_armed_suppressed :: "unit op" where
  "get_partitions_armed_suppressed = query_flags [command_to_byte ArmedPartitionsSuppressed]
    (\<lambda>now cfg response. process_partitions_armed_suppressed now response)
    update_partitions_armed_internal False"

definition get_partitions_armed_really :: "unit op" where
  "get_partitions_armed_really = query_flags [command_to_byte ArmedPartitionsReally]
    (\<lambda>now cfg response. process_partitions_armed_really now response)
    update_partitions_armed_really_internal False"

definition get_partitions_alarm :: "unit op" where
  "get_partitions_alarm = query_flags [command_to_byte PartitionsAlarm]
    (\<lambda>now cfg response. process_partitions_alarm now response)
    update_partitions_alarm_internal False"

definition get_partitions_alarm_memory :: "unit op" where
  "get_partitions_alarm_memory = query_flags [command_to_byte PartitionsAlarmMemory]
    (\<lambda>now cfg response. process_partitions_alarm_memory now response)
    update_partitions_alarm_memory_internal False"

definition get_partitions_entry_time :: "unit op" where
  "get_partitions_entry_time = query_flags [command_to_byte PartitionsEntryTime]
    (\<lambda>now cfg response. process_partitions_entry_time now response)
    update_partitions_entry_time_internal False"

definition get_partitions_exit_time_gt_10s :: "unit op" where
  "get_partitions_exit_time_gt_10s = query_flags [command_to_byte PartitionsExitTimeMore10s]
    (\<lambda>now cfg response. process_partitions_exit_time_gt_10s now response)
    update_partitions_exit_time_gt_10s_internal False"

definition get_partitions_exit_time_lt_10s :: "unit op" where
  "get_partitions_exit_time_lt_10s = query_flags [command_to_byte PartitionsExitTimeLess10s]
    (\<lambda>now cfg response. process_partitions_exit_time_lt_10s now response)
    update_partitions_exit_time_lt_10s_internal False"

definition get_partitions_times :: "unit op" where
  "get_partitions_times = bind_op get_partitions_entry_time
    (\<lambda>_. bind_op get_partitions_exit_time_gt_10s (\<lambda>_. get_partitions_exit_time_lt_10s))"

definition get_outputs_state :: "unit op" where
  "get_outputs_state = query_flags [command_to_byte OutputsState, 0x00]
    (\<lambda>now cfg response. process_outputs_state now response)
    update_outputs_state_internal False"

definition refresh_zones_tamper :: "unit op" where
  "refresh_zones_tamper = query_flags [command_to_byte ZonesTamper, 0x00]
    (\<lambda>now cfg response. process_zones_tamper now response (cfg_io_tamper_invert cfg))
    update_zones_tamper_internal True"

definition refresh_zones_alarm :: "unit op" where
  "refresh_zones_alarm = query_flags [command_to_byte ZonesAlarm, 0x00]
    (\<lambda>now cfg response. process_zones_alarm now response (cfg_io_alarm_invert cfg))
    update_zones_alarm_internal True"

definition refresh_zones_violation :: "unit op" where
  "refresh_zones_violation = query_flags [command_to_byte ZonesViolation, 0x00]
    (\<lambda>now cfg response. process_zones_violation now response (cfg_io_violation_invert cfg))
    update_zones_violation_internal True"

definition refresh_zones_tamper_alarm :: "unit op" where
  "refresh_zones_tamper_alarm = query_flags [command_to_byte ZonesTamperAlarm, 0x00]
    (\<lambda>now cfg response. process_zones_tamper_alarm now response (cfg_io_tamper_alarm_invert cfg))
    update_zones_tamper_alarm_internal True"

definition refresh_zones_alarm_memory :: "unit op" where
  "refresh_zones_alarm_memory = query_flags [command_to_byte ZonesAlarmMemory, 0x00]
    (\<lambda>now cfg response. process_zones_alarm_memory now response (cfg_io_alarm_memory_invert cfg))
    update_zones_alarm_memory_internal True"

definition refresh_zones_tamper_alarm_memory :: "unit op" where
  "refresh_zones_tamper_alarm_memory = query_flags [command_to_byte ZonesTamperAlarmMemory, 0x00]
    (\<lambda>now cfg response. process_zones_tamper_alarm_memory now response (cfg_io_tamper_alarm_memory_invert cfg))
    update_zones_tamper_alarm_memory_internal True"

definition refresh_zones_bypass :: "unit op" where
  "refresh_zones_bypass = query_flags [command_to_byte ZonesBypass, 0x00]
    (\<lambda>now cfg response. process_zones_bypass now response (cfg_io_bypass_invert cfg))
    update_zones_bypass_internal True"

definition refresh_zones_no_violation_trouble :: "unit op" where
  "refresh_zones_no_violation_trouble = query_flags [command_to_byte ZonesNoViolationTrouble, 0x00]
    (\<lambda>now cfg response. process_zones_no_violation_trouble now response (cfg_io_no_violation_trouble_invert cfg))
    update_zones_no_violation_trouble_internal True"

definition refresh_zones_long_violation_trouble :: "unit op" where
  "refresh_zones_long_violation_trouble = query_flags [command_to_byte ZonesLongViolationTrouble, 0x00]
    (\<lambda>now cfg response. process_zones_long_violation_trouble now response (cfg_io_long_violation_trouble_invert cfg))
    update_zones_long_violation_trouble_internal True"

definition refresh_partitions_armed_suppressed :: "unit op" where
  "refresh_partitions_armed_suppressed = query_flags [command_to_byte ArmedPartitionsSuppressed]
    (\<lambda>now cfg response. process_partitions_armed_suppressed now response)
    update_partitions_armed_internal True"

definition refresh_partitions_armed_really :: "unit op" where
  "refresh_partitions_armed_really = query_flags [command_to_byte ArmedPartitionsReally]
    (\<lambda>now cfg response. process_partitions_armed_really now response)
    update_partitions_armed_really_internal True"

definition refresh_partitions_alarm :: "unit op" where
  "refresh_partitions_alarm = query_flags [command_to_byte PartitionsAlarm]
    (\<lambda>now cfg response. process_partitions_alarm now response)
    update_partitions_alarm_internal True"

definition refresh_partitions_alarm_memory :: "unit op" where
  "refresh_partitions_alarm_memory = query_flags [command_to_byte PartitionsAlarmMemory]
    (\<lambda>now cfg response. process_partitions_alarm_memory now response)
    update_partitions_alarm_memory_internal True"

definition refresh_partitions_entry_time :: "unit op" where
  "refresh_partitions_entry_time = query_flags [command_to_byte PartitionsEntryTime]
    (\<lambda>now cfg response. process_partitions_entry_time now response)
    update_partitions_entry_time_internal True"

definition refresh_partitions_exit_time_gt_10s :: "unit op" where
  "refresh_partitions_exit_time_gt_10s = query_flags [command_to_byte PartitionsExitTimeMore10s]
    (\<lambda>now cfg response. process_partitions_exit_time_gt_10s now response)
    update_partitions_exit_time_gt_10s_internal True"

definition refresh_partitions_exit_time_lt_10s :: "unit op" where
  "refresh_partitions_exit_time_lt_10s = query_flags [command_to_byte PartitionsExitTimeLess10s]
    (\<lambda>now cfg response. process_partitions_exit_time_lt_10s now response)
    update_partitions_exit_time_lt_10s_internal True"

definition refresh_partitions_times :: "unit op" where
  "refresh_partitions_times = bind_op refresh_partitions_entry_time
    (\<lambda>_. bind_op refresh_partitions_exit_time_gt_10s (\<lambda>_. refresh_partitions_exit_time_lt_10s))"

definition refresh_outputs_state :: "unit op" where
  "refresh_outputs_state = query_flags [command_to_byte OutputsState, 0x00]
    (\<lambda>now cfg response. process_outputs_state now response)
    update_outputs_state_internal True"

section \<open>System status\<close>

definition get_system_status :: "calendar \<Rightarrow> system_status op" where
  "get_system_status civil = bind_op (exchange [command_to_byte RtcAndBasicStatusBits] None None)
    (\<lambda>response c. bind_op (lift_op (process_rtc_and_status civil (cl_now c) response))
      (\<lambda>status. bind_op (cache_op (\<lambda>cfg. update_system_status_internal cfg status)) (\<lambda>_. ret_op status)) c)"

definition get_satel_time :: "calendar \<Rightarrow> timestamp op" where
  "get_satel_time civil = bind_op (get_system_status civil) (\<lambda>status. ret_op (ss_rtc status))"

section \<open>Troubles\<close>

text \<open>\<open>update_troubles_internal\<close> as an operation: it can fail.\<close>

definition troubles_op :: "command \<Rightarrow> bytes \<Rightarrow> unit op" where
  "troubles_op cmd data c =
    (let (r, s', evs) = update_troubles_internal (cl_config c) cmd data (cl_state c)
     in (r, c\<lparr>cl_state := s', cl_events := cl_events c @ evs\<rparr>))"

definition query_troubles :: "command \<Rightarrow> (timestamp \<Rightarrow> bytes \<Rightarrow> 'd satel_result) \<Rightarrow> 'd op" where
  "query_troubles cmd parse = bind_op (exchange [command_to_byte cmd] None None)
    (\<lambda>response c. bind_op (lift_op (parse (cl_now c) response))
      (\<lambda>parsed. bind_op (troubles_op cmd (tl response)) (\<lambda>_. ret_op parsed)) c)"

definition get_troubles :: "command \<Rightarrow> troubles_data op" where
  "get_troubles cmd = query_troubles cmd process_troubles_frame"

definition get_troubles_part1 :: "troubles_part1_data op" where
  "get_troubles_part1 = query_troubles TroublesPart1 process_troubles_part1"

definition get_troubles_memory_part1 :: "troubles_part1_data op" where
  "get_troubles_memory_part1 = query_troubles TroublesMemoryPart1 process_troubles_part1"

definition get_troubles_part2 :: "troubles_part2_data op" where
  "get_troubles_part2 = query_troubles TroublesPart2 process_troubles_part2"

definition get_troubles_memory_part2 :: "troubles_memory_part2_data op" where
  "get_troubles_memory_part2 = query_troubles TroublesMemoryPart2 process_troubles_memory_part2"

definition get_troubles_part3 :: "troubles_part3_data op" where
  "get_troubles_part3 = query_troubles TroublesPart3 process_troubles_part3"

definition get_troubles_memory_part3 :: "troubles_memory_part3_data op" where
  "get_troubles_memory_part3 = query_troubles TroublesMemoryPart3 process_troubles_memory_part3"

definition get_troubles_part4 :: "troubles_part4_data op" where
  "get_troubles_part4 = query_troubles TroublesPart4 process_troubles_part4"

definition get_troubles_memory_part4 :: "troubles_part4_data op" where
  "get_troubles_memory_part4 = query_troubles TroublesMemoryPart4 process_troubles_part4"

definition get_troubles_part5 :: "troubles_part5_data op" where
  "get_troubles_part5 = query_troubles TroublesPart5 process_troubles_part5"

definition get_troubles_memory_part5 :: "troubles_memory_part5_data op" where
  "get_troubles_memory_part5 = query_troubles TroublesMemoryPart5 process_troubles_memory_part5"

definition get_troubles_part6 :: "troubles_part6_data op" where
  "get_troubles_part6 = query_troubles TroublesPart6 process_troubles_part6"

definition get_troubles_memory_part6 :: "troubles_part6_data op" where
  "get_troubles_memory_part6 = query_troubles TroublesMemoryPart6 process_troubles_part6"

definition get_troubles_part7 :: "troubles_part7_data op" where
  "get_troubles_part7 = query_troubles TroublesPart7 process_troubles_part7"

definition get_troubles_memory_part7 :: "troubles_memory_part7_data op" where
  "get_troubles_memory_part7 = query_troubles TroublesMemoryPart7 process_troubles_memory_part7"

definition get_troubles_part8 :: "troubles_part8_data op" where
  "get_troubles_part8 = query_troubles TroublesPart8 process_troubles_part8"

definition get_troubles_memory_part8 :: "troubles_part8_data op" where
  "get_troubles_memory_part8 = query_troubles TroublesMemoryPart8 process_troubles_part8"

section \<open>Laws\<close>

text \<open>The flag queries: the command, the two operations and the category.\<close>

definition flag_queries :: "(command \<times> unit op \<times> unit op \<times> flag_category_name) list" where
  "flag_queries =
    [(ZonesTamper, get_zones_tamper, refresh_zones_tamper, CatZoneTamper),
     (ZonesAlarm, get_zones_alarm, refresh_zones_alarm, CatZoneAlarm),
     (ZonesViolation, get_zones_violation, refresh_zones_violation, CatZoneViolation),
     (ZonesTamperAlarm, get_zones_tamper_alarm, refresh_zones_tamper_alarm, CatZoneTamperAlarm),
     (ZonesAlarmMemory, get_zones_alarm_memory, refresh_zones_alarm_memory, CatZoneAlarmMemory),
     (ZonesTamperAlarmMemory, get_zones_tamper_alarm_memory, refresh_zones_tamper_alarm_memory, CatZoneTamperAlarmMemory),
     (ZonesBypass, get_zones_bypass, refresh_zones_bypass, CatZoneBypass),
     (ZonesNoViolationTrouble, get_zones_no_violation_trouble, refresh_zones_no_violation_trouble, CatZoneNoViolationTrouble),
     (ZonesLongViolationTrouble, get_zones_long_violation_trouble, refresh_zones_long_violation_trouble, CatZoneLongViolationTrouble),
     (ArmedPartitionsSuppressed, get_partitions_armed_suppressed, refresh_partitions_armed_suppressed, CatPartitionArmed),
     (ArmedPartitionsReally, get_partitions_armed_really, refresh_partitions_armed_really, CatPartitionArmedReally),
     (PartitionsAlarm, get_partitions_alarm, refresh_partitions_alarm, CatPartitionAlarm),
     (PartitionsAlarmMemory, get_partitions_alarm_memory, refresh_partitions_alarm_memory, CatPartitionAlarmMemory),
     (PartitionsEntryTime, get_partitions_entry_time, refresh_partitions_entry_time, CatPartitionEntryTime),
     (PartitionsExitTimeMore10s, get_partitions_exit_time_gt_10s, refresh_partitions_exit_time_gt_10s, CatPartitionExitTimeGt10s),
     (PartitionsExitTimeLess10s, get_partitions_exit_time_lt_10s, refresh_partitions_exit_time_lt_10s, CatPartitionExitTimeLt10s),
     (OutputsState, get_outputs_state, refresh_outputs_state, CatOutputChanged)]"

lemmas flag_parser_defs =
  process_zones_tamper_def
  process_zones_alarm_def
  process_zones_violation_def
  process_zones_tamper_alarm_def
  process_zones_alarm_memory_def
  process_zones_tamper_alarm_memory_def
  process_zones_bypass_def
  process_zones_no_violation_trouble_def
  process_zones_long_violation_trouble_def
  process_partitions_armed_suppressed_def
  process_partitions_armed_really_def
  process_partitions_alarm_def
  process_partitions_alarm_memory_def
  process_partitions_entry_time_def
  process_partitions_exit_time_gt_10s_def
  process_partitions_exit_time_lt_10s_def

lemmas flag_query_defs =
  get_zones_tamper_def
  get_zones_alarm_def
  get_zones_violation_def
  get_zones_tamper_alarm_def
  get_zones_alarm_memory_def
  get_zones_tamper_alarm_memory_def
  get_zones_bypass_def
  get_zones_no_violation_trouble_def
  get_zones_long_violation_trouble_def
  get_partitions_armed_suppressed_def
  get_partitions_armed_really_def
  get_partitions_alarm_def
  get_partitions_alarm_memory_def
  get_partitions_entry_time_def
  get_partitions_exit_time_gt_10s_def
  get_partitions_exit_time_lt_10s_def
  get_outputs_state_def
  refresh_zones_tamper_def
  refresh_zones_alarm_def
  refresh_zones_violation_def
  refresh_zones_tamper_alarm_def
  refresh_zones_alarm_memory_def
  refresh_zones_tamper_alarm_memory_def
  refresh_zones_bypass_def
  refresh_zones_no_violation_trouble_def
  refresh_zones_long_violation_trouble_def
  refresh_partitions_armed_suppressed_def
  refresh_partitions_armed_really_def
  refresh_partitions_alarm_def
  refresh_partitions_alarm_memory_def
  refresh_partitions_entry_time_def
  refresh_partitions_exit_time_gt_10s_def
  refresh_partitions_exit_time_lt_10s_def
  refresh_outputs_state_def

text \<open>The bits a flag response carries.\<close>

definition flag_parse :: "u8 \<Rightarrow> config \<Rightarrow> timestamp \<Rightarrow> bytes \<Rightarrow> states_data satel_result" where
  "flag_parse b cfg now frame =
    (case find (\<lambda>(b', k, len, inverted). b' = b) push_table of
       Some (b', k, len, inverted) \<Rightarrow>
         bind_result (frame_data b len frame)
           (\<lambda>data. Inr \<lparr>sd_states = push_bits b data (inverted cfg), sd_read_at = now\<rparr>)
     | None \<Rightarrow> Inl InvalidFrame)"

lemma push_table_find:
  "list_all (\<lambda>(cmd, getter, refresher, k).
    \<exists>len inverted. find (\<lambda>(b', k, len, inverted). b' = command_to_byte cmd) push_table
      = Some (command_to_byte cmd, k, len, inverted)) flag_queries"
  by (simp add: flag_queries_def push_table_def)

lemma flag_query_body:
  "list_all (\<lambda>(cmd, getter, refresher, k). \<forall>e. (if e then refresher else getter) =
      query_flags (if category_size k = 32 then [command_to_byte cmd] else [command_to_byte cmd, 0x00])
        (\<lambda>now cfg response. flag_parse (command_to_byte cmd) cfg now response) (category_update k) e) flag_queries"
  unfolding flag_queries_def
  by (simp add: flag_query_defs flag_parser_defs flag_parse_def push_table_def zones_frame_def
      partitions_frame_def process_outputs_state_def push_bits_def)

lemma flag_query_row:
  assumes "(cmd, getter, refresher, k) \<in> set flag_queries"
  shows "getter = query_flags (if category_size k = 32 then [command_to_byte cmd] else [command_to_byte cmd, 0x00])
      (\<lambda>now cfg response. flag_parse (command_to_byte cmd) cfg now response) (category_update k) False"
    and "refresher = query_flags (if category_size k = 32 then [command_to_byte cmd] else [command_to_byte cmd, 0x00])
      (\<lambda>now cfg response. flag_parse (command_to_byte cmd) cfg now response) (category_update k) True"
  using bspec [OF flag_query_body [unfolded list_all_iff] assms, simplified case_prod_conv, THEN spec, of False]
    bspec [OF flag_query_body [unfolded list_all_iff] assms, simplified case_prod_conv, THEN spec, of True]
  by (simp_all only: if_False if_True)

lemma handle_auto_frame_flag:
  "list_all (\<lambda>(cmd, getter, refresher, k). \<forall>data. handle_auto_frame civil c now (command_to_byte cmd # data) s
    = on_ok (flag_parse (command_to_byte cmd) c now (command_to_byte cmd # data))
        (\<lambda>d. category_update k c d False s) s) flag_queries"
  unfolding flag_queries_def
  by (simp add: handle_auto_frame_def flag_parser_defs flag_parse_def push_table_def zones_frame_def
      partitions_frame_def process_outputs_state_def push_bits_def)

lemma flag_parse_Inl: "flag_parse b c now frame = Inl e \<Longrightarrow> e = InvalidFrame"
  by (auto simp: flag_parse_def bind_result_Inl_iff frame_data_def split: option.splits if_splits)

lemma query_flags_answered:
  assumes "cl_answers c = (Inr frame, t) # rest" and "query_flags cmd parse update e c = (r, c')"
  shows "r = (case parse t (cl_config c) frame of Inl err \<Rightarrow> Inl err | Inr d \<Rightarrow> Inr ())"
    and "(cl_state c', cl_events c') = (case on_ok (parse t (cl_config c) frame)
        (\<lambda>d. update (cl_config c) d e (cl_state c)) (cl_state c) of (s', evs) \<Rightarrow> (s', cl_events c @ evs))"
  using assms exchange_answer [OF assms(1), of cmd None None]
  by (auto simp: query_flags_def op_defs on_ok_def case_prod_beta split: sum.splits)

text \<open>
  C17. A solicited answer and an unsolicited frame are the same to the cache. For each of the seventeen
  flag queries: when the answer is a frame with the query's command byte, the query leaves the cache,
  and adds to the event log, exactly what the push handler does for that frame; it succeeds or reports
  an invalid frame. When the answer is the result code 0xEF or an error, nothing changes.
\<close>

theorem query_agrees_with_push:
  assumes "(cmd, getter, refresher, k) \<in> set flag_queries"
    and "cl_answers c = (Inr (b # data), t) # rest" and "getter c = (r, c')"
  shows "(if b = command_to_byte cmd
      then (case handle_auto_frame civil (cl_config c) t (b # data) (cl_state c) of (s', evs) \<Rightarrow>
        cl_state c' = s' \<and> cl_events c' = cl_events c @ evs)
      else cl_state c' = cl_state c \<and> cl_events c' = cl_events c \<and> r = Inl InvalidFrame)
    \<and> (r = Inr () \<or> r = Inl InvalidFrame)"
proof -
  note getter = flag_query_row(1) [OF assms(1)]
  have push: "handle_auto_frame civil (cl_config c) t (command_to_byte cmd # data) (cl_state c)
      = on_ok (flag_parse (command_to_byte cmd) (cl_config c) t (command_to_byte cmd # data))
        (\<lambda>d. category_update k (cl_config c) d False (cl_state c)) (cl_state c)"
    using bspec [OF handle_auto_frame_flag [of civil "cl_config c" t "cl_state c", unfolded list_all_iff] assms(1),
        simplified case_prod_conv, THEN spec, of data]
    by (simp only:)
  have other: "flag_parse (command_to_byte cmd) (cl_config c) t (b # data) = Inl InvalidFrame"
    if "b \<noteq> command_to_byte cmd"
    using that by (auto simp: flag_parse_def frame_data_def split: option.splits)
  note answered = query_flags_answered [OF assms(2) assms(3) [unfolded getter]]
  have "r = Inr () \<or> r = Inl InvalidFrame"
    using answered(1) flag_parse_Inl by (auto split: sum.splits)
  then show ?thesis
    using answered other push by (auto simp: on_ok_def case_prod_beta split: sum.splits)
qed

theorem query_agrees_with_push_witness:
  "(let c = (client_new 0 0 config_default)\<lparr>cl_answers := [(Inr [0x13, 1, 0, 0, 0x80], 7)]\<rparr>;
        c' = snd (get_partitions_alarm c)
    in cl_state c' = fst (handle_auto_frame (\<lambda>y m d h mi s. None) config_default 7 [0x13, 1, 0, 0, 0x80] (cl_state c))
      \<and> fst (get_partitions_alarm c) = Inr ())"
proof -
  let ?c = "(client_new 0 0 config_default)\<lparr>cl_answers := [(Inr [0x13, 1, 0, 0, 0x80], 7)]\<rparr>"
  have row: "(PartitionsAlarm, get_partitions_alarm, refresh_partitions_alarm, CatPartitionAlarm) \<in> set flag_queries"
    by (simp add: flag_queries_def)
  have "fst (get_partitions_alarm ?c) = Inr ()"
    by (simp add: get_partitions_alarm_def query_flags_def exchange_def send_message_def take_answer_def op_defs
        process_partitions_alarm_def partitions_frame_def frame_data_def case_prod_beta Let_def)
  moreover have "cl_config ?c = config_default" by (simp add: client_new_def)
  moreover obtain r c' where run: "get_partitions_alarm ?c = (r, c')" by (metis prod.collapse)
  ultimately show ?thesis
    using query_agrees_with_push [OF row _ run, of "0x13" "[1, 0, 0, 0x80]" 7 "[]" "\<lambda>y m d h mi s. None"]
    by (simp add: case_prod_beta Let_def)
qed

lemma zip_idents:
  "map f xs = map g ns \<Longrightarrow> map (\<lambda>(b, x). h (f x) b) (zip bs xs) = map (\<lambda>(n, b). h (g n) b) (zip ns bs)"
proof (induction bs arbitrary: xs ns)
  case (Cons b bs)
  then show ?case by (cases xs; cases ns) auto
qed simp

lemma category_update_all:
  assumes wf: "state_wf s"
  shows "snd (category_update k c d True s)
    = map (\<lambda>(n, b). category_event k (word_of_nat n) b) (zip [1..<Suc (category_size k)] (sd_states d))"
proof -
  have len: "Suc 256 = 257" "Suc 32 = 33" by simp_all
  note ids = zip_idents [where g = word_of_nat and f = z_id] zip_idents [where g = word_of_nat and f = p_id]
    zip_idents [where g = word_of_nat and f = o_id]
  show ?thesis
    using wf unfolding state_wf_def
    by (cases k) (auto simp: flag_update_defs case_prod_beta flag_update_all len simp del: upt_Suc upt_rec_numeral
        intro!: ids)
qed

text \<open>
  C28. A refresh announces everything: when it succeeds on a well formed cache, the events added are
  one for each element, in order of the numbers, with the states that were read, and every element
  the answer covers is cached with that state.
\<close>

theorem refresh_announces_all:
  assumes "(cmd, getter, refresher, k) \<in> set flag_queries" and "state_wf (cl_state c)"
    and "cl_answers c = (Inr frame, t) # rest" and "refresher c = (Inr u, c')"
  shows "\<exists>d. flag_parse (command_to_byte cmd) (cl_config c) t frame = Inr d
    \<and> cl_events c' = cl_events c
        @ map (\<lambda>(n, b). category_event k (word_of_nat n) b) (zip [1..<Suc (category_size k)] (sd_states d))
    \<and> (\<forall>n \<in> {1..min (category_size k) (length (sd_states d))}.
        category_view k (cl_state c') n = Some (sd_states d ! (n - 1)))"
proof -
  from query_flags_answered [OF assms(3) assms(4) [unfolded flag_query_row(2) [OF assms(1)]]] obtain d
    where d: "flag_parse (command_to_byte cmd) (cl_config c) t frame = Inr d"
      and c': "cl_state c' = fst (category_update k (cl_config c) d True (cl_state c))"
      "cl_events c' = cl_events c @ snd (category_update k (cl_config c) d True (cl_state c))"
    by (auto simp: on_ok_def case_prod_beta split: sum.splits)
  then show ?thesis
    using category_update_all [OF assms(2)] category_update_read [OF assms(2)] by simp
qed

theorem refresh_announces_all_witness:
  "\<exists>c c' (d :: states_data). refresh_partitions_armed_really c = (Inr (), c') \<and> length (sd_states d) = 32
    \<and> cl_events c' = map (\<lambda>(n, b). EvPartitionArmedReally (word_of_nat n) b) (zip [1..<Suc 32] (sd_states d))"
proof -
  let ?c = "(client_new 0 0 config_default)\<lparr>cl_answers := [(Inr [0x0A, 3, 0, 0, 0], 7)]\<rparr>"
  have row: "(ArmedPartitionsReally, get_partitions_armed_really, refresh_partitions_armed_really,
      CatPartitionArmedReally) \<in> set flag_queries"
    by (simp add: flag_queries_def)
  have wf: "state_wf (cl_state ?c)" using state_wf_new by (simp add: client_new_def)
  have ok: "fst (refresh_partitions_armed_really ?c) = Inr ()"
    by (simp add: refresh_partitions_armed_really_def query_flags_def exchange_def send_message_def
        take_answer_def op_defs process_partitions_armed_really_def partitions_frame_def frame_data_def
        case_prod_beta Let_def)
  then obtain c' where run: "refresh_partitions_armed_really ?c = (Inr (), c')" by (metis prod.collapse)
  from refresh_announces_all [OF row wf _ run, of "[0x0A, 3, 0, 0, 0]" 7 "[]"] obtain d
    where d: "flag_parse 0x0A config_default 7 [0x0A, 3, 0, 0, 0] = Inr d"
      and ev: "cl_events c' = map (\<lambda>(n, b). EvPartitionArmedReally (word_of_nat n) b) (zip [1..<Suc 32] (sd_states d))"
    by (auto simp: client_new_def simp del: upt_Suc)
  from d have "length (sd_states d) = 32"
    by (auto simp: flag_parse_def push_table_def frame_data_def push_bits_def parse_partition_bits_length)
  with run ev show ?thesis by blast
qed

text \<open>
  C39. The two parsers of a trouble frame accept the same frames: the typed record is parsed exactly
  when the frame decodes to trouble items. A trouble query therefore never fails after its frame was
  parsed, with the cache half updated.
\<close>

theorem trouble_parsers_agree:
  "(\<exists>d. process_troubles_frame now (b # data) = Inr d) \<longleftrightarrow> (\<exists>items. decode_troubles b data = Inr items)"
proof -
  have frame2: "(\<exists>d. frame_data2 x y n (b # data) = Inr d) \<longleftrightarrow> (b = x \<or> b = y) \<and> n \<le> length data" for x y n
    by (auto simp: frame_data2_def)
  have frame1: "(\<exists>d. frame_data x n (y # data) = Inr d) \<longleftrightarrow> y = x \<and> n \<le> length data" for x y n
    by (auto simp: frame_data_def)
  have total: "(\<exists>y. bind_result r (\<lambda>x. Inr (f x)) = Inr y) \<longleftrightarrow> (\<exists>x. r = Inr x)"
    for r :: "bytes satel_result" and f :: "bytes \<Rightarrow> 'x"
    by (cases r) auto
  have mapped: "(\<exists>d. map_sum id g r = Inr d) \<longleftrightarrow> (\<exists>d. r = Inr d)" for g :: "'x \<Rightarrow> troubles_data" and r :: "'x satel_result"
    by (cases r) auto
  have decode: "(\<exists>items. decode_troubles b data = Inr items) \<longleftrightarrow>
      (\<exists>len rules. get_rules b = Some (len, rules) \<and> len \<le> length data)"
    by (auto simp: decode_troubles_def split: option.splits)
  note parsers = process_troubles_part1_def process_troubles_part2_def process_troubles_memory_part2_def
    process_troubles_part3_def process_troubles_memory_part3_def process_troubles_part4_def
    process_troubles_part5_def process_troubles_memory_part5_def process_troubles_part6_def
    process_troubles_part7_def process_troubles_memory_part7_def process_troubles_part8_def
  show ?thesis
    unfolding decode process_troubles_frame_def
    by (simp add: parsers Let_def mapped total frame1 frame2 get_rules_def del: map_sum.simps)
qed

end
