(* ===== verification/Client_Names.thy ===== *)
theory Client_Names
  imports Client_Queries "HOL-Library.Sublist"
begin

text \<open>
  The name and parameter queries of the client (command 0xEE), \<open>src/src/client.rs\<close>. The client tries
  the device types from the most detailed one its session knows down to the basic one; the first type
  the panel answers is confirmed for the session. An element of the cache is at index
  \<open>(number - 1) mod size\<close>. The synchronisations query every element and report their progress.
\<close>

section \<open>Elements of the cache\<close>

definition element_index :: "nat \<Rightarrow> u16 \<Rightarrow> nat" where
  "element_index count ident = unat (ident - 1) mod count"

definition update_element :: "nat \<Rightarrow> ('a \<Rightarrow> 'a) \<Rightarrow> 'a list \<Rightarrow> 'a list" where
  "update_element i f xs = (if i < length xs then xs[i := f (xs ! i)] else xs)"

definition update_zone :: "u16 \<Rightarrow> (zone \<Rightarrow> zone) \<Rightarrow> satel_state \<Rightarrow> satel_state" where
  "update_zone ident f s = s\<lparr>s_zones := update_element (element_index 256 ident) f (s_zones s)\<rparr>"

definition update_output :: "u16 \<Rightarrow> (satel_output \<Rightarrow> satel_output) \<Rightarrow> satel_state \<Rightarrow> satel_state" where
  "update_output ident f s = s\<lparr>s_outputs := update_element (element_index 256 ident) f (s_outputs s)\<rparr>"

definition update_partition :: "u16 \<Rightarrow> (partition \<Rightarrow> partition) \<Rightarrow> satel_state \<Rightarrow> satel_state" where
  "update_partition ident f s = s\<lparr>s_partitions := update_element (element_index 32 ident) f (s_partitions s)\<rparr>"

definition get_zone :: "satel_state \<Rightarrow> u16 \<Rightarrow> zone option" where
  "get_zone s ident = get (s_zones s) (element_index 256 ident)"

definition get_output :: "satel_state \<Rightarrow> u16 \<Rightarrow> satel_output option" where
  "get_output s ident = get (s_outputs s) (element_index 256 ident)"

definition get_partition :: "satel_state \<Rightarrow> u16 \<Rightarrow> partition option" where
  "get_partition s ident = get (s_partitions s) (element_index 32 ident)"

definition store_op :: "(satel_state \<Rightarrow> satel_state) \<Rightarrow> unit op" where
  "store_op f = cache_op (\<lambda>_ s. (f s, []))"

section \<open>The query loop\<close>

text \<open>A result code means that the panel refused the device type; the next one is tried.\<close>

fun query_loop :: "u8 \<Rightarrow> (u8 \<Rightarrow> bytes \<Rightarrow> 'r op) \<Rightarrow> u8 list \<Rightarrow> 'r option op" where
  "query_loop device_id answered [] = ret_op None"
| "query_loop device_id answered (dev_type # types) =
    bind_op (exchange [command_to_byte ReadDeviceName, dev_type, device_id] None None) (\<lambda>response.
      if response \<noteq> [] \<and> hd response = command_to_byte ResultCode
      then query_loop device_id answered types
      else if response \<noteq> [] \<and> hd response = command_to_byte ReadDeviceName
      then bind_op (answered dev_type response) (\<lambda>r. ret_op (Some r))
      else lift_op (Inl InvalidFrame))"

definition device_number :: "u16 \<Rightarrow> u8" where
  "device_number ident = (if ident = 256 then 0 else ucast ident)"

section \<open>Zones\<close>

definition zone_types_to_try :: "bool \<Rightarrow> u8 \<Rightarrow> bool \<Rightarrow> u8 list" where
  "zone_types_to_try extended session_type confirmed =
    (if extended then if confirmed then [session_type]
       else if session_type = 5 then [5, 1]
       else [1]
     else [1])"

definition zone_store :: "satel_name \<Rightarrow> zone_params \<Rightarrow> zone \<Rightarrow> zone" where
  "zone_store nm params x = x\<lparr>z_zone_name := sn_name nm, z_zone_name_read_at := sn_read_at nm,
    z_reaction := Some (zp_reaction params), z_partition := zp_partition params,
    z_params_read_at := Some (zp_read_at params)\<rparr>"

definition zone_clear :: "timestamp \<Rightarrow> zone \<Rightarrow> zone" where
  "zone_clear now x = x\<lparr>z_zone_name := [], z_zone_name_read_at := now,
    z_reaction := None, z_partition := None, z_params_read_at := Some now\<rparr>"

definition zone_answered :: "codepage \<Rightarrow> u8 \<Rightarrow> u8 \<Rightarrow> bytes \<Rightarrow> (satel_name \<times> zone_params) op" where
  "zone_answered cp1250 session_type dev_type response c =
    (let c = (if dev_type < session_type then c\<lparr>cl_zone_type := dev_type\<rparr> else c);
         c = c\<lparr>cl_zone_confirmed := True\<rparr>
     in bind_op (lift_op (process_zone_response cp1250 (cl_now c) response))
          (\<lambda>(ident, nm, params). bind_op (store_op (update_zone ident (zone_store nm params)))
            (\<lambda>_. ret_op (nm, params))) c)"

definition query_zone_internal :: "codepage \<Rightarrow> u16 \<Rightarrow> (satel_name \<times> zone_params option) op" where
  "query_zone_internal cp1250 zone_id c =
    (let session_type = cl_zone_type c;
         types_to_try = zone_types_to_try (cfg_extended_name_read (cl_config c)) session_type (cl_zone_confirmed c)
     in bind_op (query_loop (device_number zone_id) (zone_answered cp1250 session_type) types_to_try)
          (\<lambda>r c. case r of
             Some (nm, params) \<Rightarrow> ret_op (nm, Some params) c
           | None \<Rightarrow> bind_op (store_op (update_zone zone_id (zone_clear (cl_now c))))
               (\<lambda>_. ret_op (\<lparr>sn_name = [], sn_read_at = cl_now c\<rparr>, None)) c) c)"

definition get_zone_name :: "codepage \<Rightarrow> u16 \<Rightarrow> satel_name op" where
  "get_zone_name cp1250 zone_id = bind_op (query_zone_internal cp1250 zone_id) (\<lambda>(nm, maybe_params).
    case maybe_params of
      Some params \<Rightarrow> (\<lambda>c. bind_op (emit_op (EvZoneNameReceived zone_id (sn_name nm)
          # (if cfg_extended_name_read (cl_config c) then [EvZoneParamsReceived zone_id params] else [])))
        (\<lambda>_. ret_op nm) c)
    | None \<Rightarrow> ret_op nm)"

definition get_zone_params :: "codepage \<Rightarrow> u16 \<Rightarrow> zone_params op" where
  "get_zone_params cp1250 zone_id = bind_op (query_zone_internal cp1250 zone_id) (\<lambda>(nm, maybe_params).
    case maybe_params of
      Some params \<Rightarrow> bind_op (emit_op [EvZoneNameReceived zone_id (sn_name nm), EvZoneParamsReceived zone_id params])
        (\<lambda>_. ret_op params)
    | None \<Rightarrow> ret_op \<lparr>zp_zone_id = zone_id, zp_reaction = zone_reaction_from_code 0,
        zp_partition = None, zp_read_at = sn_read_at nm\<rparr>)"

definition get_cached_zone_name :: "client \<Rightarrow> u16 \<Rightarrow> satel_name option" where
  "get_cached_zone_name c zone_id = map_option to_zone_name (get_zone (cl_state c) zone_id)"

definition get_cached_zone_params :: "client \<Rightarrow> u16 \<Rightarrow> zone_params option" where
  "get_cached_zone_params c zone_id = Option.bind (get_zone (cl_state c) zone_id) to_zone_params"

section \<open>Outputs\<close>

definition output_types_to_try :: "bool \<Rightarrow> u8 \<Rightarrow> bool \<Rightarrow> u8 list" where
  "output_types_to_try extended session_type confirmed =
    (if extended then if confirmed then [session_type]
       else if session_type = 17 then [17, 4]
       else [4]
     else [4])"

definition output_store :: "satel_name \<Rightarrow> output_params \<Rightarrow> satel_output \<Rightarrow> satel_output" where
  "output_store nm params x = x\<lparr>o_name := sn_name nm, o_name_read_at := sn_read_at nm,
    o_function := Some (op_function params), o_duration := op_duration params,
    o_control := Some (op_control params), o_params_read_at := Some (op_read_at params)\<rparr>"

definition output_clear :: "timestamp \<Rightarrow> satel_output \<Rightarrow> satel_output" where
  "output_clear now x = x\<lparr>o_name := [], o_name_read_at := now,
    o_function := None, o_duration := None, o_control := None, o_params_read_at := Some now\<rparr>"

definition output_answered :: "codepage \<Rightarrow> u8 \<Rightarrow> u8 \<Rightarrow> bytes \<Rightarrow> (satel_name \<times> output_params) op" where
  "output_answered cp1250 session_type dev_type response c =
    (let c = (if dev_type < session_type then c\<lparr>cl_output_type := dev_type\<rparr> else c);
         c = c\<lparr>cl_output_confirmed := True\<rparr>
     in bind_op (lift_op (process_output_response cp1250 (cl_now c) response))
          (\<lambda>(ident, nm, params). bind_op (store_op (update_output ident (output_store nm params)))
            (\<lambda>_. ret_op (nm, params))) c)"

definition query_output_internal :: "codepage \<Rightarrow> u16 \<Rightarrow> (satel_name \<times> output_params option) op" where
  "query_output_internal cp1250 output_id c =
    (let session_type = cl_output_type c;
         types_to_try = output_types_to_try (cfg_extended_name_read (cl_config c)) session_type (cl_output_confirmed c)
     in bind_op (query_loop (device_number output_id) (output_answered cp1250 session_type) types_to_try)
          (\<lambda>r c. case r of
             Some (nm, params) \<Rightarrow> ret_op (nm, Some params) c
           | None \<Rightarrow> bind_op (store_op (update_output output_id (output_clear (cl_now c))))
               (\<lambda>_. ret_op (\<lparr>sn_name = [], sn_read_at = cl_now c\<rparr>, None)) c) c)"

definition get_output_name :: "codepage \<Rightarrow> u16 \<Rightarrow> satel_name op" where
  "get_output_name cp1250 output_id = bind_op (query_output_internal cp1250 output_id) (\<lambda>(nm, maybe_params).
    case maybe_params of
      Some params \<Rightarrow> (\<lambda>c. bind_op (emit_op (EvOutputNameReceived output_id (sn_name nm)
          # (if cfg_extended_name_read (cl_config c) then [EvOutputParamsReceived output_id params] else [])))
        (\<lambda>_. ret_op nm) c)
    | None \<Rightarrow> ret_op nm)"

definition get_output_params :: "codepage \<Rightarrow> u16 \<Rightarrow> output_params op" where
  "get_output_params cp1250 output_id = bind_op (query_output_internal cp1250 output_id) (\<lambda>(nm, maybe_params).
    case maybe_params of
      Some params \<Rightarrow> bind_op (emit_op [EvOutputNameReceived output_id (sn_name nm), EvOutputParamsReceived output_id params])
        (\<lambda>_. ret_op params)
    | None \<Rightarrow> ret_op \<lparr>op_output_id = output_id, op_function = OfUnused,
        op_duration = None, op_control = ControlNone, op_read_at = sn_read_at nm\<rparr>)"

definition get_cached_output_name :: "client \<Rightarrow> u16 \<Rightarrow> satel_name option" where
  "get_cached_output_name c output_id = map_option to_output_name (get_output (cl_state c) output_id)"

definition get_cached_output_params :: "client \<Rightarrow> u16 \<Rightarrow> output_params option" where
  "get_cached_output_params c output_id = Option.bind (get_output (cl_state c) output_id) to_output_params"

text \<open>The control mode of an output as far as its parameters are cached.\<close>

definition cached_output_control :: "client \<Rightarrow> u16 \<Rightarrow> output_control option" where
  "cached_output_control c output_id = map_option op_control (get_cached_output_params c output_id)"

definition is_output_controllable :: "client \<Rightarrow> u16 \<Rightarrow> bool option" where
  "is_output_controllable c output_id = map_option control_is_controllable (cached_output_control c output_id)"

section \<open>Partitions\<close>

definition partition_types_to_try :: "bool \<Rightarrow> u8 \<Rightarrow> bool \<Rightarrow> u8 list" where
  "partition_types_to_try extended session_type confirmed =
    (if extended then if confirmed then [session_type]
       else if session_type = 19 then [19, 18, 16, 0]
       else if session_type = 18 then [18, 16, 0]
       else if session_type = 16 then [16, 0]
       else [0]
     else [0])"

definition partition_store :: "satel_name \<Rightarrow> partition_params \<Rightarrow> partition \<Rightarrow> partition" where
  "partition_store nm params x = x\<lparr>p_name := sn_name nm, p_name_read_at := sn_read_at nm,
    p_partition_type := Some (pp_partition_type params), p_object_number := pp_object_number params,
    p_options := pp_options params, p_auto_arm_defer := pp_auto_arm_defer params,
    p_dependent_partitions := pp_dependent_partitions params, p_params_read_at := Some (pp_read_at params)\<rparr>"

definition partition_clear :: "timestamp \<Rightarrow> partition \<Rightarrow> partition" where
  "partition_clear now x = x\<lparr>p_name := [], p_name_read_at := now,
    p_partition_type := None, p_object_number := None, p_options := None, p_auto_arm_defer := None,
    p_dependent_partitions := None, p_params_read_at := Some now\<rparr>"

definition partition_answered :: "codepage \<Rightarrow> u8 \<Rightarrow> u8 \<Rightarrow> bytes \<Rightarrow> (satel_name \<times> partition_params) op" where
  "partition_answered cp1250 session_type dev_type response c =
    (let c = (if dev_type < session_type then c\<lparr>cl_partition_type := dev_type\<rparr> else c);
         c = c\<lparr>cl_partition_confirmed := True\<rparr>
     in bind_op (lift_op (process_partition_response cp1250 (cl_now c) response))
          (\<lambda>(ident, nm, params). bind_op (store_op (update_partition ident (partition_store nm params)))
            (\<lambda>_. ret_op (nm, params))) c)"

definition query_partition_internal :: "codepage \<Rightarrow> u16 \<Rightarrow> (satel_name \<times> partition_params option) op" where
  "query_partition_internal cp1250 partition_id c =
    (let session_type = cl_partition_type c;
         types_to_try = partition_types_to_try (cfg_extended_name_read (cl_config c)) session_type (cl_partition_confirmed c)
     in bind_op (query_loop (ucast partition_id) (partition_answered cp1250 session_type) types_to_try)
          (\<lambda>r c. case r of
             Some (nm, params) \<Rightarrow> ret_op (nm, Some params) c
           | None \<Rightarrow> bind_op (store_op (update_partition partition_id (partition_clear (cl_now c))))
               (\<lambda>_. ret_op (\<lparr>sn_name = [], sn_read_at = cl_now c\<rparr>, None)) c) c)"

definition get_partition_name :: "codepage \<Rightarrow> u16 \<Rightarrow> satel_name op" where
  "get_partition_name cp1250 partition_id = bind_op (query_partition_internal cp1250 partition_id) (\<lambda>(nm, maybe_params).
    case maybe_params of
      Some params \<Rightarrow> (\<lambda>c. bind_op (emit_op (EvPartitionNameReceived partition_id (sn_name nm)
          # (if cfg_extended_name_read (cl_config c) then [EvPartitionParamsReceived partition_id params] else [])))
        (\<lambda>_. ret_op nm) c)
    | None \<Rightarrow> ret_op nm)"

definition get_partition_params :: "codepage \<Rightarrow> u16 \<Rightarrow> partition_params op" where
  "get_partition_params cp1250 partition_id = bind_op (query_partition_internal cp1250 partition_id) (\<lambda>(nm, maybe_params).
    case maybe_params of
      Some params \<Rightarrow> bind_op (emit_op [EvPartitionNameReceived partition_id (sn_name nm), EvPartitionParamsReceived partition_id params])
        (\<lambda>_. ret_op params)
    | None \<Rightarrow> ret_op \<lparr>pp_partition_id = partition_id, pp_partition_type = PtNormal,
        pp_object_number = None, pp_options = None, pp_auto_arm_defer = None,
        pp_dependent_partitions = None, pp_read_at = sn_read_at nm\<rparr>)"

definition get_cached_partition_name :: "client \<Rightarrow> u16 \<Rightarrow> satel_name option" where
  "get_cached_partition_name c partition_id = map_option to_partition_name (get_partition (cl_state c) partition_id)"

definition get_cached_partition_params :: "client \<Rightarrow> u16 \<Rightarrow> partition_params option" where
  "get_cached_partition_params c partition_id = Option.bind (get_partition (cl_state c) partition_id) to_partition_params"

section \<open>Synchronisation\<close>

text \<open>The loop over the numbers: successes so far and the last error.\<close>

fun sync_loop ::
  "sync_category \<Rightarrow> u16 \<Rightarrow> (u16 \<Rightarrow> satel_name op) \<Rightarrow> u16 list \<Rightarrow> u16 \<times> satel_error option \<Rightarrow> client
    \<Rightarrow> (u16 \<times> satel_error option) \<times> client" where
  "sync_loop category count query [] acc c = (acc, c)"
| "sync_loop category count query (ident # idents) (success_count, last_error) c =
    (case query ident c of
       (Inr res, c') \<Rightarrow> sync_loop category count query idents (success_count + 1, last_error)
         (c'\<lparr>cl_events := cl_events c' @ [EvSyncProgress category ident count (sn_name res)]\<rparr>)
     | (Inl e, c') \<Rightarrow> sync_loop category count query idents (success_count, Some e) c')"

definition one_to :: "u16 \<Rightarrow> u16 list" where
  "one_to count = map word_of_nat [1..<Suc (unat count)]"

definition sync_all :: "sync_category \<Rightarrow> u16 \<Rightarrow> (u16 \<Rightarrow> satel_name op) \<Rightarrow> bool op" where
  "sync_all category count query = bind_op (emit_op [EvSyncStarted category count]) (\<lambda>_ c.
    (case sync_loop category count query (one_to count) (0, None) c of
       ((success_count, last_error), c') \<Rightarrow>
         bind_op (emit_op [EvSyncFinished category count success_count (map_option error_text last_error)])
           (\<lambda>_. case last_error of
              Some err \<Rightarrow> if success_count = 0 then lift_op (Inl err) else ret_op True
            | None \<Rightarrow> ret_op True) c'))"

definition get_all_zone_names :: "codepage \<Rightarrow> bool op" where
  "get_all_zone_names cp1250 c = (case get_cached_version c of
     None \<Rightarrow> (Inl PanelVersionUnknown, c)
   | Some version \<Rightarrow> if iv_io_count version = 0 then (Inl PanelVersionUnknown, c)
       else sync_all SyncZones (iv_io_count version) (get_zone_name cp1250) c)"

definition get_all_output_names :: "codepage \<Rightarrow> bool op" where
  "get_all_output_names cp1250 c = (case get_cached_version c of
     None \<Rightarrow> (Inl PanelVersionUnknown, c)
   | Some version \<Rightarrow> if iv_io_count version = 0 then (Inl PanelVersionUnknown, c)
       else sync_all SyncOutputs (iv_io_count version) (get_output_name cp1250) c)"

definition get_all_partition_names :: "codepage \<Rightarrow> bool op" where
  "get_all_partition_names cp1250 c = (case get_cached_version c of
     None \<Rightarrow> (Inl PanelVersionUnknown, c)
   | Some version \<Rightarrow>
       if iv_io_count version = 0 \<or> iv_partition_count version = 0 then (Inl PanelVersionUnknown, c)
       else sync_all SyncPartitions (iv_partition_count version) (get_partition_name cp1250) c)"

section \<open>Laws\<close>

text \<open>An exchange moves only the queues and the clock.\<close>

definition same_core :: "client \<Rightarrow> client \<Rightarrow> bool" where
  "same_core c c1 = (c1 = c\<lparr>cl_sent := cl_sent c1, cl_answers := cl_answers c1, cl_now := cl_now c1\<rparr>)"

lemma same_core_refl: "same_core c c"
  by (simp add: same_core_def)

lemma same_core_trans: "same_core a b \<Longrightarrow> same_core b c \<Longrightarrow> same_core a c"
  unfolding same_core_def by (cases a; cases b; cases c) simp

lemma same_core_fields:
  assumes "same_core c c1"
  shows "cl_config c1 = cl_config c" "cl_state c1 = cl_state c" "cl_events c1 = cl_events c"
    "cl_zone_type c1 = cl_zone_type c" "cl_output_type c1 = cl_output_type c"
    "cl_partition_type c1 = cl_partition_type c" "cl_zone_confirmed c1 = cl_zone_confirmed c"
    "cl_output_confirmed c1 = cl_output_confirmed c" "cl_partition_confirmed c1 = cl_partition_confirmed c"
  using assms unfolding same_core_def by (cases c; cases c1; simp)+

lemma exchange_core:
  "exchange data wt rt c = (r, c') \<Longrightarrow> same_core c c' \<and> length (cl_sent c') = length (cl_sent c) + 1"
  by (auto simp: exchange_def send_message_def take_answer_def op_defs Let_def same_core_def
      split: list.splits prod.splits)

text \<open>
  The query loop ends with no answer, with an error, or in the answer of one of the device types; it
  sends at most one request for each type.
\<close>

lemma query_loop_cases:
  "query_loop device_id answered types c = (r, c') \<Longrightarrow>
    \<exists>c1. same_core c c1 \<and> length (cl_sent c1) \<le> length (cl_sent c) + length types
      \<and> (c' = c1 \<and> (\<forall>x. r \<noteq> Inr (Some x))
         \<or> (\<exists>t \<in> set types. \<exists>response a. answered t response c1 = (a, c') \<and> r = map_sum id Some a))"
proof (induction types arbitrary: c)
  case Nil
  then show ?case by (auto simp: ret_op_def same_core_refl)
next
  case (Cons t types)
  obtain e c1 where ex: "exchange [command_to_byte ReadDeviceName, t, device_id] None None c = (e, c1)"
    by (metis prod.collapse)
  from exchange_core [OF ex] have core: "same_core c c1" "length (cl_sent c1) = length (cl_sent c) + 1" by auto
  show ?case
  proof (cases e)
    case (Inl err)
    with Cons.prems ex core show ?thesis by (auto simp: bind_op_def intro!: exI [of _ c1])
  next
    case (Inr response)
    consider (refused) "response \<noteq> []" "hd response = command_to_byte ResultCode"
      | (name) "response \<noteq> []" "hd response = command_to_byte ReadDeviceName"
      | (other) "\<not> (response \<noteq> [] \<and> hd response = command_to_byte ResultCode)"
          "\<not> (response \<noteq> [] \<and> hd response = command_to_byte ReadDeviceName)"
      by blast
    then show ?thesis
    proof cases
      case refused
      with Cons.prems ex Inr have "query_loop device_id answered types c1 = (r, c')"
        by (simp add: bind_op_def)
      from Cons.IH [OF this] obtain c2 where c2: "same_core c1 c2"
        "length (cl_sent c2) \<le> length (cl_sent c1) + length types"
        "c' = c2 \<and> (\<forall>x. r \<noteq> Inr (Some x))
         \<or> (\<exists>t \<in> set types. \<exists>response a. answered t response c2 = (a, c') \<and> r = map_sum id Some a)"
        by blast
      have len: "length (cl_sent c2) \<le> length (cl_sent c) + length (t # types)"
        using c2(2) core(2) by simp
      have "c' = c2 \<and> (\<forall>x. r \<noteq> Inr (Some x))
         \<or> (\<exists>t \<in> set (t # types). \<exists>response a. answered t response c2 = (a, c') \<and> r = map_sum id Some a)"
        using c2(3) by (metis list.set_intros(2))
      then show ?thesis using len same_core_trans [OF core(1) c2(1)] by blast
    next
      case name
      obtain a c2 where "answered t response c1 = (a, c2)" by (metis prod.collapse)
      moreover from this name Cons.prems ex Inr have "c' = c2" "r = map_sum id Some a"
        by (auto simp: bind_op_def ret_op_def split: sum.splits)
      ultimately have "\<exists>t' \<in> set (t # types). \<exists>response a. answered t' response c1 = (a, c') \<and> r = map_sum id Some a"
        by (metis list.set_intros(1))
      moreover have "length (cl_sent c1) \<le> length (cl_sent c) + length (t # types)" using core by simp
      ultimately show ?thesis using core(1) by blast
    next
      case other
      with Cons.prems ex Inr have "c' = c1" "r = Inl InvalidFrame"
        by (auto simp: bind_op_def lift_op_def)
      with core show ?thesis by (auto intro!: exI [of _ c1])
    qed
  qed
qed

lemma zone_answered_frame:
  "zone_answered cp st t response c = (r, c') \<Longrightarrow>
    cl_sent c' = cl_sent c \<and> cl_events c' = cl_events c \<and> cl_config c' = cl_config c
    \<and> cl_zone_confirmed c' \<and> cl_zone_type c' = (if t < st then t else cl_zone_type c)
    \<and> cl_output_type c' = cl_output_type c \<and> cl_output_confirmed c' = cl_output_confirmed c \<and> cl_partition_type c' = cl_partition_type c \<and> cl_partition_confirmed c' = cl_partition_confirmed c"
  by (auto simp: zone_answered_def store_op_def op_defs Let_def split: sum.splits prod.splits if_splits)

lemma query_zone_cases:
  assumes "query_zone_internal cp ident c = (r, c')"
  shows "length (cl_sent c') \<le> length (cl_sent c) + length (zone_types_to_try
      (cfg_extended_name_read (cl_config c)) (cl_zone_type c) (cl_zone_confirmed c))
    \<and> cl_events c' = cl_events c \<and> cl_config c' = cl_config c
    \<and> cl_output_type c' = cl_output_type c \<and> cl_output_confirmed c' = cl_output_confirmed c \<and> cl_partition_type c' = cl_partition_type c \<and> cl_partition_confirmed c' = cl_partition_confirmed c
    \<and> (cl_zone_type c' = cl_zone_type c \<and> cl_zone_confirmed c' = cl_zone_confirmed c
       \<or> (\<exists>t \<in> set (zone_types_to_try (cfg_extended_name_read (cl_config c)) (cl_zone_type c) (cl_zone_confirmed c)).
            cl_zone_type c' = (if t < cl_zone_type c then t else cl_zone_type c) \<and> cl_zone_confirmed c'))"
proof -
  let ?types = "zone_types_to_try (cfg_extended_name_read (cl_config c)) (cl_zone_type c) (cl_zone_confirmed c)"
  let ?loop = "\<lambda>d. query_loop d (zone_answered cp (cl_zone_type c)) ?types c"
  obtain d q c2 where loop: "?loop d = (q, c2)"
    and rest: "cl_sent c' = cl_sent c2" "cl_events c' = cl_events c2" "cl_config c' = cl_config c2"
      "cl_zone_type c' = cl_zone_type c2" "cl_zone_confirmed c' = cl_zone_confirmed c2"
      "cl_output_type c' = cl_output_type c2" "cl_partition_type c' = cl_partition_type c2"
      "cl_output_confirmed c' = cl_output_confirmed c2" "cl_partition_confirmed c' = cl_partition_confirmed c2"
    using assms unfolding query_zone_internal_def Let_def
    by (auto simp: bind_op_def store_op_def cache_op_def ret_op_def split: prod.splits sum.splits option.splits)
  from query_loop_cases [OF loop] obtain c1 where c1: "same_core c c1"
    "length (cl_sent c1) \<le> length (cl_sent c) + length ?types"
    "c2 = c1 \<or> (\<exists>t \<in> set ?types. \<exists>response a. zone_answered cp (cl_zone_type c) t response c1 = (a, c2))"
    by blast
  from c1(3) show ?thesis
  proof
    assume "c2 = c1"
    then show ?thesis using rest c1(2) same_core_fields [OF c1(1)] by simp
  next
    assume "\<exists>t \<in> set ?types. \<exists>response a. zone_answered cp (cl_zone_type c) t response c1 = (a, c2)"
    then obtain t response a where t: "t \<in> set ?types"
      and a: "zone_answered cp (cl_zone_type c) t response c1 = (a, c2)" by blast
    from zone_answered_frame [OF a] t show ?thesis
      using rest c1(2) same_core_fields [OF c1(1)] by auto
  qed
qed

lemma output_answered_frame:
  "output_answered cp st t response c = (r, c') \<Longrightarrow>
    cl_sent c' = cl_sent c \<and> cl_events c' = cl_events c \<and> cl_config c' = cl_config c
    \<and> cl_output_confirmed c' \<and> cl_output_type c' = (if t < st then t else cl_output_type c)
    \<and> cl_zone_type c' = cl_zone_type c \<and> cl_zone_confirmed c' = cl_zone_confirmed c \<and> cl_partition_type c' = cl_partition_type c \<and> cl_partition_confirmed c' = cl_partition_confirmed c"
  by (auto simp: output_answered_def store_op_def op_defs Let_def split: sum.splits prod.splits if_splits)

lemma query_output_cases:
  assumes "query_output_internal cp ident c = (r, c')"
  shows "length (cl_sent c') \<le> length (cl_sent c) + length (output_types_to_try
      (cfg_extended_name_read (cl_config c)) (cl_output_type c) (cl_output_confirmed c))
    \<and> cl_events c' = cl_events c \<and> cl_config c' = cl_config c
    \<and> cl_zone_type c' = cl_zone_type c \<and> cl_zone_confirmed c' = cl_zone_confirmed c \<and> cl_partition_type c' = cl_partition_type c \<and> cl_partition_confirmed c' = cl_partition_confirmed c
    \<and> (cl_output_type c' = cl_output_type c \<and> cl_output_confirmed c' = cl_output_confirmed c
       \<or> (\<exists>t \<in> set (output_types_to_try (cfg_extended_name_read (cl_config c)) (cl_output_type c) (cl_output_confirmed c)).
            cl_output_type c' = (if t < cl_output_type c then t else cl_output_type c) \<and> cl_output_confirmed c'))"
proof -
  let ?types = "output_types_to_try (cfg_extended_name_read (cl_config c)) (cl_output_type c) (cl_output_confirmed c)"
  let ?loop = "\<lambda>d. query_loop d (output_answered cp (cl_output_type c)) ?types c"
  obtain d q c2 where loop: "?loop d = (q, c2)"
    and rest: "cl_sent c' = cl_sent c2" "cl_events c' = cl_events c2" "cl_config c' = cl_config c2"
      "cl_output_type c' = cl_output_type c2" "cl_output_confirmed c' = cl_output_confirmed c2"
      "cl_zone_type c' = cl_zone_type c2" "cl_partition_type c' = cl_partition_type c2"
      "cl_zone_confirmed c' = cl_zone_confirmed c2" "cl_partition_confirmed c' = cl_partition_confirmed c2"
    using assms unfolding query_output_internal_def Let_def
    by (auto simp: bind_op_def store_op_def cache_op_def ret_op_def split: prod.splits sum.splits option.splits)
  from query_loop_cases [OF loop] obtain c1 where c1: "same_core c c1"
    "length (cl_sent c1) \<le> length (cl_sent c) + length ?types"
    "c2 = c1 \<or> (\<exists>t \<in> set ?types. \<exists>response a. output_answered cp (cl_output_type c) t response c1 = (a, c2))"
    by blast
  from c1(3) show ?thesis
  proof
    assume "c2 = c1"
    then show ?thesis using rest c1(2) same_core_fields [OF c1(1)] by simp
  next
    assume "\<exists>t \<in> set ?types. \<exists>response a. output_answered cp (cl_output_type c) t response c1 = (a, c2)"
    then obtain t response a where t: "t \<in> set ?types"
      and a: "output_answered cp (cl_output_type c) t response c1 = (a, c2)" by blast
    from output_answered_frame [OF a] t show ?thesis
      using rest c1(2) same_core_fields [OF c1(1)] by auto
  qed
qed

lemma partition_answered_frame:
  "partition_answered cp st t response c = (r, c') \<Longrightarrow>
    cl_sent c' = cl_sent c \<and> cl_events c' = cl_events c \<and> cl_config c' = cl_config c
    \<and> cl_partition_confirmed c' \<and> cl_partition_type c' = (if t < st then t else cl_partition_type c)
    \<and> cl_zone_type c' = cl_zone_type c \<and> cl_zone_confirmed c' = cl_zone_confirmed c \<and> cl_output_type c' = cl_output_type c \<and> cl_output_confirmed c' = cl_output_confirmed c"
  by (auto simp: partition_answered_def store_op_def op_defs Let_def split: sum.splits prod.splits if_splits)

lemma query_partition_cases:
  assumes "query_partition_internal cp ident c = (r, c')"
  shows "length (cl_sent c') \<le> length (cl_sent c) + length (partition_types_to_try
      (cfg_extended_name_read (cl_config c)) (cl_partition_type c) (cl_partition_confirmed c))
    \<and> cl_events c' = cl_events c \<and> cl_config c' = cl_config c
    \<and> cl_zone_type c' = cl_zone_type c \<and> cl_zone_confirmed c' = cl_zone_confirmed c \<and> cl_output_type c' = cl_output_type c \<and> cl_output_confirmed c' = cl_output_confirmed c
    \<and> (cl_partition_type c' = cl_partition_type c \<and> cl_partition_confirmed c' = cl_partition_confirmed c
       \<or> (\<exists>t \<in> set (partition_types_to_try (cfg_extended_name_read (cl_config c)) (cl_partition_type c) (cl_partition_confirmed c)).
            cl_partition_type c' = (if t < cl_partition_type c then t else cl_partition_type c) \<and> cl_partition_confirmed c'))"
proof -
  let ?types = "partition_types_to_try (cfg_extended_name_read (cl_config c)) (cl_partition_type c) (cl_partition_confirmed c)"
  let ?loop = "\<lambda>d. query_loop d (partition_answered cp (cl_partition_type c)) ?types c"
  obtain d q c2 where loop: "?loop d = (q, c2)"
    and rest: "cl_sent c' = cl_sent c2" "cl_events c' = cl_events c2" "cl_config c' = cl_config c2"
      "cl_partition_type c' = cl_partition_type c2" "cl_partition_confirmed c' = cl_partition_confirmed c2"
      "cl_zone_type c' = cl_zone_type c2" "cl_output_type c' = cl_output_type c2"
      "cl_zone_confirmed c' = cl_zone_confirmed c2" "cl_output_confirmed c' = cl_output_confirmed c2"
    using assms unfolding query_partition_internal_def Let_def
    by (auto simp: bind_op_def store_op_def cache_op_def ret_op_def split: prod.splits sum.splits option.splits)
  from query_loop_cases [OF loop] obtain c1 where c1: "same_core c c1"
    "length (cl_sent c1) \<le> length (cl_sent c) + length ?types"
    "c2 = c1 \<or> (\<exists>t \<in> set ?types. \<exists>response a. partition_answered cp (cl_partition_type c) t response c1 = (a, c2))"
    by blast
  from c1(3) show ?thesis
  proof
    assume "c2 = c1"
    then show ?thesis using rest c1(2) same_core_fields [OF c1(1)] by simp
  next
    assume "\<exists>t \<in> set ?types. \<exists>response a. partition_answered cp (cl_partition_type c) t response c1 = (a, c2)"
    then obtain t response a where t: "t \<in> set ?types"
      and a: "partition_answered cp (cl_partition_type c) t response c1 = (a, c2)" by blast
    from partition_answered_frame [OF a] t show ?thesis
      using rest c1(2) same_core_fields [OF c1(1)] by auto
  qed
qed

text \<open>
  C32. The query session of the partitions only ever goes down its chain of device types. From a
  session type 19, 18, 16 or 0 every query sends at most four requests (exactly one when the session
  is confirmed), ends in a session type of the chain that is not higher, never loses a confirmation
  or changes a confirmed type, and leaves the other sessions, the configuration and the event log
  alone.
\<close>

theorem partition_session_descends:
  assumes "cl_partition_type c \<in> {19, 18, 16, 0}" and "query_partition_internal cp ident c = (r, c')"
  shows "length (cl_sent c') \<le> length (cl_sent c) + 4
    \<and> cl_partition_type c' \<in> {19, 18, 16, 0} \<and> cl_partition_type c' \<le> cl_partition_type c
    \<and> (if cl_partition_confirmed c \<and> cfg_extended_name_read (cl_config c)
       then cl_partition_confirmed c' \<and> cl_partition_type c' = cl_partition_type c
         \<and> length (cl_sent c') \<le> length (cl_sent c) + 1
       else True)
    \<and> cl_zone_type c' = cl_zone_type c \<and> cl_output_type c' = cl_output_type c
    \<and> cl_config c' = cl_config c \<and> cl_events c' = cl_events c"
proof -
  let ?types = "partition_types_to_try (cfg_extended_name_read (cl_config c)) (cl_partition_type c) (cl_partition_confirmed c)"
  note q = query_partition_cases [OF assms(2)]
  have down: "t \<in> {19, 18, 16, 0}" if "t \<in> set ?types" for t
    using that assms(1) by (auto simp: partition_types_to_try_def split: if_splits)
  have len: "length ?types \<le> 4"
    by (simp add: partition_types_to_try_def)
  have confirmed: "?types = [cl_partition_type c]"
    if "cl_partition_confirmed c \<and> cfg_extended_name_read (cl_config c)"
    using that by (simp add: partition_types_to_try_def)
  have ty: "cl_partition_type c' \<in> {19, 18, 16, 0} \<and> cl_partition_type c' \<le> cl_partition_type c"
    using q assms(1) down by (metis less_imp_le order_refl)
  have conf: "cl_partition_confirmed c' \<and> cl_partition_type c' = cl_partition_type c
      \<and> length (cl_sent c') \<le> length (cl_sent c) + 1"
    if "cl_partition_confirmed c \<and> cfg_extended_name_read (cl_config c)"
    using q that confirmed [OF that] by auto
  show ?thesis using q len ty conf by (simp add: le_trans)
qed

theorem partition_session_descends_witness:
  "case query_partition_internal (\<lambda>_. ([], False)) 1 ((client_new 0 0 config_default)\<lparr>cl_answers := [(Inr [0xEF, 8], 1)]\<rparr>) of
     (r, c') \<Rightarrow> cl_partition_type c' \<in> {19, 18, 16, 0} \<and> length (cl_sent c') \<le> 4"
  using partition_session_descends [of "(client_new 0 0 config_default)\<lparr>cl_answers := [(Inr [0xEF, 8], 1)]\<rparr>" "\<lambda>_. ([], False)" 1]
  by (auto simp: client_new_def partition_type_for_def split: prod.splits)

section \<open>The synchronisation reports\<close>

definition is_sync :: "satel_event \<Rightarrow> bool" where
  "is_sync ev = (case ev of EvSyncStarted _ _ \<Rightarrow> True | EvSyncProgress _ _ _ _ \<Rightarrow> True
     | EvSyncFinished _ _ _ _ \<Rightarrow> True | _ \<Rightarrow> False)"

definition sync_events :: "client \<Rightarrow> satel_event list" where
  "sync_events c = filter is_sync (cl_events c)"

text \<open>
  What a synchronisation announces: its start, one step for each element that answered, in the order
  of the numbers, and its end with the number of steps; an error text exactly if an element failed.
  It fails exactly if every element did.
\<close>

definition sync_report :: "sync_category \<Rightarrow> u16 \<Rightarrow> client \<Rightarrow> bool satel_result \<times> client \<Rightarrow> bool" where
  "sync_report category count c out =
    (\<exists>ps err. sync_events (snd out) = sync_events c @ [EvSyncStarted category count]
        @ map (\<lambda>(ident, nm). EvSyncProgress category ident count nm) ps
        @ [EvSyncFinished category count (word_of_nat (length ps)) (map_option error_text err)]
      \<and> subseq (map fst ps) (one_to count) \<and> length ps \<le> unat count
      \<and> (err = None \<longleftrightarrow> length ps = unat count)
      \<and> fst out = (case err of Some e \<Rightarrow> if ps = [] then Inl e else Inr True | None \<Rightarrow> Inr True))"

locale sync_query =
  fixes query :: "u16 \<Rightarrow> satel_name op"
  assumes quiet: "query ident c = (r, c') \<Longrightarrow> sync_events c' = sync_events c"
begin

lemma sync_loop_steps:
  "sync_loop category count query idents (n, e) c = ((n', e'), c') \<Longrightarrow>
    \<exists>ps. sync_events c' = sync_events c @ map (\<lambda>(ident, nm). EvSyncProgress category ident count nm) ps
      \<and> subseq (map fst ps) idents \<and> n' = n + word_of_nat (length ps)
      \<and> (if length ps = length idents then e' = e else e' \<noteq> None)"
proof (induction idents arbitrary: n e c)
  case Nil
  then show ?case by simp
next
  case (Cons ident idents)
  obtain q c1 where q: "query ident c = (q, c1)" by (metis prod.collapse)
  note quiet1 = quiet [OF q]
  show ?case
  proof (cases q)
    case (Inl err)
    with Cons.prems q have "sync_loop category count query idents (n, Some err) c1 = ((n', e'), c')" by simp
    from Cons.IH [OF this] obtain ps where ps: "sync_events c' = sync_events c1
        @ map (\<lambda>(ident, nm). EvSyncProgress category ident count nm) ps"
      "subseq (map fst ps) idents" "n' = n + word_of_nat (length ps)"
      "if length ps = length idents then e' = Some err else e' \<noteq> None" by blast
    from list_emb_length [OF ps(2)] have "length ps \<noteq> length (ident # idents)" by simp
    with ps quiet1 show ?thesis by (intro exI [of _ ps]) (auto split: if_splits)
  next
    case (Inr res)
    let ?c = "c1\<lparr>cl_events := cl_events c1 @ [EvSyncProgress category ident count (sn_name res)]\<rparr>"
    from Inr Cons.prems q have "sync_loop category count query idents (n + 1, e) ?c = ((n', e'), c')" by simp
    from Cons.IH [OF this] obtain ps where ps: "sync_events c' = sync_events ?c
        @ map (\<lambda>(ident, nm). EvSyncProgress category ident count nm) ps"
      "subseq (map fst ps) idents" "n' = n + 1 + word_of_nat (length ps)"
      "if length ps = length idents then e' = e else e' \<noteq> None" by blast
    have "sync_events ?c = sync_events c @ [EvSyncProgress category ident count (sn_name res)]"
      using quiet1 by (simp add: sync_events_def is_sync_def)
    with ps show ?thesis
      by (intro exI [of _ "(ident, sn_name res) # ps"]) (auto simp: add.assoc split: if_splits)
  qed
qed

lemma sync_all_report:
  "sync_report category count c (sync_all category count query c)"
proof -
  let ?c = "c\<lparr>cl_events := cl_events c @ [EvSyncStarted category count]\<rparr>"
  obtain n e c1 where loop: "sync_loop category count query (one_to count) (0, None) ?c = ((n, e), c1)"
    by (metis prod.collapse)
  from sync_loop_steps [OF this] obtain ps where ps: "sync_events c1 = sync_events ?c
      @ map (\<lambda>(ident, nm). EvSyncProgress category ident count nm) ps"
    "subseq (map fst ps) (one_to count)" "n = word_of_nat (length ps)"
    "if length ps = length (one_to count) then e = None else e \<noteq> None" by auto
  have count: "length (one_to count) = unat count" by (simp add: one_to_def)
  have len: "length ps \<le> unat count"
    using list_emb_length [OF ps(2)] count by simp
  have zero: "n = 0 \<longleftrightarrow> ps = []"
  proof -
    have "unat count < 65536" using unsigned_less [of count] by simp
    then have "unat n = length ps"
      using len ps(3) by (simp add: unsigned_of_nat take_bit_nat_eq_self)
    then show ?thesis by (metis length_0_conv unsigned_0 unsigned_eq_0_iff)
  qed
  have start: "sync_events ?c = sync_events c @ [EvSyncStarted category count]"
    by (simp add: sync_events_def is_sync_def)
  let ?c2 = "c1\<lparr>cl_events := cl_events c1 @ [EvSyncFinished category count n (map_option error_text e)]\<rparr>"
  have out: "sync_all category count query c =
      (case e of Some err \<Rightarrow> if ps = [] then Inl err else Inr True | None \<Rightarrow> Inr True, ?c2)"
    using loop zero by (simp add: sync_all_def op_defs split: option.splits)
  have finish: "sync_events ?c2 = sync_events c1 @ [EvSyncFinished category count n (map_option error_text e)]"
    by (simp add: sync_events_def is_sync_def)
  show ?thesis
    unfolding sync_report_def out fst_conv snd_conv finish
    using ps start len count by (intro exI [of _ ps] exI [of _ e]) (auto split: if_splits)
qed

end

lemma sync_events_same: "cl_events c' = cl_events c \<Longrightarrow> sync_events c' = sync_events c"
  by (simp add: sync_events_def)

lemma get_zone_name_quiet: "get_zone_name cp ident c = (r, c') \<Longrightarrow> sync_events c' = sync_events c"
  by (auto simp: get_zone_name_def op_defs sync_events_def is_sync_def
      split: prod.splits sum.splits option.splits if_splits dest!: query_zone_cases)

lemma get_output_name_quiet: "get_output_name cp ident c = (r, c') \<Longrightarrow> sync_events c' = sync_events c"
  by (auto simp: get_output_name_def op_defs sync_events_def is_sync_def
      split: prod.splits sum.splits option.splits if_splits dest!: query_output_cases)

lemma get_partition_name_quiet: "get_partition_name cp ident c = (r, c') \<Longrightarrow> sync_events c' = sync_events c"
  by (auto simp: get_partition_name_def op_defs sync_events_def is_sync_def
      split: prod.splits sum.splits option.splits if_splits dest!: query_partition_cases)

interpretation sync_zones: sync_query "get_zone_name cp" for cp
  by unfold_locales (rule get_zone_name_quiet)

interpretation sync_outputs: sync_query "get_output_name cp" for cp
  by unfold_locales (rule get_output_name_quiet)

interpretation sync_partitions: sync_query "get_partition_name cp" for cp
  by unfold_locales (rule get_partition_name_quiet)

text \<open>
  C25. The synchronisations of the names. Without a known panel version, or with one that has no
  elements, they fail and announce nothing. Otherwise each announces its start, one step for every
  element that answered, in the order of the numbers, and its end with the number of steps (the
  16-bit counter never wraps) and with an error text exactly if some element failed; the result is
  an error only if every element failed.
\<close>

theorem sync_reports:
  "case get_cached_version c of
     None \<Rightarrow> get_all_zone_names cp c = (Inl PanelVersionUnknown, c)
       \<and> get_all_output_names cp c = (Inl PanelVersionUnknown, c)
       \<and> get_all_partition_names cp c = (Inl PanelVersionUnknown, c)
   | Some v \<Rightarrow> if iv_io_count v = 0
       then get_all_zone_names cp c = (Inl PanelVersionUnknown, c)
         \<and> get_all_output_names cp c = (Inl PanelVersionUnknown, c)
         \<and> get_all_partition_names cp c = (Inl PanelVersionUnknown, c)
       else sync_report SyncZones (iv_io_count v) c (get_all_zone_names cp c)
         \<and> sync_report SyncOutputs (iv_io_count v) c (get_all_output_names cp c)
         \<and> (if iv_partition_count v = 0
            then get_all_partition_names cp c = (Inl PanelVersionUnknown, c)
            else sync_report SyncPartitions (iv_partition_count v) c (get_all_partition_names cp c))"
  by (simp add: get_all_zone_names_def get_all_output_names_def get_all_partition_names_def
      sync_zones.sync_all_report sync_outputs.sync_all_report sync_partitions.sync_all_report
      split: option.splits)

section \<open>The number in an answer\<close>

lemma zone_types_nonempty: "zone_types_to_try extended session_type confirmed \<noteq> []"
  by (simp add: zone_types_to_try_def)

lemma zone_answered_Inr:
  assumes "process_zone_response cp (cl_now c) response = Inr (ident, nm, params)"
  shows "\<exists>c'. zone_answered cp session_type t response c = (Inr (nm, params), c')
    \<and> cl_state c' = update_zone ident (zone_store nm params) (cl_state c) \<and> cl_events c' = cl_events c
    \<and> cl_config c' = cl_config c"
  using assms by (simp add: zone_answered_def store_op_def op_defs Let_def)

lemma get_zone_other:
  "element_index 256 i \<noteq> element_index 256 j \<Longrightarrow> get_zone (update_zone i f s) j = get_zone s j"
  by (simp add: get_zone_def update_zone_def update_element_def get_def)

text \<open>
  C33. A name query does not check that the answer is about the zone it asked for: an answer about
  another zone, such as the late answer to an earlier query that timed out, is returned and announced
  as the name of the zone asked for, while the cache stores it with the zone in the answer and keeps
  what it had for the zone asked for.
\<close>

theorem zone_answer_unchecked:
  assumes "cl_answers c = (Inr response, t) # rest" and "response \<noteq> []" and "hd response = 0xEE"
    and "process_zone_response cp t response = Inr (ident, nm, params)"
    and "element_index 256 ident \<noteq> element_index 256 zone_id"
  shows "case get_zone_name cp zone_id c of (r, c') \<Rightarrow>
    r = Inr nm \<and> EvZoneNameReceived zone_id (sn_name nm) \<in> set (cl_events c')
    \<and> cl_state c' = update_zone ident (zone_store nm params) (cl_state c)
    \<and> get_cached_zone_name c' zone_id = get_cached_zone_name c zone_id"
proof -
  let ?types = "zone_types_to_try (cfg_extended_name_read (cl_config c)) (cl_zone_type c) (cl_zone_confirmed c)"
  obtain ty types where types: "?types = ty # types" by (meson neq_Nil_conv zone_types_nonempty)
  obtain c1 where ex: "exchange [0xEE, ty, device_number zone_id] None None c = (Inr response, c1)"
    and c1: "cl_state c1 = cl_state c" "cl_events c1 = cl_events c" "cl_config c1 = cl_config c" "cl_now c1 = t"
    using exchange_answer [OF assms(1)] by simp
  from zone_answered_Inr [of cp c1 response ident nm params "cl_zone_type c" ty] assms(4) c1(4) obtain c2 where
    answered: "zone_answered cp (cl_zone_type c) ty response c1 = (Inr (nm, params), c2)"
    and c2: "cl_state c2 = update_zone ident (zone_store nm params) (cl_state c)" "cl_events c2 = cl_events c"
    using c1 by auto
  have "query_loop (device_number zone_id) (zone_answered cp (cl_zone_type c)) ?types c = (Inr (Some (nm, params)), c2)"
    using assms(2,3) answered by (simp add: types bind_op_def ex answered ret_op_def)
  then have "query_zone_internal cp zone_id c = (Inr (nm, Some params), c2)"
    by (simp add: query_zone_internal_def Let_def bind_op_def ret_op_def)
  then show ?thesis
    using c2 get_zone_other [OF assms(5)]
    by (simp add: get_zone_name_def bind_op_def emit_op_def modify_op_def ret_op_def get_cached_zone_name_def)
qed

theorem zone_answer_unchecked_witness:
  "let c = (client_new 0 0 config_default)\<lparr>cl_answers := [(Inr (0xEE # 5 # 2 # replicate 18 0x20), 9)]\<rparr>;
       c' = snd (get_zone_name (\<lambda>bs. (map unat bs, False)) 1 c)
   in (\<exists>nm. EvZoneNameReceived 1 nm \<in> set (cl_events c')) \<and> get_cached_zone_name c' 1 = get_cached_zone_name c 1"
proof -
  let ?c = "(client_new 0 0 config_default)\<lparr>cl_answers := [(Inr (0xEE # 5 # 2 # replicate 18 0x20), 9)]\<rparr>"
  let ?cp = "\<lambda>bs :: bytes. (map unat bs, False)"
  obtain nm params where "process_zone_response ?cp 9 (0xEE # 5 # 2 # replicate 18 0x20) = Inr (2, nm, params)"
    by (simp add: process_zone_response_def frame_data_def Let_def)
  from zone_answer_unchecked [OF _ _ _ this, where c = ?c and rest = "[]" and zone_id = 1] show ?thesis
    by (auto simp: element_index_def case_prod_beta Let_def)
qed

end
