(* ===== verification/Temperature.thy ===== *)
theory Temperature
  imports Client_Names
begin

text \<open>
  The temperature sensors: the error counters of \<open>src/src/client_internal.rs\<close> and the queries of
  \<open>src/src/client.rs\<close> (command 0x7D) with the blocking of faulty sensors. A sensor is blocked when a
  counter of consecutive errors reaches its limit; a blocked sensor is not queried and, where the probe
  allows it, tried again after a number of refused queries. The counters are 32-bit words and wrap,
  as in a release build. The temperatures are multiples of one half, so they are exact.
\<close>

section \<open>Limits and errors\<close>

record temp_limits =
  max_timeout_errors :: u32
  max_sensor_errors :: u32
  unblock_enabled :: bool
  unblock_after_cycles :: u32

definition temp_limits_of :: "config \<Rightarrow> u16 \<Rightarrow> temp_limits" where
  "temp_limits_of cfg zone_id =
    (case find (\<lambda>p. probe_zone_id p = zone_id) (cfg_temperature_probes cfg) of
       Some probe \<Rightarrow> \<lparr>max_timeout_errors = probe_max_timeout_errors probe,
         max_sensor_errors = probe_max_sensor_errors probe,
         unblock_enabled = probe_unblock_enabled probe,
         unblock_after_cycles = probe_unblock_after_cycles probe\<rparr>
     | None \<Rightarrow> \<lparr>max_timeout_errors = cfg_temp_max_timeout_errors cfg,
         max_sensor_errors = cfg_temp_max_sensor_errors cfg,
         unblock_enabled = False,
         unblock_after_cycles = min_unblock_after_cycles\<rparr>)"

text \<open>The zone after an error and the status that is reported.\<close>

definition temp_error_zone :: "temp_limits \<Rightarrow> satel_error \<Rightarrow> zone \<Rightarrow> zone \<times> temperature_sensor_status" where
  "temp_error_zone limits e z =
    (if e = Timeout \<or> e = TemperatureNotSupportedOrTimeOut then
       let z = z\<lparr>z_temperature_timeout_errors_total := z_temperature_timeout_errors_total z + 1,
                 z_temperature_timeout_errors_current := z_temperature_timeout_errors_current z + 1\<rparr>
       in (if max_timeout_errors limits \<le> z_temperature_timeout_errors_current z
           then z\<lparr>z_temperature_status := BlockSensorMissing, z_temperature_blocked_cycles := 0\<rparr>
           else z\<lparr>z_temperature_status := SensorMissing\<rparr>, SensorMissing)
     else if e = TemperatureSensorError then
       let z = z\<lparr>z_temperature_sensor_errors_total := z_temperature_sensor_errors_total z + 1,
                 z_temperature_sensor_errors_current := z_temperature_sensor_errors_current z + 1\<rparr>
       in (if max_sensor_errors limits \<le> z_temperature_sensor_errors_current z
           then z\<lparr>z_temperature_status := BlockCommunicationError, z_temperature_blocked_cycles := 0\<rparr>
           else z\<lparr>z_temperature_status := CommunicationError\<rparr>, CommunicationError)
     else (z, z_temperature_status z))"

definition update_temp_error :: "u16 \<Rightarrow> satel_error \<Rightarrow> unit op" where
  "update_temp_error zone_id e c =
    (case get_zone (cl_state c) zone_id of
       None \<Rightarrow> (Inl InvalidFrame, c)
     | Some z \<Rightarrow>
         (case temp_error_zone (temp_limits_of (cl_config c) zone_id) e z of
            (z', status) \<Rightarrow>
              bind_op (store_op (update_zone zone_id (\<lambda>_. z'\<lparr>z_temperature_read_at := cl_now c\<rparr>)))
                (\<lambda>_. emit_op [EvZoneTemperatureError (z_id z) status]) c))"

section \<open>Queries\<close>

definition temp_success_zone :: "timestamp \<Rightarrow> rat \<Rightarrow> zone \<Rightarrow> zone" where
  "temp_success_zone now temp z = z\<lparr>z_temperature_value := temp, z_temperature_read_at := now,
    z_temperature_status := TempOk, z_temperature_blocked_cycles := 0,
    z_temperature_timeout_errors_current := (if 0 < z_temperature_timeout_errors_current z
      then z_temperature_timeout_errors_current z - 1 else z_temperature_timeout_errors_current z),
    z_temperature_sensor_errors_current := (if 0 < z_temperature_sensor_errors_current z
      then z_temperature_sensor_errors_current z - 1 else z_temperature_sensor_errors_current z)\<rparr>"

definition update_temperature_success_internal :: "u16 \<Rightarrow> rat \<Rightarrow> rat op" where
  "update_temperature_success_internal ident temp c =
    (case get_zone (cl_state c) ident of
       None \<Rightarrow> (Inl InvalidFrame, c)
     | Some z \<Rightarrow> bind_op (store_op (update_zone ident (temp_success_zone (cl_now c) temp)))
         (\<lambda>_. ret_op (z_temperature_value z)) c)"

definition get_cached_zone_temperature :: "client \<Rightarrow> u16 \<Rightarrow> zone_temperature option" where
  "get_cached_zone_temperature c zone_id = map_option to_zone_temperature (get_zone (cl_state c) zone_id)"

definition get_zone_temperature_raw_timeout :: "u16 \<Rightarrow> duration option \<Rightarrow> zone_temperature op" where
  "get_zone_temperature_raw_timeout zone_id timeout c =
    (case exchange [command_to_byte ReadZoneTemperature, device_number zone_id] None
        (Some (unwrap_or timeout (millis (unat (cfg_temp_read_timeout_ms (cl_config c)))))) c of
       (Inr response, c) \<Rightarrow>
         (case process_zone_temperature response of
            Inr (ident, temp) \<Rightarrow>
              bind_op (update_temperature_success_internal ident temp)
                (\<lambda>old_temp c. bind_op
                  (emit_op (if cfg_emit_unchanged_temperatures (cl_config c) \<or> \<bar>old_temp - temp\<bar> > 1 / 100
                            then [EvZoneTemperatureChanged ident temp] else []))
                  (\<lambda>_ c. case get_cached_zone_temperature c ident of
                     Some t \<Rightarrow> ret_op t c
                   | None \<Rightarrow> lift_op (Inl InvalidFrame) c) c) c
          | Inl e \<Rightarrow> bind_op (update_temp_error zone_id e) (\<lambda>_. lift_op (Inl e)) c)
     | (Inl e, c) \<Rightarrow> bind_op (update_temp_error zone_id e)
         (\<lambda>_. lift_op (Inl (if e = Timeout then TemperatureNotSupportedOrTimeOut else e))) c)"

definition get_zone_temperature_raw :: "u16 \<Rightarrow> zone_temperature op" where
  "get_zone_temperature_raw zone_id = get_zone_temperature_raw_timeout zone_id None"

definition temp_blocked :: "temp_limits \<Rightarrow> zone \<Rightarrow> bool" where
  "temp_blocked limits z =
    (z_temperature_status z = BlockSensorMissing \<or> z_temperature_status z = BlockCommunicationError
     \<or> max_timeout_errors limits \<le> z_temperature_timeout_errors_current z
     \<or> max_sensor_errors limits \<le> z_temperature_sensor_errors_current z)"

text \<open>
  A refused query of a blocked sensor: it counts one cycle, or lifts the block after enough of them,
  taking one error off each counter that is at its limit.
\<close>

definition unblock_zone :: "temp_limits \<Rightarrow> zone \<Rightarrow> zone" where
  "unblock_zone limits z = z\<lparr>
    z_temperature_timeout_errors_current :=
      (if max_timeout_errors limits \<le> z_temperature_timeout_errors_current z
       then sat_sub (z_temperature_timeout_errors_current z) 1 else z_temperature_timeout_errors_current z),
    z_temperature_sensor_errors_current :=
      (if max_sensor_errors limits \<le> z_temperature_sensor_errors_current z
       then sat_sub (z_temperature_sensor_errors_current z) 1 else z_temperature_sensor_errors_current z),
    z_temperature_status := RetryRead, z_temperature_blocked_cycles := 0\<rparr>"

definition blocked_status :: "temp_limits \<Rightarrow> zone \<Rightarrow> temperature_sensor_status" where
  "blocked_status limits z =
    (if z_temperature_status z = BlockSensorMissing
        \<or> max_timeout_errors limits \<le> z_temperature_timeout_errors_current z
     then BlockSensorMissing else BlockCommunicationError)"

definition blocked_cycle :: "temp_limits \<Rightarrow> zone \<Rightarrow> zone \<times> temperature_sensor_status option" where
  "blocked_cycle limits z =
    (let new_cycles = z_temperature_blocked_cycles z + 1
     in if unblock_enabled limits \<and> unblock_after_cycles limits \<le> new_cycles
        then (unblock_zone limits z, None)
        else (z\<lparr>z_temperature_status := blocked_status limits z,
                z_temperature_blocked_cycles := new_cycles\<rparr>, Some (blocked_status limits z)))"

definition get_zone_temperature_with_blocking :: "u16 \<Rightarrow> zone_temperature op" where
  "get_zone_temperature_with_blocking zone_id c =
    (case get_zone (cl_state c) zone_id of
       None \<Rightarrow> get_zone_temperature_raw zone_id c
     | Some info \<Rightarrow>
         if temp_blocked (temp_limits_of (cl_config c) zone_id) info then
           (case blocked_cycle (temp_limits_of (cl_config c) zone_id) info of
              (z', status) \<Rightarrow>
                bind_op (store_op (update_zone zone_id (\<lambda>_. z')))
                  (\<lambda>_. bind_op (emit_op (case status of
                      Some st \<Rightarrow> if cfg_emit_unchanged_temperatures (cl_config c)
                        then [EvZoneTemperatureError zone_id st] else []
                    | None \<Rightarrow> []))
                  (\<lambda>_. lift_op (Inl TempTooManyErrors))) c)
         else get_zone_temperature_raw zone_id c)"

definition get_zone_temperature :: "u16 \<Rightarrow> zone_temperature op" where
  "get_zone_temperature zone_id c =
    (if cfg_temp_blocking_enabled (cl_config c) then get_zone_temperature_with_blocking zone_id c
     else get_zone_temperature_raw zone_id c)"

definition temp_reset_zone :: "zone \<Rightarrow> zone" where
  "temp_reset_zone z = z\<lparr>z_temperature_status := NoRead, z_temperature_timeout_errors_current := 0,
    z_temperature_sensor_errors_current := 0, z_temperature_blocked_cycles := 0\<rparr>"

definition reset_temperature_sensor :: "u16 \<Rightarrow> unit op" where
  "reset_temperature_sensor zone_id c =
    (if zone_id = 0 \<or> 256 < zone_id
     then (Inl (InvalidConfig (''Invalid zone id: '' @ show_nat (unat zone_id))), c)
     else (case get_zone (cl_state c) zone_id of
             None \<Rightarrow> (Inl InvalidFrame, c)
           | Some _ \<Rightarrow> store_op (update_zone zone_id temp_reset_zone) c))"

section \<open>Diagnostics\<close>

record zone_status =
  zs_id :: u16
  zs_name :: ustring
  zs_temperature :: rat
  zs_violation_state :: bool
  zs_violation_at :: "timestamp option"
  zs_tamper_state :: bool
  zs_tamper_at :: "timestamp option"
  zs_alarm_state :: bool
  zs_alarm_at :: "timestamp option"
  zs_tamper_alarm_state :: bool
  zs_tamper_alarm_at :: "timestamp option"
  zs_alarm_memory_state :: bool
  zs_alarm_memory_at :: "timestamp option"
  zs_tamper_alarm_memory_state :: bool
  zs_tamper_alarm_memory_at :: "timestamp option"
  zs_bypass_state :: bool
  zs_bypass_at :: "timestamp option"
  zs_no_violation_trouble_state :: bool
  zs_no_violation_trouble_at :: "timestamp option"
  zs_long_violation_trouble_state :: bool
  zs_long_violation_trouble_at :: "timestamp option"

definition get_cached_zone_status :: "client \<Rightarrow> u16 \<Rightarrow> zone_status option" where
  "get_cached_zone_status c zone_id = map_option (\<lambda>z. \<lparr>
      zs_id = z_id z, zs_name = z_zone_name z, zs_temperature = z_temperature_value z,
      zs_violation_state = z_violation_state z, zs_violation_at = z_violation_read_at z,
      zs_tamper_state = z_tamper_state z, zs_tamper_at = z_tamper_read_at z,
      zs_alarm_state = z_alarm_state z, zs_alarm_at = z_alarm_read_at z,
      zs_tamper_alarm_state = z_tamper_alarm_state z, zs_tamper_alarm_at = z_tamper_alarm_read_at z,
      zs_alarm_memory_state = z_alarm_memory_state z, zs_alarm_memory_at = z_alarm_memory_read_at z,
      zs_tamper_alarm_memory_state = z_tamper_alarm_memory_state z,
      zs_tamper_alarm_memory_at = z_tamper_alarm_memory_read_at z,
      zs_bypass_state = z_bypass_state z, zs_bypass_at = z_bypass_read_at z,
      zs_no_violation_trouble_state = z_no_violation_trouble_state z,
      zs_no_violation_trouble_at = z_no_violation_trouble_read_at z,
      zs_long_violation_trouble_state = z_long_violation_trouble_state z,
      zs_long_violation_trouble_at = z_long_violation_trouble_read_at z\<rparr>)
    (get_zone (cl_state c) zone_id)"

section \<open>Discovery\<close>

text \<open>
  \<open>{:.1}\<close> of a temperature that is a multiple of one half, and the labels of the steps. The word
  in the error labels is \<open>Blad\<close> with its two Polish letters.
\<close>

definition format_1 :: "rat \<Rightarrow> ustring" where
  "format_1 t = (let n = nat \<lfloor>\<bar>t\<bar> * 10\<rfloor>
     in ustring_of ((if t < 0 then ''-'' else '''') @ show_nat (n div 10) @ ''.'' @ show_nat (n mod 10)))"

definition blad :: ustring where
  "blad = ustring_of ''B'' @ [322, 261] @ ustring_of ''d''"

definition discovery_label :: "u16 \<Rightarrow> ustring option \<Rightarrow> zone_temperature satel_result \<Rightarrow> ustring" where
  "discovery_label zone_id cached_name r =
    ustring_of (show_nat (unat zone_id)) @
    (case r of
       Inr res \<Rightarrow> ustring_of '' - '' @ format_1 (zt_temperature res) @ ustring_of '' '' @ [176] @ ustring_of ''C''
     | Inl TemperatureSensorError \<Rightarrow> ustring_of '' - '' @ blad
     | Inl e \<Rightarrow> if e = TemperatureNotSupportedOrTimeOut \<or> e = Timeout
         then (case cached_name of Some nm \<Rightarrow> ustring_of '' - '' @ nm | None \<Rightarrow> [])
         else ustring_of '' - '' @ blad @ ustring_of '' ('' @ ustring_of (error_text e) @ ustring_of '')'')"

definition cached_label_name :: "client \<Rightarrow> u16 \<Rightarrow> ustring option" where
  "cached_label_name c zone_id = Option.bind (get_cached_zone_name c zone_id)
    (\<lambda>nm. if trim (sn_name nm) = [] then None else Some (trim (sn_name nm)))"

definition discovery_error :: "zone_temperature satel_result \<Rightarrow> string option" where
  "discovery_error r = (case r of
     Inl e \<Rightarrow> if e \<in> {TemperatureSensorError, TemperatureNotSupportedOrTimeOut, Timeout} then None
       else Some (error_text e)
   | Inr _ \<Rightarrow> None)"

fun discovery_loop ::
  "u16 \<Rightarrow> duration option \<Rightarrow> u16 list \<Rightarrow> u16 \<times> string option \<Rightarrow> client \<Rightarrow> (u16 \<times> string option) \<times> client" where
  "discovery_loop count timeout [] acc c = (acc, c)"
| "discovery_loop count timeout (zone_id # ids) (success_count, last_error) c =
    (let cached_name = cached_label_name c zone_id
     in case get_zone_temperature_raw_timeout zone_id timeout c of
          (r, c') \<Rightarrow> discovery_loop count timeout ids
            (case r of Inr _ \<Rightarrow> success_count + 1 | Inl _ \<Rightarrow> success_count,
             case discovery_error r of Some e \<Rightarrow> Some e | None \<Rightarrow> last_error)
            (c'\<lparr>cl_events := cl_events c' @
              [EvSyncProgress SyncTemperatures zone_id count (discovery_label zone_id cached_name r)]\<rparr>))"

definition get_all_zone_temperatures :: "duration option \<Rightarrow> bool op" where
  "get_all_zone_temperatures probe_timeout c = (case get_cached_version c of
     None \<Rightarrow> (Inl PanelVersionUnknown, c)
   | Some version \<Rightarrow>
       if iv_io_count version = 0 then (Inl PanelVersionUnknown, c)
       else bind_op (emit_op [EvSyncStarted SyncTemperatures (iv_io_count version)]) (\<lambda>_ c.
         (case discovery_loop (iv_io_count version) probe_timeout (one_to (iv_io_count version)) (0, None) c of
            ((success_count, last_error), c') \<Rightarrow>
              bind_op (emit_op [EvSyncFinished SyncTemperatures (iv_io_count version) success_count last_error])
                (\<lambda>_. ret_op True) c')) c)"

section \<open>Laws\<close>

text \<open>A cache update seen through the element it updates.\<close>

lemma get_zone_update:
  "get_zone (update_zone zid f s) zid = map_option f (get_zone s zid)"
  by (simp add: get_zone_def update_zone_def update_element_def get_def)

lemma store_op_update:
  "store_op f c = (Inr (), c\<lparr>cl_state := f (cl_state c)\<rparr>)"
  by (simp add: store_op_def cache_op_def)

text \<open>A refused query of a blocked sensor, and a query that is answered with a timeout.\<close>

lemma with_blocking_blocked:
  assumes "get_zone (cl_state c) zid = Some z" "temp_blocked (temp_limits_of (cl_config c) zid) z"
    "get_zone_temperature_with_blocking zid c = (r, c')"
  shows "r = Inl TempTooManyErrors"
    "get_zone (cl_state c') zid = Some (fst (blocked_cycle (temp_limits_of (cl_config c) zid) z))"
    "cl_config c' = cl_config c" "cl_sent c' = cl_sent c" "cl_answers c' = cl_answers c"
  using assms
  by (auto simp: get_zone_temperature_with_blocking_def store_op_update emit_op_def modify_op_def
      bind_op_def lift_op_def get_zone_update split: prod.splits option.splits)

lemma with_blocking_free:
  assumes "get_zone (cl_state c) zid = Some z" "\<not> temp_blocked (temp_limits_of (cl_config c) zid) z"
  shows "get_zone_temperature_with_blocking zid c = get_zone_temperature_raw zid c"
  using assms by (simp add: get_zone_temperature_with_blocking_def)

lemma raw_timeout:
  assumes "get_zone (cl_state c) zid = Some z" "cl_answers c = (Inl Timeout, t) # rest"
    "get_zone_temperature_raw zid c = (r, c')"
  shows "r = Inl TemperatureNotSupportedOrTimeOut"
    "get_zone (cl_state c') zid =
      Some ((fst (temp_error_zone (temp_limits_of (cl_config c) zid) Timeout z))\<lparr>z_temperature_read_at := t\<rparr>)"
    "cl_config c' = cl_config c" "length (cl_sent c') = Suc (length (cl_sent c))" "cl_answers c' = rest"
  using assms
  by (auto simp: get_zone_temperature_raw_def get_zone_temperature_raw_timeout_def exchange_answer [OF assms(2)]
      update_temp_error_def store_op_update emit_op_def modify_op_def bind_op_def lift_op_def get_zone_update
      split: prod.splits option.splits)

lemma raw_sends:
  "get_zone_temperature_raw zid c = (r, c') \<Longrightarrow> length (cl_sent c') = Suc (length (cl_sent c))"
  by (auto simp: get_zone_temperature_raw_def get_zone_temperature_raw_timeout_def update_temp_error_def
      update_temperature_success_internal_def store_op_update op_defs
      split: prod.splits sum.splits option.splits if_splits dest!: exchange_frame)

text \<open>The client after a number of queries of a zone.\<close>

definition after_queries :: "u16 \<Rightarrow> nat \<Rightarrow> client \<Rightarrow> client" where
  "after_queries zid k c = ((\<lambda>c. snd (get_zone_temperature_with_blocking zid c)) ^^ k) c"

lemma after_queries_simps [simp]:
  "after_queries zid 0 c = c"
  "after_queries zid (Suc k) c = snd (get_zone_temperature_with_blocking zid (after_queries zid k c))"
  by (simp_all add: after_queries_def)

definition cycles_of :: "temp_limits \<Rightarrow> nat \<Rightarrow> zone \<Rightarrow> zone" where
  "cycles_of l k z = ((\<lambda>z. fst (blocked_cycle l z)) ^^ k) z"

lemma cycles_of_simps [simp]:
  "cycles_of l 0 z = z"
  "cycles_of l (Suc k) z = fst (blocked_cycle l (cycles_of l k z))"
  by (simp_all add: cycles_of_def)

lemma cycles_of_add: "cycles_of l (j + k) z = cycles_of l j (cycles_of l k z)"
  by (simp add: cycles_of_def funpow_add)

lemma after_queries_blocked:
  assumes "get_zone (cl_state c) zid = Some z"
    and "\<And>j. j < k \<Longrightarrow> temp_blocked (temp_limits_of (cl_config c) zid) (cycles_of (temp_limits_of (cl_config c) zid) j z)"
  shows "get_zone (cl_state (after_queries zid k c)) zid = Some (cycles_of (temp_limits_of (cl_config c) zid) k z)
    \<and> cl_config (after_queries zid k c) = cl_config c \<and> cl_sent (after_queries zid k c) = cl_sent c
    \<and> cl_answers (after_queries zid k c) = cl_answers c"
  using assms(2)
proof (induction k)
  case 0
  then show ?case using assms(1) by simp
next
  case (Suc k)
  then have IH: "get_zone (cl_state (after_queries zid k c)) zid = Some (cycles_of (temp_limits_of (cl_config c) zid) k z)"
    "cl_config (after_queries zid k c) = cl_config c" "cl_sent (after_queries zid k c) = cl_sent c"
    "cl_answers (after_queries zid k c) = cl_answers c"
    "temp_blocked (temp_limits_of (cl_config c) zid) (cycles_of (temp_limits_of (cl_config c) zid) k z)" by auto
  from with_blocking_blocked [OF IH(1), unfolded IH(2), OF IH(5) prod.collapse [symmetric]] IH
  show ?case by simp
qed

subsection \<open>A sensor that never answers\<close>

definition blocked_state :: "zone \<Rightarrow> bool" where
  "blocked_state z = (z_temperature_status z \<in> {BlockSensorMissing, BlockCommunicationError})"

text \<open>What is known of the zone after some timeouts, \<open>n\<close> of them counted.\<close>

definition timed_out :: "temp_limits \<Rightarrow> zone \<Rightarrow> nat \<Rightarrow> zone \<Rightarrow> bool" where
  "timed_out l z n y =
    (z_temperature_sensor_errors_current y = z_temperature_sensor_errors_current z
     \<and> unat (z_temperature_timeout_errors_current y) = unat (z_temperature_timeout_errors_current z) + n
     \<and> (if blocked_state y then max_timeout_errors l \<le> z_temperature_timeout_errors_current y else True))"

lemma timed_out_error:
  assumes "timed_out l z n y" "\<not> temp_blocked l y"
  shows "timed_out l z (Suc n) ((fst (temp_error_zone l Timeout y))\<lparr>z_temperature_read_at := t\<rparr>)"
proof -
  have "z_temperature_timeout_errors_current y < max_timeout_errors l"
    using assms(2) by (simp add: temp_blocked_def not_le)
  then have "unat (z_temperature_timeout_errors_current y + 1) = Suc (unat (z_temperature_timeout_errors_current y))"
  proof -
    assume "z_temperature_timeout_errors_current y < max_timeout_errors l"
    moreover have "unat (max_timeout_errors l) < 2 ^ 32"
      using unsigned_less [of "max_timeout_errors l"] by simp
    ultimately show ?thesis by (simp add: unat_word_ariths word_less_nat_alt)
  qed
  then show ?thesis
    using assms by (simp add: timed_out_def temp_error_zone_def blocked_state_def Let_def)
qed

lemma timed_out_cycle:
  assumes "timed_out l z n y" "temp_blocked l y" "\<not> unblock_enabled l"
    "z_temperature_sensor_errors_current z < max_sensor_errors l"
  shows "timed_out l z n (fst (blocked_cycle l y))"
  using assms by (auto simp: timed_out_def blocked_cycle_def Let_def temp_blocked_def blocked_state_def
      split: if_splits)

lemma timed_out_blocked_iff:
  assumes "timed_out l z n y" "z_temperature_sensor_errors_current z < max_sensor_errors l"
  shows "temp_blocked l y \<longleftrightarrow> unat (max_timeout_errors l) \<le> unat (z_temperature_timeout_errors_current z) + n"
  using assms by (auto simp: timed_out_def temp_blocked_def blocked_state_def word_le_nat_alt not_le word_less_nat_alt
      split: if_splits)

lemma missing_sensor_run:
  fixes c :: client and zid :: u16 and z :: zone
  defines "l \<equiv> temp_limits_of (cl_config c) zid"
  defines "bound \<equiv> unat (max_timeout_errors l) - unat (z_temperature_timeout_errors_current z)"
  assumes "get_zone (cl_state c) zid = Some z" "\<not> unblock_enabled l" "\<not> blocked_state z"
    "z_temperature_sensor_errors_current z < max_sensor_errors l"
    "map fst (cl_answers c) = replicate m (Inl Timeout)" "k \<le> m"
  shows "\<exists>y. get_zone (cl_state (after_queries zid k c)) zid = Some y \<and> timed_out l z (min k bound) y
    \<and> cl_config (after_queries zid k c) = cl_config c
    \<and> length (cl_sent (after_queries zid k c)) = length (cl_sent c) + min k bound
    \<and> map fst (cl_answers (after_queries zid k c)) = replicate (m - min k bound) (Inl Timeout)"
  using \<open>k \<le> m\<close>
proof (induction k)
  case 0
  then show ?case using assms(3,5,7) by (simp add: timed_out_def)
next
  case (Suc k)
  let ?c = "after_queries zid k c"
  from Suc obtain y where y: "get_zone (cl_state ?c) zid = Some y" "timed_out l z (min k bound) y"
    "cl_config ?c = cl_config c" "length (cl_sent ?c) = length (cl_sent c) + min k bound"
    "map fst (cl_answers ?c) = replicate (m - min k bound) (Inl Timeout)" by auto
  note iff = timed_out_blocked_iff [OF y(2) assms(6)]
  have limits: "temp_limits_of (cl_config ?c) zid = l" by (simp add: y(3) l_def)
  show ?case
  proof (cases "k < bound")
    case True
    with iff have free: "\<not> temp_blocked l y" by (simp add: bound_def)
    from y(5) True Suc.prems obtain t rest where answers: "cl_answers ?c = (Inl Timeout, t) # rest"
      "map fst rest = replicate (m - Suc k) (Inl Timeout)"
      by (cases "cl_answers ?c") (auto simp: Suc_diff_Suc [symmetric])
    from raw_timeout [OF y(1) answers(1) prod.collapse [symmetric]]
      with_blocking_free [OF y(1), unfolded limits, OF free]
      timed_out_error [OF y(2) free] answers(2) y(3,4) True
    show ?thesis by (simp add: l_def [symmetric])
  next
    case False
    with iff have blocked: "temp_blocked l y" by (simp add: bound_def)
    from with_blocking_blocked [OF y(1), unfolded limits, OF blocked prod.collapse [symmetric]]
      timed_out_cycle [OF y(2) blocked assms(4,6)] y(3,4,5) False
    show ?thesis by (simp add: min_absorb2 not_less)
  qed
qed

text \<open>
  C15. A sensor that never answers costs a bounded number of requests. If its block is not lifted
  automatically, \<open>k\<close> queries send \<open>min k (limit - errors so far)\<close> requests to the panel, each
  answered "not supported or timeout"; every later query is refused without a request. A limit of
  zero refuses every query.
\<close>

theorem missing_sensor_requests:
  assumes "get_zone (cl_state c) zid = Some z"
    and "\<not> unblock_enabled (temp_limits_of (cl_config c) zid)"
    and "z_temperature_status z \<notin> {BlockSensorMissing, BlockCommunicationError}"
    and "z_temperature_sensor_errors_current z < max_sensor_errors (temp_limits_of (cl_config c) zid)"
    and "map fst (cl_answers c) = replicate m (Inl Timeout)" and "k < m"
  shows "length (cl_sent (after_queries zid k c)) = length (cl_sent c)
      + min k (unat (max_timeout_errors (temp_limits_of (cl_config c) zid))
               - unat (z_temperature_timeout_errors_current z))
    \<and> fst (get_zone_temperature_with_blocking zid (after_queries zid k c)) =
      Inl (if k < unat (max_timeout_errors (temp_limits_of (cl_config c) zid))
                  - unat (z_temperature_timeout_errors_current z)
           then TemperatureNotSupportedOrTimeOut else TempTooManyErrors)"
proof -
  let ?l = "temp_limits_of (cl_config c) zid" and ?c = "after_queries zid k c"
  let ?bound = "unat (max_timeout_errors ?l) - unat (z_temperature_timeout_errors_current z)"
  have "\<not> blocked_state z" using assms(3) by (simp add: blocked_state_def)
  from missing_sensor_run [OF assms(1,2) this assms(4,5), of k] assms(6)
  obtain y where y: "get_zone (cl_state ?c) zid = Some y" "timed_out ?l z (min k ?bound) y"
    "cl_config ?c = cl_config c" "length (cl_sent ?c) = length (cl_sent c) + min k ?bound"
    "map fst (cl_answers ?c) = replicate (m - min k ?bound) (Inl Timeout)" by auto
  note iff = timed_out_blocked_iff [OF y(2) assms(4)]
  have "fst (get_zone_temperature_with_blocking zid ?c) =
      Inl (if k < ?bound then TemperatureNotSupportedOrTimeOut else TempTooManyErrors)"
  proof (cases "k < ?bound")
    case True
    with iff have free: "\<not> temp_blocked (temp_limits_of (cl_config ?c) zid) y" by (simp add: y(3))
    from y(5) True assms(6) obtain t rest where "cl_answers ?c = (Inl Timeout, t) # rest"
      by (cases "cl_answers ?c") (auto simp: Suc_diff_Suc [symmetric])
    from raw_timeout(1) [OF y(1) this prod.collapse [symmetric]] with_blocking_free [OF y(1) free] True
    show ?thesis by simp
  next
    case False
    with iff have "temp_blocked (temp_limits_of (cl_config ?c) zid) y" by (simp add: y(3))
    from with_blocking_blocked(1) [OF y(1) this prod.collapse [symmetric]] False
    show ?thesis by simp
  qed
  with y(4) show ?thesis by simp
qed

theorem missing_sensor_requests_witness:
  "length (cl_sent (after_queries 5 6 ((client_new 0 0 config_default)\<lparr>cl_answers := replicate 7 (Inl Timeout, 1)\<rparr>))) = 4
   \<and> fst (get_zone_temperature_with_blocking 5
       (after_queries 5 6 ((client_new 0 0 config_default)\<lparr>cl_answers := replicate 7 (Inl Timeout, 1)\<rparr>)))
     = Inl TempTooManyErrors"
proof -
  let ?c = "(client_new 0 0 config_default)\<lparr>cl_answers := replicate 7 (Inl Timeout, 1)\<rparr>"
  have limits: "temp_limits_of (cl_config ?c) 5 = \<lparr>max_timeout_errors = 4, max_sensor_errors = 10,
      unblock_enabled = False, unblock_after_cycles = 10\<rparr>"
    by (simp add: temp_limits_of_def client_new_def config_default_def min_unblock_after_cycles_def)
  have zone: "get_zone (cl_state ?c) 5 = Some (zone_new 0 5)"
    by (simp add: client_new_def satel_state_new_def get_zone_def get_def element_index_def)
  show ?thesis
    using missing_sensor_requests [OF zone, where k = 6 and m = 7] limits
    by (simp add: zone_new_def client_new_def)
qed

subsection \<open>The retry of a blocked sensor\<close>

text \<open>
  The refused queries of one round, the number of errors above the limits, and the number of queries
  until the next request.
\<close>

definition round_length :: "temp_limits \<Rightarrow> nat" where
  "round_length l = max 1 (unat (unblock_after_cycles l))"

definition excess :: "temp_limits \<Rightarrow> zone \<Rightarrow> nat" where
  "excess l z = max (Suc (unat (z_temperature_timeout_errors_current z)) - unat (max_timeout_errors l))
    (Suc (unat (z_temperature_sensor_errors_current z)) - unat (max_sensor_errors l))"

definition queries_until_retry :: "temp_limits \<Rightarrow> zone \<Rightarrow> nat" where
  "queries_until_retry l z = round_length l * max 1 (excess l z)"

lemma temp_blocked_excess:
  "temp_blocked l z \<longleftrightarrow> blocked_state z \<or> 0 < excess l z"
  by (auto simp: temp_blocked_def blocked_state_def excess_def word_le_nat_alt less_max_iff_disj)

lemma cycles_within_round:
  assumes "temp_blocked l z" "z_temperature_blocked_cycles z = 0" "unblock_enabled l" "j < round_length l"
  shows "temp_blocked l (cycles_of l j z) \<and> excess l (cycles_of l j z) = excess l z
    \<and> unat (z_temperature_blocked_cycles (cycles_of l j z)) = j"
  using assms(4)
proof (induction j)
  case 0
  then show ?case using assms(1,2) by simp
next
  case (Suc j)
  let ?y = "cycles_of l j z"
  have IH: "temp_blocked l ?y" "excess l ?y = excess l z" "unat (z_temperature_blocked_cycles ?y) = j"
    using Suc by simp_all
  have "unat (unblock_after_cycles l) < 2 ^ 32"
    using unsigned_less [of "unblock_after_cycles l"] by simp
  with Suc.prems IH(3) have cycles: "unat (z_temperature_blocked_cycles ?y + 1) = Suc j"
    by (simp add: unat_word_ariths round_length_def)
  with Suc.prems have "\<not> unblock_after_cycles l \<le> z_temperature_blocked_cycles ?y + 1"
    by (simp add: word_le_nat_alt round_length_def)
  then have step: "cycles_of l (Suc j) z = ?y\<lparr>z_temperature_status := blocked_status l ?y,
      z_temperature_blocked_cycles := z_temperature_blocked_cycles ?y + 1\<rparr>"
    by (simp add: blocked_cycle_def Let_def)
  show ?case using IH cycles unfolding step
    by (simp add: temp_blocked_excess blocked_state_def blocked_status_def excess_def)
qed

lemma cycles_round:
  assumes "temp_blocked l z" "z_temperature_blocked_cycles z = 0" "unblock_enabled l"
    "0 < max_timeout_errors l" "0 < max_sensor_errors l"
  shows "excess l (cycles_of l (round_length l) z) = excess l z - 1
    \<and> \<not> blocked_state (cycles_of l (round_length l) z)
    \<and> z_temperature_blocked_cycles (cycles_of l (round_length l) z) = 0"
proof -
  obtain j where j: "round_length l = Suc j" by (cases "round_length l") (auto simp: round_length_def)
  let ?y = "cycles_of l j z"
  have y: "excess l ?y = excess l z" "unat (z_temperature_blocked_cycles ?y) = j"
    using cycles_within_round [OF assms(1-3), of j] j by simp_all
  have "unat (unblock_after_cycles l) < 2 ^ 32"
    using unsigned_less [of "unblock_after_cycles l"] by simp
  then have "unat (z_temperature_blocked_cycles ?y + 1) = Suc j"
    using j y(2) by (simp add: unat_word_ariths round_length_def max_def split: if_splits)
  then have "unblock_after_cycles l \<le> z_temperature_blocked_cycles ?y + 1"
    using j by (simp add: word_le_nat_alt round_length_def max_def split: if_splits)
  then have step: "cycles_of l (round_length l) z = unblock_zone l ?y"
    using assms(3) by (simp add: j blocked_cycle_def Let_def)
  have "excess l (unblock_zone l ?y) = excess l ?y - 1"
    using assms(4,5)
    by (auto simp: excess_def unblock_zone_def unat_sat_sub word_le_nat_alt word_less_nat_alt max_def)
  then show ?thesis using y(1) unfolding step by (simp add: unblock_zone_def blocked_state_def)
qed

lemma cycles_until_retry:
  assumes "unblock_enabled l" "0 < max_timeout_errors l" "0 < max_sensor_errors l"
  shows "temp_blocked l z \<Longrightarrow> z_temperature_blocked_cycles z = 0 \<Longrightarrow> max 1 (excess l z) = Suc n \<Longrightarrow>
    (\<forall>j < round_length l * Suc n. temp_blocked l (cycles_of l j z))
    \<and> \<not> temp_blocked l (cycles_of l (round_length l * Suc n) z)"
proof (induction n arbitrary: z)
  case 0
  then show ?case
  proof -
    from 0(3) have "excess l z \<le> 1" by simp
    then show ?thesis
      using cycles_within_round [OF 0(1,2) assms(1)] cycles_round [OF 0(1,2) assms]
      by (simp add: temp_blocked_excess [of l "cycles_of l (round_length l) z"])
  qed
next
  case (Suc n)
  let ?y = "cycles_of l (round_length l) z"
  from cycles_round [OF Suc.prems(1,2) assms] Suc.prems(3)
  have y: "excess l ?y = Suc n" "z_temperature_blocked_cycles ?y = 0" by (simp_all add: max_def split: if_splits)
  then have "temp_blocked l ?y" "max 1 (excess l ?y) = Suc n" by (simp_all add: temp_blocked_excess)
  from Suc.IH [OF this(1) y(2) this(2)]
  have later: "\<forall>j < round_length l * Suc n. temp_blocked l (cycles_of l (j + round_length l) z)"
    "\<not> temp_blocked l (cycles_of l (round_length l * Suc n + round_length l) z)"
    unfolding cycles_of_add by blast+
  have "temp_blocked l (cycles_of l j z)" if j: "j < round_length l * Suc (Suc n)" for j
  proof (cases "j < round_length l")
    case True
    then show ?thesis using cycles_within_round [OF Suc.prems(1,2) assms(1)] by simp
  next
    case False
    then have "j = j - round_length l + round_length l" "j - round_length l < round_length l * Suc n"
      using j by simp_all
    then show ?thesis using later(1) by metis
  qed
  moreover have "round_length l * Suc (Suc n) = round_length l * Suc n + round_length l" by simp
  ultimately show ?case using later(2) by metis
qed

text \<open>
  C16. A blocked sensor with automatic unblocking is tried again. From the start of its block, every
  query up to a known number is refused and sends nothing; the query after that sends a request. The
  number is the configured number of cycles (at least one) for each error above the limits. The two
  limits must not be zero.
\<close>

theorem blocked_sensor_retries:
  assumes "get_zone (cl_state c) zid = Some z"
    and "temp_blocked (temp_limits_of (cl_config c) zid) z" and "z_temperature_blocked_cycles z = 0"
    and "unblock_enabled (temp_limits_of (cl_config c) zid)"
    and "0 < max_timeout_errors (temp_limits_of (cl_config c) zid)"
    and "0 < max_sensor_errors (temp_limits_of (cl_config c) zid)"
  shows "cl_sent (after_queries zid (queries_until_retry (temp_limits_of (cl_config c) zid) z) c) = cl_sent c
    \<and> length (cl_sent (after_queries zid (Suc (queries_until_retry (temp_limits_of (cl_config c) zid) z)) c))
      = Suc (length (cl_sent c))"
proof -
  let ?l = "temp_limits_of (cl_config c) zid"
  obtain n where n: "max 1 (excess ?l z) = Suc n" by (cases "max 1 (excess ?l z)") auto
  let ?q = "round_length ?l * Suc n"
  have q: "queries_until_retry ?l z = ?q" by (simp only: queries_until_retry_def n)
  note retry = cycles_until_retry [OF assms(4-6) assms(2,3) n]
  from after_queries_blocked [OF assms(1), of ?q] retry
  have after: "get_zone (cl_state (after_queries zid ?q c)) zid = Some (cycles_of ?l ?q z)"
    "cl_config (after_queries zid ?q c) = cl_config c" "cl_sent (after_queries zid ?q c) = cl_sent c"
    by blast+
  from with_blocking_free [OF after(1), unfolded after(2)] retry
  have "get_zone_temperature_with_blocking zid (after_queries zid ?q c)
      = get_zone_temperature_raw zid (after_queries zid ?q c)" by blast
  then show ?thesis
    using after(3) raw_sends [OF prod.collapse [symmetric]] by (simp only: q after_queries_simps)
qed

theorem blocked_sensor_retries_witness:
  "let probe = \<lparr>probe_zone_id = 5, probe_interval_minutes = 1, probe_max_timeout_errors = 3,
         probe_max_sensor_errors = 4, probe_unblock_enabled = True, probe_unblock_after_cycles = 10\<rparr>;
       c = client_new 0 0 (config_default\<lparr>cfg_temperature_probes := [probe]\<rparr>);
       c' = c\<lparr>cl_state := update_zone 5 (\<lambda>z. z\<lparr>z_temperature_status := BlockSensorMissing,
         z_temperature_timeout_errors_current := 4\<rparr>) (cl_state c)\<rparr>
   in cl_sent (after_queries 5 20 c') = [] \<and> length (cl_sent (after_queries 5 21 c')) = 1"
proof -
  define c where "c = client_new 0 0 (config_default\<lparr>cfg_temperature_probes :=
    [\<lparr>probe_zone_id = 5, probe_interval_minutes = 1, probe_max_timeout_errors = 3,
      probe_max_sensor_errors = 4, probe_unblock_enabled = True, probe_unblock_after_cycles = 10\<rparr>]\<rparr>)"
  define c' where "c' = c\<lparr>cl_state := update_zone 5 (\<lambda>z. z\<lparr>z_temperature_status := BlockSensorMissing,
      z_temperature_timeout_errors_current := 4\<rparr>) (cl_state c)\<rparr>"
  define z where "z = (zone_new 0 5)\<lparr>z_temperature_status := BlockSensorMissing,
      z_temperature_timeout_errors_current := 4\<rparr>"
  have limits: "temp_limits_of (cl_config c') 5 = \<lparr>max_timeout_errors = 3, max_sensor_errors = 4,
      unblock_enabled = True, unblock_after_cycles = 10\<rparr>"
    by (simp add: temp_limits_of_def client_new_def c'_def c_def)
  have zone: "get_zone (cl_state c') 5 = Some z"
  proof -
    have "get_zone (cl_state c) 5 = Some (zone_new 0 5)"
      by (simp add: c_def client_new_def satel_state_new_def get_zone_def get_def element_index_def)
    then show ?thesis by (simp add: c'_def z_def get_zone_update)
  qed
  have "queries_until_retry (temp_limits_of (cl_config c') 5) z = 20"
    by (simp add: limits queries_until_retry_def round_length_def excess_def z_def zone_new_def)
  moreover have "temp_blocked (temp_limits_of (cl_config c') 5) z" "z_temperature_blocked_cycles z = 0"
    by (simp_all add: temp_blocked_def z_def zone_new_def)
  moreover have "cl_sent c' = []" by (simp add: c'_def c_def client_new_def)
  ultimately have "cl_sent (after_queries 5 20 c') = [] \<and> length (cl_sent (after_queries 5 (Suc 20) c')) = 1"
    using blocked_sensor_retries [OF zone] by (simp add: limits del: after_queries_simps)
  then show ?thesis unfolding Let_def c'_def [symmetric] c_def [symmetric] by simp
qed

end
