(* ===== verification/Client_Control.thy ===== *)
theory Client_Control
  imports Temperature
begin

text \<open>
  The control operations of the client (\<open>src/src/client.rs\<close>): arming, disarming, clearing alarms,
  switching outputs and setting the clock. Each sends a command with the user's code, eight bytes of
  packed decimal digits, and evaluates the result code 0xEF of the panel. \<open>format_time\<close> stands for
  the formatting of a time by the \<open>chrono\<close> crate with \<open>%Y%m%d%H%M%S\<close>.
\<close>

section \<open>User codes and results\<close>

definition to_digit :: "nat \<Rightarrow> nat option" where
  "to_digit ch = (if 48 \<le> ch \<and> ch \<le> 57 then Some (ch - 48) else None)"

text \<open>The loop of \<open>format_user_code\<close>, with the bytes, the current byte and the half of it.\<close>

fun user_code_loop :: "ustring \<Rightarrow> bytes \<Rightarrow> nat \<Rightarrow> bool \<Rightarrow> bytes" where
  "user_code_loop [] bcd_code current_byte half_byte = bcd_code"
| "user_code_loop (ch # chs) bcd_code current_byte half_byte =
    (case to_digit ch of
       None \<Rightarrow> user_code_loop chs bcd_code current_byte half_byte
     | Some digit \<Rightarrow>
         if \<not> half_byte then
           user_code_loop chs (bcd_code[current_byte := push_bit 4 (word_of_nat digit) OR 0x0F]) current_byte True
         else
           let bcd_code = bcd_code[current_byte := (bcd_code ! current_byte AND 0xF0) OR word_of_nat digit]
           in if 8 \<le> current_byte + 1 then bcd_code
              else user_code_loop chs bcd_code (current_byte + 1) False)"

definition format_user_code :: "ustring \<Rightarrow> bytes" where
  "format_user_code code = user_code_loop code (replicate 8 0xFF) 0 False"

definition handle_result_code :: "bytes \<Rightarrow> unit satel_result" where
  "handle_result_code response =
    (if response = [] then Inl InvalidFrame
     else if hd response \<noteq> command_to_byte ResultCode then Inl InvalidFrame
     else let code = unwrap_or (get response 1) 0xFF
       in if code = 0x00 then Inr ()
          else if code = 0x01 then Inl InvalidUserCode
          else if code = 0x02 then Inl NoAccess
          else if code = 0x11 \<or> code = 0x12 then Inl CanNotArm
          else if code = 0xFF then Inr ()
          else Inl (IntegraResultError code))"

definition resolve_code :: "config \<Rightarrow> ustring option \<Rightarrow> ustring satel_result" where
  "resolve_code cfg code = (case code of
     Some c \<Rightarrow> Inr c
   | None \<Rightarrow> (case cfg_user_code cfg of Some c \<Rightarrow> Inr c | None \<Rightarrow> Inl InvalidUserCode))"

text \<open>The mask of \<open>n\<close> bytes with the bit of one partition or output.\<close>

definition ident_mask :: "nat \<Rightarrow> u16 \<Rightarrow> bytes" where
  "ident_mask n ident = (let idx = unat (ident - 1); msk = replicate n 0
     in msk[idx div 8 := msk ! (idx div 8) OR push_bit (idx mod 8) 1])"

text \<open>Sending a command and evaluating the result, the common end of the operations.\<close>

definition send_control :: "bytes \<Rightarrow> unit op" where
  "send_control data = bind_op (exchange data None None) (\<lambda>response. lift_op (handle_result_code response))"

section \<open>Partitions\<close>

definition arm_command :: "u8 \<Rightarrow> bool \<Rightarrow> command" where
  "arm_command arm_mode force =
    (if force then
       if arm_mode = 1 then ForceArmMode1 else if arm_mode = 2 then ForceArmMode2
       else if arm_mode = 3 then ForceArmMode3 else ForceArmMode0
     else
       if arm_mode = 1 then ArmMode1 else if arm_mode = 2 then ArmMode2
       else if arm_mode = 3 then ArmMode3 else ArmMode0)"

definition arm :: "u16 \<Rightarrow> u8 \<Rightarrow> bool \<Rightarrow> ustring option \<Rightarrow> unit op" where
  "arm partition_id arm_mode force code c =
    (if \<not> (1 \<le> partition_id \<and> partition_id \<le> 32) then (Inl NoAccess, c)
     else bind_op (lift_op (resolve_code (cl_config c) code)) (\<lambda>resolved_code.
       send_control (command_to_byte (arm_command arm_mode force)
         # format_user_code resolved_code @ ident_mask 4 partition_id)) c)"

definition arm_full :: "u16 \<Rightarrow> ustring option \<Rightarrow> unit op" where
  "arm_full partition_id code = arm partition_id 0 False code"

definition arm_stay :: "u16 \<Rightarrow> ustring option \<Rightarrow> unit op" where
  "arm_stay partition_id code = arm partition_id 1 False code"

definition arm_stay_delay0 :: "u16 \<Rightarrow> ustring option \<Rightarrow> unit op" where
  "arm_stay_delay0 partition_id code = arm partition_id 2 False code"

definition arm_stay_no_exit :: "u16 \<Rightarrow> ustring option \<Rightarrow> unit op" where
  "arm_stay_no_exit partition_id code = arm partition_id 3 False code"

definition force_arm_full :: "u16 \<Rightarrow> ustring option \<Rightarrow> unit op" where
  "force_arm_full partition_id code = arm partition_id 0 True code"

definition force_arm_stay :: "u16 \<Rightarrow> ustring option \<Rightarrow> unit op" where
  "force_arm_stay partition_id code = arm partition_id 1 True code"

definition disarm :: "u16 \<Rightarrow> ustring option \<Rightarrow> unit op" where
  "disarm partition_id code c =
    (if \<not> (1 \<le> partition_id \<and> partition_id \<le> 32) then (Inl NoAccess, c)
     else bind_op (lift_op (resolve_code (cl_config c) code)) (\<lambda>resolved_code.
       send_control (command_to_byte Disarm # format_user_code resolved_code @ ident_mask 4 partition_id)) c)"

definition clear_alarm :: "u16 \<Rightarrow> ustring option \<Rightarrow> unit op" where
  "clear_alarm partition_id code c =
    (if \<not> (1 \<le> partition_id \<and> partition_id \<le> 32) then (Inl NoAccess, c)
     else bind_op (lift_op (resolve_code (cl_config c) code)) (\<lambda>resolved_code.
       send_control (command_to_byte ClearAlarm # format_user_code resolved_code @ ident_mask 4 partition_id)) c)"

section \<open>Outputs and clock\<close>

definition set_output :: "u16 \<Rightarrow> bool \<Rightarrow> ustring option \<Rightarrow> unit op" where
  "set_output output_id state code c =
    (if \<not> (1 \<le> output_id \<and> output_id \<le> 256) then (Inl NoAccess, c)
     else bind_op (lift_op (resolve_code (cl_config c) code)) (\<lambda>resolved_code.
       send_control (command_to_byte (if state then OutputsOn else OutputsOff)
         # format_user_code resolved_code @ ident_mask 32 output_id)) c)"

definition set_output_on :: "u16 \<Rightarrow> ustring option \<Rightarrow> unit op" where
  "set_output_on output_id code = set_output output_id True code"

definition set_output_off :: "u16 \<Rightarrow> ustring option \<Rightarrow> unit op" where
  "set_output_off output_id code = set_output output_id False code"

definition set_output_toggle :: "u16 \<Rightarrow> ustring option \<Rightarrow> unit op" where
  "set_output_toggle output_id code c =
    (if \<not> (1 \<le> output_id \<and> output_id \<le> 256) then (Inl NoAccess, c)
     else bind_op (lift_op (resolve_code (cl_config c) code)) (\<lambda>resolved_code.
       send_control (command_to_byte OutputsSwitch # format_user_code resolved_code @ ident_mask 32 output_id)) c)"

definition set_satel_time :: "(timestamp \<Rightarrow> ustring) \<Rightarrow> timestamp \<Rightarrow> ustring option \<Rightarrow> unit op" where
  "set_satel_time format_time datetime code c =
    bind_op (lift_op (resolve_code (cl_config c) code)) (\<lambda>resolved_code.
      send_control (command_to_byte SetRtcClock # format_user_code resolved_code
        @ utf8_encode (format_time datetime))) c"

section \<open>Packed digits\<close>

text \<open>The halves of the bytes of a code, and the digits before the first half \<open>F\<close>.\<close>

definition halves :: "bytes \<Rightarrow> nat list" where
  "halves bs = concat (map (\<lambda>b. [unat b div 16, unat b mod 16]) bs)"

definition bcd_digits :: "bytes \<Rightarrow> nat list" where
  "bcd_digits bs = takeWhile (\<lambda>d. d \<noteq> 15) (halves bs)"

definition code_digits :: "ustring \<Rightarrow> nat list" where
  "code_digits code = List.map_filter to_digit code"

lemma halves_length: "length (halves bs) = 2 * length bs"
  by (induction bs) (simp_all add: halves_def)

lemma halves_padding: "halves (replicate n 0xFF) = replicate (2 * n) 15"
  by (induction n) (simp_all add: halves_def)

lemma halves_update:
  "halves (bs[i := b]) = (halves bs)[2 * i := unat b div 16, 2 * i + 1 := unat b mod 16]"
proof (induction bs arbitrary: i)
  case Nil
  then show ?case by (simp add: halves_def)
next
  case (Cons a bs)
  then show ?case by (cases i) (simp_all add: halves_def)
qed

lemma halves_nth:
  "i < length bs \<Longrightarrow> halves bs ! (2 * i) = unat (bs ! i) div 16 \<and> halves bs ! (2 * i + 1) = unat (bs ! i) mod 16"
proof (induction bs arbitrary: i)
  case (Cons a bs)
  then show ?case by (cases i) (simp_all add: halves_def)
qed simp

lemma digit_cases: "d < 10 \<Longrightarrow> d \<in> set [0, 1, 2, 3, 4, 5, 6, 7, 8, 9 :: nat]"
  by auto

lemma high_digit:
  assumes "d < 10" shows "unat (push_bit 4 (word_of_nat d) OR 0x0F :: u8) = 16 * d + 15"
proof -
  have "list_all (\<lambda>d. unat (push_bit 4 (word_of_nat d) OR 0x0F :: u8) = 16 * d + 15)
      [0, 1, 2, 3, 4, 5, 6, 7, 8, 9]"
    by simp
  with digit_cases [OF assms] show ?thesis by (simp only: list_all_iff)
qed

lemma low_digit:
  assumes "d < 10" "e < 10"
  shows "unat ((word_of_nat (16 * d + 15) AND 0xF0) OR word_of_nat e :: u8) = 16 * d + e"
proof -
  have "list_all (\<lambda>d. list_all (\<lambda>e.
      unat ((word_of_nat (16 * d + 15) AND 0xF0) OR word_of_nat e :: u8) = 16 * d + e)
      [0, 1, 2, 3, 4, 5, 6, 7, 8, 9]) [0, 1, 2, 3, 4, 5, 6, 7, 8, 9]"
    by simp
  with digit_cases [OF assms(1)] digit_cases [OF assms(2)] show ?thesis by (simp only: list_all_iff)
qed

lemma to_digit_bound: "to_digit ch = Some d \<Longrightarrow> d < 10"
  by (auto simp: to_digit_def split: if_splits)

lemma code_digits_simps [simp]:
  "code_digits [] = []"
  "code_digits (ch # chs) = (case to_digit ch of None \<Rightarrow> code_digits chs | Some d \<Rightarrow> d # code_digits chs)"
  by (simp_all add: code_digits_def List.map_filter_def split: option.splits)

text \<open>The bytes written so far hold the digits read so far and are padded with \<open>F\<close>.\<close>

definition holds_digits :: "bytes \<Rightarrow> nat list \<Rightarrow> bool" where
  "holds_digits bs ds = (length bs = 8 \<and> length ds \<le> 16 \<and> list_all (\<lambda>d. d < 10) ds
    \<and> halves bs = ds @ replicate (16 - length ds) 15)"

lemma replicate_cons: "0 < n \<Longrightarrow> replicate n x = x # replicate (n - 1) x"
  by (cases n) simp_all

lemma holds_first_half:
  assumes "holds_digits bs ds" "length ds = 2 * i" "i < 8" "d < 10"
  shows "holds_digits (bs[i := push_bit 4 (word_of_nat d) OR 0x0F]) (ds @ [d])"
proof -
  have "replicate (16 - length ds) (15 :: nat) = 15 # 15 # replicate (14 - length ds) 15"
    "replicate (15 - length ds) (15 :: nat) = 15 # replicate (14 - length ds) 15"
    using assms(2,3) by (simp_all add: replicate_cons numeral_eq_Suc)
  then show ?thesis using assms
    by (simp add: holds_digits_def halves_update high_digit list_update_append nth_append)
qed

lemma holds_second_half:
  assumes "holds_digits bs (ds @ [d])" "length ds = 2 * i" "i < 8" "e < 10"
  shows "holds_digits (bs[i := (bs ! i AND 0xF0) OR word_of_nat e]) (ds @ [d, e])"
proof -
  have d: "d < 10" and halves: "halves bs = ds @ d # replicate (15 - length ds) 15" and len: "length bs = 8"
    using assms(1,2) by (simp_all add: holds_digits_def)
  have pad: "replicate (15 - length ds) (15 :: nat) = 15 # replicate (14 - length ds) 15"
    using assms(2,3) by (simp add: replicate_cons numeral_eq_Suc)
  have "unat (bs ! i) div 16 = d \<and> unat (bs ! i) mod 16 = 15"
    using halves_nth [of i bs] assms(2,3) halves pad len by (simp add: nth_append)
  then have "unat (bs ! i) = 16 * d + 15"
    by (metis div_mult_mod_eq mult.commute)
  then have "bs ! i = word_of_nat (16 * d + 15)"
    by (metis of_nat_unat ucast_id)
  then show ?thesis
    using assms(1-4) d halves pad low_digit [OF d assms(4)]
    by (simp add: holds_digits_def halves_update list_update_append nth_append)
qed

lemma user_code_loop_digits:
  "holds_digits bs ds \<Longrightarrow> length ds = 2 * i + (if half then 1 else 0) \<Longrightarrow> i < 8 \<Longrightarrow>
    holds_digits (user_code_loop chs bs i half) (take 16 (ds @ code_digits chs))"
proof (induction chs arbitrary: bs ds i half)
  case Nil
  then show ?case by (simp add: holds_digits_def)
next
  case (Cons ch chs)
  show ?case
  proof (cases "to_digit ch")
    case None
    with Cons show ?thesis by simp
  next
    case (Some d)
    note d = to_digit_bound [OF Some]
    show ?thesis
    proof (cases half)
      case False
      with Cons.prems have "holds_digits (bs[i := push_bit 4 (word_of_nat d) OR 0x0F]) (ds @ [d])"
        using holds_first_half d by simp
      from Cons.IH [OF this, of i True] Cons.prems(2,3) False Some show ?thesis by simp
    next
      case True
      with Cons.prems(2) obtain ds' d' where ds: "ds = ds' @ [d']" "length ds' = 2 * i"
        by (cases ds rule: rev_cases) auto
      let ?bs = "bs[i := (bs ! i AND 0xF0) OR word_of_nat d]"
      have bs: "holds_digits ?bs (ds' @ [d', d])"
        using holds_second_half [OF _ ds(2) Cons.prems(3) d] Cons.prems(1) ds(1) by simp
      show ?thesis
      proof (cases "8 \<le> i + 1")
        case True
        with Cons.prems(3) have "i = 7" by simp
        with \<open>half\<close> Some bs ds show ?thesis by simp
      next
        case False
        with Cons.IH [OF bs, of "i + 1" False] \<open>half\<close> Some ds show ?thesis by simp
      qed
    qed
  qed
qed

text \<open>
  C34. A user's code is sent as eight bytes whose halves are the first sixteen digits of the code,
  whatever other characters stand between them, padded with \<open>F\<close>; reading the digits up to the first
  \<open>F\<close> gives them back.
\<close>

theorem user_code_roundtrip:
  "length (format_user_code code) = 8
    \<and> halves (format_user_code code)
      = take 16 (code_digits code) @ replicate (16 - length (code_digits code)) 15
    \<and> bcd_digits (format_user_code code) = take 16 (code_digits code)"
proof -
  have "holds_digits (replicate 8 0xFF) []"
    using halves_padding [of 8] by (simp add: holds_digits_def)
  from user_code_loop_digits [OF this, of 0 False code]
  have holds: "holds_digits (format_user_code code) (take 16 (code_digits code))"
    by (simp add: format_user_code_def)
  have pad: "takeWhile (\<lambda>d. d \<noteq> 15) (replicate n (15 :: nat)) = []" for n by (cases n) simp_all
  from holds have digits: "\<forall>d \<in> set (take 16 (code_digits code)). d \<noteq> 15"
    by (auto simp: holds_digits_def list_all_iff)
  from holds have halves: "halves (format_user_code code)
      = take 16 (code_digits code) @ replicate (16 - length (code_digits code)) 15"
    by (simp add: holds_digits_def)
  have "bcd_digits (format_user_code code) = take 16 (code_digits code)"
    unfolding bcd_digits_def halves using digits pad by (simp add: takeWhile_append2)
  with holds halves show ?thesis by (simp add: holds_digits_def)
qed

section \<open>Requests\<close>

lemma ident_mask_bits:
  assumes "1 \<le> unat ident" "unat ident \<le> 8 * n"
  shows "length (ident_mask n ident) = n \<and> (\<forall>k. mask_bit (ident_mask n ident) k \<longleftrightarrow> k + 1 = unat ident)"
proof -
  have idx: "unat (ident - 1) = unat ident - 1"
    using assms(1) by (simp add: unat_sub word_le_nat_alt)
  have "ident_mask n ident = mask_set (True, (unat ident - 1) div 8, (unat ident - 1) mod 8) (replicate n 0)"
    by (simp add: ident_mask_def Let_def idx)
  moreover have "\<not> mask_bit (replicate n 0) k" for k
    by (auto simp: mask_bit_def nth_replicate div_less_iff_less_mult mult.commute)
  ultimately show ?thesis using assms
    by (auto simp: mask_set_bit div_less_iff_less_mult simp del: mask_set.simps)
qed

definition control_table :: "(command \<times> nat \<times> (u16 \<Rightarrow> ustring option \<Rightarrow> unit op)) list" where
  "control_table =
    [(ArmMode0, 4, arm_full), (ArmMode1, 4, arm_stay), (ArmMode2, 4, arm_stay_delay0),
     (ArmMode3, 4, arm_stay_no_exit), (ForceArmMode0, 4, force_arm_full), (ForceArmMode1, 4, force_arm_stay),
     (Disarm, 4, disarm), (ClearAlarm, 4, clear_alarm),
     (OutputsOn, 32, set_output_on), (OutputsOff, 32, set_output_off), (OutputsSwitch, 32, set_output_toggle)]"

lemmas control_defs = arm_full_def arm_stay_def arm_stay_delay0_def arm_stay_no_exit_def
  force_arm_full_def force_arm_stay_def disarm_def clear_alarm_def set_output_on_def set_output_off_def
  set_output_toggle_def arm_def set_output_def arm_command_def

text \<open>What every operation of the table does with its number and code.\<close>

lemma control_table_row:
  assumes "(cmd, n, f) \<in> set control_table"
  shows "f ident code c =
    (if \<not> (1 \<le> unat ident \<and> unat ident \<le> 8 * n) then (Inl NoAccess, c)
     else bind_op (lift_op (resolve_code (cl_config c) code)) (\<lambda>uc.
       send_control (command_to_byte cmd # format_user_code uc @ ident_mask n ident)) c)"
  using assms unfolding control_table_def
  by (auto simp: control_defs word_le_nat_alt)

text \<open>
  C18. The control operations. A partition number outside 1 to 32, or an output number outside 1 to
  256, is refused with "no access", and a missing code with "invalid user code", without a request.
  Otherwise exactly one request is made: the operation's command, the eight bytes of the code given or
  configured, and a mask of 4 or 32 bytes in which exactly the bit of that number is set; the result
  is the reading of the panel's answer, or the error of the exchange.
\<close>

theorem control_requests:
  assumes "(cmd, n, f) \<in> set control_table"
  shows "\<exists>msk. length msk = n
    \<and> (if 1 \<le> unat ident \<and> unat ident \<le> 8 * n
       then (\<forall>k. mask_bit msk k \<longleftrightarrow> k + 1 = unat ident)
         \<and> f ident code c = (case resolve_code (cl_config c) code of
             Inl e \<Rightarrow> (Inl e, c)
           | Inr uc \<Rightarrow>
               (case exchange (command_to_byte cmd # format_user_code uc @ msk) None None c of
                  (Inl e, c') \<Rightarrow> (Inl e, c')
                | (Inr response, c') \<Rightarrow> (handle_result_code response, c')))
       else f ident code c = (Inl NoAccess, c))"
proof (cases "1 \<le> unat ident \<and> unat ident \<le> 8 * n")
  case True
  with ident_mask_bits [of ident n] show ?thesis
    by (intro exI [of _ "ident_mask n ident"])
      (simp add: control_table_row [OF assms] send_control_def bind_op_def lift_op_def
        split: sum.splits prod.splits)
next
  case False
  then show ?thesis
    using control_table_row [OF assms] by (intro exI [of _ "replicate n 0"]) auto
qed

theorem control_requests_witness:
  "\<exists>msk. length msk = 4 \<and> mask_bit msk 4
    \<and> arm_stay 5 (Some (ustring_of ''1234'')) ((client_new 0 0 config_default)\<lparr>cl_answers := [(Inr [0xEF, 0], 1)]\<rparr>)
      = (Inr (), snd (exchange (0x81 # format_user_code (ustring_of ''1234'') @ msk) None None
          ((client_new 0 0 config_default)\<lparr>cl_answers := [(Inr [0xEF, 0], 1)]\<rparr>)))"
proof -
  have row: "(ArmMode1, 4, arm_stay) \<in> set control_table" by (simp add: control_table_def)
  show ?thesis
    using control_requests [OF row, of 5 "Some (ustring_of ''1234'')"
        "(client_new 0 0 config_default)\<lparr>cl_answers := [(Inr [0xEF, 0], 1)]\<rparr>"]
    by (auto simp: resolve_code_def exchange_answer handle_result_code_def get_def unwrap_or_def)
qed

end
