(* ===== verification/Worker.thy ===== *)
theory Worker
  imports Client_Control Auto_Requester
begin

text \<open>
  The connection worker, \<open>src/src/worker.rs\<close>: the state machine of the connection, the exchange of a
  command with the panel, the handshake, the keep-alive pings, the watchdog and the reconnection.
  The outside world is a script: a link holds the items that will arrive on it, each with the time
  of its arrival, and the outcomes of the coming sends, each with its duration; \<open>wk_opens\<close> holds the
  outcomes of the coming attempts to open a connection. What \<open>Framed\<close> yields is a frame decoded as in
  \<open>Codec\<close>, an input or output error, or the end of the stream. At the pauses of the handshake the other
  tasks run; what they do to the shared state is the argument \<open>bg\<close>. The messages to the state worker
  are logged in \<open>wk_notes\<close> with their times. The counters wrap at their width.
\<close>

section \<open>State\<close>

datatype link_item = LinkFrame bytes | LinkError io_error | LinkClosed

record link =
  lk_incoming :: "(timestamp \<times> link_item) list"
  lk_sends :: "(duration \<times> io_error option) list"
  lk_sent :: "bytes list"

record worker =
  wk_config :: config
  wk_state :: satel_state
  wk_stream :: "link option"
  wk_has_state_worker :: bool
  wk_auto_read_dirty :: bool
  wk_missed_pings :: u32
  wk_now :: timestamp
  wk_notes :: "(timestamp \<times> state_worker_message) list"
  wk_opens :: "(duration \<times> link satel_result) list"

section \<open>Status\<close>

definition get_current_state :: "worker \<Rightarrow> connection_state" where
  "get_current_state w = cs_state (tel_status (s_telemetry (wk_state w)))"

definition update_telemetry :: "(connection_telemetry \<Rightarrow> connection_telemetry) \<Rightarrow> worker \<Rightarrow> worker" where
  "update_telemetry f w = w\<lparr>wk_state := (wk_state w)\<lparr>s_telemetry := f (s_telemetry (wk_state w))\<rparr>\<rparr>"

definition notify_state_worker :: "state_worker_message \<Rightarrow> worker \<Rightarrow> worker" where
  "notify_state_worker msg w =
    (if wk_has_state_worker w then w\<lparr>wk_notes := wk_notes w @ [(wk_now w, msg)]\<rparr> else w)"

definition reset_missed_pings :: "worker \<Rightarrow> worker" where
  "reset_missed_pings w = w\<lparr>wk_missed_pings := 0\<rparr>"

definition handle_ping_timeout :: "worker \<Rightarrow> bool \<times> worker" where
  "handle_ping_timeout w =
    (let w = w\<lparr>wk_missed_pings := (if wk_missed_pings w = -1 then -1 else wk_missed_pings w + 1)\<rparr>;
         limit = cfg_max_missed_pings (wk_config w)
     in (0 < limit \<and> limit \<le> wk_missed_pings w, w))"

definition status_at :: "connection_state \<Rightarrow> timestamp \<Rightarrow> connection_telemetry \<Rightarrow> connection_telemetry" where
  "status_at st now t = t\<lparr>tel_status := (tel_status t)\<lparr>cs_state := st, cs_last_event_at := now\<rparr>\<rparr>"

definition set_state_connecting :: "worker \<Rightarrow> worker" where
  "set_state_connecting w = notify_state_worker (MsgStatusChanged Connecting)
    (update_telemetry (status_at Connecting (wk_now w)) w)"

definition set_state_handshake :: "worker \<Rightarrow> worker" where
  "set_state_handshake w = notify_state_worker (MsgStatusChanged Handshake)
    (update_telemetry (status_at Handshake (wk_now w)) w)"

definition connection_type_of :: "connection_config \<Rightarrow> connection_type" where
  "connection_type_of conn = (case conn of TcpConfig host port \<Rightarrow> TcpType host port | UartConfig path _ \<Rightarrow> UartType path)"

definition set_state_connected :: "worker \<Rightarrow> worker" where
  "set_state_connected w =
    (let w = reset_missed_pings w;
         w = update_telemetry (\<lambda>t. (status_at Connected (wk_now w) t)\<lparr>
               tel_connections_established := tel_connections_established t + 1,
               tel_connected_since := Some (wk_now w),
               tel_status := \<lparr>cs_state = Connected, cs_failed_attempts = 0, cs_last_event_at = wk_now w\<rparr>,
               tel_last_connected_at := Some (wk_now w)\<rparr>) w;
         w = w\<lparr>wk_state := (wk_state w)\<lparr>
               s_connection_type := Some (connection_type_of (cfg_connection (wk_config w)))\<rparr>\<rparr>
     in notify_state_worker (MsgStatusChanged Connected) w)"

text \<open>The end of a session moves its length into the accumulated time.\<close>

definition close_session :: "timestamp \<Rightarrow> connection_telemetry \<Rightarrow> connection_telemetry" where
  "close_session now t = (case tel_connected_since t of
     None \<Rightarrow> t
   | Some since \<Rightarrow> t\<lparr>tel_connected_since := None,
       tel_total_connected_before := duration_saturating_add (tel_total_connected_before t) (session_length now since)\<rparr>)"

definition lose_connection :: "timestamp \<Rightarrow> connection_telemetry \<Rightarrow> connection_telemetry" where
  "lose_connection now t =
    (let t = (if cs_state (tel_status t) = Connected
              then close_session now (t\<lparr>tel_connections_lost := tel_connections_lost t + 1\<rparr>) else t)
     in t\<lparr>tel_status := \<lparr>cs_state = ConnectionLost,
          cs_failed_attempts = cs_failed_attempts (tel_status t) + 1, cs_last_event_at = now\<rparr>\<rparr>)"

definition connection_lost :: "worker \<Rightarrow> worker" where
  "connection_lost w =
    (let w = reset_missed_pings (w\<lparr>wk_stream := None\<rparr>)
     in notify_state_worker (MsgStatusChanged ConnectionLost) (update_telemetry (lose_connection (wk_now w)) w))"

definition end_connection :: "timestamp \<Rightarrow> connection_telemetry \<Rightarrow> connection_telemetry" where
  "end_connection now t = (close_session now t)\<lparr>tel_status :=
     \<lparr>cs_state = Disconnected, cs_failed_attempts = 0, cs_last_event_at = now\<rparr>\<rparr>"

definition worker_disconnect :: "worker \<Rightarrow> worker" where
  "worker_disconnect w =
    (let w = reset_missed_pings (w\<lparr>wk_stream := None\<rparr>)
     in notify_state_worker (MsgStatusChanged Disconnected) (update_telemetry (end_connection (wk_now w)) w))"

definition calculate_backoff :: "worker \<Rightarrow> duration" where
  "calculate_backoff w =
    (let attempts = cs_failed_attempts (tel_status (s_telemetry (wk_state w)))
     in if attempts = 0 then millis 500
        else let ms = 500 * 2 ^ min (unat (sat_sub attempts 1)) 7 in millis (min ms 60000))"

section \<open>Exchange\<close>

definition count_frame :: "connection_telemetry \<Rightarrow> connection_telemetry" where
  "count_frame t = t\<lparr>tel_non_ping_frames := tel_non_ping_frames t + 1\<rparr>"

definition count_io_error :: "connection_telemetry \<Rightarrow> connection_telemetry" where
  "count_io_error t = t\<lparr>tel_io_errors := tel_io_errors t + 1\<rparr>"

definition count_timeout :: "connection_telemetry \<Rightarrow> connection_telemetry" where
  "count_timeout t = t\<lparr>tel_timeouts := tel_timeouts t + 1\<rparr>"

definition count_rejected :: "connection_telemetry \<Rightarrow> connection_telemetry" where
  "count_rejected t = t\<lparr>tel_rejected_by_panel := tel_rejected_by_panel t + 1\<rparr>"

text \<open>\<open>timeout(write_timeout, stream.send(data))\<close>: \<open>None\<close> is an elapsed timeout.\<close>

definition link_send :: "bytes \<Rightarrow> duration \<Rightarrow> link \<Rightarrow> timestamp \<Rightarrow> io_error option option \<times> link \<times> timestamp" where
  "link_send data write_timeout l now =
    (let (delay, outcome) = (case lk_sends l of [] \<Rightarrow> (0, None) | x # _ \<Rightarrow> x);
         l = l\<lparr>lk_sends := tl (lk_sends l), lk_sent := lk_sent l @ [data]\<rparr>
     in if delay \<le> write_timeout then (Some outcome, l, now + int delay)
        else (None, l, now + int write_timeout))"

text \<open>What the worker does with a frame that arrives during an exchange.\<close>

definition is_accepted :: "bytes \<Rightarrow> bool" where
  "is_accepted frame = (hd frame = 0xEF \<and> get frame 1 = Some 0xFF)"

definition is_target :: "u8 \<Rightarrow> bytes \<Rightarrow> bool" where
  "is_target expected_cmd frame = (hd frame = expected_cmd \<or> hd frame = 0xEF)"

definition exchange_frame :: "u8 \<Rightarrow> bool \<Rightarrow> bytes \<Rightarrow> worker \<Rightarrow> worker" where
  "exchange_frame expected_cmd is_ping frame w =
    (let w = reset_missed_pings w;
         is_result_code = (hd frame = 0xEF);
         w = (if is_result_code \<and> \<not> is_accepted frame then update_telemetry count_rejected w else w);
         w = (if \<not> is_ping \<or> \<not> is_target expected_cmd frame then update_telemetry count_frame w else w);
         is_name_response_ef = (expected_cmd = 0xEE \<and> is_result_code)
     in if (hd frame \<noteq> expected_cmd \<or> is_result_code) \<and> \<not> is_accepted frame \<and> \<not> is_name_response_ef
        then notify_state_worker (MsgFrame frame) w else w)"

definition set_incoming :: "(timestamp \<times> link_item) list \<Rightarrow> worker \<Rightarrow> worker" where
  "set_incoming items w = w\<lparr>wk_stream := map_option (\<lambda>l. l\<lparr>lk_incoming := items\<rparr>) (wk_stream w)\<rparr>"

definition exchange_timeout :: "timestamp \<Rightarrow> worker \<Rightarrow> bytes satel_result \<times> worker" where
  "exchange_timeout deadline w =
    (Inl Timeout, update_telemetry count_timeout (w\<lparr>wk_now := max (wk_now w) deadline\<rparr>))"

text \<open>The receive loop: the items still to arrive, until the deadline.\<close>

fun exchange_receive ::
  "u8 \<Rightarrow> bool \<Rightarrow> timestamp \<Rightarrow> (timestamp \<times> link_item) list \<Rightarrow> worker \<Rightarrow> bytes satel_result \<times> worker" where
  "exchange_receive expected_cmd is_ping deadline [] w = exchange_timeout deadline (set_incoming [] w)"
| "exchange_receive expected_cmd is_ping deadline ((t, item) # items) w =
    (if deadline \<le> wk_now w \<or> deadline \<le> t then exchange_timeout deadline (set_incoming ((t, item) # items) w)
     else let w = (set_incoming items w)\<lparr>wk_now := max (wk_now w) t\<rparr>
       in case item of
            LinkFrame frame \<Rightarrow>
              if frame = [] then exchange_receive expected_cmd is_ping deadline items w
              else let w = exchange_frame expected_cmd is_ping frame w
                in if is_target expected_cmd frame then (Inr frame, w)
                   else exchange_receive expected_cmd is_ping deadline items w
          | LinkError e \<Rightarrow> (Inl (Io e), connection_lost (update_telemetry count_io_error w))
          | LinkClosed \<Rightarrow> (Inl StreamClosed, connection_lost w))"

definition worker_exchange ::
  "bytes \<Rightarrow> u8 \<Rightarrow> duration \<Rightarrow> duration \<Rightarrow> bool \<Rightarrow> worker \<Rightarrow> bytes satel_result \<times> worker" where
  "worker_exchange data expected_cmd write_timeout read_timeout is_ping w =
    (case wk_stream w of
       None \<Rightarrow> (Inl NotConnected, w)
     | Some l \<Rightarrow>
         (case link_send data write_timeout l (wk_now w) of
            (outcome, l, now) \<Rightarrow>
              let w = w\<lparr>wk_stream := Some l, wk_now := now\<rparr>
              in case outcome of
                   None \<Rightarrow> (Inl Timeout, update_telemetry count_timeout w)
                 | Some (Some e) \<Rightarrow> (Inl (Io e), connection_lost (update_telemetry count_io_error w))
                 | Some None \<Rightarrow>
                     let w = update_telemetry (\<lambda>t. (if is_ping then t else count_frame t)\<lparr>tel_last_send_at := now\<rparr>) w
                     in exchange_receive expected_cmd is_ping (now + int read_timeout) (lk_incoming l) w))"

section \<open>Connection\<close>

definition pause :: "(satel_state \<Rightarrow> satel_state) \<Rightarrow> nat \<Rightarrow> worker \<Rightarrow> worker" where
  "pause bg ms w = w\<lparr>wk_now := wk_now w + int (millis ms), wk_state := bg (wk_state w)\<rparr>"

text \<open>
  Opening the transport. The outcome and its duration come from the script; the check of the key is
  the worker's own. No attempt left is an attempt that does not end before its timeout.
\<close>

definition connect_physical :: "duration \<Rightarrow> worker \<Rightarrow> link satel_result \<times> worker" where
  "connect_physical conn_timeout w =
    (case wk_opens w of
       [] \<Rightarrow> (Inl Timeout, w\<lparr>wk_now := wk_now w + int conn_timeout\<rparr>)
     | (delay, outcome) # opens \<Rightarrow>
         let w = w\<lparr>wk_opens := opens\<rparr>
         in if delay \<le> conn_timeout
            then (bind_result outcome (\<lambda>l.
                    if \<not> is_uart (cfg_connection (wk_config w)) \<and> cfg_encryption (wk_config w)
                        \<and> cfg_integration_key (wk_config w) = None
                    then Inl (InvalidIntegrationKey ''encryption is enabled but integration_key is not set'')
                    else Inr l),
                  w\<lparr>wk_now := wk_now w + int delay\<rparr>)
            else (Inl Timeout, w\<lparr>wk_now := wk_now w + int conn_timeout\<rparr>))"

text \<open>A version query of the handshake. A frame that does not parse ends it without closing the link.\<close>

definition handshake_query ::
  "command \<Rightarrow> (timestamp \<Rightarrow> bytes \<Rightarrow> 'v satel_result) \<Rightarrow> ('v \<Rightarrow> state_worker_message) \<Rightarrow> duration \<Rightarrow> worker
    \<Rightarrow> unit satel_result \<times> worker" where
  "handshake_query cmd parse msg conn_timeout w =
    (case worker_exchange [command_to_byte cmd] (command_to_byte cmd) conn_timeout conn_timeout False w of
       (Inr response, w) \<Rightarrow>
         (case parse (wk_now w) response of
            Inl e \<Rightarrow> (Inl e, w)
          | Inr version \<Rightarrow> (Inr (), notify_state_worker (msg version) w))
     | (Inl e, w) \<Rightarrow> (Inl e, connection_lost w))"

definition bind_worker ::
  "unit satel_result \<times> worker \<Rightarrow> (worker \<Rightarrow> unit satel_result \<times> worker) \<Rightarrow> unit satel_result \<times> worker" where
  "bind_worker rw f = (case rw of (Inl e, w) \<Rightarrow> (Inl e, w) | (Inr _, w) \<Rightarrow> f w)"

definition connect_handshake :: "(satel_state \<Rightarrow> satel_state) \<Rightarrow> duration \<Rightarrow> worker \<Rightarrow> unit satel_result \<times> worker" where
  "connect_handshake bg conn_timeout w =
    bind_worker (handshake_query ModuleVersion process_ethm_version MsgEthmVersion conn_timeout w) (\<lambda>w.
    bind_worker (handshake_query IntegraVersion process_integra_version MsgIntegraVersion conn_timeout w) (\<lambda>w.
    (Inr (), pause bg 100 w)))"

definition support_14_byte_mask :: "satel_state \<Rightarrow> bool" where
  "support_14_byte_mask s = (case s_ethm_version s of
     Some v \<Rightarrow> ec_support_8_troubles_groups (ev_capabilities v) | None \<Rightarrow> False)"

text \<open>The answer is never empty, so the report always exists.\<close>

definition send_push_mask :: "duration \<Rightarrow> worker \<Rightarrow> unit satel_result \<times> worker" where
  "send_push_mask conn_timeout w =
    (let wide = support_14_byte_mask (wk_state w);
         msk = build_push_mask (wk_config w) wide
     in case worker_exchange (command_to_byte ListOfNewData # msk) 0x7F conn_timeout conn_timeout False w of
          (Inl e, w) \<Rightarrow> (Inl e, w)
        | (Inr response, w) \<Rightarrow>
            (case process_auto_read_response (wk_config w) wide response of
               None \<Rightarrow> (Inl InvalidFrame, w)
             | Some report \<Rightarrow> (Inr (), notify_state_worker (MsgAutoReadReport report) w)))"

definition connect_auto_read :: "duration \<Rightarrow> worker \<Rightarrow> unit satel_result \<times> worker" where
  "connect_auto_read conn_timeout w = (case send_push_mask conn_timeout w of
     (Inr _, w) \<Rightarrow> (Inr (), w)
   | (Inl e, w) \<Rightarrow> (Inl e, connection_lost w))"

definition worker_connect :: "(satel_state \<Rightarrow> satel_state) \<Rightarrow> worker \<Rightarrow> unit satel_result \<times> worker" where
  "worker_connect bg w =
    (let w = set_state_connecting w;
         conn_timeout = millis (unat (cfg_read_timeout_ms (wk_config w)));
         w = w\<lparr>wk_auto_read_dirty := False\<rparr>
     in case connect_physical conn_timeout w of
          (Inl e, w) \<Rightarrow> (Inl e, connection_lost w)
        | (Inr l, w) \<Rightarrow>
            let w = set_state_handshake (w\<lparr>wk_stream := Some l\<rparr>);
                w = pause bg 200 w
            in bind_worker (connect_handshake bg conn_timeout w) (\<lambda>w.
               bind_worker (if is_auto_read_enabled (wk_config w) then connect_auto_read conn_timeout w else (Inr (), w))
                 (\<lambda>w. (Inr (), set_state_connected w))))"

section \<open>Events\<close>

datatype reply = ReplyFrame "bytes satel_result" | ReplyUnit "unit satel_result"

definition first_byte :: "bytes \<Rightarrow> u8" where
  "first_byte data = (case data of [] \<Rightarrow> 0 | b # _ \<Rightarrow> b)"

fun handle_message_internal ::
  "(satel_state \<Rightarrow> satel_state) \<Rightarrow> internal_message \<Rightarrow> worker \<Rightarrow> reply \<times> worker" where
  "handle_message_internal bg (ExchangeStandard data write_timeout read_timeout created_at max_queue_time) w =
    (if get_current_state w \<noteq> Connected then (ReplyFrame (Inl NotConnected), w)
     else if max_queue_time < elapsed (wk_now w) created_at then (ReplyFrame (Inl MessageExpired), w)
     else map_prod ReplyFrame id (worker_exchange data (first_byte data) write_timeout read_timeout False w))"
| "handle_message_internal bg (ExchangePriority data write_timeout read_timeout) w =
    (if get_current_state w = Disconnected \<or> get_current_state w = ConnectionLost
     then (ReplyFrame (Inl NotConnected), w)
     else map_prod ReplyFrame id (worker_exchange data (first_byte data) write_timeout read_timeout False w))"
| "handle_message_internal bg ConnectMessage w =
    (if get_current_state w = Connected \<or> get_current_state w = Connecting \<or> get_current_state w = Handshake
     then (ReplyUnit (Inl AlreadyConnected), w)
     else map_prod ReplyUnit id (worker_connect bg w))"
| "handle_message_internal bg DisconnectMessage w =
    (if get_current_state w = Disconnected then (ReplyUnit (Inl NotConnected), w)
     else (ReplyUnit (Inr ()), worker_disconnect w))"

text \<open>
  \<open>receive_push_internal\<close>. It reads the first byte of the frame without a check, so an empty frame
  makes the worker panic: the outer \<open>None\<close>.
\<close>

definition receive_push_internal :: "worker \<Rightarrow> (bool satel_result \<times> worker) option" where
  "receive_push_internal w =
    (case wk_stream w of
       None \<Rightarrow> Some (Inr False, w)
     | Some l \<Rightarrow>
         let deadline = wk_now w + int (millis 100) in
         (case lk_incoming l of
            [] \<Rightarrow> Some (Inr False, w\<lparr>wk_now := deadline\<rparr>)
          | (t, item) # items \<Rightarrow>
              if deadline \<le> t then Some (Inr False, w\<lparr>wk_now := deadline\<rparr>)
              else let w = (set_incoming items w)\<lparr>wk_now := max (wk_now w) t\<rparr>
                in case item of
                     LinkFrame frame \<Rightarrow>
                       let w = update_telemetry count_frame w
                       in if frame = [] then None
                          else Some (Inr True, if is_accepted frame then w else notify_state_worker (MsgFrame frame) w)
                   | LinkError e \<Rightarrow> Some (Inl (Io e), update_telemetry count_io_error w)
                   | LinkClosed \<Rightarrow> Some (Inl StreamClosed, w)))"

definition push_event :: "worker \<Rightarrow> worker option" where
  "push_event w = map_option (\<lambda>(r, w). case r of
     Inr True \<Rightarrow> reset_missed_pings w
   | Inr False \<Rightarrow> w
   | Inl _ \<Rightarrow> connection_lost w) (receive_push_internal w)"

text \<open>One tick of the timer: the watchdog, the new mask, the ping and the reconnection.\<close>

definition tick_watchdog :: "connection_state \<Rightarrow> timestamp \<Rightarrow> worker \<Rightarrow> worker" where
  "tick_watchdog current_state last_event w =
    (if (current_state = Connecting \<or> current_state = Handshake) \<and> secs 15 < elapsed (wk_now w) last_event
     then connection_lost w else w)"

definition tick_mask :: "connection_state \<Rightarrow> worker \<Rightarrow> worker" where
  "tick_mask current_state w =
    (if current_state = Connected \<and> wk_auto_read_dirty w then
       let w = w\<lparr>wk_auto_read_dirty := False\<rparr>
       in case send_push_mask (millis (unat (cfg_read_timeout_ms (wk_config w)))) w of
            (Inl e, w) \<Rightarrow> w\<lparr>wk_auto_read_dirty := True\<rparr>
          | (Inr _, w) \<Rightarrow> w
     else w)"

definition tick_ping :: "connection_state \<Rightarrow> worker \<Rightarrow> worker" where
  "tick_ping current_state w =
    (if current_state = Connected \<and> secs 2 \<le> elapsed (wk_now w) (tel_last_send_at (s_telemetry (wk_state w))) then
       (case worker_exchange [command_to_byte IntegraVersion] 0x7E (millis 500) (millis 500) True w of
          (res, w) \<Rightarrow>
            if res = Inl Timeout then
              (case handle_ping_timeout w of (dropped, w) \<Rightarrow> if dropped then connection_lost w else w)
            else w)
     else w)"

definition tick_reconnect ::
  "(satel_state \<Rightarrow> satel_state) \<Rightarrow> bool \<Rightarrow> connection_state \<Rightarrow> timestamp \<Rightarrow> worker \<Rightarrow> worker" where
  "tick_reconnect bg should_reconnect current_state last_event w =
    (if should_reconnect \<and> current_state = ConnectionLost
        \<and> calculate_backoff w \<le> elapsed (wk_now w) last_event
     then snd (worker_connect bg (update_telemetry (\<lambda>t. t\<lparr>tel_reconnect_attempts := tel_reconnect_attempts t + 1\<rparr>) w))
     else w)"

definition worker_tick :: "(satel_state \<Rightarrow> satel_state) \<Rightarrow> bool \<Rightarrow> worker \<Rightarrow> worker" where
  "worker_tick bg should_reconnect w =
    (let current_state = get_current_state w;
         last_event = cs_last_event_at (tel_status (s_telemetry (wk_state w)))
     in tick_reconnect bg should_reconnect current_state last_event
          (tick_ping current_state (tick_mask current_state (tick_watchdog current_state last_event w))))"

end
