(* ===== verification/Worker_Status.thy ===== *)
theory Worker_Status
  imports Worker
begin

text \<open>
  The connection as a state machine. \<open>worker_step\<close> is one event of the worker's loop, or a step of the
  other tasks on the shared state. \<open>next_states\<close> is the abstract machine of the connection; every step
  of the worker refines it, and each of its transitions is announced to the state worker.
\<close>

section \<open>Steps\<close>

text \<open>The shared state after other tasks ran: they may restart the statistics but not the status.\<close>

definition same_status :: "connection_telemetry \<Rightarrow> connection_telemetry \<Rightarrow> bool" where
  "same_status t t' =
    (cs_state (tel_status t') = cs_state (tel_status t)
     \<and> cs_failed_attempts (tel_status t') = cs_failed_attempts (tel_status t)
     \<and> (tel_connected_since t' = tel_connected_since t
        \<or> (tel_connected_since t' \<noteq> None \<longleftrightarrow> cs_state (tel_status t) = Connected)))"

definition background :: "(satel_state \<Rightarrow> satel_state) \<Rightarrow> bool" where
  "background bg = (\<forall>s. same_status (s_telemetry s) (s_telemetry (bg s)))"

definition worker_start :: "config \<Rightarrow> timestamp \<Rightarrow> (duration \<times> link satel_result) list \<Rightarrow> worker" where
  "worker_start cfg now opens = \<lparr>wk_config = cfg, wk_state = satel_state_new now now, wk_stream = None,
    wk_has_state_worker = True, wk_auto_read_dirty = False, wk_missed_pings = 0, wk_now = now,
    wk_notes = [], wk_opens = opens\<rparr>"

inductive worker_step :: "worker \<Rightarrow> worker \<Rightarrow> bool" where
  step_start: "get_current_state w = Disconnected \<Longrightarrow> background bg \<Longrightarrow> worker_step w (snd (worker_connect bg w))"
| step_message: "background bg \<Longrightarrow> worker_step w (snd (handle_message_internal bg msg w))"
| step_push: "get_current_state w = Connected \<Longrightarrow> push_event w = Some w' \<Longrightarrow> worker_step w w'"
| step_tick: "background bg \<Longrightarrow> worker_step w (worker_tick bg should_reconnect w)"
| step_tasks: "background bg \<Longrightarrow>
    worker_step w (w\<lparr>wk_state := bg (wk_state w), wk_config := cfg, wk_auto_read_dirty := dirty,
      wk_now := wk_now w + int d\<rparr>)"

section \<open>The abstract machine\<close>

fun next_states :: "connection_state \<Rightarrow> connection_state set" where
  "next_states Disconnected = {Connecting}"
| "next_states Connecting = {Handshake, ConnectionLost}"
| "next_states Handshake = {Connected, ConnectionLost, Disconnected}"
| "next_states Connected = {ConnectionLost, Disconnected}"
| "next_states ConnectionLost = {Connecting, ConnectionLost, Disconnected}"

definition statuses :: "(timestamp \<times> state_worker_message) list \<Rightarrow> connection_state list" where
  "statuses notes = List.map_filter (\<lambda>(_, msg). case msg of MsgStatusChanged st \<Rightarrow> Some st | _ \<Rightarrow> None) notes"

text \<open>A history of the machine from \<open>Disconnected\<close> to a state.\<close>

definition status_path :: "connection_state list \<Rightarrow> connection_state \<Rightarrow> bool" where
  "status_path sts st =
    (successively (\<lambda>a b. b \<in> next_states a) (Disconnected # sts) \<and> last (Disconnected # sts) = st)"

lemma status_path_snoc:
  "status_path sts st \<Longrightarrow> st' \<in> next_states st \<Longrightarrow> status_path (sts @ [st']) st'"
  unfolding status_path_def
  by (simp only: append_Cons [symmetric] successively_append_iff) simp

lemma statuses_snoc [simp]:
  "statuses (notes @ [(t, MsgStatusChanged st)]) = statuses notes @ [st]"
  "statuses (notes @ [(t, MsgFrame frame)]) = statuses notes"
  "statuses (notes @ [(t, MsgIntegraVersion iv)]) = statuses notes"
  "statuses (notes @ [(t, MsgEthmVersion ev)]) = statuses notes"
  "statuses (notes @ [(t, MsgAutoReadReport report)]) = statuses notes"
  by (simp_all add: statuses_def List.map_filter_def)

section \<open>The invariant\<close>

text \<open>
  A session is open exactly while connected, a link is open exactly in the handshake and while
  connected, the failed attempts are counted only in between, missed pings only while connected, and
  the announced states are a history of the machine that ends in the current state.
\<close>

definition worker_inv :: "worker \<Rightarrow> bool" where
  "worker_inv w =
    ((tel_connected_since (s_telemetry (wk_state w)) \<noteq> None \<longleftrightarrow> get_current_state w = Connected)
     \<and> (wk_stream w \<noteq> None \<longleftrightarrow> get_current_state w \<in> {Handshake, Connected})
     \<and> (get_current_state w \<in> {Connected, Disconnected} \<longrightarrow>
          cs_failed_attempts (tel_status (s_telemetry (wk_state w))) = 0)
     \<and> (get_current_state w \<noteq> Connected \<longrightarrow> wk_missed_pings w = 0)
     \<and> wk_has_state_worker w
     \<and> status_path (statuses (wk_notes w)) (get_current_state w))"

text \<open>A change that the machine does not see.\<close>

definition quiet :: "worker \<Rightarrow> worker \<Rightarrow> bool" where
  "quiet w w' =
    (same_status (s_telemetry (wk_state w)) (s_telemetry (wk_state w'))
     \<and> (wk_stream w' = None \<longleftrightarrow> wk_stream w = None)
     \<and> wk_missed_pings w' \<in> {wk_missed_pings w, 0}
     \<and> wk_has_state_worker w' = wk_has_state_worker w
     \<and> statuses (wk_notes w') = statuses (wk_notes w))"

lemma same_status_refl [simp]: "same_status t t"
  by (simp add: same_status_def)

lemma same_status_trans: "same_status a b \<Longrightarrow> same_status b c \<Longrightarrow> same_status a c"
  unfolding same_status_def by (elim conjE disjE; simp)

lemma quiet_refl [simp]: "quiet w w"
  by (simp add: quiet_def)

lemma quiet_trans [trans]: "quiet a b \<Longrightarrow> quiet b c \<Longrightarrow> quiet a c"
  unfolding quiet_def by (elim conjE, intro conjI, erule (1) same_status_trans) auto

lemma quiet_state: "quiet w w' \<Longrightarrow> get_current_state w' = get_current_state w"
  by (simp add: quiet_def same_status_def get_current_state_def)

lemma inv_quiet: "worker_inv w \<Longrightarrow> quiet w w' \<Longrightarrow> worker_inv w'"
  using quiet_state [of w w'] unfolding worker_inv_def quiet_def
  by (auto simp: same_status_def get_current_state_def)

named_theorems quiets

lemma quiet_counters [quiets]:
  "quiet w (update_telemetry count_frame w)" "quiet w (update_telemetry count_io_error w)"
  "quiet w (update_telemetry count_timeout w)" "quiet w (update_telemetry count_rejected w)"
  "quiet w (update_telemetry (\<lambda>t. t\<lparr>tel_reconnect_attempts := n t\<rparr>) w)"
  "quiet w (update_telemetry (\<lambda>t. (if ping then t else count_frame t)\<lparr>tel_last_send_at := now\<rparr>) w)"
  by (simp_all add: quiet_def same_status_def update_telemetry_def count_frame_def count_io_error_def
      count_timeout_def count_rejected_def)

lemma quiet_messages [quiets]:
  "quiet w (notify_state_worker (MsgFrame frame) w)" "quiet w (notify_state_worker (MsgIntegraVersion iv) w)"
  "quiet w (notify_state_worker (MsgEthmVersion ev) w)" "quiet w (notify_state_worker (MsgAutoReadReport report) w)"
  by (simp_all add: quiet_def notify_state_worker_def)

lemma quiet_moves [quiets]:
  "quiet w (set_incoming items w)" "quiet w (w\<lparr>wk_now := t\<rparr>)" "quiet w (reset_missed_pings w)"
  "quiet w (w\<lparr>wk_auto_read_dirty := d\<rparr>)" "quiet w (w\<lparr>wk_opens := opens\<rparr>)"
  "wk_stream w \<noteq> None \<Longrightarrow> quiet w (w\<lparr>wk_stream := Some l, wk_now := t\<rparr>)"
  by (auto simp: quiet_def set_incoming_def reset_missed_pings_def)

lemma quiet_pause: "background bg \<Longrightarrow> quiet w (pause bg n w)"
  by (simp add: background_def quiet_def pause_def)

section \<open>Transitions\<close>

lemma status_defs:
  "get_current_state (set_state_connecting w) = Connecting" "get_current_state (set_state_handshake w) = Handshake"
  "get_current_state (set_state_connected w) = Connected" "get_current_state (connection_lost w) = ConnectionLost"
  "get_current_state (worker_disconnect w) = Disconnected"
  by (simp_all add: get_current_state_def set_state_connecting_def set_state_handshake_def
      set_state_connected_def connection_lost_def worker_disconnect_def notify_state_worker_def
      update_telemetry_def status_at_def lose_connection_def end_connection_def Let_def reset_missed_pings_def)

lemma close_session_since [simp]: "tel_connected_since (close_session now t) = None"
  by (simp add: close_session_def split: option.splits)

lemma lose_connection_since:
  "(tel_connected_since t \<noteq> None \<longleftrightarrow> cs_state (tel_status t) = Connected) \<Longrightarrow>
    tel_connected_since (lose_connection now t) = None"
  by (auto simp: lose_connection_def Let_def)

lemma inv_lost:
  assumes "worker_inv w" "get_current_state w \<noteq> Disconnected"
  shows "worker_inv (connection_lost w)"
proof -
  have "ConnectionLost \<in> next_states (get_current_state w)"
    using assms(2) by (cases "get_current_state w") simp_all
  then have "status_path (statuses (wk_notes w) @ [ConnectionLost]) ConnectionLost"
    using assms(1) status_path_snoc unfolding worker_inv_def by blast
  moreover have "tel_connected_since (lose_connection now (s_telemetry (wk_state w))) = None" for now
    using assms(1) lose_connection_since unfolding worker_inv_def get_current_state_def by blast
  ultimately show ?thesis
    using assms(1) status_defs(4) [of w] unfolding worker_inv_def
    by (simp add: connection_lost_def notify_state_worker_def update_telemetry_def reset_missed_pings_def)
qed

lemma inv_disconnect:
  assumes "worker_inv w" "get_current_state w \<notin> {Disconnected, Connecting}"
  shows "worker_inv (worker_disconnect w)"
proof -
  have "Disconnected \<in> next_states (get_current_state w)"
    using assms(2) by (cases "get_current_state w") simp_all
  then have "status_path (statuses (wk_notes w) @ [Disconnected]) Disconnected"
    using assms(1) status_path_snoc unfolding worker_inv_def by blast
  then show ?thesis
    using assms(1) status_defs(5) [of w] unfolding worker_inv_def
    by (simp add: worker_disconnect_def notify_state_worker_def update_telemetry_def reset_missed_pings_def
        end_connection_def)
qed

lemma inv_connecting:
  assumes "worker_inv w" "get_current_state w \<in> {Disconnected, ConnectionLost}"
  shows "worker_inv (set_state_connecting w)"
proof -
  have "Connecting \<in> next_states (get_current_state w)" using assms(2) by auto
  then have "status_path (statuses (wk_notes w) @ [Connecting]) Connecting"
    using assms(1) status_path_snoc unfolding worker_inv_def by blast
  then show ?thesis
    using assms status_defs(1) [of w] unfolding worker_inv_def
    by (auto simp: set_state_connecting_def notify_state_worker_def update_telemetry_def status_at_def)
qed

lemma inv_handshake:
  assumes "worker_inv w" "get_current_state w = Connecting"
  shows "worker_inv (set_state_handshake (w\<lparr>wk_stream := Some l\<rparr>))"
proof -
  have "status_path (statuses (wk_notes w) @ [Handshake]) Handshake"
    using assms status_path_snoc unfolding worker_inv_def by force
  then show ?thesis
    using assms status_defs(2) [of "w\<lparr>wk_stream := Some l\<rparr>"] unfolding worker_inv_def
    by (auto simp: set_state_handshake_def notify_state_worker_def update_telemetry_def status_at_def)
qed

lemma inv_connected:
  assumes "worker_inv w" "get_current_state w = Handshake"
  shows "worker_inv (set_state_connected w)"
proof -
  have "status_path (statuses (wk_notes w) @ [Connected]) Connected"
    using assms status_path_snoc unfolding worker_inv_def by force
  then show ?thesis
    using assms status_defs(3) [of w] unfolding worker_inv_def
    by (auto simp: set_state_connected_def notify_state_worker_def update_telemetry_def status_at_def
        reset_missed_pings_def Let_def)
qed

section \<open>Operations\<close>

text \<open>
  An exchange is quiet when it returns a frame or times out; otherwise it either does nothing, for
  want of a link, or ends in a lost connection.
\<close>

definition exchange_outcome :: "worker \<Rightarrow> bytes satel_result \<Rightarrow> worker \<Rightarrow> bool" where
  "exchange_outcome w r w' =
    (case r of
       Inr frame \<Rightarrow> frame \<noteq> [] \<and> quiet w w'
     | Inl Timeout \<Rightarrow> quiet w w'
     | Inl _ \<Rightarrow> w' = w \<and> wk_stream w = None \<or> (\<exists>v. quiet w v \<and> w' = connection_lost v \<and> wk_stream w \<noteq> None))"

lemma exchange_outcome_trans:
  "quiet w v \<Longrightarrow> exchange_outcome v r w' \<Longrightarrow> wk_stream w \<noteq> None \<Longrightarrow> exchange_outcome w r w'"
proof -
  assume q: "quiet w v" "exchange_outcome v r w'" "wk_stream w \<noteq> None"
  then have "wk_stream v \<noteq> None" by (simp add: quiet_def)
  with q show ?thesis
    unfolding exchange_outcome_def using quiet_trans [OF q(1)]
    by (fastforce split: sum.splits satel_error.splits)
qed

lemma quiet_exchange_frame: "quiet w (exchange_frame cmd ping frame w)"
proof -
  define a where "a = reset_missed_pings w"
  define b where "b = (if hd frame = 0xEF \<and> \<not> is_accepted frame then update_telemetry count_rejected a else a)"
  define c where "c = (if \<not> ping \<or> \<not> is_target cmd frame then update_telemetry count_frame b else b)"
  have "quiet w a" by (simp add: a_def quiets)
  also have "quiet a b" by (simp add: b_def quiets)
  also have "quiet b c" by (simp add: c_def quiets)
  finally have "quiet w c" .
  have "exchange_frame cmd ping frame w = (if (hd frame \<noteq> cmd \<or> hd frame = 0xEF) \<and> \<not> is_accepted frame
      \<and> \<not> (cmd = 0xEE \<and> hd frame = 0xEF) then notify_state_worker (MsgFrame frame) c else c)"
    unfolding exchange_frame_def Let_def a_def b_def c_def by (rule refl)
  with \<open>quiet w c\<close> show ?thesis using quiet_trans [OF _ quiet_messages(1)] by simp
qed

lemma exchange_timeout_outcome:
  "exchange_timeout deadline w = (r, w') \<Longrightarrow> r = Inl Timeout \<and> quiet w w'"
  unfolding exchange_timeout_def
  using quiet_trans [OF quiet_moves(2) quiet_counters(3)] by auto

lemma exchange_receive_outcome:
  "exchange_receive cmd ping deadline items w = (r, w') \<Longrightarrow> wk_stream w \<noteq> None \<Longrightarrow> exchange_outcome w r w'"
proof (induction items arbitrary: w)
  case Nil
  then have "r = Inl Timeout \<and> quiet (set_incoming [] w) w'"
    using exchange_timeout_outcome by simp
  then show ?case using quiet_trans [OF quiet_moves(1)] by (auto simp: exchange_outcome_def)
next
  case (Cons x items)
  obtain t item where x: "x = (t, item)" by (cases x)
  show ?case
  proof (cases "deadline \<le> wk_now w \<or> deadline \<le> t")
    case True
    then have "r = Inl Timeout \<and> quiet (set_incoming (x # items) w) w'"
      using Cons.prems(1) exchange_timeout_outcome by (simp add: x)
    then show ?thesis using quiet_trans [OF quiet_moves(1)] by (auto simp: exchange_outcome_def)
  next
    case False
    let ?v = "(set_incoming items w)\<lparr>wk_now := max (wk_now w) t\<rparr>"
    have v: "quiet w ?v" using quiet_trans [OF quiet_moves(1,2)] .
    have link: "wk_stream ?v \<noteq> None" using Cons.prems(2) by (simp add: set_incoming_def)
    show ?thesis
    proof (cases item)
      case (LinkFrame frame)
      show ?thesis
      proof (cases "frame = []")
        case True
        with Cons.prems(1) False LinkFrame have "exchange_receive cmd ping deadline items ?v = (r, w')"
          by (simp add: x Let_def)
        from exchange_outcome_trans [OF v Cons.IH [OF this link] Cons.prems(2)] show ?thesis .
      next
        case frame: False
        let ?u = "exchange_frame cmd ping frame ?v"
        have u: "quiet w ?u" using quiet_trans [OF v quiet_exchange_frame] .
        show ?thesis
        proof (cases "is_target cmd frame")
          case True
          with Cons.prems(1) False LinkFrame frame have "r = Inr frame" "w' = ?u" by (simp_all add: x Let_def)
          with u frame show ?thesis by (simp add: exchange_outcome_def)
        next
          case target: False
          with Cons.prems(1) False LinkFrame frame have rec: "exchange_receive cmd ping deadline items ?u = (r, w')"
            by (simp add: x Let_def)
          have "wk_stream ?u \<noteq> None" using u Cons.prems(2) by (simp add: quiet_def)
          from exchange_outcome_trans [OF u Cons.IH [OF rec this] Cons.prems(2)] show ?thesis .
        qed
      qed
    next
      case (LinkError e)
      with Cons.prems(1) False have "r = Inl (Io e)" "w' = connection_lost (update_telemetry count_io_error ?v)"
        by (simp_all add: x Let_def)
      with quiet_trans [OF v quiet_counters(2)] Cons.prems(2) show ?thesis
        unfolding exchange_outcome_def by auto
    next
      case LinkClosed
      with Cons.prems(1) False have "r = Inl StreamClosed" "w' = connection_lost ?v"
        by (simp_all add: x Let_def)
      with v Cons.prems(2) show ?thesis unfolding exchange_outcome_def by auto
    qed
  qed
qed

lemma worker_exchange_outcome:
  assumes "worker_exchange data cmd wt rt ping w = (r, w')"
  shows "exchange_outcome w r w'"
proof (cases "wk_stream w")
  case None
  with assms show ?thesis by (auto simp: worker_exchange_def exchange_outcome_def)
next
  case (Some l)
  obtain outcome l' now where send: "link_send data wt l (wk_now w) = (outcome, l', now)"
    by (cases "link_send data wt l (wk_now w)")
  let ?v = "w\<lparr>wk_stream := Some l', wk_now := now\<rparr>"
  have link: "wk_stream w \<noteq> None" using Some by simp
  note v = quiet_moves(6) [OF link, where l = l' and t = now]
  consider (elapsed) "outcome = None" | (failed) e where "outcome = Some (Some e)" | (sent) "outcome = Some None"
    by (cases outcome) auto
  then show ?thesis
  proof cases
    case elapsed
    with assms Some send quiet_trans [OF v quiet_counters(3)] show ?thesis
      by (auto simp: worker_exchange_def exchange_outcome_def)
  next
    case failed
    with assms Some send quiet_trans [OF v quiet_counters(2)] show ?thesis
      unfolding exchange_outcome_def by (auto simp: worker_exchange_def)
  next
    case sent
    let ?u = "update_telemetry (\<lambda>t. (if ping then t else count_frame t)\<lparr>tel_last_send_at := now\<rparr>) ?v"
    have u: "quiet w ?u" using quiet_trans [OF v quiet_counters(6)] .
    have "exchange_receive cmd ping (now + int rt) (lk_incoming l') ?u = (r, w')"
      using assms Some send sent by (simp add: worker_exchange_def Let_def)
    from exchange_receive_outcome [OF this] show ?thesis
      using exchange_outcome_trans [OF u _ link] u link by (simp add: quiet_def)
  qed
qed

text \<open>The invariant and the state after an exchange.\<close>

lemma inv_exchange:
  assumes "worker_inv w" "worker_exchange data cmd wt rt ping w = (r, w')"
  shows "worker_inv w'" "get_current_state w' \<in> {get_current_state w, ConnectionLost}"
    "(\<exists>frame. r = Inr frame) \<or> r = Inl Timeout \<Longrightarrow> get_current_state w' = get_current_state w"
proof -
  note out = worker_exchange_outcome [OF assms(2)]
  have lost: "worker_inv (connection_lost v)" if "quiet w v" "wk_stream w \<noteq> None" for v
    using inv_lost [OF inv_quiet [OF assms(1) that(1)]] that assms(1) quiet_state [OF that(1)]
    by (auto simp: worker_inv_def)
  consider "quiet w w'" | "w' = w" | v where "w' = connection_lost v" "quiet w v" "wk_stream w \<noteq> None"
    using out unfolding exchange_outcome_def by (auto split: sum.splits satel_error.splits)
  then show "worker_inv w'" "get_current_state w' \<in> {get_current_state w, ConnectionLost}"
    using inv_quiet [OF assms(1)] quiet_state [of w w'] lost assms(1) status_defs(4) by (cases; auto)+
  show "get_current_state w' = get_current_state w" if "(\<exists>frame. r = Inr frame) \<or> r = Inl Timeout"
    using that out quiet_state [of w w'] unfolding exchange_outcome_def by auto
qed

lemma inv_handshake_query:
  assumes "worker_inv w" "get_current_state w = Handshake"
    "handshake_query cmd parse msg conn_timeout w = (r, w')" "\<And>v u. quiet u (notify_state_worker (msg v) u)"
  shows "worker_inv w'" "get_current_state w' \<in> {Handshake, ConnectionLost}"
    "r = Inr () \<Longrightarrow> get_current_state w' = Handshake"
proof -
  obtain e v where ex: "worker_exchange [command_to_byte cmd] (command_to_byte cmd) conn_timeout conn_timeout False w = (e, v)"
    by (metis prod.collapse)
  note inv = inv_exchange [OF assms(1) ex]
  have lost: "worker_inv (connection_lost v)" using inv_lost inv(1,2) assms(2) by auto
  have told: "worker_inv (notify_state_worker (msg x) v)"
    "get_current_state (notify_state_worker (msg x) v) = get_current_state v" for x
    using inv_quiet [OF inv(1) assms(4)] quiet_state [OF assms(4)] by blast+
  show "worker_inv w'" "get_current_state w' \<in> {Handshake, ConnectionLost}"
    using assms(2,3) ex inv lost told status_defs(4) [of v]
    by (auto simp: handshake_query_def split: sum.splits)
  show "get_current_state w' = Handshake" if "r = Inr ()"
    using that assms(2,3) ex inv(3) told
    by (auto simp: handshake_query_def split: sum.splits)
qed

lemma inv_send_push_mask:
  assumes "worker_inv w" "send_push_mask conn_timeout w = (r, w')"
  shows "worker_inv w'" "get_current_state w' \<in> {get_current_state w, ConnectionLost}"
    "r = Inr () \<Longrightarrow> get_current_state w' = get_current_state w"
proof -
  let ?wide = "support_14_byte_mask (wk_state w)"
  obtain e v where ex: "worker_exchange (command_to_byte ListOfNewData # build_push_mask (wk_config w) ?wide)
      0x7F conn_timeout conn_timeout False w = (e, v)"
    by (metis prod.collapse)
  note inv = inv_exchange [OF assms(1) ex]
  have told: "worker_inv (notify_state_worker (MsgAutoReadReport x) v)"
    "get_current_state (notify_state_worker (MsgAutoReadReport x) v) = get_current_state v" for x
    using inv_quiet [OF inv(1) quiet_messages(4)] quiet_state [OF quiet_messages(4)] by blast+
  show "worker_inv w'" "get_current_state w' \<in> {get_current_state w, ConnectionLost}"
    "r = Inr () \<Longrightarrow> get_current_state w' = get_current_state w"
    using assms(2) ex inv told
    by (auto simp: send_push_mask_def Let_def split: sum.splits option.splits)
qed

text \<open>Between two events the worker is never in the state \<open>Connecting\<close>.\<close>

definition settled :: "worker \<Rightarrow> bool" where
  "settled w = (worker_inv w \<and> get_current_state w \<noteq> Connecting)"

lemma settled_lost: "worker_inv w \<Longrightarrow> get_current_state w \<noteq> Disconnected \<Longrightarrow> settled (connection_lost w)"
  by (simp add: settled_def inv_lost status_defs)

lemma settled_quiet: "settled w \<Longrightarrow> quiet w w' \<Longrightarrow> settled w'"
  using inv_quiet [of w w'] quiet_state [of w w'] by (simp add: settled_def)

lemma settled_exchange: "settled w \<Longrightarrow> worker_exchange data cmd wt rt ping w = (r, w') \<Longrightarrow> settled w'"
  using inv_exchange(1,2) by (fastforce simp: settled_def)

text \<open>A stage of the connection: it ends in a handshake when it succeeds.\<close>

definition stage_ok :: "unit satel_result \<times> worker \<Rightarrow> bool" where
  "stage_ok rw = (worker_inv (snd rw) \<and> get_current_state (snd rw) \<in> {Handshake, ConnectionLost}
    \<and> (fst rw = Inr () \<longrightarrow> get_current_state (snd rw) = Handshake))"

lemma stage_ok_bind:
  assumes "stage_ok rw" "\<And>w. worker_inv w \<Longrightarrow> get_current_state w = Handshake \<Longrightarrow> P (f w)"
    "\<And>e w. worker_inv w \<Longrightarrow> get_current_state w \<in> {Handshake, ConnectionLost} \<Longrightarrow> P (Inl e, w)"
  shows "P (bind_worker rw f)"
proof (cases rw)
  case (Pair r w)
  show ?thesis
  proof (cases r)
    case (Inl e)
    with Pair assms show ?thesis by (simp add: bind_worker_def stage_ok_def)
  next
    case (Inr u)
    with Pair assms show ?thesis by (simp add: bind_worker_def stage_ok_def)
  qed
qed

lemma stage_ok_Inl: "worker_inv w \<Longrightarrow> get_current_state w \<in> {Handshake, ConnectionLost} \<Longrightarrow> stage_ok (Inl e, w)"
  by (simp add: stage_ok_def)

lemma stage_ok_query:
  assumes "worker_inv w" "get_current_state w = Handshake" "\<And>v u. quiet u (notify_state_worker (msg v) u)"
  shows "stage_ok (handshake_query cmd parse msg conn_timeout w)"
proof -
  obtain r v where query: "handshake_query cmd parse msg conn_timeout w = (r, v)" by (metis prod.collapse)
  show ?thesis using inv_handshake_query [OF assms(1,2) query assms(3)] query by (simp add: stage_ok_def)
qed

lemma stage_ok_pause:
  "background bg \<Longrightarrow> worker_inv w \<Longrightarrow> get_current_state w = Handshake \<Longrightarrow> stage_ok (Inr (), pause bg n w)"
  using inv_quiet [OF _ quiet_pause] quiet_state [OF quiet_pause] by (simp add: stage_ok_def)

lemma stage_ok_handshake:
  assumes "background bg" "worker_inv w" "get_current_state w = Handshake"
  shows "stage_ok (connect_handshake bg conn_timeout w)"
  unfolding connect_handshake_def
proof (rule stage_ok_bind)
  show "stage_ok (handshake_query ModuleVersion process_ethm_version MsgEthmVersion conn_timeout w)"
    by (rule stage_ok_query [OF assms(2,3) quiet_messages(3)])
next
  fix w assume w: "worker_inv w" "get_current_state w = Handshake"
  show "stage_ok (bind_worker (handshake_query IntegraVersion process_integra_version MsgIntegraVersion conn_timeout w)
      (\<lambda>w. (Inr (), pause bg 100 w)))"
    by (rule stage_ok_bind [OF stage_ok_query [OF w quiet_messages(2)]])
      (simp_all add: stage_ok_pause [OF assms(1)] stage_ok_Inl)
qed (rule stage_ok_Inl)

lemma stage_ok_auto_read:
  assumes "worker_inv w" "get_current_state w = Handshake"
  shows "stage_ok (connect_auto_read conn_timeout w)"
proof -
  obtain r v where send: "send_push_mask conn_timeout w = (r, v)" by (metis prod.collapse)
  note inv = inv_send_push_mask [OF assms(1) send]
  have "worker_inv (connection_lost v)" using inv_lost inv(1,2) assms(2) by auto
  then show ?thesis using send inv assms(2) status_defs(4) [of v]
    by (simp add: connect_auto_read_def stage_ok_def split: sum.splits)
qed

lemma inv_connect:
  assumes "background bg" "worker_inv w" "get_current_state w \<in> {Disconnected, ConnectionLost}"
  shows "settled (snd (worker_connect bg w))"
proof -
  define v where "v = (set_state_connecting w)\<lparr>wk_auto_read_dirty := False\<rparr>"
  have v: "worker_inv v" "get_current_state v = Connecting"
    using inv_quiet [OF inv_connecting [OF assms(2,3)] quiet_moves(4)] quiet_state [OF quiet_moves(4)] status_defs(1)
    by (simp_all add: v_def)
  let ?timeout = "millis (unat (cfg_read_timeout_ms (wk_config (set_state_connecting w))))"
  obtain r u where open_link: "connect_physical ?timeout v = (r, u)" by (metis prod.collapse)
  have quiet: "quiet v u"
    using open_link unfolding connect_physical_def
    by (auto simp: quiet_def Let_def split: list.splits prod.splits if_splits)
  have u: "worker_inv u" "get_current_state u = Connecting"
    using inv_quiet [OF v(1) quiet] quiet_state [OF quiet] v(2) by simp_all
  show ?thesis
  proof (cases r)
    case (Inl e)
    then have "worker_connect bg w = (Inl e, connection_lost u)"
      using open_link by (simp add: worker_connect_def Let_def v_def)
    with settled_lost [OF u(1)] u(2) show ?thesis by simp
  next
    case (Inr l)
    define x where "x = pause bg 200 (set_state_handshake (u\<lparr>wk_stream := Some l\<rparr>))"
    have "stage_ok (Inr (), x)"
      unfolding x_def by (rule stage_ok_pause [OF assms(1) inv_handshake [OF u] status_defs(2)])
    then have x: "worker_inv x" "get_current_state x = Handshake" by (simp_all add: stage_ok_def)
    have "worker_connect bg w = bind_worker (connect_handshake bg ?timeout x) (\<lambda>w.
        bind_worker (if is_auto_read_enabled (wk_config w) then connect_auto_read ?timeout w else (Inr (), w))
          (\<lambda>w. (Inr (), set_state_connected w)))"
      using open_link Inr by (simp add: worker_connect_def Let_def v_def x_def)
    moreover have "settled (snd (bind_worker (connect_handshake bg ?timeout x) (\<lambda>w.
        bind_worker (if is_auto_read_enabled (wk_config w) then connect_auto_read ?timeout w else (Inr (), w))
          (\<lambda>w. (Inr (), set_state_connected w)))))"
    proof (rule stage_ok_bind [OF stage_ok_handshake [OF assms(1) x], where P = "\<lambda>rw. settled (snd rw)"])
      fix w assume w: "worker_inv w" "get_current_state w = Handshake"
      have "stage_ok (if is_auto_read_enabled (wk_config w) then connect_auto_read ?timeout w else (Inr (), w))"
        using stage_ok_auto_read [OF w] w by (simp add: stage_ok_def)
      then show "settled (snd (bind_worker (if is_auto_read_enabled (wk_config w)
            then connect_auto_read ?timeout w else (Inr (), w)) (\<lambda>w. (Inr (), set_state_connected w))))"
        by (rule stage_ok_bind [where P = "\<lambda>rw. settled (snd rw)"]) (simp_all add: settled_def inv_connected status_defs, auto)
    qed (auto simp: settled_def)
    ultimately show ?thesis by simp
  qed
qed

lemma settled_message:
  assumes "background bg" "settled w"
  shows "settled (snd (handle_message_internal bg msg w))"
proof (cases msg)
  case (ExchangeStandard data wt rt t q)
  with assms(2) settled_exchange [OF assms(2) prod.collapse [symmetric]] show ?thesis by simp
next
  case (ExchangePriority data wt rt)
  with assms(2) settled_exchange [OF assms(2) prod.collapse [symmetric]] show ?thesis by simp
next
  case ConnectMessage
  with assms inv_connect [OF assms(1)] show ?thesis
    by (cases "get_current_state w") (simp_all add: settled_def)
next
  case DisconnectMessage
  with assms inv_disconnect [of w] status_defs(5) [of w] show ?thesis by (simp add: settled_def)
qed

lemma settled_push:
  assumes "worker_inv w" "get_current_state w = Connected" "push_event w = Some w'"
  shows "settled w'"
proof -
  obtain r v where v: "receive_push_internal w = Some (r, v)"
    "w' = (case r of Inr True \<Rightarrow> reset_missed_pings v | Inr False \<Rightarrow> v | Inl _ \<Rightarrow> connection_lost v)"
    using assms(3) by (auto simp: push_event_def)
  have "quiet w v"
    using v(1) unfolding receive_push_internal_def
    by (auto simp: Let_def quiet_def same_status_def set_incoming_def update_telemetry_def count_frame_def
        count_io_error_def notify_state_worker_def
        split: option.splits list.splits prod.splits if_splits link_item.splits)
  then have inv: "worker_inv v" "get_current_state v = Connected"
    using inv_quiet [OF assms(1)] quiet_state assms(2) by simp_all
  then have "settled v" by (simp add: settled_def)
  moreover have "settled (connection_lost v)" using settled_lost inv by simp
  moreover have "settled (reset_missed_pings v)" using settled_quiet [OF \<open>settled v\<close> quiet_moves(3)] .
  ultimately show ?thesis using v(2) by (simp split: sum.splits bool.splits)
qed

text \<open>The four parts of a tick.\<close>

lemma settled_watchdog:
  assumes "settled w" shows "settled (tick_watchdog (get_current_state w) t w)"
  using assms settled_lost [of w] by (auto simp: tick_watchdog_def settled_def)

lemma settled_mask: "settled w \<Longrightarrow> settled (tick_mask st w)"
proof -
  assume w: "settled w"
  let ?v = "w\<lparr>wk_auto_read_dirty := False\<rparr>" and ?t = "millis (unat (cfg_read_timeout_ms (wk_config w)))"
  obtain r u where send: "send_push_mask ?t ?v = (r, u)" by (metis prod.collapse)
  have v: "settled ?v" using settled_quiet [OF w quiet_moves(4)] .
  then have "worker_inv ?v" by (simp add: settled_def)
  from inv_send_push_mask(1,2) [OF this send] v have "settled u" by (auto simp: settled_def)
  moreover from settled_quiet [OF this quiet_moves(4)] have "settled (u\<lparr>wk_auto_read_dirty := True\<rparr>)" .
  ultimately show ?thesis using w send by (simp add: tick_mask_def Let_def split: sum.splits)
qed

lemma inv_missed:
  assumes "worker_inv w" "get_current_state w = Connected" "handle_ping_timeout w = (dropped, w')"
  shows "worker_inv w'" "get_current_state w' = Connected"
  using assms by (auto simp: handle_ping_timeout_def worker_inv_def get_current_state_def Let_def)

lemma settled_ping:
  assumes "settled w" "st = Connected \<Longrightarrow> get_current_state w \<in> {Connected, ConnectionLost}"
  shows "settled (tick_ping st w)"
proof -
  obtain r v where ex: "worker_exchange [command_to_byte IntegraVersion] 0x7E (millis 500) (millis 500) True w = (r, v)"
    by (metis prod.collapse)
  obtain dropped u where missed: "handle_ping_timeout v = (dropped, u)" by (metis prod.collapse)
  have v: "settled v" using settled_exchange [OF assms(1) ex] .
  have u: "settled (connection_lost u)" "settled u" if "r = Inl Timeout" "st = Connected"
  proof -
    from assms(1) have w: "worker_inv w" by (simp add: settled_def)
    have "get_current_state w = Connected"
    proof (rule ccontr)
      assume "get_current_state w \<noteq> Connected"
      with assms(2) that(2) have "get_current_state w = ConnectionLost" by simp
      with w have "wk_stream w = None" by (simp add: worker_inv_def)
      with ex that(1) show False by (simp add: worker_exchange_def)
    qed
    with inv_exchange(1,3) [OF w ex] that have "worker_inv v" "get_current_state v = Connected" by simp_all
    from inv_missed [OF this missed] show "settled (connection_lost u)" "settled u"
      using settled_lost by (simp_all add: settled_def)
  qed
  show ?thesis using assms(1) ex missed v u by (auto simp: tick_ping_def)
qed

lemma settled_reconnect:
  assumes "background bg" "settled w" "st = ConnectionLost \<Longrightarrow> get_current_state w = ConnectionLost"
  shows "settled (tick_reconnect bg should_reconnect st t w)"
proof -
  let ?v = "update_telemetry (\<lambda>t. t\<lparr>tel_reconnect_attempts := tel_reconnect_attempts t + 1\<rparr>) w"
  have "worker_inv ?v" "get_current_state ?v = get_current_state w"
    using settled_quiet [OF assms(2) quiet_counters(5)] quiet_state [OF quiet_counters(5)]
    by (simp_all add: settled_def)
  then have "settled (snd (worker_connect bg ?v))" if "st = ConnectionLost"
    using inv_connect [OF assms(1)] assms(3) that by simp
  with assms(2) show ?thesis by (simp add: tick_reconnect_def)
qed

lemma mask_state:
  assumes "settled w" shows "get_current_state (tick_mask st w) \<in> {get_current_state w, ConnectionLost}"
proof -
  let ?v = "w\<lparr>wk_auto_read_dirty := False\<rparr>" and ?t = "millis (unat (cfg_read_timeout_ms (wk_config w)))"
  obtain r u where send: "send_push_mask ?t ?v = (r, u)" by (metis prod.collapse)
  have "settled ?v" using settled_quiet [OF assms quiet_moves(4)] .
  then have "worker_inv ?v" by (simp add: settled_def)
  from inv_send_push_mask(2) [OF this send] show ?thesis
    using send by (auto simp: tick_mask_def Let_def get_current_state_def split: sum.splits)
qed

lemma settled_tick:
  assumes "background bg" "settled w"
  shows "settled (worker_tick bg should_reconnect w)"
proof -
  let ?st = "get_current_state w"
  define t where "t = cs_last_event_at (tel_status (s_telemetry (wk_state w)))"
  define a where "a = tick_watchdog ?st t w"
  define b where "b = tick_mask ?st a"
  define c where "c = tick_ping ?st b"
  have a: "settled a" using settled_watchdog [OF assms(2)] by (simp add: a_def)
  have same: "a = w" if "?st \<notin> {Connecting, Handshake}" using that by (auto simp: a_def tick_watchdog_def)
  have b: "settled b" using settled_mask [OF a] by (simp add: b_def)
  have "get_current_state b \<in> {Connected, ConnectionLost}" if "?st = Connected"
    using mask_state [OF a, of ?st] same that by (auto simp: b_def)
  from settled_ping [OF b this] have c: "settled c" by (simp add: c_def)
  have "c = w" if "?st = ConnectionLost"
    using that same by (simp add: c_def b_def tick_ping_def tick_mask_def)
  with settled_reconnect [OF assms(1) c] have "settled (tick_reconnect bg should_reconnect ?st t c)" by simp
  then show ?thesis by (simp add: worker_tick_def Let_def a_def b_def c_def t_def)
qed

lemma settled_step:
  assumes "worker_step w w'" "settled w" shows "settled w'"
  using assms
proof cases
  case (step_start bg)
  with inv_connect assms(2) show ?thesis by (simp add: settled_def)
next
  case (step_message bg msg)
  with settled_message assms(2) show ?thesis by simp
next
  case step_push
  with settled_push assms(2) show ?thesis by (simp add: settled_def)
next
  case (step_tick bg should_reconnect)
  with settled_tick assms(2) show ?thesis by simp
next
  case (step_tasks bg cfg dirty d)
  then have "quiet w w'" by (simp add: background_def quiet_def)
  with settled_quiet assms(2) show ?thesis by blast
qed

lemma settled_reachable:
  "worker_step\<^sup>*\<^sup>* (worker_start cfg now opens) w \<Longrightarrow> settled w"
proof (induction rule: rtranclp_induct)
  case base
  show ?case
    by (simp add: settled_def worker_inv_def worker_start_def get_current_state_def satel_state_new_def
        telemetry_default_def connection_status_default_def statuses_def status_path_def List.map_filter_def)
next
  case (step v w)
  with settled_step show ?case by blast
qed

section \<open>The other tasks\<close>

text \<open>
  The requester and a restart of the statistics are tasks of this kind: they leave the status alone.
\<close>

lemma background_reset: "background (\<lambda>s. s\<lparr>s_telemetry := telemetry_reset now (s_telemetry s)\<rparr>)"
  by (simp add: background_def same_status_def telemetry_reset_def)

lemma category_update_telemetry: "s_telemetry (fst (category_update k c d e s)) = s_telemetry s"
  by (cases k) (simp_all add: flag_update_defs case_prod_beta)

lemma handle_auto_frame_telemetry: "s_telemetry (fst (handle_auto_frame civil c now frame s)) = s_telemetry s"
proof (rule handle_auto_frame_cases [where P = "\<lambda>r. s_telemetry (fst r) = s_telemetry s"])
  show "s_telemetry (fst (snd (update_troubles_internal c cmd data s))) = s_telemetry s" for cmd data
    using trouble_loop_frame by (simp add: update_troubles_internal_def case_prod_beta split: sum.splits)
qed (simp_all add: category_update_telemetry update_system_status_internal_def Let_def)

lemma handle_messages_status:
  "same_status (s_telemetry s) (s_telemetry (fst (handle_messages civil cfg msgs s)))"
proof (induction msgs arbitrary: s)
  case Nil
  show ?case by simp
next
  case (Cons m msgs)
  obtain t msg where m: "m = (t, msg)" by (cases m)
  have "same_status (s_telemetry s) (s_telemetry (fst (handle_state_message civil cfg t msg s)))"
    by (cases msg) (simp_all add: handle_auto_frame_telemetry refresh_stats_mark_def same_status_def Let_def
      update_integra_version_internal_def update_ethm_version_internal_def)
  from same_status_trans [OF this Cons.IH] show ?case by (simp add: m case_prod_beta Let_def)
qed

lemma background_requester: "background (\<lambda>s. fst (handle_messages civil cfg msgs s))"
  by (simp add: background_def handle_messages_status)

section \<open>Properties\<close>

text \<open>
  C8. In every state the worker can reach, whatever the link, the clients and the other tasks do: a
  link is open exactly in the handshake and while connected, a session is open exactly while connected,
  no failed attempts are counted while connected or disconnected, and pings are missed only while
  connected. Between two events the worker is never left in the state \<open>Connecting\<close>.
\<close>

theorem worker_reachable_invariant:
  assumes "worker_step\<^sup>*\<^sup>* (worker_start cfg now opens) w"
  shows "(wk_stream w \<noteq> None \<longleftrightarrow> get_current_state w \<in> {Handshake, Connected})
    \<and> (tel_connected_since (s_telemetry (wk_state w)) \<noteq> None \<longleftrightarrow> get_current_state w = Connected)
    \<and> (if get_current_state w \<in> {Connected, Disconnected}
       then cs_failed_attempts (tel_status (s_telemetry (wk_state w))) = 0 else True)
    \<and> (if get_current_state w = Connected then True else wk_missed_pings w = 0)
    \<and> get_current_state w \<noteq> Connecting"
  using settled_reachable [OF assms] by (auto simp: settled_def worker_inv_def)

theorem worker_reachable_invariant_witness:
  "wk_stream (worker_tick id True (snd (worker_connect id (worker_start config_default 0 [])))) = None
    \<longleftrightarrow> get_current_state (worker_tick id True (snd (worker_connect id (worker_start config_default 0 []))))
      \<notin> {Handshake, Connected}"
proof -
  have id: "background id" by (simp add: background_def)
  have "get_current_state (worker_start config_default 0 []) = Disconnected"
    by (simp add: worker_start_def get_current_state_def satel_state_new_def telemetry_default_def
        connection_status_default_def)
  from step_start [OF this id] step_tick [OF id]
  have "worker_step\<^sup>*\<^sup>* (worker_start config_default 0 [])
      (worker_tick id True (snd (worker_connect id (worker_start config_default 0 []))))"
    by (meson r_into_rtranclp rtranclp.rtrancl_into_rtrancl)
  from worker_reachable_invariant [OF this] show ?thesis by blast
qed

text \<open>
  C9. The worker refines the machine of \<open>next_states\<close>: the announced states, from \<open>Disconnected\<close> on, are
  a history of the machine that ends in the current state. So no change of the state goes unannounced,
  and none that the machine does not allow ever happens.
\<close>

theorem worker_announces_history:
  assumes "worker_step\<^sup>*\<^sup>* (worker_start cfg now opens) w"
  shows "successively (\<lambda>a b. b \<in> next_states a) (Disconnected # statuses (wk_notes w))
    \<and> get_current_state w = last (Disconnected # statuses (wk_notes w))"
  using settled_reachable [OF assms] unfolding settled_def worker_inv_def status_path_def by metis

theorem worker_announces_history_witness:
  "last (Disconnected # statuses (wk_notes (snd (worker_connect id (worker_start config_default 0 [])))))
    = get_current_state (snd (worker_connect id (worker_start config_default 0 [])))"
proof -
  have "get_current_state (worker_start config_default 0 []) = Disconnected"
    by (simp add: worker_start_def get_current_state_def satel_state_new_def telemetry_default_def
        connection_status_default_def)
  from step_start [OF this, of id] have "worker_step\<^sup>*\<^sup>* (worker_start config_default 0 [])
      (snd (worker_connect id (worker_start config_default 0 [])))"
    by (simp add: background_def r_into_rtranclp)
  from worker_announces_history [OF this] show ?thesis by simp
qed

end
