(* ===== verification/Worker_Laws.thy ===== *)
theory Worker_Laws
  imports Worker_Status
begin

text \<open>
  What the operations of the connection worker promise: which frame answers an exchange and what
  becomes of the others, how long an exchange takes, the delays between reconnections, the dropping of
  a connection after missed pings, and the recovery of a handshake that is stuck.
\<close>

section \<open>The answer of an exchange\<close>

text \<open>The frames of an exchange that go to the state worker.\<close>

definition forwarded :: "u8 \<Rightarrow> bytes \<Rightarrow> bool" where
  "forwarded cmd frame = ((hd frame \<noteq> cmd \<or> hd frame = 0xEF) \<and> \<not> is_accepted frame
    \<and> \<not> (cmd = 0xEE \<and> hd frame = 0xEF))"

definition frames_of :: "(timestamp \<times> state_worker_message) list \<Rightarrow> bytes list" where
  "frames_of notes = List.map_filter (\<lambda>(_, msg). case msg of MsgFrame frame \<Rightarrow> Some frame | _ \<Rightarrow> None) notes"

definition incoming_frames :: "(timestamp \<times> bytes) list \<Rightarrow> (timestamp \<times> link_item) list" where
  "incoming_frames fs = map (\<lambda>(t, frame). (t, LinkFrame frame)) fs"

lemma frames_of_snoc [simp]: "frames_of (notes @ [(t, MsgFrame frame)]) = frames_of notes @ [frame]"
  by (simp add: frames_of_def List.map_filter_def)

lemma exchange_frame_fields:
  "wk_stream (exchange_frame cmd ping frame w) = wk_stream w"
  "wk_now (exchange_frame cmd ping frame w) = wk_now w"
  "wk_has_state_worker (exchange_frame cmd ping frame w) = wk_has_state_worker w"
  "frames_of (wk_notes (exchange_frame cmd ping frame w)) =
    frames_of (wk_notes w) @ (if wk_has_state_worker w \<and> forwarded cmd frame then [frame] else [])"
  "wk_missed_pings (exchange_frame cmd ping frame w) = 0"
  by (auto simp: exchange_frame_def Let_def update_telemetry_def notify_state_worker_def reset_missed_pings_def
      forwarded_def)

text \<open>The receive loop over frames that are not the answer, up to the one that is.\<close>

lemma exchange_receive_answer:
  "list_all (\<lambda>(t, frame). t < deadline \<and> frame \<noteq> [] \<and> \<not> is_target cmd frame) pre \<Longrightarrow>
   t < deadline \<Longrightarrow> answer \<noteq> [] \<Longrightarrow> is_target cmd answer \<Longrightarrow> wk_now w < deadline \<Longrightarrow> wk_has_state_worker w \<Longrightarrow>
    \<exists>w'. exchange_receive cmd ping deadline (incoming_frames (pre @ [(t, answer)]) @ items) w = (Inr answer, w')
      \<and> wk_stream w' = map_option (\<lambda>l. l\<lparr>lk_incoming := items\<rparr>) (wk_stream w)
      \<and> frames_of (wk_notes w') = frames_of (wk_notes w) @ filter (forwarded cmd) (map snd pre @ [answer])
      \<and> wk_missed_pings w' = 0"
proof (induction pre arbitrary: w)
  case Nil
  then show ?case
    by (auto simp: incoming_frames_def Let_def exchange_frame_fields set_incoming_def)
next
  case (Cons x pre)
  obtain t' frame where x: "x = (t', frame)" by (cases x)
  let ?rest = "incoming_frames (pre @ [(t, answer)]) @ items"
  let ?v = "exchange_frame cmd ping frame ((set_incoming ?rest w)\<lparr>wk_now := max (wk_now w) t'\<rparr>)"
  have step: "exchange_receive cmd ping deadline (incoming_frames ((x # pre) @ [(t, answer)]) @ items) w
      = exchange_receive cmd ping deadline ?rest ?v"
    using Cons.prems by (simp add: incoming_frames_def Let_def x not_le)
  have v: "wk_now ?v < deadline" "wk_has_state_worker ?v"
    using Cons.prems by (simp_all add: exchange_frame_fields set_incoming_def x)
  have "list_all (\<lambda>(t, frame). t < deadline \<and> frame \<noteq> [] \<and> \<not> is_target cmd frame) pre"
    using Cons.prems(1) by simp
  from Cons.IH [OF this Cons.prems(2-4) v] obtain w' where
    "exchange_receive cmd ping deadline ?rest ?v = (Inr answer, w')"
    "wk_stream w' = map_option (\<lambda>l. l\<lparr>lk_incoming := items\<rparr>) (wk_stream ?v)"
    "frames_of (wk_notes w') = frames_of (wk_notes ?v) @ filter (forwarded cmd) (map snd pre @ [answer])"
    "wk_missed_pings w' = 0" by blast
  then show ?case
    using step Cons.prems(6)
    by (auto simp: exchange_frame_fields set_incoming_def x option.map_comp o_def)
qed

lemma worker_exchange_answer:
  assumes "wk_stream w = Some l" and "lk_sends l = []" and "wk_has_state_worker w" and "0 < rt"
    and "lk_incoming l = incoming_frames (pre @ [(t, answer)]) @ items"
    and "list_all (\<lambda>(t, frame). t < wk_now w + int rt \<and> frame \<noteq> [] \<and> \<not> is_target cmd frame) pre"
    and "t < wk_now w + int rt" and "answer \<noteq> []" and "is_target cmd answer"
  shows "\<exists>w'. worker_exchange data cmd wt rt ping w = (Inr answer, w')
    \<and> wk_stream w' = Some (l\<lparr>lk_incoming := items, lk_sent := lk_sent l @ [data]\<rparr>)
    \<and> frames_of (wk_notes w') = frames_of (wk_notes w) @ filter (forwarded cmd) (map snd pre @ [answer])
    \<and> wk_missed_pings w' = 0"
proof -
  let ?l = "l\<lparr>lk_sends := tl (lk_sends l), lk_sent := lk_sent l @ [data]\<rparr>"
  let ?v = "update_telemetry (\<lambda>t. (if ping then t else count_frame t)\<lparr>tel_last_send_at := wk_now w\<rparr>)
    (w\<lparr>wk_stream := Some ?l, wk_now := wk_now w\<rparr>)"
  have run: "worker_exchange data cmd wt rt ping w
      = exchange_receive cmd ping (wk_now w + int rt) (incoming_frames (pre @ [(t, answer)]) @ items) ?v"
    using assms(1,2,5) by (simp add: worker_exchange_def link_send_def Let_def)
  have v: "wk_now ?v < wk_now w + int rt" "wk_has_state_worker ?v"
    using assms(3,4) by (simp_all add: update_telemetry_def)
  from exchange_receive_answer [OF assms(6-9) v, of ping items] obtain w' where
    "exchange_receive cmd ping (wk_now w + int rt) (incoming_frames (pre @ [(t, answer)]) @ items) ?v = (Inr answer, w')"
    "wk_stream w' = map_option (\<lambda>l. l\<lparr>lk_incoming := items\<rparr>) (wk_stream ?v)"
    "frames_of (wk_notes w') = frames_of (wk_notes ?v) @ filter (forwarded cmd) (map snd pre @ [answer])"
    "wk_missed_pings w' = 0" by blast
  then show ?thesis using run assms(2) by (simp add: update_telemetry_def)
qed

text \<open>
  C12. The answer of an exchange. If the send succeeds in time, the first frame before the deadline that
  carries the expected command or is a result code is the answer, whatever other frames come before
  it. The link is left with the frames after it, the missed pings are forgotten, and the state worker
  gets, in order, the frames that came before it, apart from "accepted" results, and the answer itself
  only if it is a result code that reports an error to another command than the name query.
\<close>

theorem exchange_answer_first:
  assumes "wk_stream w = Some l" and "lk_sends l = []" and "wk_has_state_worker w" and "0 < rt"
    and "lk_incoming l = incoming_frames (pre @ [(t, answer)]) @ items"
    and "list_all (\<lambda>(t, frame). t < wk_now w + int rt \<and> frame \<noteq> [] \<and> \<not> is_target cmd frame) pre"
    and "t < wk_now w + int rt" and "answer \<noteq> []" and "is_target cmd answer"
  shows "case worker_exchange data cmd wt rt ping w of (r, w') \<Rightarrow>
    r = Inr answer
    \<and> wk_stream w' = Some (l\<lparr>lk_incoming := items, lk_sent := lk_sent l @ [data]\<rparr>)
    \<and> frames_of (wk_notes w') = frames_of (wk_notes w) @ filter (forwarded cmd) (map snd pre @ [answer])
    \<and> wk_missed_pings w' = 0"
  using worker_exchange_answer [OF assms, of data wt ping] by auto

theorem exchange_answer_first_witness:
  "let l = \<lparr>lk_incoming = incoming_frames [(1, [0x00, 1]), (2, [0xEF, 0xFF, 9]), (3, [0x17])], lk_sends = [], lk_sent = []\<rparr>;
       w = (worker_start config_default 0 [])\<lparr>wk_stream := Some l\<rparr>
   in fst (worker_exchange [0x17] 0x17 5 5 False w) = Inr [0xEF, 0xFF, 9]
     \<and> frames_of (wk_notes (snd (worker_exchange [0x17] 0x17 5 5 False w))) = [[0x00, 1]]"
proof -
  let ?l = "\<lparr>lk_incoming = incoming_frames [(1, [0x00, 1]), (2, [0xEF, 0xFF, 9]), (3, [0x17])], lk_sends = [], lk_sent = []\<rparr>"
  let ?w = "(worker_start config_default 0 [])\<lparr>wk_stream := Some ?l\<rparr>"
  show ?thesis
    using exchange_answer_first [of ?w ?l 5 "[(1, [0x00, 1])]" 2 "[0xEF, 0xFF, 9]" "incoming_frames [(3, [0x17])]" "0x17"
        "[0x17]" 5 False]
    by (simp add: worker_start_def incoming_frames_def is_target_def is_accepted_def get_def forwarded_def
        frames_of_def List.map_filter_def case_prod_beta)
qed

section \<open>Time\<close>

lemma exchange_timeout_now: "exchange_timeout deadline w = (r, w') \<Longrightarrow> wk_now w \<le> wk_now w' \<and> wk_now w' \<le> max (wk_now w) deadline"
  by (auto simp: exchange_timeout_def update_telemetry_def)

lemma connection_lost_now [simp]: "wk_now (connection_lost w) = wk_now w"
  by (simp add: connection_lost_def Let_def notify_state_worker_def update_telemetry_def reset_missed_pings_def)

lemma update_telemetry_now [simp]: "wk_now (update_telemetry f w) = wk_now w"
  by (simp add: update_telemetry_def)

lemma set_incoming_now [simp]: "wk_now (set_incoming items w) = wk_now w"
  by (simp add: set_incoming_def)

lemma exchange_receive_now:
  "exchange_receive cmd ping deadline items w = (r, w') \<Longrightarrow>
    wk_now w \<le> wk_now w' \<and> wk_now w' \<le> max (wk_now w) deadline"
proof (induction items arbitrary: w)
  case Nil
  then show ?case using exchange_timeout_now by fastforce
next
  case (Cons x items)
  obtain t item where x: "x = (t, item)" by (cases x)
  show ?case
  proof (cases "deadline \<le> wk_now w \<or> deadline \<le> t")
    case True
    then show ?thesis using Cons.prems exchange_timeout_now by (fastforce simp: x)
  next
    case False
    let ?v = "(set_incoming items w)\<lparr>wk_now := max (wk_now w) t\<rparr>"
    have "(r, w') = (Inl (case item of LinkError e \<Rightarrow> Io e | _ \<Rightarrow> StreamClosed), w') \<and> wk_now w' = wk_now ?v
      \<or> (\<exists>frame. wk_now w' = wk_now (exchange_frame cmd ping frame ?v))
      \<or> (\<exists>frame. exchange_receive cmd ping deadline items (exchange_frame cmd ping frame ?v) = (r, w'))
      \<or> exchange_receive cmd ping deadline items ?v = (r, w')"
      using Cons.prems False by (auto simp: x Let_def split: link_item.splits if_splits)
    then show ?thesis using Cons.IH False by (fastforce simp: exchange_frame_fields)
  qed
qed

text \<open>
  C29. An exchange always comes to an end, and in time: it takes at most the write timeout and the read
  timeout together, however many frames arrive meanwhile, and the clock never goes back.
\<close>

theorem exchange_time_bound:
  "wk_now w \<le> wk_now (snd (worker_exchange data cmd wt rt ping w))
    \<and> wk_now (snd (worker_exchange data cmd wt rt ping w)) \<le> wk_now w + int wt + int rt"
proof (cases "wk_stream w")
  case None
  then show ?thesis by (simp add: worker_exchange_def)
next
  case (Some l)
  obtain outcome l' now where send: "link_send data wt l (wk_now w) = (outcome, l', now)"
    by (cases "link_send data wt l (wk_now w)")
  then have now: "wk_now w \<le> now" "now \<le> wk_now w + int wt"
    by (auto simp: link_send_def Let_def split: prod.splits if_splits)
  let ?v = "update_telemetry (\<lambda>t. (if ping then t else count_frame t)\<lparr>tel_last_send_at := now\<rparr>)
    (w\<lparr>wk_stream := Some l', wk_now := now\<rparr>)"
  obtain r v where rec: "exchange_receive cmd ping (now + int rt) (lk_incoming l') ?v = (r, v)"
    by (metis prod.collapse)
  from exchange_receive_now [OF this] show ?thesis using Some send now rec
    by (cases outcome) (auto simp: worker_exchange_def Let_def split: option.splits)
qed

section \<open>Reconnection\<close>

lemma backoff_step: "n < 7 \<Longrightarrow> (500 :: nat) * 2 ^ n \<le> 60000"
proof -
  assume "n < 7"
  then have "(2 :: nat) ^ n \<le> 2 ^ 6" by (intro power_increasing) simp_all
  then show ?thesis by simp
qed

text \<open>
  The delay before a reconnection is half a second after the first failure, doubles with each
  further failure, is never less than half a second and never more than a minute.
\<close>

theorem backoff_bounds:
  "millis 500 \<le> calculate_backoff w \<and> calculate_backoff w \<le> secs 60
    \<and> calculate_backoff w = (case unat (cs_failed_attempts (tel_status (s_telemetry (wk_state w)))) of
        0 \<Rightarrow> millis 500 | Suc n \<Rightarrow> if n < 7 then millis (500 * 2 ^ n) else secs 60)"
proof -
  let ?a = "cs_failed_attempts (tel_status (s_telemetry (wk_state w)))"
  have val: "calculate_backoff w = (case unat ?a of
      0 \<Rightarrow> millis 500 | Suc n \<Rightarrow> if n < 7 then millis (500 * 2 ^ n) else secs 60)"
  proof (cases "unat ?a")
    case 0
    then show ?thesis by (simp add: calculate_backoff_def unat_eq_zero)
  next
    case (Suc n)
    then have "?a \<noteq> 0" by auto
    have "unat (sat_sub ?a 1) = n" using Suc by (simp add: unat_sat_sub)
    with backoff_step show ?thesis using Suc \<open>?a \<noteq> 0\<close>
      by (auto simp: calculate_backoff_def Let_def millis_def secs_def min_def)
  qed
  have "millis (500 * 2 ^ n) \<le> secs 60" if "n < 7" for n
    using backoff_step [OF that] by (simp add: millis_def secs_def)
  then show ?thesis using val by (auto simp: millis_def secs_def split: nat.splits)
qed

section \<open>Pings\<close>

text \<open>Pings that time out in a row: the worker after \<open>k\<close> of them, and whether the next drops it.\<close>

definition after_missed :: "nat \<Rightarrow> worker \<Rightarrow> worker" where
  "after_missed k w = ((\<lambda>w. snd (handle_ping_timeout w)) ^^ k) w"

lemma after_missed_state:
  "wk_config (after_missed k w) = wk_config w
    \<and> unat (wk_missed_pings (after_missed k w)) = min (unat (wk_missed_pings w) + k) (2 ^ 32 - 1)"
proof (induction k)
  case 0
  have "unat (wk_missed_pings w) < 2 ^ 32" using unsigned_less [of "wk_missed_pings w"] by simp
  then show ?case by (simp add: after_missed_def)
next
  case (Suc k)
  let ?w = "after_missed k w"
  have limit: "unat (- 1 :: u32) = 2 ^ 32 - 1" by (simp add: unsigned_minus_1_eq_mask mask_eq_exp_minus_1)
  have step: "after_missed (Suc k) w = snd (handle_ping_timeout ?w)" by (simp add: after_missed_def)
  have "unat (wk_missed_pings (snd (handle_ping_timeout ?w))) = min (unat (wk_missed_pings ?w) + 1) (2 ^ 32 - 1)"
  proof (cases "wk_missed_pings ?w = - 1")
    case True
    then show ?thesis using limit by (simp add: handle_ping_timeout_def Let_def)
  next
    case False
    then have "unat (wk_missed_pings ?w) \<noteq> 2 ^ 32 - 1" using limit by (metis unsigned_word_eqI)
    moreover have "unat (wk_missed_pings ?w) < 2 ^ 32" using unsigned_less [of "wk_missed_pings ?w"] by simp
    ultimately show ?thesis using False
      by (simp add: handle_ping_timeout_def Let_def unat_word_ariths)
  qed
  then show ?case using Suc step by (simp add: handle_ping_timeout_def Let_def)
qed

text \<open>
  The connection is dropped at the first missed ping that makes the number of pings missed in a
  row reach the configured limit, and at none before; a limit of zero never drops it. The counter
  saturates instead of wrapping.
\<close>

theorem ping_limit:
  "fst (handle_ping_timeout (after_missed k w)) \<longleftrightarrow>
    0 < cfg_max_missed_pings (wk_config w)
    \<and> unat (cfg_max_missed_pings (wk_config w)) \<le> unat (wk_missed_pings w) + Suc k"
proof -
  let ?limit = "cfg_max_missed_pings (wk_config w)"
  have "fst (handle_ping_timeout (after_missed k w)) \<longleftrightarrow>
      0 < ?limit \<and> ?limit \<le> wk_missed_pings (after_missed (Suc k) w)"
    using after_missed_state [of k w] by (simp add: after_missed_def handle_ping_timeout_def Let_def)
  moreover have "unat ?limit < 2 ^ 32" using unsigned_less [of ?limit] by simp
  ultimately show ?thesis using after_missed_state [of "Suc k" w] by (auto simp: word_le_nat_alt)
qed

section \<open>Failures of the handshake\<close>

text \<open>
  When the link fails during a query of the handshake, the exchange has already given up the connection,
  and the handshake gives it up again: two failed attempts are counted for one failure.
\<close>

lemma handshake_failure_counted_twice:
  assumes "wk_stream w = Some l" "lk_sends l = []" "lk_incoming l = (t, LinkClosed) # items"
    "t < wk_now w + int d" "0 < d"
  shows "cs_failed_attempts (tel_status (s_telemetry (wk_state (snd (handshake_query cmd parse msg d w)))))
    = cs_failed_attempts (tel_status (s_telemetry (wk_state w))) + 2"
  using assms
  by (simp add: handshake_query_def worker_exchange_def link_send_def Let_def connection_lost_def
      notify_state_worker_def update_telemetry_def reset_missed_pings_def lose_connection_def
      count_frame_def set_incoming_def close_session_def split: option.splits)

text \<open>A version frame that does not parse ends the handshake without giving the connection up.\<close>

lemma handshake_parse_error_keeps_link:
  assumes "worker_inv w" "get_current_state w = Handshake"
    "worker_exchange [command_to_byte cmd] (command_to_byte cmd) d d False w = (Inr response, v)"
    "parse (wk_now v) response = Inl e"
  shows "handshake_query cmd parse msg d w = (Inl e, v) \<and> get_current_state v = Handshake"
  using assms inv_exchange(3) [OF assms(1,3)] by (simp add: handshake_query_def)

text \<open>
  C35. A handshake that is stuck is given up: whatever leaves the worker in a handshake, the first tick
  more than fifteen seconds after the last change of the state closes the link, counts a failed
  attempt and waits for a reconnection.
\<close>

theorem stuck_handshake_given_up:
  assumes "get_current_state w = Handshake"
    and "secs 15 < elapsed (wk_now w) (cs_last_event_at (tel_status (s_telemetry (wk_state w))))"
  shows "get_current_state (worker_tick bg should_reconnect w) = ConnectionLost
    \<and> wk_stream (worker_tick bg should_reconnect w) = None
    \<and> cs_failed_attempts (tel_status (s_telemetry (wk_state (worker_tick bg should_reconnect w))))
      = cs_failed_attempts (tel_status (s_telemetry (wk_state w))) + 1"
proof -
  have "worker_tick bg should_reconnect w = connection_lost w"
    using assms by (simp add: worker_tick_def Let_def tick_watchdog_def tick_mask_def tick_ping_def tick_reconnect_def)
  moreover have "wk_stream (connection_lost w) = None"
    by (simp add: connection_lost_def Let_def notify_state_worker_def update_telemetry_def reset_missed_pings_def)
  moreover have "cs_failed_attempts (tel_status (s_telemetry (wk_state (connection_lost w))))
      = cs_failed_attempts (tel_status (s_telemetry (wk_state w))) + 1"
    using assms(1) by (simp add: connection_lost_def Let_def notify_state_worker_def update_telemetry_def
      reset_missed_pings_def lose_connection_def get_current_state_def)
  ultimately show ?thesis using status_defs(4) by simp
qed

theorem stuck_handshake_given_up_witness:
  "get_current_state (worker_tick id True
    ((set_state_handshake (worker_start config_default 0 []))\<lparr>wk_now := 15000000001\<rparr>)) = ConnectionLost"
proof -
  let ?w = "(set_state_handshake (worker_start config_default 0 []))\<lparr>wk_now := 15000000001\<rparr>"
  have "get_current_state ?w = Handshake"
    using status_defs(2) [of "worker_start config_default 0 []"] by (simp add: get_current_state_def)
  moreover have "cs_last_event_at (tel_status (s_telemetry (wk_state ?w))) = 0"
    by (simp add: set_state_handshake_def notify_state_worker_def update_telemetry_def status_at_def worker_start_def)
  ultimately show ?thesis
    using stuck_handshake_given_up [of ?w id True] by (simp add: elapsed_def secs_def)
qed

text \<open>
  An empty frame, which the codec accepts (the bytes \<open>FE FE\<close>, the checksum of no bytes, \<open>FE 0D\<close>), makes
  the connected worker panic when no exchange is running.
\<close>

lemma empty_frame_panics:
  assumes "wk_stream w = Some l" "lk_incoming l = (t, LinkFrame []) # items" "t < wk_now w + int (millis 100)"
  shows "push_event w = None"
  using assms by (simp add: push_event_def receive_push_internal_def Let_def not_le)

section \<open>Negotiation\<close>

text \<open>What a successful exchange leaves: the frames sent, the settings and the module's version.\<close>

definition sent_on :: "worker \<Rightarrow> bytes list" where
  "sent_on w = (case wk_stream w of Some l \<Rightarrow> lk_sent l | None \<Rightarrow> [])"

definition settings :: "worker \<Rightarrow> config \<times> ethm_version option" where
  "settings w = (wk_config w, s_ethm_version (wk_state w))"

lemma settings_updates [simp]:
  "settings (update_telemetry f w) = settings w" "settings (notify_state_worker msg w) = settings w"
  "settings (set_incoming items w) = settings w" "settings (w\<lparr>wk_now := t\<rparr>) = settings w"
  "settings (w\<lparr>wk_stream := l\<rparr>) = settings w" "settings (w\<lparr>wk_auto_read_dirty := d\<rparr>) = settings w"
  "settings (w\<lparr>wk_opens := opens\<rparr>) = settings w" "settings (reset_missed_pings w) = settings w"
  by (simp_all add: settings_def update_telemetry_def notify_state_worker_def set_incoming_def reset_missed_pings_def)

lemma sent_on_updates [simp]:
  "sent_on (update_telemetry f w) = sent_on w" "sent_on (notify_state_worker msg w) = sent_on w"
  "sent_on (set_incoming items w) = sent_on w" "sent_on (w\<lparr>wk_now := t\<rparr>) = sent_on w"
  "sent_on (reset_missed_pings w) = sent_on w" "sent_on (pause bg n w) = sent_on w"
  "sent_on (set_state_handshake w) = sent_on w" "sent_on (set_state_connected w) = sent_on w"
  by (simp_all add: sent_on_def update_telemetry_def notify_state_worker_def set_incoming_def reset_missed_pings_def
      pause_def set_state_handshake_def set_state_connected_def Let_def split: option.splits)

lemma exchange_frame_same:
  "settings (exchange_frame cmd ping frame w) = settings w" "sent_on (exchange_frame cmd ping frame w) = sent_on w"
  by (simp_all add: exchange_frame_def Let_def)

lemma exchange_receive_same:
  "exchange_receive cmd ping deadline items w = (Inr frame, w') \<Longrightarrow> settings w' = settings w \<and> sent_on w' = sent_on w"
proof (induction items arbitrary: w)
  case Nil
  then show ?case by (simp add: exchange_timeout_def)
next
  case (Cons x items)
  obtain t item where x: "x = (t, item)" by (cases x)
  let ?v = "(set_incoming items w)\<lparr>wk_now := max (wk_now w) t\<rparr>"
  from Cons.prems consider "exchange_receive cmd ping deadline items ?v = (Inr frame, w')"
    | f where "exchange_receive cmd ping deadline items (exchange_frame cmd ping f ?v) = (Inr frame, w')"
    | f where "w' = exchange_frame cmd ping f ?v"
    by (auto simp: x exchange_timeout_def Let_def split: link_item.splits if_splits)
  then show ?case using Cons.IH by cases (fastforce simp: exchange_frame_same)+
qed

lemma worker_exchange_same:
  "worker_exchange data cmd wt rt ping w = (Inr frame, w') \<Longrightarrow>
    settings w' = settings w \<and> sent_on w' = sent_on w @ [data]"
proof -
  assume ex: "worker_exchange data cmd wt rt ping w = (Inr frame, w')"
  then obtain l where l: "wk_stream w = Some l" by (cases "wk_stream w") (simp_all add: worker_exchange_def)
  obtain outcome l' now where send: "link_send data wt l (wk_now w) = (outcome, l', now)"
    by (cases "link_send data wt l (wk_now w)")
  let ?v = "update_telemetry (\<lambda>t. (if ping then t else count_frame t)\<lparr>tel_last_send_at := now\<rparr>)
    (w\<lparr>wk_stream := Some l', wk_now := now\<rparr>)"
  from ex l send have "exchange_receive cmd ping (now + int rt) (lk_incoming l') ?v = (Inr frame, w')"
    by (auto simp: worker_exchange_def Let_def split: option.splits)
  from exchange_receive_same [OF this] have "settings w' = settings w" "sent_on w' = sent_on ?v" by simp_all
  moreover have "sent_on ?v = lk_sent l'" by (simp add: sent_on_def update_telemetry_def)
  moreover have "lk_sent l' = lk_sent l @ [data]"
    using send by (auto simp: link_send_def Let_def split: prod.splits if_splits)
  ultimately show ?thesis using l by (simp add: sent_on_def)
qed

lemma handshake_query_same:
  "handshake_query cmd parse msg d w = (Inr u, w') \<Longrightarrow>
    settings w' = settings w \<and> sent_on w' = sent_on w @ [[command_to_byte cmd]]"
  by (auto simp: handshake_query_def split: prod.splits sum.splits dest: worker_exchange_same)

lemma send_push_mask_same:
  "send_push_mask d w = (Inr u, w') \<Longrightarrow> settings w' = settings w
    \<and> sent_on w' = sent_on w @ [0x7F # build_push_mask (wk_config w) (support_14_byte_mask (wk_state w))]"
  by (auto simp: send_push_mask_def Let_def split: prod.splits sum.splits option.splits dest: worker_exchange_same)

lemma bind_worker_Inr:
  "bind_worker rw f = (Inr u, w') \<longleftrightarrow> (\<exists>v w. rw = (Inr v, w) \<and> f w = (Inr u, w'))"
  by (cases rw) (auto simp: bind_worker_def split: sum.splits)

lemma connect_handshake_same:
  "connect_handshake bg d w = (Inr u, w') \<Longrightarrow>
    wk_config w' = wk_config w \<and> sent_on w' = sent_on w @ [[0x7C], [0x7E]] \<and> (\<exists>s. wk_state w' = bg s)"
  unfolding connect_handshake_def bind_worker_Inr
  by (auto simp: settings_def dest!: handshake_query_same) (auto simp: pause_def)

lemma connect_physical_same:
  "connect_physical d w = (Inr l, w') \<Longrightarrow> wk_config w' = wk_config w \<and> (\<exists>t. (t, Inr l) \<in> set (wk_opens w))"
  by (auto simp: connect_physical_def Let_def bind_result_Inr_iff split: list.splits prod.splits if_splits)

text \<open>
  C14. A successful connection ends in the state \<open>Connected\<close> on a link on which exactly the version
  queries of the module and of the panel were sent and, if an option of the automatic reading is on,
  the mask of those options. The mask has fourteen bytes exactly if the module's version, as the state
  worker has stored it by then, supports eight groups of troubles.
\<close>

theorem connect_negotiation:
  assumes "worker_connect bg w = (Inr (), w')" and "\<And>s. s_ethm_version (bg s) = ethm"
  shows "get_current_state w' = Connected
    \<and> (\<exists>t l. (t, Inr l) \<in> set (wk_opens w)
      \<and> sent_on w' = lk_sent l @ [[0x7C], [0x7E]]
        @ (if is_auto_read_enabled (wk_config w)
           then [0x7F # build_push_mask (wk_config w) (case ethm of
             Some v \<Rightarrow> ec_support_8_troubles_groups (ev_capabilities v) | None \<Rightarrow> False)]
           else []))"
proof -
  let ?d = "millis (unat (cfg_read_timeout_ms (wk_config (set_state_connecting w))))"
  let ?v = "(set_state_connecting w)\<lparr>wk_auto_read_dirty := False\<rparr>"
  have v: "wk_config ?v = wk_config w" "wk_opens ?v = wk_opens w"
    by (simp_all add: set_state_connecting_def notify_state_worker_def update_telemetry_def)
  obtain l u where phys: "connect_physical ?d ?v = (Inr l, u)"
    using assms(1) by (auto simp: worker_connect_def Let_def split: prod.splits sum.splits)
  let ?x = "pause bg 200 (set_state_handshake (u\<lparr>wk_stream := Some l\<rparr>))"
  have x: "wk_config ?x = wk_config w" "sent_on ?x = lk_sent l"
    using connect_physical_same [OF phys] v
    by (simp_all add: pause_def set_state_handshake_def notify_state_worker_def update_telemetry_def sent_on_def)
  from assms(1) phys obtain y z where y: "connect_handshake bg ?d ?x = (Inr (), y)"
    and z: "(if is_auto_read_enabled (wk_config y) then connect_auto_read ?d y else (Inr (), y)) = (Inr (), z)"
    and w': "w' = set_state_connected z"
    by (auto simp: worker_connect_def Let_def bind_worker_Inr)
  from connect_handshake_same [OF y] x obtain s where ys: "wk_config y = wk_config w"
    "sent_on y = lk_sent l @ [[0x7C], [0x7E]]" "wk_state y = bg s" by auto
  have wide: "support_14_byte_mask (wk_state y)
      = (case ethm of Some v \<Rightarrow> ec_support_8_troubles_groups (ev_capabilities v) | None \<Rightarrow> False)"
    using assms(2) [of s] ys(3) by (simp add: support_14_byte_mask_def)
  have "sent_on z = sent_on y @ (if is_auto_read_enabled (wk_config w)
      then [0x7F # build_push_mask (wk_config w) (support_14_byte_mask (wk_state y))] else [])"
    using z ys(1) by (auto simp: connect_auto_read_def split: if_splits prod.splits sum.splits dest!: send_push_mask_same)
  then show ?thesis
    using w' ys(2) wide status_defs(3) [of z] connect_physical_same [OF phys] v(2) by auto
qed

text \<open>A link on which the panel answers all three requests at once.\<close>

lemma exchange_head:
  assumes "wk_stream w = Some l" "lk_sends l = []" "lk_incoming l = (t, LinkFrame answer) # items"
    "t \<le> wk_now w" "0 < rt" "answer \<noteq> []" "is_target cmd answer"
  shows "\<exists>v. worker_exchange data cmd wt rt False w = (Inr answer, v) \<and> wk_now v = wk_now w
    \<and> wk_stream v = Some (l\<lparr>lk_incoming := items, lk_sent := lk_sent l @ [data]\<rparr>)"
  using assms
  by (auto simp: worker_exchange_def link_send_def Let_def exchange_frame_fields set_incoming_def update_telemetry_def)

lemma handshake_query_head:
  assumes "wk_stream w = Some l" "lk_sends l = []" "lk_incoming l = (t, LinkFrame answer) # items"
    "t \<le> wk_now w" "0 < d" "answer \<noteq> []" "hd answer = command_to_byte cmd" "\<And>now. \<exists>v. parse now answer = Inr v"
  shows "\<exists>v l'. handshake_query cmd parse msg d w = (Inr (), v) \<and> wk_now v = wk_now w
    \<and> wk_stream v = Some l' \<and> lk_incoming l' = items \<and> lk_sends l' = []"
proof -
  have "is_target (command_to_byte cmd) answer" using assms(7) by (simp add: is_target_def)
  from exchange_head [OF assms(1-6) this] obtain v where
    v: "worker_exchange [command_to_byte cmd] (command_to_byte cmd) d d False w = (Inr answer, v)"
      "wk_now v = wk_now w" "wk_stream v = Some (l\<lparr>lk_incoming := items, lk_sent := lk_sent l @ [[command_to_byte cmd]]\<rparr>)"
    by blast
  obtain x where "parse (wk_now v) answer = Inr x" using assms(8) by blast
  with v assms(2) show ?thesis by (simp add: handshake_query_def notify_state_worker_def)
qed

lemma handshake_answered:
  assumes "wk_stream x = Some l" "lk_sends l = []" "0 \<le> wk_now x" "0 < d"
    "lk_incoming l = (0, LinkFrame (0x7C # replicate 12 0)) # (0, LinkFrame (0x7E # replicate 14 0)) # items"
  shows "\<exists>z l'. connect_handshake bg d x = (Inr (), pause bg 100 z) \<and> wk_now z = wk_now x
    \<and> wk_config z = wk_config x \<and> wk_stream z = Some l' \<and> lk_incoming l' = items \<and> lk_sends l' = []"
proof -
  have ethm: "\<exists>v. process_ethm_version now (0x7C # replicate 12 0) = Inr v" for now
    by (simp add: process_ethm_version_def frame_data_def Let_def)
  have integra: "\<exists>v. process_integra_version now (0x7E # replicate 14 0) = Inr v" for now
    by (simp add: process_integra_version_def frame_data_def Let_def case_prod_beta)
  obtain y l1 where y: "handshake_query ModuleVersion process_ethm_version MsgEthmVersion d x = (Inr (), y)"
    "wk_now y = wk_now x" "wk_stream y = Some l1" "lk_incoming l1 = tl (lk_incoming l)" "lk_sends l1 = []"
    using handshake_query_head [OF assms(1,2) _ assms(3,4), of "0x7C # replicate 12 0" "tl (lk_incoming l)" ModuleVersion
      process_ethm_version MsgEthmVersion] ethm assms(5) by auto
  obtain z l2 where z: "handshake_query IntegraVersion process_integra_version MsgIntegraVersion d y = (Inr (), z)"
    "wk_now z = wk_now y" "wk_stream z = Some l2" "lk_incoming l2 = items" "lk_sends l2 = []"
    using handshake_query_head [OF y(3,5), of 0 "0x7E # replicate 14 0" items d IntegraVersion
      process_integra_version MsgIntegraVersion] integra assms(3,4,5) y(2,4) by auto
  have "wk_config z = wk_config x"
    using handshake_query_same [OF y(1)] handshake_query_same [OF z(1)] by (simp add: settings_def)
  moreover have "connect_handshake bg d x = (Inr (), pause bg 100 z)"
    using y(1) z(1) by (simp add: connect_handshake_def bind_worker_def)
  ultimately show ?thesis using y z by auto
qed

lemma mask_answered:
  assumes "wk_stream p = Some l" "lk_sends l = []" "lk_incoming l = (0, LinkFrame [0xEF, 0xFF]) # items"
    "0 \<le> wk_now p" "0 < d"
  shows "\<exists>q. connect_auto_read d p = (Inr (), q)"
proof -
  let ?msk = "build_push_mask (wk_config p) (support_14_byte_mask (wk_state p))"
  obtain q where "worker_exchange (0x7F # ?msk) 0x7F d d False p = (Inr [0xEF, 0xFF], q)"
    using exchange_head [OF assms, where cmd = "0x7F" and data = "0x7F # ?msk"] by (auto simp: is_target_def)
  then show ?thesis
    by (simp add: connect_auto_read_def send_push_mask_def process_auto_read_response_def Let_def get_def
        split: option.splits)
qed

theorem connect_negotiation_witness:
  "let l = \<lparr>lk_incoming = [(0, LinkFrame (0x7C # replicate 12 0)), (0, LinkFrame (0x7E # replicate 14 0)),
         (0, LinkFrame [0xEF, 0xFF])], lk_sends = [], lk_sent = []\<rparr>;
       w = worker_start (config_default\<lparr>cfg_auto_read_outputs_state := True\<rparr>) 0 [(0, Inr l)];
       w' = snd (worker_connect (\<lambda>s. s\<lparr>s_ethm_version := None\<rparr>) w)
   in get_current_state w' = Connected \<and> length (sent_on w') = 3
     \<and> length (last (sent_on w')) = 13"
proof -
  define l where "l = \<lparr>lk_incoming = [(0 :: timestamp, LinkFrame (0x7C # replicate 12 0)), (0, LinkFrame (0x7E # replicate 14 0)),
    (0, LinkFrame [0xEF, 0xFF])], lk_sends = [], lk_sent = []\<rparr>"
  define cfg where "cfg = config_default\<lparr>cfg_auto_read_outputs_state := True\<rparr>"
  define w where "w = worker_start cfg 0 [(0, Inr l)]"
  define bg where "bg = (\<lambda>s :: satel_state. s\<lparr>s_ethm_version := None\<rparr>)"
  let ?d = "millis (unat (cfg_read_timeout_ms cfg))"
  have d: "0 < ?d" and auto_read: "is_auto_read_enabled cfg" and tcp: "\<not> cfg_encryption cfg"
    by (simp_all add: cfg_def config_default_def millis_def is_auto_read_enabled_def)
  define u where "u = (set_state_connecting w)\<lparr>wk_auto_read_dirty := False, wk_opens := [], wk_now := 0\<rparr>"
  define x where "x = pause bg 200 (set_state_handshake (u\<lparr>wk_stream := Some l\<rparr>))"
  have phys: "connect_physical ?d ((set_state_connecting w)\<lparr>wk_auto_read_dirty := False\<rparr>) = (Inr l, u)"
    and conf: "wk_config (set_state_connecting w) = cfg"
    using tcp by (simp_all add: connect_physical_def u_def w_def worker_start_def set_state_connecting_def
      notify_state_worker_def update_telemetry_def)
  have x: "wk_stream x = Some l" "0 \<le> wk_now x" "wk_config x = cfg"
    by (simp_all add: x_def u_def pause_def set_state_handshake_def notify_state_worker_def update_telemetry_def
      w_def worker_start_def set_state_connecting_def)
  have "lk_sends l = []" "lk_incoming l = (0, LinkFrame (0x7C # replicate 12 0)) # (0, LinkFrame (0x7E # replicate 14 0))
      # [(0, LinkFrame [0xEF, 0xFF])]" by (simp_all add: l_def)
  from handshake_answered [OF x(1) this(1) x(2) d this(2), of bg] obtain z l2 where
    z: "connect_handshake bg ?d x = (Inr (), pause bg 100 z)" "wk_now z = wk_now x" "wk_config z = cfg"
      "wk_stream z = Some l2" "lk_incoming l2 = [(0, LinkFrame [0xEF, 0xFF])]" "lk_sends l2 = []"
    using x(3) by auto
  obtain q where q: "connect_auto_read ?d (pause bg 100 z) = (Inr (), q)"
    using mask_answered [of "pause bg 100 z" l2 "[]" ?d] z x(2) d by (auto simp: pause_def)
  have "worker_connect bg w = bind_worker (connect_handshake bg ?d x) (\<lambda>w.
      bind_worker (if is_auto_read_enabled (wk_config w) then connect_auto_read ?d w else (Inr (), w))
        (\<lambda>w. (Inr (), set_state_connected w)))"
    using phys conf by (simp add: worker_connect_def Let_def x_def cong: if_cong)
  then have run: "worker_connect bg w = (Inr (), set_state_connected q)"
    using z q auto_read by (simp add: bind_worker_def pause_def)
  from connect_negotiation [OF run, of None] auto_read
  have "get_current_state (set_state_connected q) = Connected
      \<and> sent_on (set_state_connected q) = [[0x7C], [0x7E], 0x7F # build_push_mask cfg False]"
    by (simp add: bg_def w_def worker_start_def l_def)
  then show ?thesis
    using run
    by (simp add: Let_def l_def [symmetric] cfg_def [symmetric] w_def [symmetric] bg_def [symmetric]
        build_push_mask_length)
qed

end
