(* ===== verification/Recovery.thy ===== *)
theory Recovery
  imports Worker_Laws
begin

text \<open>
  The automatic reconnection of the worker (\<open>run_loop\<close> and \<open>satel_connection_worker_connect\<close> of
  \<open>src/src/worker.rs\<close>): a worker that has lost its link gets it back from a panel that answers.
\<close>

section \<open>A panel that answers\<close>

text \<open>
  The frames of a link answer a list of requests in turn: for each request the first frame that carries
  its command or is a result code is an acceptable answer. Each answer, with whatever comes before it,
  arrives less than \<open>d\<close> after the answer before it, the first less than \<open>d\<close> after a given time.
\<close>

fun answered_in_turn ::
  "(u8 \<times> (bytes \<Rightarrow> bool)) list \<Rightarrow> duration \<Rightarrow> timestamp \<Rightarrow> (timestamp \<times> link_item) list \<Rightarrow> bool" where
  "answered_in_turn [] d since items = True"
| "answered_in_turn (r # rs) d since [] = False"
| "answered_in_turn ((cmd, ok) # rs) d since ((t, item) # items) =
    (t < since + int d \<and> (case item of
       LinkFrame f \<Rightarrow> if f \<noteq> [] \<and> is_target cmd f then ok f \<and> answered_in_turn rs d (max since t) items
         else answered_in_turn ((cmd, ok) # rs) d since items
     | _ \<Rightarrow> False))"

lemma answered_later:
  "answered_in_turn rs d since items \<Longrightarrow> since \<le> since' \<Longrightarrow> answered_in_turn rs d since' items"
proof (induction rs d since items arbitrary: since' rule: answered_in_turn.induct)
  case (3 cmd ok rs d since t item items)
  then show ?case by (cases item) (auto split: if_splits intro: max.mono)
qed simp_all

text \<open>The requests of a connection, with the frames that answer them.\<close>

definition connect_requests :: "config \<Rightarrow> (u8 \<times> (bytes \<Rightarrow> bool)) list" where
  "connect_requests cfg = [(0x7C, \<lambda>a. hd a = 0x7C \<and> 13 \<le> length a), (0x7E, \<lambda>a. hd a = 0x7E \<and> 15 \<le> length a)]
    @ (if is_auto_read_enabled cfg then [(0x7F, \<lambda>_. True)] else [])"

text \<open>From now on, what arrives on the link answers the requests in turn, and no write is delayed.\<close>

definition answering :: "(u8 \<times> (bytes \<Rightarrow> bool)) list \<Rightarrow> duration \<Rightarrow> worker \<Rightarrow> bool" where
  "answering rs d w = (case wk_stream w of
     Some l \<Rightarrow> lk_sends l = [] \<and> answered_in_turn rs d (wk_now w) (lk_incoming l)
   | None \<Rightarrow> False)"

lemma answering_updates [simp]:
  "answering rs d (update_telemetry f w) = answering rs d w"
  "answering rs d (notify_state_worker msg w) = answering rs d w"
  "answering rs d (reset_missed_pings w) = answering rs d w"
  by (simp_all add: answering_def update_telemetry_def notify_state_worker_def reset_missed_pings_def
    cong: option.case_cong)

lemma answering_pause: "answering rs d w \<Longrightarrow> answering rs d (pause bg n w)"
  by (auto simp: answering_def pause_def split: option.splits elim: answered_later)

section \<open>One request after the other\<close>

lemma exchange_receive_turn:
  "answered_in_turn ((cmd, ok) # rs) d since items \<Longrightarrow> since \<le> wk_now w \<Longrightarrow> since + int d \<le> deadline \<Longrightarrow>
    wk_now w < deadline \<Longrightarrow> wk_stream w = Some l \<Longrightarrow> lk_sends l = [] \<Longrightarrow>
    \<exists>a w'. exchange_receive cmd ping deadline items w = (Inr a, w') \<and> ok a \<and> a \<noteq> [] \<and> answering rs d w'"
proof (induction items arbitrary: w l)
  case (Cons x items)
  from Cons.prems(1) obtain t f where x: "x = (t, LinkFrame f)"
    by (cases x) (auto split: link_item.splits)
  let ?v = "(set_incoming items w)\<lparr>wk_now := max (wk_now w) t\<rparr>"
  have t: "t < deadline" "\<not> deadline \<le> wk_now w" using Cons.prems by (simp_all add: x)
  show ?case
  proof (cases "f \<noteq> [] \<and> is_target cmd f")
    case True
    have "answered_in_turn rs d (max (wk_now w) t) items"
      using Cons.prems(1,2) True by (auto simp: x elim: answered_later)
    then have "answering rs d (exchange_frame cmd ping f ?v)"
      using Cons.prems(5,6) by (simp add: answering_def exchange_frame_fields set_incoming_def)
    then show ?thesis using True t Cons.prems(1) by (simp add: x Let_def)
  next
    case False
    define u where "u = (if f = [] then ?v else exchange_frame cmd ping f ?v)"
    have u: "since \<le> wk_now u" "wk_now u < deadline" "wk_stream u = Some (l\<lparr>lk_incoming := items\<rparr>)"
      using t Cons.prems(2,5) by (simp_all add: u_def exchange_frame_fields set_incoming_def)
    have "exchange_receive cmd ping deadline (x # items) w = exchange_receive cmd ping deadline items u"
      using t False by (auto simp: x Let_def u_def)
    with Cons.IH [OF _ u(1) Cons.prems(3) u(2,3)] Cons.prems(1,6) False show ?thesis by (auto simp: x)
  qed
qed simp

lemma worker_exchange_turn:
  assumes "answering ((cmd, ok) # rs) d w" and "0 < d"
  shows "\<exists>a w'. worker_exchange data cmd wt d False w = (Inr a, w') \<and> ok a \<and> a \<noteq> [] \<and> answering rs d w'"
proof -
  from assms(1) obtain l where l: "wk_stream w = Some l" "lk_sends l = []"
    "answered_in_turn ((cmd, ok) # rs) d (wk_now w) (lk_incoming l)"
    by (auto simp: answering_def split: option.splits)
  let ?l = "l\<lparr>lk_sends := tl (lk_sends l), lk_sent := lk_sent l @ [data]\<rparr>"
  let ?v = "update_telemetry (\<lambda>t. (count_frame t)\<lparr>tel_last_send_at := wk_now w\<rparr>)
    (w\<lparr>wk_stream := Some ?l, wk_now := wk_now w\<rparr>)"
  have "worker_exchange data cmd wt d False w
      = exchange_receive cmd False (wk_now w + int d) (lk_incoming l) ?v"
    using l by (simp add: worker_exchange_def link_send_def Let_def)
  moreover have "wk_now w \<le> wk_now ?v" "wk_now ?v < wk_now w + int d" "wk_stream ?v = Some ?l" "lk_sends ?l = []"
    using assms(2) l(2) by (simp_all add: update_telemetry_def)
  from exchange_receive_turn [OF l(3) this(1) order_refl this(2-)]
  have "\<exists>a w'. exchange_receive cmd False (wk_now w + int d) (lk_incoming l) ?v = (Inr a, w')
    \<and> ok a \<and> a \<noteq> [] \<and> answering rs d w'" .
  ultimately show ?thesis by simp
qed

lemma handshake_query_turn:
  assumes "answering ((command_to_byte cmd, ok) # rs) d w" and "0 < d"
    and "\<And>now a. ok a \<Longrightarrow> a \<noteq> [] \<Longrightarrow> \<exists>v. parse now a = Inr v"
  shows "\<exists>w'. handshake_query cmd parse msg d w = (Inr (), w') \<and> answering rs d w'"
proof -
  from worker_exchange_turn [OF assms(1,2)] obtain a w' where
    w': "worker_exchange [command_to_byte cmd] (command_to_byte cmd) d d False w = (Inr a, w')"
      "ok a" "a \<noteq> []" "answering rs d w'" by blast
  from assms(3) [OF this(2,3)] obtain v where "parse (wk_now w') a = Inr v" by blast
  with w' show ?thesis by (simp add: handshake_query_def)
qed

lemma send_push_mask_turn:
  assumes "answering ((0x7F, ok) # rs) d w" and "0 < d"
  shows "\<exists>w'. send_push_mask d w = (Inr (), w')"
proof -
  let ?msk = "build_push_mask (wk_config w) (support_14_byte_mask (wk_state w))"
  from worker_exchange_turn [OF assms, of "command_to_byte ListOfNewData # ?msk" d] obtain a w' where
    "worker_exchange (command_to_byte ListOfNewData # ?msk) 0x7F d d False w = (Inr a, w')" "a \<noteq> []" by blast
  then show ?thesis by (simp add: send_push_mask_def process_auto_read_response_def Let_def)
qed

section \<open>Connecting\<close>

definition key_ok :: "config \<Rightarrow> bool" where
  "key_ok cfg = (is_uart (cfg_connection cfg) \<or> \<not> cfg_encryption cfg \<or> cfg_integration_key cfg \<noteq> None)"

text \<open>
  An attempt to connect that began now would open the transport within the read timeout, and on that
  link the panel answers the requests of the connection, each within the read timeout of the opening
  or of the answer before it.
\<close>

definition panel_reachable :: "worker \<Rightarrow> bool" where
  "panel_reachable w = (case wk_opens w of
     (delay, Inr l) # _ \<Rightarrow>
       let d = millis (unat (cfg_read_timeout_ms (wk_config w)))
       in 0 < d \<and> delay \<le> d \<and> key_ok (wk_config w) \<and> lk_sends l = []
         \<and> answered_in_turn (connect_requests (wk_config w)) d (wk_now w + int delay) (lk_incoming l)
   | _ \<Rightarrow> False)"

lemma connect_handshake_turn:
  assumes "answering (connect_requests cfg) d w" and "0 < d"
  shows "\<exists>w'. connect_handshake bg d w = (Inr (), w')
    \<and> answering (if is_auto_read_enabled cfg then [(0x7F, \<lambda>_. True)] else []) d w'"
proof -
  have ethm: "\<exists>v. process_ethm_version now a = Inr v" if "hd a = 0x7C \<and> 13 \<le> length a" "a \<noteq> []" for now a
    using that by (auto simp: process_ethm_version_def frame_data_def Let_def)
  have integra: "\<exists>v. process_integra_version now a = Inr v" if "hd a = 0x7E \<and> 15 \<le> length a" "a \<noteq> []" for now a
    using that by (auto simp: process_integra_version_def frame_data_def Let_def case_prod_beta)
  let ?mask = "if is_auto_read_enabled cfg then [(0x7F, \<lambda>_. True)] else []"
  have "answering ((command_to_byte ModuleVersion, \<lambda>a. hd a = 0x7C \<and> 13 \<le> length a)
      # (0x7E, \<lambda>a. hd a = 0x7E \<and> 15 \<le> length a) # ?mask) d w"
    using assms(1) by (simp add: connect_requests_def)
  from handshake_query_turn [where parse = process_ethm_version and msg = MsgEthmVersion, OF this assms(2) ethm]
  obtain y where y: "handshake_query ModuleVersion process_ethm_version MsgEthmVersion d w = (Inr (), y)"
    "answering ((0x7E, \<lambda>a. hd a = 0x7E \<and> 15 \<le> length a) # ?mask) d y" by blast
  have "answering ((command_to_byte IntegraVersion, \<lambda>a. hd a = 0x7E \<and> 15 \<le> length a) # ?mask) d y"
    using y(2) by simp
  from handshake_query_turn [where parse = process_integra_version and msg = MsgIntegraVersion,
      OF this assms(2) integra]
  obtain z where z: "handshake_query IntegraVersion process_integra_version MsgIntegraVersion d y = (Inr (), z)"
    "answering ?mask d z" by blast
  show ?thesis
    using y z answering_pause [OF z(2)] by (simp add: connect_handshake_def bind_worker_def)
qed

lemma worker_connect_reachable:
  assumes "panel_reachable w"
  shows "\<exists>z. worker_connect bg w = (Inr (), set_state_connected z)"
proof -
  let ?cfg = "wk_config w"
  let ?d = "millis (unat (cfg_read_timeout_ms ?cfg))"
  from assms obtain delay r opens where r: "wk_opens w = (delay, r) # opens"
    by (auto simp: panel_reachable_def split: list.splits)
  with assms obtain l where "r = Inr l" by (cases r) (simp_all add: panel_reachable_def)
  with assms r have opens: "wk_opens w = (delay, Inr l) # opens" and d: "0 < ?d" "delay \<le> ?d" and key: "key_ok ?cfg"
    and ans: "lk_sends l = []" "answered_in_turn (connect_requests ?cfg) ?d (wk_now w + int delay) (lk_incoming l)"
    by (simp_all add: panel_reachable_def Let_def)
  define v where "v = (set_state_connecting w)\<lparr>wk_auto_read_dirty := False\<rparr>"
  have conf: "wk_config (set_state_connecting w) = ?cfg"
    by (simp add: set_state_connecting_def notify_state_worker_def update_telemetry_def)
  have v: "wk_config v = ?cfg" "wk_opens v = wk_opens w" "wk_now v = wk_now w"
    by (simp_all add: v_def set_state_connecting_def notify_state_worker_def update_telemetry_def)
  define u where "u = v\<lparr>wk_opens := opens, wk_now := wk_now v + int delay\<rparr>"
  have phys: "connect_physical ?d v = (Inr l, u)"
    using opens d(2) key v by (auto simp: connect_physical_def key_ok_def u_def)
  define x where "x = pause bg 200 (set_state_handshake (u\<lparr>wk_stream := Some l\<rparr>))"
  have "answering (connect_requests ?cfg) ?d (u\<lparr>wk_stream := Some l\<rparr>)"
    using ans v by (simp add: answering_def u_def)
  then have x: "answering (connect_requests ?cfg) ?d x" "wk_config x = ?cfg"
    using v by (simp_all add: x_def u_def set_state_handshake_def answering_pause)
      (simp add: pause_def notify_state_worker_def update_telemetry_def)
  obtain y where y: "connect_handshake bg ?d x = (Inr (), y)"
    "answering (if is_auto_read_enabled ?cfg then [(0x7F, \<lambda>_. True)] else []) ?d y"
    using connect_handshake_turn [OF x(1) d(1)] by auto
  have yc: "wk_config y = ?cfg" using connect_handshake_same [OF y(1)] x(2) by simp
  obtain z where z: "(if is_auto_read_enabled (wk_config y) then connect_auto_read ?d y else (Inr (), y)) = (Inr (), z)"
  proof (cases "is_auto_read_enabled ?cfg")
    case True
    with y(2) have "answering [(0x7F, \<lambda>_. True)] ?d y" by simp
    from send_push_mask_turn [OF this d(1)] obtain q where "send_push_mask ?d y = (Inr (), q)" by auto
    then show ?thesis using that True yc by (simp add: connect_auto_read_def)
  next
    case False
    then show ?thesis using that yc by simp
  qed
  have "worker_connect bg w = bind_worker (connect_handshake bg ?d x) (\<lambda>w.
      bind_worker (if is_auto_read_enabled (wk_config w) then connect_auto_read ?d w else (Inr (), w))
        (\<lambda>w. (Inr (), set_state_connected w)))"
    using phys conf by (simp add: worker_connect_def Let_def v_def [symmetric] x_def cong: if_cong)
  then show ?thesis using y(1) z by (intro exI [of _ z]) (simp add: bind_worker_def)
qed

section \<open>Waiting\<close>

text \<open>A second goes by and the timer ticks.\<close>

definition second_passes :: "(satel_state \<Rightarrow> satel_state) \<Rightarrow> bool \<Rightarrow> worker \<Rightarrow> worker" where
  "second_passes bg should_reconnect w = worker_tick bg should_reconnect (w\<lparr>wk_now := wk_now w + int (secs 1)\<rparr>)"

definition last_event :: "worker \<Rightarrow> timestamp" where
  "last_event w = cs_last_event_at (tel_status (s_telemetry (wk_state w)))"

lemma lost_tick_waits:
  "get_current_state w = ConnectionLost \<Longrightarrow> elapsed (wk_now w) (last_event w) < calculate_backoff w \<Longrightarrow>
    worker_tick bg r w = w"
  by (simp add: worker_tick_def Let_def tick_watchdog_def tick_mask_def tick_ping_def tick_reconnect_def last_event_def)

lemma lost_tick_connects:
  assumes "get_current_state w = ConnectionLost" and "calculate_backoff w \<le> elapsed (wk_now w) (last_event w)"
    and "panel_reachable w"
  shows "\<exists>z. worker_tick bg True w = set_state_connected z"
proof -
  let ?v = "update_telemetry (\<lambda>t. t\<lparr>tel_reconnect_attempts := tel_reconnect_attempts t + 1\<rparr>) w"
  have "panel_reachable ?v"
    using assms(3) by (auto simp: panel_reachable_def answering_def update_telemetry_def split: list.splits sum.splits)
  from worker_connect_reachable [OF this] obtain z where "worker_connect bg ?v = (Inr (), set_state_connected z)" by blast
  then show ?thesis using assms
    by (intro exI [of _ z]) (simp add: worker_tick_def Let_def tick_watchdog_def tick_mask_def tick_ping_def tick_reconnect_def last_event_def)
qed

lemma waiting:
  assumes "get_current_state w = ConnectionLost"
    and "\<And>j. 1 \<le> j \<Longrightarrow> j \<le> k \<Longrightarrow> elapsed (wk_now w + int j * int (secs 1)) (last_event w) < calculate_backoff w"
  shows "(second_passes bg r ^^ k) w = w\<lparr>wk_now := wk_now w + int k * int (secs 1)\<rparr>"
  using assms(2)
proof (induction k)
  case (Suc k)
  let ?w = "w\<lparr>wk_now := wk_now w + int (Suc k) * int (secs 1)\<rparr>"
  have "(second_passes bg r ^^ k) w = w\<lparr>wk_now := wk_now w + int k * int (secs 1)\<rparr>"
    using Suc.prems by (intro Suc.IH) simp
  then have "(second_passes bg r ^^ Suc k) w = worker_tick bg r ?w"
    by (simp add: second_passes_def [of bg r "w\<lparr>wk_now := t\<rparr>" for t] algebra_simps)
  also have "\<dots> = ?w"
    using assms(1) Suc.prems [of "Suc k"]
    by (intro lost_tick_waits) (simp_all add: get_current_state_def last_event_def calculate_backoff_def)
  finally show ?case .
qed simp

text \<open>The number of ticks until the delay since the last event is over.\<close>

definition reconnect_ticks :: "worker \<Rightarrow> nat" where
  "reconnect_ticks w = max 1
    ((calculate_backoff w - elapsed (wk_now w) (last_event w) + (secs 1 - 1)) div secs 1)"

definition at_tick :: "nat \<Rightarrow> worker \<Rightarrow> worker" where
  "at_tick k w = w\<lparr>wk_now := wk_now w + int k * int (secs 1)\<rparr>"

lemma ceiling_div:
  fixes x :: nat
  assumes "0 < s"
  shows "x \<le> (x + (s - 1)) div s * s" and "j < (x + (s - 1)) div s \<Longrightarrow> j * s < x"
proof -
  have "x + (s - 1) < Suc ((x + (s - 1)) div s) * s"
    using dividend_less_div_times [OF assms] by (simp add: mult.commute add.commute)
  then show "x \<le> (x + (s - 1)) div s * s" using assms by simp
  assume "j < (x + (s - 1)) div s"
  then have "Suc j * s \<le> x + (s - 1)" using assms by (simp add: less_eq_div_iff_mult_less_eq flip: Suc_le_eq)
  then show "j * s < x" using assms by simp
qed

lemma reconnect_due:
  assumes "last_event w \<le> wk_now w"
  shows "calculate_backoff w \<le> elapsed (wk_now (at_tick (reconnect_ticks w) w)) (last_event w)"
    and "1 \<le> j \<Longrightarrow> j < reconnect_ticks w \<Longrightarrow> elapsed (wk_now (at_tick j w)) (last_event w) < calculate_backoff w"
    and "1 \<le> reconnect_ticks w" and "reconnect_ticks w \<le> 60"
proof -
  let ?x = "calculate_backoff w - elapsed (wk_now w) (last_event w)"
  let ?k = "(?x + (secs 1 - 1)) div secs 1"
  have s: "0 < secs 1" by (simp add: secs_def)
  have elapsed_tick: "elapsed (wk_now (at_tick k w)) (last_event w) = elapsed (wk_now w) (last_event w) + k * secs 1" for k
    using assms by (simp add: elapsed_def at_tick_def nat_add_distrib nat_mult_distrib flip: diff_add_eq)
  have "?k * secs 1 \<le> reconnect_ticks w * secs 1" by (simp add: reconnect_ticks_def)
  with ceiling_div(1) [OF s, of ?x]
  show "calculate_backoff w \<le> elapsed (wk_now (at_tick (reconnect_ticks w) w)) (last_event w)"
    unfolding elapsed_tick by linarith
  show "elapsed (wk_now (at_tick j w)) (last_event w) < calculate_backoff w" if "1 \<le> j" "j < reconnect_ticks w"
  proof -
    from that have "j < ?k" by (auto simp: reconnect_ticks_def)
    from ceiling_div(2) [OF s this] show ?thesis unfolding elapsed_tick by linarith
  qed
  show "1 \<le> reconnect_ticks w" by (simp add: reconnect_ticks_def)
  have "?x \<le> secs 60" using backoff_bounds [of w] by linarith
  then have "?k \<le> (secs 60 + (secs 1 - 1)) div secs 1" by (intro div_le_mono) simp
  then show "reconnect_ticks w \<le> 60" by (simp add: reconnect_ticks_def secs_def)
qed

section \<open>Properties\<close>

text \<open>
  C5. A lost link comes back. With the automatic reconnection on, however many attempts have failed
  before and whatever the other tasks do, the worker waits a number of ticks that is fixed by the
  delay of the backoff and is at most sixty. It then tries to connect, and if at that time the
  transport opens within the read timeout and the panel answers the requests of a connection, each
  within the read timeout of the opening or of the answer before it, the worker is connected after
  this tick, with a session begun and the count of failed attempts at zero.
\<close>

theorem link_recovers:
  assumes "get_current_state w = ConnectionLost" and "last_event w \<le> wk_now w"
    and "k = reconnect_ticks w" and "panel_reachable (at_tick k w)"
  shows "1 \<le> k \<and> k \<le> 60 \<and> (\<forall>j < k. (second_passes bg True ^^ j) w = at_tick j w)
    \<and> (let w' = (second_passes bg True ^^ k) w in
      get_current_state w' = Connected \<and> wk_missed_pings w' = 0
      \<and> cs_failed_attempts (tel_status (s_telemetry (wk_state w'))) = 0
      \<and> tel_connected_since (s_telemetry (wk_state w')) = Some (wk_now w'))"
proof -
  note due = reconnect_due [OF assms(2), folded assms(3)]
  have wait: "(second_passes bg True ^^ j) w = at_tick j w" if "j < k" for j
    unfolding at_tick_def
  proof (rule waiting [OF assms(1)])
    fix i assume "1 \<le> i" "i \<le> j"
    with that have "i < k" by simp
    from due(2) [OF \<open>1 \<le> i\<close> this]
    show "elapsed (wk_now w + int i * int (secs 1)) (last_event w) < calculate_backoff w" by (simp add: at_tick_def)
  qed
  have "k = Suc (k - 1)" using due(3) by simp
  then have "(second_passes bg True ^^ k) w = second_passes bg True (at_tick (k - 1) w)"
    using wait [of "k - 1"] by (metis comp_apply funpow.simps(2) lessI)
  also have "\<dots> = worker_tick bg True (at_tick k w)"
    using due(3) by (simp add: second_passes_def at_tick_def algebra_simps of_nat_diff)
  finally have step: "(second_passes bg True ^^ k) w = worker_tick bg True (at_tick k w)" .
  have same: "get_current_state (at_tick k w) = ConnectionLost" "last_event (at_tick k w) = last_event w"
    "calculate_backoff (at_tick k w) = calculate_backoff w"
    using assms(1) by (simp_all add: get_current_state_def calculate_backoff_def last_event_def at_tick_def)
  obtain z where "(second_passes bg True ^^ k) w = set_state_connected z"
    using lost_tick_connects [OF same(1) _ assms(4)] due(1) step same(2,3) by metis
  moreover have "get_current_state (set_state_connected z) = Connected \<and> wk_missed_pings (set_state_connected z) = 0
      \<and> cs_failed_attempts (tel_status (s_telemetry (wk_state (set_state_connected z)))) = 0
      \<and> tel_connected_since (s_telemetry (wk_state (set_state_connected z))) = Some (wk_now (set_state_connected z))"
    using status_defs(3) [of z]
    by (simp add: set_state_connected_def Let_def notify_state_worker_def update_telemetry_def reset_missed_pings_def)
  ultimately show ?thesis using due(3,4) wait by simp
qed

text \<open>After many failures the delay is a minute; the panel answers once it is asked, a minute later.\<close>

theorem link_recovers_witness:
  "let l = \<lparr>lk_incoming = [(60300000000, LinkFrame [0x17, 0]), (61000000000, LinkFrame (0x7C # replicate 12 0)),
         (62500000000, LinkFrame (0x7E # replicate 14 0))], lk_sends = [], lk_sent = []\<rparr>;
       w = update_telemetry (\<lambda>t. t\<lparr>tel_status := (tel_status t)\<lparr>cs_failed_attempts := 9\<rparr>\<rparr>)
         (connection_lost (worker_start config_default 0 [(millis 250, Inr l)]))
   in get_current_state ((second_passes (\<lambda>s. s) True ^^ 59) w) = ConnectionLost
     \<and> get_current_state ((second_passes (\<lambda>s. s) True ^^ 60) w) = Connected"
proof -
  define l where "l = \<lparr>lk_incoming = [(60300000000, LinkFrame [0x17, 0]), (61000000000, LinkFrame (0x7C # replicate 12 0)),
    (62500000000, LinkFrame (0x7E # replicate 14 0))], lk_sends = [], lk_sent = []\<rparr>"
  define b where "b = connection_lost (worker_start config_default 0 [(millis 250, Inr l)])"
  define w where "w = update_telemetry (\<lambda>t. t\<lparr>tel_status := (tel_status t)\<lparr>cs_failed_attempts := 9\<rparr>\<rparr>) b"
  have b: "wk_config b = config_default" "wk_opens b = [(millis 250, Inr l)]" "wk_now b = 0" "last_event b = 0"
    by (simp_all add: b_def connection_lost_def Let_def reset_missed_pings_def notify_state_worker_def update_telemetry_def
      lose_connection_def worker_start_def last_event_def close_session_def split: option.split)
  have w: "wk_config w = config_default" "wk_opens w = [(millis 250, Inr l)]" "wk_now w = 0" "last_event w = 0"
    using b by (simp_all add: w_def update_telemetry_def last_event_def)
  have lost: "get_current_state w = ConnectionLost"
    using status_defs(4) [of "worker_start config_default 0 [(millis 250, Inr l)]"]
    by (simp add: w_def b_def get_current_state_def update_telemetry_def)
  have "calculate_backoff w = secs 60"
    by (simp add: calculate_backoff_def w_def update_telemetry_def sat_sub_def millis_def secs_def Let_def)
  then have ticks: "60 = reconnect_ticks w" by (simp add: reconnect_ticks_def w elapsed_def secs_def)
  have "answered_in_turn (connect_requests config_default) (millis 2000) (60000000000 + int (millis 250)) (lk_incoming l)"
    by (simp add: l_def connect_requests_def is_target_def millis_def is_auto_read_enabled_def config_default_def)
  then have "panel_reachable (at_tick 60 w)"
    by (simp add: panel_reachable_def at_tick_def w Let_def key_ok_def config_default_def millis_def secs_def l_def)
  from link_recovers [OF lost _ ticks this, of "\<lambda>s. s"] w lost
  have "get_current_state ((second_passes (\<lambda>s. s) True ^^ 59) w) = ConnectionLost
      \<and> get_current_state ((second_passes (\<lambda>s. s) True ^^ 60) w) = Connected"
    by (simp add: Let_def) (simp add: at_tick_def get_current_state_def)
  then show ?thesis unfolding Let_def l_def [symmetric] b_def [symmetric] w_def [symmetric] .
qed

end
