(* ===== verification/Polling.thy ===== *)
theory Polling
  imports Worker_Laws
begin

text \<open>
  The polling worker of \<open>src/src/polling_worker.rs\<close>, which queries the configured temperature sensors
  at their intervals and sends the statistics.
  \<open>bg\<close> is what the other tasks do to the shared state during the pause after a query.
\<close>

section \<open>Due sensors\<close>

text \<open>The interval is a product of 64-bit words, so it wraps, as in a release build.\<close>

definition probe_interval :: "temperature_probe \<Rightarrow> duration" where
  "probe_interval p = secs (unat (max (probe_interval_minutes p) 1 * 60))"

definition probe_due :: "(u16 \<rightharpoonup> timestamp) \<Rightarrow> timestamp \<Rightarrow> temperature_probe \<Rightarrow> bool" where
  "probe_due last_run now p = (case last_run (probe_zone_id p) of
     Some ran_at \<Rightarrow> probe_interval p \<le> elapsed now ran_at
   | None \<Rightarrow> True)"

definition due_zones :: "temperature_probe list \<Rightarrow> (u16 \<rightharpoonup> timestamp) \<Rightarrow> timestamp \<Rightarrow> u16 list" where
  "due_zones probes last_run now = sort (map probe_zone_id (filter (probe_due last_run now) probes))"

section \<open>The temperature task\<close>

definition client_connected :: "client \<Rightarrow> bool" where
  "client_connected c = (cs_state (tel_status (s_telemetry (cl_state c))) = Connected)"

definition task_is_due :: "(u16 \<rightharpoonup> timestamp) \<Rightarrow> client \<Rightarrow> bool" where
  "task_is_due last_run c =
    (is_polling_enabled (cl_config c) \<and> due_zones (cfg_temperature_probes (cl_config c)) last_run (cl_now c) \<noteq> [])"

definition client_pause :: "(satel_state \<Rightarrow> satel_state) \<Rightarrow> nat \<Rightarrow> client \<Rightarrow> client" where
  "client_pause bg ms c = c\<lparr>cl_now := cl_now c + int (millis ms), cl_state := bg (cl_state c)\<rparr>"

fun poll_zones ::
  "(satel_state \<Rightarrow> satel_state) \<Rightarrow> u16 list \<Rightarrow> (u16 \<rightharpoonup> timestamp) \<times> client \<Rightarrow> (u16 \<rightharpoonup> timestamp) \<times> client" where
  "poll_zones bg [] (last_run, c) = (last_run, c)"
| "poll_zones bg (zone_id # zones) (last_run, c) =
    (let last_run = last_run(zone_id \<mapsto> cl_now c)
     in if \<not> client_connected c then (last_run, c)
        else poll_zones bg zones (last_run, client_pause bg 100 (snd (get_zone_temperature zone_id c))))"

definition task_execute ::
  "(satel_state \<Rightarrow> satel_state) \<Rightarrow> (u16 \<rightharpoonup> timestamp) \<times> client \<Rightarrow> (u16 \<rightharpoonup> timestamp) \<times> client" where
  "task_execute bg rc =
    (case rc of (last_run, c) \<Rightarrow>
       let probes = cfg_temperature_probes (cl_config c);
           last_run = last_run |` set (map probe_zone_id probes);
           zones = due_zones probes last_run (cl_now c)
       in if zones = [] then (last_run, c) else poll_zones bg zones (last_run, c))"

section \<open>The scheduler\<close>

definition check_statistics :: "client \<Rightarrow> client" where
  "check_statistics c =
    (let t = s_telemetry (cl_state c);
         current_mark = telemetry_stats_mark t
     in if statistics_changed (tel_last_sent_stats_mark t) current_mark
        then let t = t\<lparr>tel_last_sent_stats_mark := current_mark\<rparr>
          in c\<lparr>cl_state := (cl_state c)\<lparr>s_telemetry := t\<rparr>,
               cl_events := cl_events c @ [EvConnectionStatistics (telemetry_statistics (cl_now c) t)]\<rparr>
        else c)"

record poller =
  po_last_run :: "u16 \<rightharpoonup> timestamp"
  po_last_stats_check :: timestamp
  po_client :: client

text \<open>One round of the loop of \<open>run\<close>; the task of the temperatures is the only one registered.\<close>

definition poller_round :: "(satel_state \<Rightarrow> satel_state) \<Rightarrow> poller \<Rightarrow> poller" where
  "poller_round bg p =
    (let p = (if client_connected (po_client p) then
                let (last_run, c) = (if task_is_due (po_last_run p) (po_client p)
                      then task_execute bg (po_last_run p, po_client p) else (po_last_run p, po_client p));
                    p = p\<lparr>po_last_run := last_run, po_client := c\<rparr>
                in if secs 30 \<le> elapsed (cl_now c) (po_last_stats_check p)
                   then p\<lparr>po_last_stats_check := cl_now c, po_client := check_statistics c\<rparr>
                   else p
              else p)
     in p\<lparr>po_client := client_pause bg 1000 (po_client p)\<rparr>)"

definition poller_start :: "(satel_state \<Rightarrow> satel_state) \<Rightarrow> client \<Rightarrow> poller" where
  "poller_start bg c = (let c = client_pause bg 5000 c
     in \<lparr>po_last_run = Map.empty, po_last_stats_check = cl_now c, po_client = c\<rparr>)"

section \<open>Laws\<close>

lemma due_zones_set:
  "zone \<in> set (due_zones probes last_run now) \<longleftrightarrow>
    (\<exists>p \<in> set probes. probe_zone_id p = zone \<and> probe_due last_run now p)"
  by (auto simp: due_zones_def)

lemma count_list_filter: "count_list xs z = length (filter (\<lambda>x. x = z) xs)"
  by (induction xs) simp_all

lemma due_zones_order: "sorted (due_zones probes last_run now)"
  by (simp add: due_zones_def)

lemma due_zones_distinct: "distinct (map probe_zone_id probes) \<Longrightarrow> distinct (due_zones probes last_run now)"
  by (simp add: due_zones_def distinct_map_filter)

text \<open>Marks of sensors that are not configured make no difference.\<close>

lemma due_zones_restrict:
  "due_zones probes (last_run |` set (map probe_zone_id probes)) now = due_zones probes last_run now"
proof -
  have "filter (probe_due (last_run |` set (map probe_zone_id probes)) now) probes
      = filter (probe_due last_run now) probes"
    by (rule filter_cong) (auto simp: probe_due_def)
  then show ?thesis by (simp add: due_zones_def)
qed

text \<open>
  The request of a temperature, and when it is made: unless the sensor is blocked. A query makes at
  most this request and leaves the telemetry and the configuration.
\<close>

definition temperature_request :: "u16 \<Rightarrow> client \<Rightarrow> internal_message" where
  "temperature_request zid c = ExchangeStandard [0x7D, device_number zid]
    (millis (unat (cfg_write_timeout_ms (cl_config c)))) (millis (unat (cfg_temp_read_timeout_ms (cl_config c))))
    (cl_now c) (millis (unat (cfg_buffer_timeout_ms (cl_config c))))"

definition sensor_asked :: "u16 \<Rightarrow> client \<Rightarrow> bool" where
  "sensor_asked zid c = (cfg_temp_blocking_enabled (cl_config c) \<longrightarrow> (case get_zone (cl_state c) zid of
     Some z \<Rightarrow> \<not> temp_blocked (temp_limits_of (cl_config c) zid) z
   | None \<Rightarrow> True))"

lemma exchange_posts:
  "exchange data wt rt c = (r, c') \<Longrightarrow> cl_sent c' = cl_sent c @ [ExchangeStandard data
    (unwrap_or wt (millis (unat (cfg_write_timeout_ms (cl_config c)))))
    (unwrap_or rt (millis (unat (cfg_read_timeout_ms (cl_config c)))))
    (cl_now c) (millis (unat (cfg_buffer_timeout_ms (cl_config c))))]"
  by (auto simp: exchange_def send_message_def take_answer_def op_defs Let_def split: list.splits prod.splits)

lemma update_temp_error_frame:
  "update_temp_error zid e c = (r, c') \<Longrightarrow> s_telemetry (cl_state c') = s_telemetry (cl_state c)
    \<and> cl_config c' = cl_config c \<and> cl_sent c' = cl_sent c"
  by (auto simp: update_temp_error_def store_op_update emit_op_def modify_op_def bind_op_def update_zone_def
      split: option.splits prod.splits)

lemma update_success_frame:
  "update_temperature_success_internal zid temp c = (r, c') \<Longrightarrow> s_telemetry (cl_state c') = s_telemetry (cl_state c)
    \<and> cl_config c' = cl_config c \<and> cl_sent c' = cl_sent c"
  by (auto simp: update_temperature_success_internal_def store_op_update ret_op_def bind_op_def update_zone_def
      split: option.splits)

lemma emit_then_frame:
  "bind_op (emit_op evs) (\<lambda>_ c. case f c of Some t \<Rightarrow> ret_op t c | None \<Rightarrow> lift_op (Inl e) c) c = (r, c') \<Longrightarrow>
    cl_state c' = cl_state c \<and> cl_config c' = cl_config c \<and> cl_sent c' = cl_sent c"
  by (auto simp: op_defs split: option.splits)

lemma raw_frame:
  assumes "get_zone_temperature_raw zid c = (r, c')"
  shows "s_telemetry (cl_state c') = s_telemetry (cl_state c) \<and> cl_config c' = cl_config c
    \<and> cl_sent c' = cl_sent c @ [temperature_request zid c]"
proof -
  obtain e c1 where ex: "exchange [command_to_byte ReadZoneTemperature, device_number zid] None
      (Some (millis (unat (cfg_temp_read_timeout_ms (cl_config c))))) c = (e, c1)"
    by (metis prod.collapse)
  note raw = assms [unfolded get_zone_temperature_raw_def get_zone_temperature_raw_timeout_def unwrap_or_def
      option.case ex prod.case]
  have "s_telemetry (cl_state c') = s_telemetry (cl_state c1) \<and> cl_config c' = cl_config c1 \<and> cl_sent c' = cl_sent c1"
  proof (cases e)
    case (Inl err)
    obtain x v where v: "update_temp_error zid err c1 = (x, v)" by (metis prod.collapse)
    from raw Inl v have "c' = v" by (cases x) (simp_all add: bind_op_def lift_op_def)
    with update_temp_error_frame [OF v] show ?thesis by simp
  next
    case (Inr response)
    show ?thesis
    proof (cases "process_zone_temperature response")
      case (Inl err)
      obtain x v where v: "update_temp_error zid err c1 = (x, v)" by (metis prod.collapse)
      from raw Inr Inl v have "c' = v" by (cases x) (simp_all add: bind_op_def lift_op_def)
      with update_temp_error_frame [OF v] show ?thesis by simp
    next
      case parsed: (Inr d)
      obtain x v where v: "update_temperature_success_internal (fst d) (snd d) c1 = (x, v)" by (metis prod.collapse)
      obtain ident temp where d: "d = (ident, temp)" by (cases d)
      have "cl_state c' = cl_state v \<and> cl_config c' = cl_config v \<and> cl_sent c' = cl_sent v"
      proof (cases x)
        case (Inl err)
        with v d have "update_temperature_success_internal ident temp c1 = (Inl err, v)" by simp
        note eq = bind_op_Inl [where f = "update_temperature_success_internal ident temp", OF this]
        from raw [unfolded Inr sum.case parsed d prod.case eq] show ?thesis by simp
      next
        case old: (Inr old)
        with v d have "update_temperature_success_internal ident temp c1 = (Inr old, v)" by simp
        note eq = bind_op_Inr [where f = "update_temperature_success_internal ident temp", OF this]
        from emit_then_frame [OF raw [unfolded Inr sum.case parsed d prod.case eq]] show ?thesis .
      qed
      with update_success_frame [OF v] show ?thesis by simp
    qed
  qed
  with exchange_frame [OF ex] exchange_posts [OF ex] show ?thesis
    by (simp add: temperature_request_def unwrap_or_def)
qed

lemma get_zone_temperature_frame:
  assumes "get_zone_temperature zid c = (r, c')"
  shows "s_telemetry (cl_state c') = s_telemetry (cl_state c) \<and> cl_config c' = cl_config c
    \<and> cl_sent c' = cl_sent c @ (if sensor_asked zid c then [temperature_request zid c] else [])"
proof (cases "sensor_asked zid c")
  case True
  then have "get_zone_temperature zid c = get_zone_temperature_raw zid c"
    by (auto simp: sensor_asked_def get_zone_temperature_def get_zone_temperature_with_blocking_def split: option.splits)
  with assms raw_frame True show ?thesis by fastforce
next
  case False
  with assms show ?thesis
    by (auto simp: sensor_asked_def get_zone_temperature_def get_zone_temperature_with_blocking_def store_op_update
        bind_op_def lift_op_def emit_op_def modify_op_def update_zone_def
        split: if_splits option.splits prod.splits)
qed

definition keeps_connection :: "(satel_state \<Rightarrow> satel_state) \<Rightarrow> bool" where
  "keeps_connection bg = (\<forall>s. cs_state (tel_status (s_telemetry (bg s))) = cs_state (tel_status (s_telemetry s)))"

text \<open>
  The specification of a cycle over a connection that stays up: the client before each query, and
  after the last one; one query for each sensor of the list, in its order, each followed by a pause.
\<close>

fun cycle_clients :: "(satel_state \<Rightarrow> satel_state) \<Rightarrow> u16 list \<Rightarrow> client \<Rightarrow> client list" where
  "cycle_clients bg [] c = [c]"
| "cycle_clients bg (zone_id # zones) c =
    c # cycle_clients bg zones (client_pause bg 100 (snd (get_zone_temperature zone_id c)))"

definition requests_of :: "(u16 \<times> client) list \<Rightarrow> internal_message list" where
  "requests_of queries = map (\<lambda>(z, c). temperature_request z c) (filter (\<lambda>(z, c). sensor_asked z c) queries)"

lemma cycle_clients_nonempty [simp]: "cycle_clients bg zones c \<noteq> []"
  by (cases zones) simp_all

lemma poll_zones_connected:
  assumes "keeps_connection bg"
  shows "client_connected c \<Longrightarrow> poll_zones bg zones (last_run, c) = (last_run', c') \<Longrightarrow>
    last_run' = last_run ++ map_of (rev (zip zones (map cl_now (cycle_clients bg zones c))))
    \<and> c' = last (cycle_clients bg zones c)
    \<and> cl_sent c' = cl_sent c @ requests_of (zip zones (cycle_clients bg zones c))
    \<and> (\<forall>d \<in> set (cycle_clients bg zones c). client_connected d \<and> cl_config d = cl_config c)"
proof (induction zones arbitrary: last_run c)
  case Nil
  then show ?case by (simp add: requests_of_def)
next
  case (Cons zone zones)
  obtain r c1 where q: "get_zone_temperature zone c = (r, c1)" by (metis prod.collapse)
  note frame = get_zone_temperature_frame [OF q]
  let ?c = "client_pause bg 100 c1"
  have c: "client_connected ?c" "cl_sent ?c = cl_sent c1" "cl_config ?c = cl_config c"
    using Cons.prems(1) frame assms by (simp_all add: client_connected_def client_pause_def keeps_connection_def)
  have "poll_zones bg zones (last_run(zone \<mapsto> cl_now c), ?c) = (last_run', c')"
    using Cons.prems q by (simp add: Let_def)
  note IH = Cons.IH [OF c(1) this]
  have next_clients: "cycle_clients bg (zone # zones) c = c # cycle_clients bg zones ?c"
    using q by simp
  have "last_run' = last_run ++ map_of (rev (zip (zone # zones) (map cl_now (c # cycle_clients bg zones ?c))))"
    by (subst IH [THEN conjunct1]) (simp add: map_add_def fun_eq_iff split: option.splits)
  moreover have "cl_sent c' = cl_sent c @ requests_of (zip (zone # zones) (c # cycle_clients bg zones ?c))"
    unfolding IH [THEN conjunct2, THEN conjunct2, THEN conjunct1] c(2)
    using frame by (simp add: requests_of_def)
  moreover have "c' = last (c # cycle_clients bg zones ?c)"
    unfolding IH [THEN conjunct2, THEN conjunct1] by simp
  ultimately show ?case
    using IH c(3) Cons.prems(1) unfolding next_clients by (metis set_ConsD)
qed

text \<open>
  C24. A polling cycle. The due sensors are the configured ones that never ran or whose interval, at
  least a minute, is over, in the order of their numbers. While the connection stays up, the cycle
  queries exactly these, in this order and each once for each time it is configured, pausing a tenth
  of a second after each. The requests it sends are, in this order, the temperature requests of the
  due sensors that are not blocked when their turn comes, and no other. Each due sensor is marked with
  the time at which its last query began; the other marks are kept, and those of the sensors that are
  no longer configured are forgotten.
\<close>

theorem polling_cycle:
  assumes "client_connected c" and "keeps_connection bg"
    and "probes = cfg_temperature_probes (cl_config c)" and "due = due_zones probes last_run (cl_now c)"
    and "queries = cycle_clients bg due c" and "task_execute bg (last_run, c) = (last_run', c')"
  shows "sorted due
    \<and> (\<forall>z. count_list due z = length (filter (\<lambda>p. probe_zone_id p = z \<and> (case last_run z of
          None \<Rightarrow> True
        | Some t \<Rightarrow> secs (unat (max (probe_interval_minutes p) 1 * 60)) \<le> elapsed (cl_now c) t)) probes))
    \<and> c' = last queries
    \<and> cl_sent c' = cl_sent c @ requests_of (zip due queries)
    \<and> (\<forall>z. if z \<in> set due then last_run' z = map_of (rev (zip due (map cl_now queries))) z \<and> last_run' z \<noteq> None
          else last_run' z = (if z \<in> probe_zone_id ` set probes then last_run z else None))"
proof -
  let ?kept = "last_run |` set (map probe_zone_id probes)"
  let ?marks = "map_of (rev (zip due (map cl_now queries)))"
  have len: "length zs \<le> length (cycle_clients bg zs d)" for zs d
    by (induction zs arbitrary: d) simp_all
  have run: "poll_zones bg due (?kept, c) = (last_run', c')"
    using assms(6) due_zones_restrict [of probes last_run "cl_now c"]
    by (auto simp: task_execute_def Let_def assms(3,4) split: if_splits)
  have "map fst (zip due (map cl_now queries)) = due"
    using len [of due c] by (simp add: map_fst_zip_take assms(5))
  then have "dom ?marks = set due" by (simp add: dom_map_of_conv_image_fst flip: set_map)
  then have marks: "z \<in> set due \<longleftrightarrow> ?marks z \<noteq> None" for z by blast
  have "count_list due z = length (filter (\<lambda>p. probe_zone_id p = z \<and> (case last_run z of
          None \<Rightarrow> True
        | Some t \<Rightarrow> secs (unat (max (probe_interval_minutes p) 1 * 60)) \<le> elapsed (cl_now c) t)) probes)" for z
  proof -
    have "count_list due z = length (filter (\<lambda>p. probe_zone_id p = z \<and> probe_due last_run (cl_now c) p) probes)"
      by (simp add: assms(4) due_zones_def count_list_filter filter_sort filter_map comp_def conj_commute)
    also have "filter (\<lambda>p. probe_zone_id p = z \<and> probe_due last_run (cl_now c) p) probes
        = filter (\<lambda>p. probe_zone_id p = z \<and> (case last_run z of
            None \<Rightarrow> True
          | Some t \<Rightarrow> secs (unat (max (probe_interval_minutes p) 1 * 60)) \<le> elapsed (cl_now c) t)) probes"
      by (rule filter_cong) (auto simp: probe_due_def probe_interval_def split: option.splits)
    finally show ?thesis .
  qed
  moreover have "sorted due" by (simp add: assms(4) due_zones_order)
  moreover have "if z \<in> set due then last_run' z = ?marks z \<and> last_run' z \<noteq> None
      else last_run' z = (if z \<in> probe_zone_id ` set probes then last_run z else None)" for z
    using poll_zones_connected [OF assms(2,1) run] marks [of z] unfolding assms(5) [symmetric]
    by (auto simp: map_add_def restrict_map_def split: option.splits)
  moreover note poll_zones_connected [OF assms(2,1) run, folded assms(5)]
  ultimately show ?thesis by blast
qed

theorem polling_cycle_witness:
  "let probe = (\<lambda>z. \<lparr>probe_zone_id = z, probe_interval_minutes = 0, probe_max_timeout_errors = 3,
         probe_max_sensor_errors = 3, probe_unblock_enabled = False, probe_unblock_after_cycles = 10\<rparr>);
       c = client_new 0 0 (config_default\<lparr>cfg_temp_blocking_enabled := False, cfg_temperature_probes := [probe 9, probe 2]\<rparr>);
       c = c\<lparr>cl_state := (cl_state c)\<lparr>s_telemetry := status_at Connected 0 (s_telemetry (cl_state c))\<rparr>\<rparr>;
       (marks, c') = task_execute id (Map.empty, c)
   in (\<exists>wt rt bt. cl_sent c' = [ExchangeStandard [0x7D, 2] wt rt 0 bt, ExchangeStandard [0x7D, 9] wt rt (int (millis 100)) bt])
     \<and> marks 2 = Some 0 \<and> marks 9 = Some (int (millis 100)) \<and> marks 5 = None"
proof -
  define probe where "probe = (\<lambda>z. \<lparr>probe_zone_id = z, probe_interval_minutes = 0, probe_max_timeout_errors = 3,
    probe_max_sensor_errors = 3, probe_unblock_enabled = False, probe_unblock_after_cycles = 10\<rparr>)"
  define b where "b = client_new 0 0
    (config_default\<lparr>cfg_temp_blocking_enabled := False, cfg_temperature_probes := [probe 9, probe 2]\<rparr>)"
  define c where "c = b\<lparr>cl_state := (cl_state b)\<lparr>s_telemetry := status_at Connected 0 (s_telemetry (cl_state b))\<rparr>\<rparr>"
  have c: "cfg_temperature_probes (cl_config c) = [probe 9, probe 2]" "\<not> cfg_temp_blocking_enabled (cl_config c)"
    "cl_now c = 0" "cl_sent c = []" "cl_answers c = []"
    by (simp_all add: c_def b_def client_new_def)
  have ids: "probe_zone_id (probe z) = z" for z by (simp add: probe_def)
  have due: "due_zones (cfg_temperature_probes (cl_config c)) Map.empty (cl_now c) = [2, 9]"
    by (simp add: c ids due_zones_def probe_due_def)
  obtain r c1 where q: "get_zone_temperature 2 c = (r, c1)" by (metis prod.collapse)
  let ?c1 = "client_pause id 100 c1"
  have c1: "cl_now c1 = 0"
    using q c by (auto simp: get_zone_temperature_def get_zone_temperature_raw_def get_zone_temperature_raw_timeout_def
      exchange_def send_message_def take_answer_def op_defs Let_def update_temp_error_def store_op_def
      split: option.splits prod.splits)
  have queries: "cycle_clients id [2, 9] c = [c, ?c1, client_pause id 100 (snd (get_zone_temperature 9 ?c1))]"
    using q by simp
  have conf: "cl_config ?c1 = cl_config c"
    using get_zone_temperature_frame [OF q] by (simp add: client_pause_def)
  obtain marks c' where run: "task_execute id (Map.empty, c) = (marks, c')" by (metis prod.collapse)
  have "client_connected c" "keeps_connection id"
    by (simp_all add: client_connected_def c_def status_at_def keeps_connection_def)
  note cycle = polling_cycle [OF this refl refl refl run, unfolded due queries]
  note marks = cycle [THEN conjunct2, THEN conjunct2, THEN conjunct2, THEN conjunct2]
  have "cl_sent c' = requests_of [(2, c), (9, ?c1)]"
    using cycle [THEN conjunct2, THEN conjunct2, THEN conjunct2, THEN conjunct1] c(4) by simp
  moreover have "marks 2 = Some 0" "marks 9 = Some (int (millis 100))" "marks 5 = None"
    using spec [OF marks, of 2] spec [OF marks, of 9] spec [OF marks, of 5]
    by (simp_all add: c c1 client_pause_def)
  moreover have "\<exists>wt rt bt. requests_of [(2, c), (9, ?c1)]
      = [ExchangeStandard [0x7D, 2] wt rt 0 bt, ExchangeStandard [0x7D, 9] wt rt (int (millis 100)) bt]"
    using c(2) conf by (simp add: requests_of_def sensor_asked_def temperature_request_def device_number_def c(3))
      (simp add: client_pause_def c1)
  ultimately have "(\<exists>wt rt bt. cl_sent c' = [ExchangeStandard [0x7D, 2] wt rt 0 bt,
        ExchangeStandard [0x7D, 9] wt rt (int (millis 100)) bt])
      \<and> marks 2 = Some 0 \<and> marks 9 = Some (int (millis 100)) \<and> marks 5 = None"
    by simp
  then show ?thesis using run
    unfolding Let_def probe_def [symmetric] b_def [symmetric] c_def [symmetric] by simp
qed

text \<open>
  When the connection is lost during a cycle, the next sensor is marked as run although it was not
  queried, so it waits a whole interval.
\<close>

lemma aborted_cycle_marks_zone:
  "\<not> client_connected c \<Longrightarrow> poll_zones bg (zone # zones) (last_run, c) = (last_run(zone \<mapsto> cl_now c), c)"
  by (simp add: Let_def)

text \<open>
  The statistics are sent when they changed, and once: the mark then equals the counters, so a
  second check sends nothing until a counter moves; an unchanged check leaves everything alone.
\<close>

theorem statistics_sent_once:
  "check_statistics (check_statistics c) = check_statistics c
    \<and> (if statistics_changed (tel_last_sent_stats_mark (s_telemetry (cl_state c))) (telemetry_stats_mark (s_telemetry (cl_state c)))
       then \<exists>st. cl_events (check_statistics c) = cl_events c @ [EvConnectionStatistics st]
         \<and> tel_last_sent_stats_mark (s_telemetry (cl_state (check_statistics c)))
           = telemetry_stats_mark (s_telemetry (cl_state c))
       else check_statistics c = c)"
proof -
  have "telemetry_stats_mark (t\<lparr>tel_last_sent_stats_mark := m\<rparr>) = telemetry_stats_mark t" for t m
    by (simp add: telemetry_stats_mark_def)
  then show ?thesis by (simp add: check_statistics_def Let_def statistics_changed_refl)
qed

end
