(* ===== verification/Client_Laws.thy ===== *)
theory Client_Laws
  imports Polling
begin

text \<open>
  What every operation of the client handle (\<open>src/src/client.rs\<close>) keeps. \<open>client_operation\<close> lists the
  operations; the locale \<open>client_relation\<close> is the contract of a relation that holds across each of
  their elementary actions, and shows that it then holds across every operation. Its instances are the
  invariant of the client and the status of the connection (\<open>Shared_State\<close>) and the knowledge of a
  subscriber (\<open>Subscriber\<close>).
\<close>

named_theorems kept \<open>operations across which the relation holds\<close>

section \<open>The invariant\<close>

text \<open>
  The cache is well formed, the configuration valid, and the device types of the name queries are
  types the queries know.
\<close>

definition client_wf :: "client \<Rightarrow> bool" where
  "client_wf c =
    (state_wf (cl_state c) \<and> validate (cl_config c) = Inr ()
     \<and> cl_zone_type c \<in> {5, 1} \<and> cl_output_type c \<in> {17, 4} \<and> cl_partition_type c \<in> {19, 18, 16, 0})"

section \<open>Silent events\<close>

text \<open>The events that say nothing of a flag or a trouble.\<close>

definition silent :: "satel_event \<Rightarrow> bool" where
  "silent e = (case e of
     EvZoneViolation _ _ \<Rightarrow> False | EvZoneTamper _ _ \<Rightarrow> False | EvZoneAlarm _ _ \<Rightarrow> False
   | EvZoneTamperAlarm _ _ \<Rightarrow> False | EvZoneAlarmMemory _ _ \<Rightarrow> False | EvZoneTamperAlarmMemory _ _ \<Rightarrow> False
   | EvZoneBypass _ _ \<Rightarrow> False | EvZoneNoViolationTrouble _ _ \<Rightarrow> False | EvZoneLongViolationTrouble _ _ \<Rightarrow> False
   | EvPartitionArmed _ _ \<Rightarrow> False | EvPartitionArmedReally _ _ \<Rightarrow> False | EvPartitionAlarm _ _ \<Rightarrow> False
   | EvPartitionAlarmMemory _ _ \<Rightarrow> False | EvPartitionEntryTime _ _ \<Rightarrow> False
   | EvPartitionExitTimeGt10s _ _ \<Rightarrow> False | EvPartitionExitTimeLt10s _ _ \<Rightarrow> False
   | EvOutputChanged _ _ \<Rightarrow> False | EvTrouble _ _ \<Rightarrow> False | EvTroubleMemory _ _ \<Rightarrow> False | _ \<Rightarrow> True)"

lemma not_silent [simp]: "\<not> silent (category_event k i b)" "\<not> silent (trouble_event t m b)"
  by (cases k) (simp_all add: silent_def trouble_event_def)

lemma silent_events:
  assumes "list_all silent evs"
  shows "category_event k i b \<notin> set evs" and "trouble_event t m b \<notin> set evs"
  using assms by (auto simp: list_all_iff)

section \<open>Stores that keep the flags\<close>

definition zone_marks :: "zone \<Rightarrow> u16 \<times> (bool \<times> timestamp option) list" where
  "zone_marks z = (z_id z,
    [(z_tamper_state z, z_tamper_read_at z), (z_alarm_state z, z_alarm_read_at z),
     (z_violation_state z, z_violation_read_at z), (z_tamper_alarm_state z, z_tamper_alarm_read_at z),
     (z_alarm_memory_state z, z_alarm_memory_read_at z),
     (z_tamper_alarm_memory_state z, z_tamper_alarm_memory_read_at z), (z_bypass_state z, z_bypass_read_at z),
     (z_no_violation_trouble_state z, z_no_violation_trouble_read_at z),
     (z_long_violation_trouble_state z, z_long_violation_trouble_read_at z)])"

definition partition_marks :: "partition \<Rightarrow> u16 \<times> (bool \<times> timestamp option) list" where
  "partition_marks p = (p_id p,
    [(p_armed_suppressed p, p_armed_suppressed_at p), (p_armed_really p, p_armed_really_at p),
     (p_alarm p, p_alarm_at p), (p_alarm_memory p, p_alarm_memory_at p), (p_entry_time p, p_entry_time_at p),
     (p_exit_time_gt_10s p, p_exit_time_gt_10s_at p), (p_exit_time_lt_10s p, p_exit_time_lt_10s_at p)])"

definition output_marks :: "satel_output \<Rightarrow> u16 \<times> bool \<times> timestamp option" where
  "output_marks x = (o_id x, o_state x, o_state_read_at x)"

definition marks_kept :: "satel_state \<Rightarrow> satel_state \<Rightarrow> bool" where
  "marks_kept s s' =
    (map zone_marks (s_zones s') = map zone_marks (s_zones s)
     \<and> map output_marks (s_outputs s') = map output_marks (s_outputs s)
     \<and> map partition_marks (s_partitions s') = map partition_marks (s_partitions s)
     \<and> s_trouble_flags s' = s_trouble_flags s \<and> same_status (s_telemetry s) (s_telemetry s'))"

lemma marks_kept_refl [simp]: "marks_kept s s"
  by (simp add: marks_kept_def)

lemma map_eq_through:
  assumes "map g xs = map g ys" and "\<And>x y. g x = g y \<Longrightarrow> f x = f y"
  shows "map f xs = map f ys"
  using assms(1) by (induction xs ys rule: list_induct2') (auto intro: assms(2))

lemma marks_kept_wf: "marks_kept s s' \<Longrightarrow> state_wf s \<Longrightarrow> state_wf s'"
  unfolding marks_kept_def state_wf_def
  using map_eq_through [of zone_marks "s_zones s'" "s_zones s" z_id]
    map_eq_through [of output_marks "s_outputs s'" "s_outputs s" o_id]
    map_eq_through [of partition_marks "s_partitions s'" "s_partitions s" p_id]
  by (simp add: zone_marks_def output_marks_def partition_marks_def del: upt_Suc upt_rec_numeral)

lemma marks_kept_view: "marks_kept s s' \<Longrightarrow> category_view k s' n = category_view k s n"
  unfolding marks_kept_def
  by (cases k)
    (auto intro!: element_view_cong elim!: map_eq_through
      simp: zone_marks_def partition_marks_def output_marks_def flag_view_def)

lemma marks_kept_status: "marks_kept s s' \<Longrightarrow> same_status (s_telemetry s) (s_telemetry s')"
  by (simp add: marks_kept_def)

lemma marks_kept_troubles: "marks_kept s s' \<Longrightarrow> s_trouble_flags s' = s_trouble_flags s"
  by (simp add: marks_kept_def)

section \<open>The operations of the client\<close>

text \<open>The rest of the handle has no effect: it reads the cache, the configuration or the statistics.\<close>

inductive client_operation :: "(client \<Rightarrow> client) \<Rightarrow> bool" where
  op_connect: "client_operation (\<lambda>c. snd (connect c))"
| op_disconnect: "client_operation (\<lambda>c. snd (disconnect c))"
| op_hot_reload: "client_operation (\<lambda>c. snd (hot_reload_config cfg c))"
| op_reload: "client_operation (\<lambda>c. snd (reload_config cfg c))"
| op_reset_statistics: "client_operation reset_statistics"
| op_exchange: "client_operation (\<lambda>c. snd (exchange data wt rt c))"
| op_exchange_priority: "client_operation (\<lambda>c. snd (exchange_priority data wt rt c))"
| op_integra_version: "client_operation (\<lambda>c. snd (get_integra_version c))"
| op_ethm_version: "client_operation (\<lambda>c. snd (get_ethm_version c))"
| op_get_flags: "(cmd, getter, refresher, k) \<in> set flag_queries \<Longrightarrow> client_operation (\<lambda>c. snd (getter c))"
| op_refresh_flags: "(cmd, getter, refresher, k) \<in> set flag_queries \<Longrightarrow> client_operation (\<lambda>c. snd (refresher c))"
| op_get_times: "client_operation (\<lambda>c. snd (get_partitions_times c))"
| op_refresh_times: "client_operation (\<lambda>c. snd (refresh_partitions_times c))"
| op_system_status: "client_operation (\<lambda>c. snd (get_system_status civil c))"
| op_satel_time: "client_operation (\<lambda>c. snd (get_satel_time civil c))"
| op_troubles: "client_operation (\<lambda>c. snd (get_troubles cmd c))"
| op_troubles_part1: "client_operation (\<lambda>c. snd (get_troubles_part1 c))"
| op_troubles_memory_part1: "client_operation (\<lambda>c. snd (get_troubles_memory_part1 c))"
| op_troubles_part2: "client_operation (\<lambda>c. snd (get_troubles_part2 c))"
| op_troubles_memory_part2: "client_operation (\<lambda>c. snd (get_troubles_memory_part2 c))"
| op_troubles_part3: "client_operation (\<lambda>c. snd (get_troubles_part3 c))"
| op_troubles_memory_part3: "client_operation (\<lambda>c. snd (get_troubles_memory_part3 c))"
| op_troubles_part4: "client_operation (\<lambda>c. snd (get_troubles_part4 c))"
| op_troubles_memory_part4: "client_operation (\<lambda>c. snd (get_troubles_memory_part4 c))"
| op_troubles_part5: "client_operation (\<lambda>c. snd (get_troubles_part5 c))"
| op_troubles_memory_part5: "client_operation (\<lambda>c. snd (get_troubles_memory_part5 c))"
| op_troubles_part6: "client_operation (\<lambda>c. snd (get_troubles_part6 c))"
| op_troubles_memory_part6: "client_operation (\<lambda>c. snd (get_troubles_memory_part6 c))"
| op_troubles_part7: "client_operation (\<lambda>c. snd (get_troubles_part7 c))"
| op_troubles_memory_part7: "client_operation (\<lambda>c. snd (get_troubles_memory_part7 c))"
| op_troubles_part8: "client_operation (\<lambda>c. snd (get_troubles_part8 c))"
| op_troubles_memory_part8: "client_operation (\<lambda>c. snd (get_troubles_memory_part8 c))"
| op_zone_name: "client_operation (\<lambda>c. snd (get_zone_name cp ident c))"
| op_zone_params: "client_operation (\<lambda>c. snd (get_zone_params cp ident c))"
| op_output_name: "client_operation (\<lambda>c. snd (get_output_name cp ident c))"
| op_output_params: "client_operation (\<lambda>c. snd (get_output_params cp ident c))"
| op_partition_name: "client_operation (\<lambda>c. snd (get_partition_name cp ident c))"
| op_partition_params: "client_operation (\<lambda>c. snd (get_partition_params cp ident c))"
| op_all_zone_names: "client_operation (\<lambda>c. snd (get_all_zone_names cp c))"
| op_all_output_names: "client_operation (\<lambda>c. snd (get_all_output_names cp c))"
| op_all_partition_names: "client_operation (\<lambda>c. snd (get_all_partition_names cp c))"
| op_temperature: "client_operation (\<lambda>c. snd (get_zone_temperature ident c))"
| op_temperature_raw: "client_operation (\<lambda>c. snd (get_zone_temperature_raw ident c))"
| op_temperature_timeout: "client_operation (\<lambda>c. snd (get_zone_temperature_raw_timeout ident timeout c))"
| op_temperature_blocking: "client_operation (\<lambda>c. snd (get_zone_temperature_with_blocking ident c))"
| op_all_temperatures: "client_operation (\<lambda>c. snd (get_all_zone_temperatures timeout c))"
| op_reset_sensor: "client_operation (\<lambda>c. snd (reset_temperature_sensor ident c))"
| op_control: "(cmd, n, f) \<in> set control_table \<Longrightarrow> client_operation (\<lambda>c. snd (f ident code c))"
| op_set_time: "client_operation (\<lambda>c. snd (set_satel_time format_time datetime code c))"
| op_statistics: "client_operation check_statistics"

lemmas trouble_query_defs =
  get_troubles_def get_troubles_part1_def get_troubles_memory_part1_def get_troubles_part2_def
  get_troubles_memory_part2_def get_troubles_part3_def get_troubles_memory_part3_def
  get_troubles_part4_def get_troubles_memory_part4_def get_troubles_part5_def
  get_troubles_memory_part5_def get_troubles_part6_def get_troubles_memory_part6_def
  get_troubles_part7_def get_troubles_memory_part7_def get_troubles_part8_def
  get_troubles_memory_part8_def


section \<open>Rules for the stores\<close>

lemma marks_kept_frame:
  "s_zones s' = s_zones s \<Longrightarrow> s_outputs s' = s_outputs s \<Longrightarrow> s_partitions s' = s_partitions s \<Longrightarrow>
    s_trouble_flags s' = s_trouble_flags s \<Longrightarrow> same_status (s_telemetry s) (s_telemetry s') \<Longrightarrow> marks_kept s s'"
  by (simp add: marks_kept_def)

lemma map_update_element:
  "(i < length xs \<Longrightarrow> g (f (xs ! i)) = g (xs ! i)) \<Longrightarrow> map g (update_element i f xs) = map g xs"
  by (simp add: update_element_def map_update) (metis length_map list_update_id nth_map)

lemma marks_kept_zone:
  "(\<And>z. get_zone s ident = Some z \<Longrightarrow> zone_marks (f z) = zone_marks z) \<Longrightarrow> marks_kept s (update_zone ident f s)"
  by (simp add: marks_kept_def update_zone_def map_update_element get_zone_def get_def)

lemma marks_kept_output: "(\<And>z. output_marks (f z) = output_marks z) \<Longrightarrow> marks_kept s (update_output ident f s)"
  by (simp add: marks_kept_def update_output_def map_update_element)

lemma marks_kept_partition:
  "(\<And>z. partition_marks (f z) = partition_marks z) \<Longrightarrow> marks_kept s (update_partition ident f s)"
  by (simp add: marks_kept_def update_partition_def map_update_element)

lemma temp_error_marks: "zone_marks (fst (temp_error_zone limits e z)\<lparr>z_temperature_read_at := t\<rparr>) = zone_marks z"
  by (simp add: temp_error_zone_def zone_marks_def Let_def)

lemma blocked_cycle_marks: "zone_marks (fst (blocked_cycle limits z)) = zone_marks z"
  by (simp add: blocked_cycle_def unblock_zone_def zone_marks_def Let_def)

lemma reset_statistics_status:
  "same_status (s_telemetry s) (telemetry_reset now (s_telemetry s))"
  by (simp add: same_status_def telemetry_reset_def)

section \<open>The contract\<close>

text \<open>
  The elementary actions of an operation: it uses the queues and settings of the client, stores into the
  cache without touching a flag and tells silent events, updates a category of flags, or updates the
  troubles.
\<close>

locale client_relation =
  fixes R :: "client \<Rightarrow> client \<Rightarrow> bool"
  assumes R_trans: "R a b \<Longrightarrow> R b c \<Longrightarrow> R a c"
    and R_settings: "cl_state c' = cl_state c \<Longrightarrow> cl_events c' = cl_events c \<Longrightarrow>
      (client_wf c \<Longrightarrow> client_wf c') \<Longrightarrow> R c c'"
    and R_store: "marks_kept (cl_state c) s \<Longrightarrow> list_all silent evs \<Longrightarrow>
      R c (c\<lparr>cl_state := s, cl_events := cl_events c @ evs\<rparr>)"
    and R_category: "R c (snd (cache_op (\<lambda>cfg d'. category_update k cfg d e d') c))"
    and R_troubles: "R c (snd (troubles_op cmd data c))"
begin

lemma R_refl [simp]: "R c c"
  by (rule R_settings) simp_all

lemma kept_bind [kept]:
  assumes "R c (snd (f c))" and "\<And>x c'. R c' (snd (g x c'))"
  shows "R c (snd (bind_op f g c))"
  using R_trans [OF assms(1) assms(2)] assms(1)
  by (auto simp: bind_op_def split: prod.splits sum.splits)

lemma kept_case:
  assumes "R c (snd p)" and "\<And>acc c1. R c1 (snd (g acc c1))"
  shows "R c (snd (case p of (acc, c1) \<Rightarrow> g acc c1))"
  using R_trans [OF assms(1) assms(2)] by (simp add: case_prod_beta)

lemma kept_ret [kept]: "R c (snd (ret_op x c))"
  by (simp add: ret_op_def R_refl)

lemma kept_lift [kept]: "R c (snd (lift_op r c))"
  by (simp add: lift_op_def R_refl)

lemma kept_ignore [kept]: "R c (snd (f c)) \<Longrightarrow> R c (snd (ignore_op f c))"
  by (simp add: ignore_op_def)

text \<open>Changes of the queues, the log, the clock and the marks.\<close>

lemma kept_core:
  "cl_state c' = cl_state c \<Longrightarrow> cl_events c' = cl_events c \<Longrightarrow> cl_config c' = cl_config c \<Longrightarrow>
    cl_zone_type c' = cl_zone_type c \<Longrightarrow> cl_output_type c' = cl_output_type c \<Longrightarrow>
    cl_partition_type c' = cl_partition_type c \<Longrightarrow> R c c'"
  by (rule R_settings) (simp_all add: client_wf_def)

lemma kept_exchange [kept]: "R c (snd (exchange data wt rt c))"
  by (rule kept_core) (simp_all add: exchange_def op_defs send_message_def take_answer_def Let_def split: list.splits)

lemma kept_priority [kept]: "R c (snd (exchange_priority data wt rt c))"
  by (rule kept_core)
    (simp_all add: exchange_priority_def op_defs send_message_def take_answer_def Let_def split: list.splits)

lemma kept_link [kept]: "R c (snd (take_link c))"
  by (rule kept_core) (simp_all add: take_link_def split: list.splits)

lemma kept_send [kept]: "R c (snd (send_message msg c))"
  by (rule kept_core) (simp_all add: send_message_def op_defs)

text \<open>Changes of the shared state.\<close>

lemma kept_events: "list_all silent evs \<Longrightarrow> R c (c\<lparr>cl_events := cl_events c @ evs\<rparr>)"
  using R_store [of c "cl_state c" evs] by (cases c) simp

lemma kept_emit [kept]: "list_all silent evs \<Longrightarrow> R c (snd (emit_op evs c))"
  by (simp add: emit_op_def modify_op_def kept_events)

lemma kept_cache:
  "marks_kept (cl_state c) (fst (f (cl_config c) (cl_state c))) \<Longrightarrow> list_all silent (snd (f (cl_config c) (cl_state c)))
    \<Longrightarrow> R c (snd (cache_op f c))"
  by (simp add: cache_op_def R_store case_prod_beta Let_def)

lemma kept_store: "marks_kept (cl_state c) (f (cl_state c)) \<Longrightarrow> R c (snd (store_op f c))"
  by (simp add: store_op_def kept_cache)

text \<open>Connection and configuration.\<close>

lemma kept_session: "R c (reset_session extended c)"
  by (rule R_settings)
    (simp_all add: client_wf_def reset_session_def zone_type_for_def output_type_for_def partition_type_for_def)

lemma kept_config: "validate cfg = Inr () \<Longrightarrow> R c (c\<lparr>cl_config := cfg\<rparr>)"
  by (rule R_settings) (simp_all add: client_wf_def)

lemma kept_connect [kept]: "R c (snd (connect c))"
proof -
  have "R c (snd (modify_op (reset_session e) c))" "R c (snd (modify_op (\<lambda>c. c\<lparr>cl_worker := b\<rparr>) c))" for e b c
    by (simp_all add: modify_op_def kept_session kept_core)
  then show ?thesis unfolding connect_def by (auto intro!: kept)
qed

lemma kept_disconnect [kept]: "R c (snd (disconnect c))"
  unfolding disconnect_def by (intro kept)

lemma kept_hot_reload [kept]: "R c (snd (hot_reload_config new c))"
proof (cases "validate new")
  case (Inl e)
  then show ?thesis by (simp add: hot_reload_config_def op_defs R_refl)
next
  case (Inr u)
  define merged where "merged = new\<lparr>cfg_connection := cfg_connection (cl_config c),
    cfg_encryption := cfg_encryption (cl_config c), cfg_integration_key := cfg_integration_key (cl_config c)\<rparr>"
  define c1 where "c1 = c\<lparr>cl_config := merged\<rparr>"
  define c2 where "c2 = (if build_push_mask (cl_config c) True \<noteq> build_push_mask merged True
    then c1\<lparr>cl_auto_read_dirty := True\<rparr> else c1)"
  define c3 where "c3 = (if cfg_extended_name_read (cl_config c) \<noteq> cfg_extended_name_read merged
    then reset_session (cfg_extended_name_read merged) c2 else c2)"
  have "R c c1"
    using validate_merged [of "cl_config c" new] Inr
    by (intro R_settings) (simp_all add: c1_def merged_def client_wf_def)
  moreover have "R c1 c2" by (simp add: c2_def kept_core)
  moreover have "R c2 c3" by (simp add: c3_def kept_session)
  moreover have "R c3 (snd (hot_reload_config new c))"
  proof -
    have "hot_reload_config new c = emit_op [EvConfigUpdated] c3"
      by (simp add: hot_reload_config_def bind_op_def lift_op_def Inr Let_def c3_def c2_def c1_def merged_def)
    then show ?thesis by (simp add: kept_emit silent_def)
  qed
  ultimately show ?thesis by (blast intro: R_trans)
qed

lemma kept_reload [kept]: "R c (snd (reload_config new c))"
proof (cases "validate new")
  case (Inl e)
  then show ?thesis by (simp add: reload_config_def op_defs R_refl)
next
  case (Inr u)
  then have "R c (snd (modify_op (\<lambda>c. c\<lparr>cl_config := new\<rparr>) c))" for c
    by (simp add: modify_op_def kept_config)
  then show ?thesis unfolding reload_config_def by (auto intro!: kept simp: silent_def)
qed

lemma kept_telemetry:
  assumes "same_status (s_telemetry (cl_state c)) t" and "list_all silent evs"
  shows "R c (c\<lparr>cl_state := (cl_state c)\<lparr>s_telemetry := t\<rparr>, cl_events := cl_events c @ evs\<rparr>)"
  using assms by (intro R_store marks_kept_frame) simp_all

lemma kept_reset_statistics: "R c (reset_statistics c)"
  using kept_telemetry [OF reset_statistics_status, of "[]" c "cl_now c"] by (simp add: reset_statistics_def)

lemma kept_statistics: "R c (check_statistics c)"
  unfolding check_statistics_def Let_def
  using kept_telemetry [of c] by (simp add: R_refl silent_def same_status_def)

lemma kept_integra_version [kept]: "R c (snd (get_integra_version c))"
  unfolding get_integra_version_def
  by (intro kept kept_cache) (simp_all add: update_integra_version_internal_def marks_kept_frame silent_def)

lemma kept_ethm_version [kept]: "R c (snd (get_ethm_version c))"
  unfolding get_ethm_version_def
  by (intro kept kept_cache) (simp_all add: update_ethm_version_internal_def marks_kept_frame silent_def)

text \<open>Queries.\<close>

lemma kept_flags:
  assumes "(cmd, getter, refresher, k) \<in> set flag_queries"
  shows "R c (snd (getter c))" and "R c (snd (refresher c))"
  unfolding flag_query_row [OF assms] query_flags_def by (intro kept R_category)+

lemma kept_times:
  "R c (snd (get_partitions_times c))" "R c (snd (refresh_partitions_times c))"
proof -
  have "(PartitionsEntryTime, get_partitions_entry_time, refresh_partitions_entry_time, CatPartitionEntryTime)
      \<in> set flag_queries"
    "(PartitionsExitTimeMore10s, get_partitions_exit_time_gt_10s, refresh_partitions_exit_time_gt_10s,
      CatPartitionExitTimeGt10s) \<in> set flag_queries"
    "(PartitionsExitTimeLess10s, get_partitions_exit_time_lt_10s, refresh_partitions_exit_time_lt_10s,
      CatPartitionExitTimeLt10s) \<in> set flag_queries"
    by (simp_all add: flag_queries_def)
  note rows = this [THEN kept_flags(1)] this [THEN kept_flags(2)]
  show "R c (snd (get_partitions_times c))" "R c (snd (refresh_partitions_times c))"
    unfolding get_partitions_times_def refresh_partitions_times_def by (intro kept_bind rows)+
qed

lemma kept_system_status [kept]: "R c (snd (get_system_status civil c))"
  unfolding get_system_status_def
  by (intro kept kept_cache) (simp_all add: update_system_status_internal_def marks_kept_frame silent_def)

lemma kept_satel_time [kept]: "R c (snd (get_satel_time civil c))"
  unfolding get_satel_time_def by (intro kept)

lemma kept_troubles [kept]: "R c (snd (query_troubles cmd parse c))"
  unfolding query_troubles_def by (intro kept R_troubles)

text \<open>Names.\<close>

lemma kept_query_loop:
  assumes "\<And>t response c1. t \<in> set types \<Longrightarrow> same_core c c1 \<Longrightarrow> R c1 (snd (answered t response c1))"
  shows "R c (snd (query_loop device_id answered types c))"
proof -
  obtain r c' where loop: "query_loop device_id answered types c = (r, c')" by fastforce
  from query_loop_cases [OF loop] obtain c1 where core: "same_core c c1"
    and cases: "c' = c1 \<or> (\<exists>t \<in> set types. \<exists>response a. answered t response c1 = (a, c'))" by blast
  have start: "R c c1" by (rule kept_core) (simp_all add: same_core_fields [OF core])
  from cases have "R c1 c'" using assms [OF _ core] by (metis snd_conv R_refl)
  with start show ?thesis by (simp add: loop R_trans)
qed

lemma kept_zone_answered:
  assumes "client_wf c \<Longrightarrow> t \<in> {5, 1}"
  shows "R c (snd (zone_answered cp session t response c))"
proof -
  have "R d (snd (bind_op (lift_op r) (\<lambda>(ident, nm, params).
      bind_op (store_op (update_zone ident (zone_store nm params))) (\<lambda>_. ret_op (nm, params))) d))" for r d
    by (auto intro!: kept kept_store marks_kept_zone simp: zone_store_def zone_marks_def)
  moreover have "R c ((if t < session then c\<lparr>cl_zone_type := t\<rparr> else c)\<lparr>cl_zone_confirmed := True\<rparr>)"
    using assms by (intro R_settings) (auto simp: client_wf_def)
  ultimately show ?thesis unfolding zone_answered_def Let_def by (blast intro: R_trans)
qed

lemma kept_query_zone [kept]: "R c (snd (query_zone_internal cp ident c))"
proof -
  have "t \<in> {5, 1}" if "client_wf c" "same_core c c1"
    "t \<in> set (zone_types_to_try (cfg_extended_name_read (cl_config c)) (cl_zone_type c) (cl_zone_confirmed c))" for t c1
    using that by (auto simp: zone_types_to_try_def client_wf_def split: if_splits)
  then have "R c1 (snd (zone_answered cp session t response c1))" if "same_core c c1"
    "t \<in> set (zone_types_to_try (cfg_extended_name_read (cl_config c)) (cl_zone_type c) (cl_zone_confirmed c))" for t c1 session response
    using that by (intro kept_zone_answered) (simp add: client_wf_def same_core_fields [OF that(1)])
  then show ?thesis unfolding query_zone_internal_def Let_def
    by (auto intro!: kept kept_query_loop kept_store marks_kept_zone simp: zone_clear_def zone_marks_def split: option.split)
qed

lemma kept_output_answered:
  assumes "client_wf c \<Longrightarrow> t \<in> {17, 4}"
  shows "R c (snd (output_answered cp session t response c))"
proof -
  have "R d (snd (bind_op (lift_op r) (\<lambda>(ident, nm, params).
      bind_op (store_op (update_output ident (output_store nm params))) (\<lambda>_. ret_op (nm, params))) d))" for r d
    by (auto intro!: kept kept_store marks_kept_output simp: output_store_def output_marks_def)
  moreover have "R c ((if t < session then c\<lparr>cl_output_type := t\<rparr> else c)\<lparr>cl_output_confirmed := True\<rparr>)"
    using assms by (intro R_settings) (auto simp: client_wf_def)
  ultimately show ?thesis unfolding output_answered_def Let_def by (blast intro: R_trans)
qed

lemma kept_query_output [kept]: "R c (snd (query_output_internal cp ident c))"
proof -
  have "t \<in> {17, 4}" if "client_wf c" "same_core c c1"
    "t \<in> set (output_types_to_try (cfg_extended_name_read (cl_config c)) (cl_output_type c) (cl_output_confirmed c))" for t c1
    using that by (auto simp: output_types_to_try_def client_wf_def split: if_splits)
  then have "R c1 (snd (output_answered cp session t response c1))" if "same_core c c1"
    "t \<in> set (output_types_to_try (cfg_extended_name_read (cl_config c)) (cl_output_type c) (cl_output_confirmed c))" for t c1 session response
    using that by (intro kept_output_answered) (simp add: client_wf_def same_core_fields [OF that(1)])
  then show ?thesis unfolding query_output_internal_def Let_def
    by (auto intro!: kept kept_query_loop kept_store marks_kept_output simp: output_clear_def output_marks_def split: option.split)
qed

lemma kept_partition_answered:
  assumes "client_wf c \<Longrightarrow> t \<in> {19, 18, 16, 0}"
  shows "R c (snd (partition_answered cp session t response c))"
proof -
  have "R d (snd (bind_op (lift_op r) (\<lambda>(ident, nm, params).
      bind_op (store_op (update_partition ident (partition_store nm params))) (\<lambda>_. ret_op (nm, params))) d))" for r d
    by (auto intro!: kept kept_store marks_kept_partition simp: partition_store_def partition_marks_def)
  moreover have "R c ((if t < session then c\<lparr>cl_partition_type := t\<rparr> else c)\<lparr>cl_partition_confirmed := True\<rparr>)"
    using assms by (intro R_settings) (auto simp: client_wf_def)
  ultimately show ?thesis unfolding partition_answered_def Let_def by (blast intro: R_trans)
qed

lemma kept_query_partition [kept]: "R c (snd (query_partition_internal cp ident c))"
proof -
  have "t \<in> {19, 18, 16, 0}" if "client_wf c" "same_core c c1"
    "t \<in> set (partition_types_to_try (cfg_extended_name_read (cl_config c)) (cl_partition_type c) (cl_partition_confirmed c))" for t c1
    using that by (auto simp: partition_types_to_try_def client_wf_def split: if_splits)
  then have "R c1 (snd (partition_answered cp session t response c1))" if "same_core c c1"
    "t \<in> set (partition_types_to_try (cfg_extended_name_read (cl_config c)) (cl_partition_type c) (cl_partition_confirmed c))" for t c1 session response
    using that by (intro kept_partition_answered) (simp add: client_wf_def same_core_fields [OF that(1)])
  then show ?thesis unfolding query_partition_internal_def Let_def
    by (auto intro!: kept kept_query_loop kept_store marks_kept_partition simp: partition_clear_def partition_marks_def split: option.split)
qed

lemma kept_zone_name [kept]: "R c (snd (get_zone_name cp ident c))"
  unfolding get_zone_name_def by (auto intro!: kept simp: silent_def split: option.split)

lemma kept_zone_params [kept]: "R c (snd (get_zone_params cp ident c))"
  unfolding get_zone_params_def by (auto intro!: kept simp: silent_def split: option.split)

lemma kept_output_name [kept]: "R c (snd (get_output_name cp ident c))"
  unfolding get_output_name_def by (auto intro!: kept simp: silent_def split: option.split)

lemma kept_output_params [kept]: "R c (snd (get_output_params cp ident c))"
  unfolding get_output_params_def by (auto intro!: kept simp: silent_def split: option.split)

lemma kept_partition_name [kept]: "R c (snd (get_partition_name cp ident c))"
  unfolding get_partition_name_def by (auto intro!: kept simp: silent_def split: option.split)

lemma kept_partition_params [kept]: "R c (snd (get_partition_params cp ident c))"
  unfolding get_partition_params_def by (auto intro!: kept simp: silent_def split: option.split)

lemma kept_sync_loop:
  assumes "\<And>ident c. R c (snd (query ident c))"
  shows "R c (snd (sync_loop category count query idents acc c))"
proof (induction idents arbitrary: acc c)
  case (Cons ident idents)
  obtain r c' where q: "query ident c = (r, c')" by fastforce
  from assms [of c ident] have "R c c'" by (simp add: q)
  with R_trans [OF this R_trans [OF kept_events Cons.IH]] R_trans [OF this Cons.IH] show ?case
    by (cases acc; cases r) (simp_all add: q silent_def)
qed simp

lemma kept_sync_all [kept]:
  "(\<And>ident c. R c (snd (query ident c))) \<Longrightarrow> R c (snd (sync_all category count query c))"
  unfolding sync_all_def
  by (rule kept_bind [OF kept_emit], simp add: silent_def, rule kept_case [OF kept_sync_loop])
    (auto intro!: kept simp: silent_def split: option.split)

lemma kept_all_names [kept]:
  "R c (snd (get_all_zone_names cp c))"
  "R c (snd (get_all_output_names cp c))"
  "R c (snd (get_all_partition_names cp c))"
  unfolding get_all_zone_names_def get_all_output_names_def get_all_partition_names_def
  by (auto intro!: kept split: option.split)

text \<open>Temperatures.\<close>

lemma kept_temp_error [kept]: "R c (snd (update_temp_error ident e c))"
proof (cases "get_zone (cl_state c) ident")
  case None
  then show ?thesis by (simp add: update_temp_error_def)
next
  case (Some z)
  then show ?thesis unfolding update_temp_error_def
    by (auto intro!: kept kept_store marks_kept_zone simp: temp_error_marks silent_def case_prod_beta)
qed

lemma kept_temp_success [kept]: "R c (snd (update_temperature_success_internal ident temp c))"
  unfolding update_temperature_success_internal_def
  by (auto intro!: kept kept_store marks_kept_zone simp: temp_success_zone_def zone_marks_def split: option.split)

lemma kept_raw_timeout [kept]: "R c (snd (get_zone_temperature_raw_timeout ident timeout c))"
proof -
  let ?wait = "Some (unwrap_or timeout (millis (unat (cfg_temp_read_timeout_ms (cl_config c)))))"
  obtain r c1 where ex: "exchange [command_to_byte ReadZoneTemperature, device_number ident] None ?wait c = (r, c1)"
    by fastforce
  have "R c1 (snd (get_zone_temperature_raw_timeout ident timeout c))"
    unfolding get_zone_temperature_raw_timeout_def ex
    by (auto intro!: kept simp: silent_def split: sum.split option.split)
  moreover from kept_exchange have "R c c1" by (metis ex snd_conv)
  ultimately show ?thesis by (blast intro: R_trans)
qed

lemma kept_raw [kept]: "R c (snd (get_zone_temperature_raw ident c))"
  unfolding get_zone_temperature_raw_def by (rule kept_raw_timeout)

lemma kept_with_blocking [kept]: "R c (snd (get_zone_temperature_with_blocking ident c))"
proof (cases "get_zone (cl_state c) ident")
  case None
  then show ?thesis by (simp add: get_zone_temperature_with_blocking_def kept_raw)
next
  case (Some z)
  then show ?thesis unfolding get_zone_temperature_with_blocking_def
    by (auto intro!: kept kept_store marks_kept_zone simp: blocked_cycle_marks silent_def case_prod_beta split: option.split)
qed

lemma kept_temperature [kept]: "R c (snd (get_zone_temperature ident c))"
  unfolding get_zone_temperature_def by (auto intro: kept)

lemma kept_reset_sensor [kept]: "R c (snd (reset_temperature_sensor ident c))"
  unfolding reset_temperature_sensor_def
  by (auto intro!: kept_store marks_kept_zone simp: temp_reset_zone_def zone_marks_def split: option.split)

lemma kept_discovery_loop: "R c (snd (discovery_loop count timeout ids acc c))"
proof (induction ids arbitrary: acc c)
  case (Cons ident ids)
  obtain r c' where q: "get_zone_temperature_raw_timeout ident timeout c = (r, c')" by fastforce
  from kept_raw_timeout [of c ident timeout] have "R c c'" by (simp add: q)
  from R_trans [OF this R_trans [OF kept_events Cons.IH]] show ?case by (cases acc) (simp add: q Let_def silent_def)
qed simp

lemma kept_all_temperatures [kept]: "R c (snd (get_all_zone_temperatures timeout c))"
proof -
  have "R c (snd (bind_op (emit_op [EvSyncStarted category count]) (\<lambda>_ c.
      (case discovery_loop count timeout ids acc c of
         ((success_count, last_error), c') \<Rightarrow>
           bind_op (emit_op [EvSyncFinished category count success_count last_error]) (\<lambda>_. ret_op True) c')) c))"
    for category count ids acc
    by (rule kept_bind [OF kept_emit], simp add: silent_def, rule kept_case [OF kept_discovery_loop])
      (auto intro!: kept simp: silent_def)
  then show ?thesis by (simp add: get_all_zone_temperatures_def split: option.split)
qed

text \<open>Control and polling.\<close>

lemma kept_control:
  assumes "(cmd, n, f) \<in> set control_table"
  shows "R c (snd (f ident code c))"
  unfolding control_table_row [OF assms] by (auto intro!: kept simp: send_control_def)

lemma kept_set_time: "R c (snd (set_satel_time format_time datetime code c))"
  unfolding set_satel_time_def by (auto intro!: kept simp: send_control_def)

text \<open>Every operation.\<close>

lemma kept_operation: "client_operation f \<Longrightarrow> R c (f c)"
  by (induction rule: client_operation.induct)
    (simp_all add: trouble_query_defs kept kept_reset_statistics kept_flags kept_times kept_control kept_set_time kept_statistics)

end

end
