(* ===== verification/Shared_State.thy ===== *)
theory Shared_State
  imports Client_Laws
begin

text \<open>
  The client and the worker share the state behind one lock. Every operation of the client handle
  (\<open>src/src/client.rs\<close>) and of the polling worker keeps the invariant of the client and leaves the
  status of the connection to the worker, so it is one of the other tasks of \<open>Worker_Status\<close>.
\<close>

definition store_ok :: "satel_state \<Rightarrow> satel_state \<Rightarrow> bool" where
  "store_ok s s' = ((state_wf s \<longrightarrow> state_wf s') \<and> same_status (s_telemetry s) (s_telemetry s'))"

definition step_ok :: "client \<Rightarrow> client \<Rightarrow> bool" where
  "step_ok c c' = (store_ok (cl_state c) (cl_state c') \<and> (client_wf c \<longrightarrow> client_wf c'))"

lemma store_ok_refl [simp]: "store_ok s s"
  by (simp add: store_ok_def)

lemma store_ok_trans: "store_ok a b \<Longrightarrow> store_ok b c \<Longrightarrow> store_ok a c"
  unfolding store_ok_def by (meson same_status_trans)

lemma step_ok_trans: "step_ok a b \<Longrightarrow> step_ok b c \<Longrightarrow> step_ok a c"
  unfolding step_ok_def by (meson store_ok_trans)

lemma step_ok_store: "store_ok (cl_state c) s \<Longrightarrow> step_ok c (c\<lparr>cl_state := s, cl_events := evs\<rparr>)"
  by (simp add: step_ok_def client_wf_def store_ok_def)

lemma store_ok_marks: "marks_kept s s' \<Longrightarrow> store_ok s s'"
  by (simp add: store_ok_def marks_kept_wf marks_kept_status)

lemma store_ok_category: "store_ok s (fst (category_update k cfg d e s))"
  by (simp add: store_ok_def category_update_wf category_update_telemetry)

lemma store_ok_troubles: "store_ok s (fst (snd (update_troubles_internal cfg cmd data s)))"
  using trouble_loop_frame
  by (auto simp: update_troubles_internal_def case_prod_beta Let_def store_ok_def state_wf_def split: sum.split)

interpretation shared: client_relation step_ok
proof unfold_locales
  show "step_ok a b \<Longrightarrow> step_ok b c \<Longrightarrow> step_ok a c" for a b c by (rule step_ok_trans)
  show "cl_state c' = cl_state c \<Longrightarrow> cl_events c' = cl_events c \<Longrightarrow> (client_wf c \<Longrightarrow> client_wf c') \<Longrightarrow> step_ok c c'" for c c'
    by (auto simp: step_ok_def)
  show "marks_kept (cl_state c) s \<Longrightarrow> list_all silent evs \<Longrightarrow>
      step_ok c (c\<lparr>cl_state := s, cl_events := cl_events c @ evs\<rparr>)" for c s evs
    by (intro step_ok_store store_ok_marks)
  show "step_ok c (snd (cache_op (\<lambda>cfg. category_update k cfg d e) c))" for c k d e
    by (simp add: cache_op_def Let_def case_prod_beta step_ok_store store_ok_category)
  show "step_ok c (snd (troubles_op cmd data c))" for c cmd data
    by (simp add: troubles_op_def Let_def case_prod_beta step_ok_store store_ok_troubles)
qed

lemma client_operation_kept: "client_operation f \<Longrightarrow> step_ok c (f c)"
  by (rule shared.kept_operation)

section \<open>Polling\<close>

lemma kept_pause: "store_ok (cl_state c) (bg (cl_state c)) \<Longrightarrow> step_ok c (client_pause bg ms c)"
  by (simp add: step_ok_def store_ok_def client_wf_def client_pause_def)

lemma kept_poll_zones:
  assumes "\<And>s. store_ok s (bg s)"
  shows "step_ok c (snd (poll_zones bg zones (last_run, c)))"
proof (induction zones arbitrary: last_run c)
  case (Cons ident zones)
  have "step_ok c (client_pause bg 100 (snd (get_zone_temperature ident c)))"
    by (rule step_ok_trans [OF shared.kept_temperature kept_pause [of _ bg]]) (rule assms)
  from step_ok_trans [OF this Cons.IH] show ?case by (simp add: Let_def)
qed simp

lemma kept_task: "(\<And>s. store_ok s (bg s)) \<Longrightarrow> step_ok c (snd (task_execute bg (last_run, c)))"
  by (simp add: task_execute_def kept_poll_zones Let_def)

end
