(* ===== verification/Sync_Bounds.thy ===== *)
theory Sync_Bounds
  imports Shared_State
begin

text \<open>
  How many requests the synchronisations of the names make (\<open>get_all_zone_names\<close> and its siblings in
  \<open>src/src/client.rs\<close>), which ones, and how long they take if every exchange comes to its end in time.
  The locale \<open>paced_query\<close> is the contract of a query that one step of a synchronisation makes.
\<close>

section \<open>Pace\<close>

text \<open>The answers of the script come in time: each at most a given duration after the one before.\<close>

fun timely :: "duration \<Rightarrow> timestamp \<Rightarrow> (bytes satel_result \<times> timestamp) list \<Rightarrow> bool" where
  "timely d now [] = True"
| "timely d now ((r, t) # rest) = (t \<le> now + int d \<and> timely d t rest)"

text \<open>
  Between two clients at most \<open>n\<close> requests were made, all of them of a kind, and if the answers come in
  time, no more time than that of \<open>n\<close> exchanges went by.
\<close>

definition paced :: "duration \<Rightarrow> (internal_message \<Rightarrow> bool) \<Rightarrow> nat \<Rightarrow> client \<Rightarrow> client \<Rightarrow> bool" where
  "paced d ok n c c' = (\<exists>msgs. cl_sent c' = cl_sent c @ msgs \<and> length msgs \<le> n \<and> list_all ok msgs
     \<and> (timely d (cl_now c) (cl_answers c) \<longrightarrow>
          timely d (cl_now c') (cl_answers c') \<and> cl_now c' \<le> cl_now c + int n * int d))"

lemma paced_idle:
  "cl_sent c' = cl_sent c \<Longrightarrow> cl_now c' = cl_now c \<Longrightarrow> cl_answers c' = cl_answers c \<Longrightarrow> paced d ok n c c'"
  by (simp add: paced_def)

lemma paced_trans:
  assumes "paced d ok n a b" and "paced d ok m b c"
  shows "paced d ok (n + m) a c"
proof -
  from assms(1) obtain xs where xs: "cl_sent b = cl_sent a @ xs" "length xs \<le> n" "list_all ok xs"
    "timely d (cl_now a) (cl_answers a) \<longrightarrow> timely d (cl_now b) (cl_answers b) \<and> cl_now b \<le> cl_now a + int n * int d"
    by (auto simp: paced_def)
  from assms(2) obtain ys where ys: "cl_sent c = cl_sent b @ ys" "length ys \<le> m" "list_all ok ys"
    "timely d (cl_now b) (cl_answers b) \<longrightarrow> timely d (cl_now c) (cl_answers c) \<and> cl_now c \<le> cl_now b + int m * int d"
    by (auto simp: paced_def)
  show ?thesis unfolding paced_def
    using xs ys by (intro exI [of _ "xs @ ys"]) (auto simp: algebra_simps)
qed

lemma paced_more: "paced d ok n a b \<Longrightarrow> n \<le> m \<Longrightarrow> paced d ok m a b"
  using paced_trans [of d ok n a b "m - n" b] by (simp add: paced_idle)

lemma paced_bind:
  assumes "paced d ok n c (snd (f c))" and "\<And>x c'. paced d ok m c' (snd (g x c'))"
  shows "paced d ok (n + m) c (snd (bind_op f g c))"
  using paced_trans [OF assms(1) assms(2)] paced_more [OF assms(1), of "n + m"]
  by (auto simp: bind_op_def split: prod.splits sum.splits)

lemma paced_exchange:
  "(\<And>wt rt now q. ok (ExchangeStandard data wt rt now q)) \<Longrightarrow> paced d ok 1 c (snd (exchange data wt rt c))"
  by (cases "cl_answers c")
    (auto simp: paced_def exchange_def send_message_def take_answer_def op_defs Let_def)

section \<open>The query loop\<close>

lemma paced_query_loop:
  assumes "\<And>t wt rt now q. t \<in> set types \<Longrightarrow> ok (ExchangeStandard [command_to_byte ReadDeviceName, t, dev] wt rt now q)"
    and "\<And>t response c. paced d ok 0 c (snd (answered t response c))"
  shows "paced d ok (length types) c (snd (query_loop dev answered types c))"
  using assms(1)
proof (induction types arbitrary: c)
  case Nil
  then show ?case by (simp add: ret_op_def paced_idle)
next
  case (Cons t types)
  let ?g = "\<lambda>response. if response \<noteq> [] \<and> hd response = command_to_byte ResultCode
      then query_loop dev answered types
      else if response \<noteq> [] \<and> hd response = command_to_byte ReadDeviceName
      then bind_op (answered t response) (\<lambda>r. ret_op (Some r)) else lift_op (Inl InvalidFrame)"
  have tail: "paced d ok (length types) c' (snd (?g response c'))" for response c'
  proof -
    have "paced d ok (length types) c' (snd (query_loop dev answered types c'))"
      by (rule Cons.IH) (rule Cons.prems, simp)
    moreover have "paced d ok (0 + 0) c' (snd (bind_op (answered t response) (\<lambda>r. ret_op (Some r)) c'))"
      by (rule paced_bind) (simp_all add: assms(2) ret_op_def paced_idle)
    then have "paced d ok (length types) c' (snd (bind_op (answered t response) (\<lambda>r. ret_op (Some r)) c'))"
      by (rule paced_more) simp
    ultimately show ?thesis by (simp add: lift_op_def paced_idle)
  qed
  have head: "ok (ExchangeStandard [command_to_byte ReadDeviceName, t, dev] wt rt now q)" for wt rt now q
    by (rule Cons.prems) simp
  have "paced d ok (1 + length types) c
      (snd (bind_op (exchange [command_to_byte ReadDeviceName, t, dev] None None) ?g c))"
    by (rule paced_bind, rule paced_exchange, rule head, rule tail)
  then show ?case by simp
qed

section \<open>One element\<close>

text \<open>A request for the name of one of the elements, with one of the device types.\<close>

definition name_request :: "u8 set \<Rightarrow> u16 set \<Rightarrow> internal_message \<Rightarrow> bool" where
  "name_request types idents msg = (case msg of
     ExchangeStandard data _ _ _ _ \<Rightarrow> \<exists>t \<in> types. \<exists>i \<in> idents. data = [0xEE, t, device_number i]
   | _ \<Rightarrow> False)"

lemma device_number_ucast: "device_number i = ucast i"
  by (simp add: device_number_def)

lemma answered_idle:
  "paced d ok n c (snd (zone_answered cp session t response c))"
  "paced d ok n c (snd (output_answered cp session t response c))"
  "paced d ok n c (snd (partition_answered cp session t response c))"
  by (auto simp: zone_answered_def output_answered_def partition_answered_def store_op_def op_defs Let_def
      intro!: paced_idle split: sum.split prod.split)

lemma paced_query_zone:
  assumes "client_wf c" and "ident \<in> idents"
  shows "paced d (name_request {5, 1} idents) 2 c (snd (query_zone_internal cp ident c))"
proof -
  let ?types = "zone_types_to_try (cfg_extended_name_read (cl_config c)) (cl_zone_type c) (cl_zone_confirmed c)"
  have types: "set ?types \<subseteq> {5, 1}" "length ?types \<le> 2"
    using assms(1) by (auto simp: zone_types_to_try_def client_wf_def)
  have "paced d (name_request {5, 1} idents) (length ?types + 0) c (snd (query_zone_internal cp ident c))"
    unfolding query_zone_internal_def Let_def
    using types(1) assms(2)
    by (intro paced_bind paced_query_loop answered_idle)
      (auto simp: name_request_def store_op_def op_defs intro!: paced_idle split: option.split)
  then show ?thesis by (rule paced_more) (simp add: types(2))
qed

lemma paced_query_output:
  assumes "client_wf c" and "ident \<in> idents"
  shows "paced d (name_request {17, 4} idents) 2 c (snd (query_output_internal cp ident c))"
proof -
  let ?types = "output_types_to_try (cfg_extended_name_read (cl_config c)) (cl_output_type c) (cl_output_confirmed c)"
  have types: "set ?types \<subseteq> {17, 4}" "length ?types \<le> 2"
    using assms(1) by (auto simp: output_types_to_try_def client_wf_def)
  have "paced d (name_request {17, 4} idents) (length ?types + 0) c (snd (query_output_internal cp ident c))"
    unfolding query_output_internal_def Let_def
    using types(1) assms(2)
    by (intro paced_bind paced_query_loop answered_idle)
      (auto simp: name_request_def store_op_def op_defs intro!: paced_idle split: option.split)
  then show ?thesis by (rule paced_more) (simp add: types(2))
qed

lemma paced_query_partition:
  assumes "client_wf c" and "ident \<in> idents"
  shows "paced d (name_request {19, 18, 16, 0} idents) 4 c (snd (query_partition_internal cp ident c))"
proof -
  let ?types = "partition_types_to_try (cfg_extended_name_read (cl_config c)) (cl_partition_type c) (cl_partition_confirmed c)"
  have types: "set ?types \<subseteq> {19, 18, 16, 0}" "length ?types \<le> 4"
    using assms(1) by (auto simp: partition_types_to_try_def client_wf_def)
  have "paced d (name_request {19, 18, 16, 0} idents) (length ?types + 0) c (snd (query_partition_internal cp ident c))"
    unfolding query_partition_internal_def Let_def
    using types(1) assms(2)
    by (intro paced_bind paced_query_loop answered_idle)
      (auto simp: name_request_def device_number_ucast store_op_def op_defs intro!: paced_idle split: option.split)
  then show ?thesis by (rule paced_more) (simp add: types(2))
qed

section \<open>A synchronisation\<close>

locale paced_query =
  fixes query :: "u16 \<Rightarrow> satel_name op" and types :: "u8 set" and tries :: nat
  assumes query_paced: "client_wf c \<Longrightarrow> ident \<in> idents \<Longrightarrow>
      paced d (name_request types idents) tries c (snd (query ident c))"
    and query_wf: "client_wf c \<Longrightarrow> client_wf (snd (query ident c))"
begin

lemma sync_loop_paced:
  "client_wf c \<Longrightarrow> set idents \<subseteq> all \<Longrightarrow>
    paced d (name_request types all) (tries * length idents) c (snd (sync_loop category count query idents acc c))"
proof (induction idents arbitrary: acc c)
  case Nil
  then show ?case by (simp add: paced_idle)
next
  case (Cons ident idents)
  obtain r c1 where q: "query ident c = (r, c1)" by fastforce
  define c2 where "c2 = (case r of
      Inr res \<Rightarrow> c1\<lparr>cl_events := cl_events c1 @ [EvSyncProgress category ident count (sn_name res)]\<rparr> | Inl _ \<Rightarrow> c1)"
  have "client_wf c1" using query_wf [OF Cons.prems(1), of ident] by (simp add: q)
  then have wf: "client_wf c2" by (auto simp: c2_def client_wf_def split: sum.split)
  have "ident \<in> all" using Cons.prems(2) by simp
  from query_paced [OF Cons.prems(1) this, of d] have "paced d (name_request types all) tries c c1" by (simp add: q)
  moreover have "paced d (name_request types all) 0 c1 c2"
    by (rule paced_idle) (simp_all add: c2_def split: sum.split)
  ultimately have "paced d (name_request types all) (tries + 0) c c2" by (rule paced_trans)
  moreover have "paced d (name_request types all) (tries * length idents) c2
      (snd (sync_loop category count query idents acc' c2))" for acc'
    using Cons.prems(2) by (intro Cons.IH [OF wf]) simp
  ultimately have "paced d (name_request types all) (tries + 0 + tries * length idents) c
      (snd (sync_loop category count query idents acc' c2))" for acc'
    by (rule paced_trans)
  then show ?case by (cases acc; cases r) (simp_all add: q c2_def)
qed

lemma sync_all_paced:
  assumes "client_wf c"
  shows "paced d (name_request types (set (one_to count))) (tries * unat count) c (snd (sync_all category count query c))"
proof -
  let ?c = "c\<lparr>cl_events := cl_events c @ [EvSyncStarted category count]\<rparr>"
  obtain n e c1 where loop: "sync_loop category count query (one_to count) (0, None) ?c = ((n, e), c1)"
    by (metis prod.collapse)
  have len: "length (one_to count) = unat count" by (simp add: one_to_def)
  have "client_wf ?c" using assms by (simp add: client_wf_def)
  from sync_loop_paced [OF this order_refl, where idents = "one_to count" and d = d
      and category = category and count = count and acc = "(0, None)"] loop
  have "paced d (name_request types (set (one_to count))) (tries * unat count) ?c c1" by (simp add: len)
  then show ?thesis
    using loop by (simp add: sync_all_def op_defs paced_def split: option.split)
qed

end

lemma name_queries_wf:
  "client_wf c \<Longrightarrow> client_wf (snd (get_zone_name cp ident c))"
  "client_wf c \<Longrightarrow> client_wf (snd (get_output_name cp ident c))"
  "client_wf c \<Longrightarrow> client_wf (snd (get_partition_name cp ident c))"
  using shared.kept_zone_name shared.kept_output_name shared.kept_partition_name by (simp_all add: step_ok_def)

lemma paced_then_quiet:
  assumes "paced d ok n c (snd (f c))" and "\<And>x c'. paced d ok 0 c' (snd (g x c'))"
  shows "paced d ok n c (snd (bind_op f g c))"
  using paced_bind [where ok = ok and f = f and g = g and n = n and m = 0 and c = c, OF assms] by simp

lemma paced_names:
  assumes "client_wf c" and "ident \<in> idents"
  shows "paced d (name_request {5, 1} idents) 2 c (snd (get_zone_name cp ident c))"
    and "paced d (name_request {17, 4} idents) 2 c (snd (get_output_name cp ident c))"
    and "paced d (name_request {19, 18, 16, 0} idents) 4 c (snd (get_partition_name cp ident c))"
  unfolding get_zone_name_def get_output_name_def get_partition_name_def
  subgoal by (rule paced_then_quiet, rule paced_query_zone [OF assms])
    (auto simp: op_defs intro!: paced_idle split: option.split)
  subgoal by (rule paced_then_quiet, rule paced_query_output [OF assms])
    (auto simp: op_defs intro!: paced_idle split: option.split)
  subgoal by (rule paced_then_quiet, rule paced_query_partition [OF assms])
    (auto simp: op_defs intro!: paced_idle split: option.split)
  done

interpretation zone_names: paced_query "get_zone_name cp" "{5, 1}" 2 for cp
  by unfold_locales (simp_all add: paced_names name_queries_wf)

interpretation output_names: paced_query "get_output_name cp" "{17, 4}" 2 for cp
  by unfold_locales (simp_all add: paced_names name_queries_wf)

interpretation partition_names: paced_query "get_partition_name cp" "{19, 18, 16, 0}" 4 for cp
  by unfold_locales (simp_all add: paced_names name_queries_wf)

section \<open>Properties\<close>

text \<open>
  C26. The synchronisations of the names come to an end. For a panel of a known version they make at
  most two requests for each zone and each output and at most four for each partition, all of them name
  queries with a device type of the protocol and the number of an element the panel has; and if every
  exchange ends within some time, they take no longer than that time for each of these requests.
\<close>

theorem sync_requests_bounded:
  assumes "client_wf c" and "get_cached_version c = Some v" and "iv_io_count v \<noteq> 0" and "iv_partition_count v \<noteq> 0"
  shows "paced d (name_request {5, 1} (set (one_to (iv_io_count v)))) (2 * unat (iv_io_count v))
      c (snd (get_all_zone_names cp c))
    \<and> paced d (name_request {17, 4} (set (one_to (iv_io_count v)))) (2 * unat (iv_io_count v))
      c (snd (get_all_output_names cp c))
    \<and> paced d (name_request {19, 18, 16, 0} (set (one_to (iv_partition_count v)))) (4 * unat (iv_partition_count v))
      c (snd (get_all_partition_names cp c))"
  using assms zone_names.sync_all_paced [OF assms(1)] output_names.sync_all_paced [OF assms(1)]
    partition_names.sync_all_paced [OF assms(1)]
  by (simp add: get_all_zone_names_def get_all_output_names_def get_all_partition_names_def)

theorem sync_requests_bounded_witness:
  "let v = \<lparr>iv_model = [], iv_firmware_version = [], iv_language = [], iv_stored_in_flash = False,
         iv_io_count = 8, iv_partition_count = 2, iv_read_at = 0\<rparr>;
       c = (client_new 0 0 config_default)\<lparr>cl_state := (satel_state_new 0 0)\<lparr>s_integra_version := Some v\<rparr>,
         cl_answers := [(Inl Timeout, 4), (Inr [0xEF, 0x08], 6)]\<rparr>;
       c' = snd (get_all_partition_names (\<lambda>_. ([], False)) c)
   in length (cl_sent c') \<le> 8 \<and> cl_now c' \<le> 8 * 4"
proof -
  define v where "v = \<lparr>iv_model = [], iv_firmware_version = [], iv_language = [], iv_stored_in_flash = False,
    iv_io_count = 8, iv_partition_count = 2, iv_read_at = 0\<rparr>"
  define c where "c = (client_new 0 0 config_default)\<lparr>cl_state := (satel_state_new 0 0)\<lparr>s_integra_version := Some v\<rparr>,
    cl_answers := [(Inl Timeout, 4), (Inr [0xEF, 0x08], 6)]\<rparr>"
  have "state_wf ((satel_state_new 0 0)\<lparr>s_integra_version := Some v\<rparr>)"
    using state_wf_new [of 0 0] by (simp add: state_wf_def del: upt_Suc upt_rec_numeral)
  then have wf: "client_wf c"
    by (simp add: client_wf_def c_def client_new_def config_default_valid zone_type_for_def output_type_for_def
        partition_type_for_def)
  have v: "get_cached_version c = Some v" "iv_io_count v \<noteq> 0" "iv_partition_count v \<noteq> 0" "unat (iv_partition_count v) = 2"
    by (simp_all add: get_cached_version_def c_def v_def)
  have start: "cl_sent c = []" "cl_now c = 0" "timely 4 (cl_now c) (cl_answers c)"
    by (simp_all add: c_def client_new_def)
  from sync_requests_bounded [OF wf v(1-3), of 4 "\<lambda>_. ([], False)"] v(4) start
  have "length (cl_sent (snd (get_all_partition_names (\<lambda>_. ([], False)) c))) \<le> 8
      \<and> cl_now (snd (get_all_partition_names (\<lambda>_. ([], False)) c)) \<le> 8 * 4"
    by (auto simp: paced_def)
  then show ?thesis by (simp add: Let_def v_def c_def)
qed

end
