(* ===== verification/Whole_System.thy ===== *)
theory Whole_System
  imports Shared_State
begin

text \<open>
  The tasks of the library around one shared state: the calls of the client handle (\<open>src/src/client.rs\<close>),
  the state worker (\<open>src/src/auto_requester.rs\<close>), the polling worker (\<open>src/src/polling_worker.rs\<close>) and
  the connection worker (\<open>src/src/worker.rs\<close>). \<open>client_step\<close> is the life of a client handle,
  \<open>system_step\<close> that of the connection worker while the other tasks run; the hypothesis of
  \<open>Worker_Status\<close> on the other tasks is discharged for the tasks the library has.
\<close>

section \<open>The life of a client\<close>

text \<open>
  Between two calls the other tasks change the shared state, and the world brings time and answers.
\<close>

inductive shared_step :: "satel_state \<Rightarrow> satel_state \<Rightarrow> bool" where
  shared_state_worker: "shared_step s (fst (handle_messages civil cfg msgs s))"
| shared_worker: "shared_step s (s\<lparr>s_telemetry := t, s_connection_type := ty\<rparr>)"

inductive client_step :: "client \<Rightarrow> client \<Rightarrow> bool" where
  step_call: "client_operation f \<Longrightarrow> client_step c (f c)"
| step_shared: "shared_step (cl_state c) s \<Longrightarrow> client_step c (c\<lparr>cl_state := s\<rparr>)"
| step_world: "client_step c (c\<lparr>cl_now := t, cl_answers := answers, cl_links := links\<rparr>)"

lemma shared_step_wf: "shared_step s s' \<Longrightarrow> state_wf s \<Longrightarrow> state_wf s'"
proof (induction rule: shared_step.induct)
  case (shared_state_worker s civil cfg msgs)
  from handle_messages_followed [OF this, of civil cfg msgs] show ?case by (simp add: flags_followed_def)
next
  case (shared_worker s t ty)
  then show ?case by (simp add: state_wf_def)
qed

lemma client_step_wf: "client_step c c' \<Longrightarrow> client_wf c \<Longrightarrow> client_wf c'"
proof (induction rule: client_step.induct)
  case (step_call f c)
  then show ?case using client_operation_kept [OF step_call(1)] by (simp add: step_ok_def)
next
  case (step_shared c s)
  then show ?case using shared_step_wf [OF step_shared(1)] by (simp add: client_wf_def)
next
  case (step_world c t answers links)
  then show ?case by (simp add: client_wf_def)
qed

lemma client_new_wf: "validate cfg = Inr () \<Longrightarrow> client_wf (client_new now instant cfg)"
  by (simp add: client_wf_def client_new_def state_wf_new zone_type_for_def output_type_for_def partition_type_for_def)

lemma client_reachable_wf: "client_step\<^sup>*\<^sup>* c c' \<Longrightarrow> client_wf c \<Longrightarrow> client_wf c'"
  by (induction rule: rtranclp_induct) (auto dest: client_step_wf)

section \<open>The other tasks of the worker\<close>

text \<open>
  What the tasks do to the shared state between two steps of the worker: calls of client handles, the
  messages the state worker handles, a cycle of the polling worker, and any sequence of these.
\<close>

inductive system_task :: "(satel_state \<Rightarrow> satel_state) \<Rightarrow> bool" where
  task_idle: "system_task (\<lambda>s. s)"
| task_client: "client_operation f \<Longrightarrow> system_task (\<lambda>s. cl_state (f (c\<lparr>cl_state := s\<rparr>)))"
| task_state_worker: "system_task (\<lambda>s. fst (handle_messages civil cfg msgs s))"
| task_polling: "system_task bg \<Longrightarrow>
    system_task (\<lambda>s. cl_state (snd (task_execute bg (last_run, c\<lparr>cl_state := s\<rparr>))))"
| task_then: "system_task f \<Longrightarrow> system_task g \<Longrightarrow> system_task (\<lambda>s. g (f s))"

lemma system_task_ok: "system_task f \<Longrightarrow> store_ok s (f s)"
proof (induction arbitrary: s rule: system_task.induct)
  case (task_client f c)
  from client_operation_kept [OF this, of "c\<lparr>cl_state := s\<rparr>"] show ?case by (simp add: step_ok_def)
next
  case (task_state_worker civil cfg msgs)
  show ?case using handle_messages_followed [of s civil cfg msgs] handle_messages_status
    by (auto simp: store_ok_def flags_followed_def)
next
  case (task_polling bg last_run c)
  from kept_task [OF task_polling.IH, of "c\<lparr>cl_state := s\<rparr>" last_run] show ?case by (simp add: step_ok_def)
next
  case (task_then f g)
  from store_ok_trans [OF task_then.IH(1) task_then.IH(2)] show ?case .
qed simp

lemma system_task_background: "system_task f \<Longrightarrow> background f"
  by (simp add: background_def system_task_ok [unfolded store_ok_def])

lemma system_task_wf: "system_task f \<Longrightarrow> state_wf s \<Longrightarrow> state_wf (f s)"
  by (simp add: system_task_ok [unfolded store_ok_def])

section \<open>The worker keeps the cache\<close>

definition cache_wf :: "worker \<Rightarrow> bool" where
  "cache_wf w = state_wf (wk_state w)"

lemma state_wf_updates [simp]:
  "state_wf (s\<lparr>s_telemetry := t\<rparr>) = state_wf s" "state_wf (s\<lparr>s_connection_type := ty\<rparr>) = state_wf s"
  by (simp_all add: state_wf_def)

lemma cache_wf_updates [simp]:
  "cache_wf (update_telemetry f w) = cache_wf w" "cache_wf (notify_state_worker msg w) = cache_wf w"
  "cache_wf (set_incoming items w) = cache_wf w" "cache_wf (w\<lparr>wk_now := t\<rparr>) = cache_wf w"
  "cache_wf (w\<lparr>wk_stream := l\<rparr>) = cache_wf w" "cache_wf (w\<lparr>wk_auto_read_dirty := d\<rparr>) = cache_wf w"
  "cache_wf (w\<lparr>wk_opens := opens\<rparr>) = cache_wf w" "cache_wf (w\<lparr>wk_missed_pings := n\<rparr>) = cache_wf w"
  by (simp_all add: cache_wf_def update_telemetry_def notify_state_worker_def set_incoming_def)

lemma cache_wf_moves [simp]:
  "cache_wf (reset_missed_pings w) = cache_wf w" "cache_wf (set_state_connecting w) = cache_wf w"
  "cache_wf (set_state_handshake w) = cache_wf w" "cache_wf (connection_lost w) = cache_wf w"
  "cache_wf (worker_disconnect w) = cache_wf w" "cache_wf (exchange_frame cmd ping frame w) = cache_wf w"
  "cache_wf (snd (exchange_timeout deadline w)) = cache_wf w" "cache_wf (snd (handle_ping_timeout w)) = cache_wf w"
  by (simp_all add: reset_missed_pings_def set_state_connecting_def set_state_handshake_def connection_lost_def
      worker_disconnect_def exchange_frame_def exchange_timeout_def handle_ping_timeout_def Let_def)

lemma cache_wf_connected [simp]: "cache_wf (set_state_connected w) = cache_wf w"
  by (simp add: cache_wf_def set_state_connected_def notify_state_worker_def update_telemetry_def
      reset_missed_pings_def Let_def)

lemma cache_wf_pause: "system_task bg \<Longrightarrow> cache_wf w \<Longrightarrow> cache_wf (pause bg ms w)"
  by (simp add: cache_wf_def pause_def system_task_wf)

lemma cache_wf_receive [simp]: "cache_wf (snd (exchange_receive cmd ping deadline items w)) = cache_wf w"
proof (induction items arbitrary: w)
  case (Cons x items)
  then show ?case by (cases x) (simp add: Let_def split: link_item.split)
qed simp

lemma cache_wf_exchange [simp]: "cache_wf (snd (worker_exchange data cmd wt rt ping w)) = cache_wf w"
  by (simp add: worker_exchange_def Let_def split: option.split prod.split)

lemma exchange_wf: "worker_exchange data cmd wt rt ping w = (r, w') \<Longrightarrow> cache_wf w' = cache_wf w"
  using cache_wf_exchange [of data cmd wt rt ping w] by simp

lemma cache_wf_query [simp]: "cache_wf (snd (handshake_query cmd parse msg d w)) = cache_wf w"
  by (auto simp: handshake_query_def split: prod.split sum.split dest: exchange_wf)

lemma cache_wf_mask [simp]: "cache_wf (snd (send_push_mask d w)) = cache_wf w"
  by (auto simp: send_push_mask_def Let_def split: prod.split sum.split option.split dest: exchange_wf)

lemma mask_wf: "send_push_mask d w = (r, w') \<Longrightarrow> cache_wf w' = cache_wf w"
  using cache_wf_mask [of d w] by simp

lemma cache_wf_auto_read [simp]: "cache_wf (snd (connect_auto_read d w)) = cache_wf w"
  by (auto simp: connect_auto_read_def split: prod.split sum.split dest: mask_wf)

lemma cache_wf_physical [simp]: "cache_wf (snd (connect_physical d w)) = cache_wf w"
  by (simp add: connect_physical_def Let_def split: list.split prod.split)

lemma cache_wf_bind:
  "cache_wf (snd rw) \<Longrightarrow> (\<And>w. cache_wf w \<Longrightarrow> cache_wf (snd (f w))) \<Longrightarrow> cache_wf (snd (bind_worker rw f))"
  by (auto simp: bind_worker_def split: prod.split sum.split)

lemma cache_wf_handshake:
  assumes "system_task bg" and "cache_wf w"
  shows "cache_wf (snd (connect_handshake bg d w))"
  unfolding connect_handshake_def by (intro cache_wf_bind) (simp_all add: assms cache_wf_pause)

lemma cache_wf_connect:
  assumes bg: "system_task bg" and w: "cache_wf w"
  shows "cache_wf (snd (worker_connect bg w))"
proof -
  let ?d = "millis (unat (cfg_read_timeout_ms (wk_config (set_state_connecting w))))"
  obtain r v where phys: "connect_physical ?d ((set_state_connecting w)\<lparr>wk_auto_read_dirty := False\<rparr>) = (r, v)"
    by fastforce
  have v: "cache_wf v" using cache_wf_physical [of ?d "(set_state_connecting w)\<lparr>wk_auto_read_dirty := False\<rparr>"] w phys
    by simp
  then have "cache_wf (snd (bind_worker (connect_handshake bg d (pause bg 200 (set_state_handshake (v\<lparr>wk_stream := l\<rparr>))))
      (\<lambda>w. bind_worker (if is_auto_read_enabled (wk_config w) then connect_auto_read d w else (Inr (), w))
        (\<lambda>w. (Inr (), set_state_connected w)))))" for d l
    by (intro cache_wf_bind cache_wf_handshake [OF bg]) (simp_all add: cache_wf_pause [OF bg])
  with v show ?thesis unfolding worker_connect_def Let_def phys by (simp split: sum.split)
qed

lemma cache_wf_message:
  "system_task bg \<Longrightarrow> cache_wf w \<Longrightarrow> cache_wf (snd (handle_message_internal bg msg w))"
  by (cases msg) (auto simp: cache_wf_connect)

lemma cache_wf_receive_push: "receive_push_internal w = Some (r, w') \<Longrightarrow> cache_wf w' = cache_wf w"
  by (auto simp: receive_push_internal_def Let_def split: option.splits list.splits link_item.splits if_splits)

lemma cache_wf_push: "push_event w = Some w' \<Longrightarrow> cache_wf w \<Longrightarrow> cache_wf w'"
  by (cases "receive_push_internal w")
    (auto simp: push_event_def split: sum.splits bool.splits dest: cache_wf_receive_push)

lemma ping_timeout_wf: "handle_ping_timeout w = (b, w') \<Longrightarrow> cache_wf w' = cache_wf w"
  using cache_wf_moves(8) [of w] by simp

lemma cache_wf_tick:
  assumes bg: "system_task bg" and w: "cache_wf w"
  shows "cache_wf (worker_tick bg should_reconnect w)"
proof -
  have dog: "cache_wf (tick_watchdog st t w) = cache_wf w" for st t w
    by (simp add: tick_watchdog_def)
  have mask: "cache_wf (tick_mask st w) = cache_wf w" for st w
    by (auto simp: tick_mask_def Let_def split: prod.split sum.split dest: mask_wf)
  have ping: "cache_wf (tick_ping st w) = cache_wf w" for st w
    by (auto simp: tick_ping_def split: prod.split dest!: exchange_wf ping_timeout_wf)
  have recon: "cache_wf (tick_reconnect bg r st t w)" if "cache_wf w" for r st t w
    using that by (simp add: tick_reconnect_def cache_wf_connect [OF bg])
  show ?thesis unfolding worker_tick_def Let_def by (rule recon) (simp add: ping mask dog w)
qed

section \<open>The system\<close>

text \<open>The steps of the worker with the tasks the library has; the configuration comes from a client.\<close>

inductive system_step :: "worker \<Rightarrow> worker \<Rightarrow> bool" where
  system_start: "get_current_state w = Disconnected \<Longrightarrow> system_task bg \<Longrightarrow> system_step w (snd (worker_connect bg w))"
| system_message: "system_task bg \<Longrightarrow> system_step w (snd (handle_message_internal bg msg w))"
| system_push: "get_current_state w = Connected \<Longrightarrow> push_event w = Some w' \<Longrightarrow> system_step w w'"
| system_tick: "system_task bg \<Longrightarrow> system_step w (worker_tick bg should_reconnect w)"
| system_tasks: "system_task bg \<Longrightarrow>
    system_step w (w\<lparr>wk_state := bg (wk_state w), wk_config := cfg, wk_auto_read_dirty := dirty,
      wk_now := wk_now w + int d\<rparr>)"

lemma system_step_worker: "system_step w w' \<Longrightarrow> worker_step w w'"
  by (induction rule: system_step.induct) (auto intro: worker_step.intros system_task_background)

lemma system_step_wf: "system_step w w' \<Longrightarrow> cache_wf w \<Longrightarrow> cache_wf w'"
proof (induction rule: system_step.induct)
  case (system_tasks bg w cfg dirty d)
  then show ?case by (simp add: cache_wf_def system_task_wf)
qed (auto simp: cache_wf_connect cache_wf_message cache_wf_tick dest: cache_wf_push)

lemma system_reachable:
  "system_step\<^sup>*\<^sup>* w w' \<Longrightarrow> cache_wf w \<Longrightarrow> worker_step\<^sup>*\<^sup>* w w' \<and> cache_wf w'"
proof (induction rule: rtranclp_induct)
  case (step v w)
  then show ?case using system_step_worker [of v w] system_step_wf [of v w] by (auto intro: rtranclp.rtrancl_into_rtrancl)
qed simp

section \<open>Properties\<close>

text \<open>
  C23. The type of a client's state. Whatever calls a client makes, whatever the other tasks do to the
  shared state in between and whatever the panel answers: a client created with a valid configuration
  always holds a valid configuration, 256 zones, 256 outputs and 32 partitions, each at the index of its
  number, and queries names only with device types the protocol has.
\<close>

theorem client_state_typed:
  assumes "validate cfg = Inr ()" and "client_step\<^sup>*\<^sup>* (client_new now instant cfg) c"
  shows "validate (cl_config c) = Inr ()
    \<and> map z_id (s_zones (cl_state c)) = map word_of_nat [1..<257]
    \<and> map o_id (s_outputs (cl_state c)) = map word_of_nat [1..<257]
    \<and> map p_id (s_partitions (cl_state c)) = map word_of_nat [1..<33]
    \<and> cl_zone_type c \<in> {5, 1} \<and> cl_output_type c \<in> {17, 4} \<and> cl_partition_type c \<in> {19, 18, 16, 0}"
  using client_reachable_wf [OF assms(2) client_new_wf [OF assms(1)]]
  by (simp add: client_wf_def state_wf_def del: upt_Suc upt_rec_numeral)

theorem client_state_typed_witness:
  "cl_partition_type (snd (get_zone_name (\<lambda>_. ([], False)) 7 ((client_new 0 0 config_default)\<lparr>cl_now := 9,
      cl_answers := [(Inr [0xEF, 0x08], 10)], cl_links := []\<rparr>))) \<in> {19, 18, 16, 0}"
proof -
  let ?c = "client_new 0 0 config_default"
  let ?d = "?c\<lparr>cl_now := 9, cl_answers := [(Inr [0xEF, 0x08], 10)], cl_links := []\<rparr>"
  have valid: "validate config_default = Inr ()"
    by (simp add: validate_def validate_encryption_def config_default_def)
  have "client_step ?c ?d" by (rule step_world)
  moreover have "client_step ?d (snd (get_zone_name (\<lambda>_. ([], False)) 7 ?d))"
    by (rule step_call [where f = "\<lambda>c. snd (get_zone_name (\<lambda>_. ([], False)) 7 c)"]) (rule op_zone_name)
  ultimately have "client_step\<^sup>*\<^sup>* ?c (snd (get_zone_name (\<lambda>_. ([], False)) 7 ?d))"
    by (meson r_into_rtranclp rtranclp.rtrancl_into_rtrancl)
  from client_state_typed [OF valid this] show ?thesis by blast
qed

text \<open>
  C6. The whole system. The calls of the clients, the state worker and the polling worker never touch
  the status of the connection, so while they all run beside the connection worker, at its pauses and
  between its steps, the worker's invariant holds: a link is open exactly in the handshake and while
  connected, a session exactly while connected, the announced states are a history of the connection
  machine that ends in the current state; and the cache they share stays well formed.
\<close>

theorem system_reachable_invariant:
  assumes "system_step\<^sup>*\<^sup>* (worker_start cfg now opens) w"
  shows "(wk_stream w \<noteq> None \<longleftrightarrow> get_current_state w \<in> {Handshake, Connected})
    \<and> (tel_connected_since (s_telemetry (wk_state w)) \<noteq> None \<longleftrightarrow> get_current_state w = Connected)
    \<and> status_path (statuses (wk_notes w)) (get_current_state w)
    \<and> state_wf (wk_state w)"
proof -
  have "cache_wf (worker_start cfg now opens)"
    by (simp add: cache_wf_def worker_start_def state_wf_new)
  from system_reachable [OF assms this]
  have "worker_step\<^sup>*\<^sup>* (worker_start cfg now opens) w" and wf: "cache_wf w" by simp_all
  from settled_reachable [OF this(1)] have "worker_inv w" by (simp add: settled_def)
  with wf show ?thesis unfolding worker_inv_def cache_wf_def by (intro conjI) simp_all
qed

theorem system_reachable_invariant_witness:
  "state_wf (wk_state (snd (worker_connect
      (\<lambda>s. cl_state (reset_statistics ((client_new 0 0 config_default)\<lparr>cl_state := s\<rparr>)))
      (worker_start config_default 0 []))))"
proof -
  let ?bg = "\<lambda>s. cl_state (reset_statistics ((client_new 0 0 config_default)\<lparr>cl_state := s\<rparr>))"
  have "get_current_state (worker_start config_default 0 []) = Disconnected"
    by (simp add: worker_start_def get_current_state_def satel_state_new_def telemetry_default_def
        connection_status_default_def)
  moreover have "system_task ?bg" by (intro task_client op_reset_statistics)
  ultimately have "system_step\<^sup>*\<^sup>* (worker_start config_default 0 [])
      (snd (worker_connect ?bg (worker_start config_default 0 [])))"
    by (intro r_into_rtranclp system_start)
  from system_reachable_invariant [OF this] show ?thesis by blast
qed

end
