(* ===== verification/Subscriber.thy ===== *)
theory Subscriber
  imports Whole_System
begin

text \<open>
  What a subscriber of the events (\<open>src/src/event.rs\<close>) knows while the whole library runs: the calls of
  the client handle (\<open>src/src/client.rs\<close>), the messages the state worker handles
  (\<open>src/src/auto_requester.rs\<close>) and the connection worker share one cache and one broadcast.
\<close>

section \<open>The knowledge of a subscriber\<close>

definition followed :: "client \<Rightarrow> client \<Rightarrow> bool" where
  "followed c c' = (client_wf c \<longrightarrow> client_wf c' \<and> (\<exists>evs. cl_events c' = cl_events c @ evs
     \<and> flags_followed (cl_state c) (cl_state c', evs) \<and> troubles_followed (cl_state c) (cl_state c', evs)))"

lemma flags_followed_append:
  "flags_followed s (s', evs) \<Longrightarrow> flags_followed s' (s'', evs') \<Longrightarrow> flags_followed s (s'', evs @ evs')"
  by (simp add: flags_followed_def view_after_append)

lemma troubles_followed_append:
  "troubles_followed s (s', evs) \<Longrightarrow> troubles_followed s' (s'', evs') \<Longrightarrow> troubles_followed s (s'', evs @ evs')"
  by (simp add: troubles_followed_def view_after_append)

lemma followed_trans:
  assumes "followed a b" and "followed b c"
  shows "followed a c"
  unfolding followed_def
proof (intro impI)
  assume a: "client_wf a"
  with assms(1) obtain evs where b: "client_wf b" and one: "cl_events b = cl_events a @ evs"
    "flags_followed (cl_state a) (cl_state b, evs)" "troubles_followed (cl_state a) (cl_state b, evs)"
    by (auto simp: followed_def)
  from assms(2) b obtain evs' where "client_wf c" "cl_events c = cl_events b @ evs'"
    "flags_followed (cl_state b) (cl_state c, evs')" "troubles_followed (cl_state b) (cl_state c, evs')"
    by (auto simp: followed_def)
  with one show "client_wf c \<and> (\<exists>evs. cl_events c = cl_events a @ evs
      \<and> flags_followed (cl_state a) (cl_state c, evs) \<and> troubles_followed (cl_state a) (cl_state c, evs))"
    by (intro conjI exI [of _ "evs @ evs'"])
      (simp_all add: flags_followed_append [OF one(2)] troubles_followed_append [OF one(3)])
qed

lemma marks_kept_followed:
  assumes "marks_kept s s'" and "list_all silent evs" and "state_wf s"
  shows "flags_followed s (s', evs)" and "troubles_followed s (s', evs)"
proof -
  have "view_after (category_event k i) v evs = v" for k i v
    by (rule view_after_other) (rule silent_events(1) [OF assms(2)])
  then show "flags_followed s (s', evs)"
    using marks_kept_wf [OF assms(1,3)] marks_kept_view [OF assms(1)] by (simp add: flags_followed_def)
  show "troubles_followed s (s', evs)"
    by (rule troubles_followed_same) (simp_all add: marks_kept_troubles [OF assms(1)] silent_events(2) [OF assms(2)])
qed

lemma followed_store:
  assumes "state_wf (cl_state c) \<Longrightarrow>
    flags_followed (cl_state c) (s, evs) \<and> troubles_followed (cl_state c) (s, evs)"
  shows "followed c (c\<lparr>cl_state := s, cl_events := cl_events c @ evs\<rparr>)"
  using assms by (auto simp: followed_def client_wf_def flags_followed_def)

lemma followed_same:
  "cl_state c' = cl_state c \<Longrightarrow> cl_events c' = cl_events c \<Longrightarrow> (client_wf c \<Longrightarrow> client_wf c') \<Longrightarrow> followed c c'"
  by (auto simp: followed_def client_wf_def intro!: flags_followed_same troubles_followed_same)

interpretation subscriber: client_relation followed
proof unfold_locales
  show "followed a b \<Longrightarrow> followed b c \<Longrightarrow> followed a c" for a b c by (rule followed_trans)
  show "cl_state c' = cl_state c \<Longrightarrow> cl_events c' = cl_events c \<Longrightarrow> (client_wf c \<Longrightarrow> client_wf c') \<Longrightarrow> followed c c'" for c c'
    by (rule followed_same)
  show "marks_kept (cl_state c) s \<Longrightarrow> list_all silent evs \<Longrightarrow>
      followed c (c\<lparr>cl_state := s, cl_events := cl_events c @ evs\<rparr>)" for c s evs
    by (intro followed_store conjI marks_kept_followed)
  show "followed c (snd (cache_op (\<lambda>cfg. category_update k cfg d e) c))" for c k d e
    using followed_store [of c "fst (category_update k (cl_config c) d e (cl_state c))"
        "snd (category_update k (cl_config c) d e (cl_state c))"] category_update_view category_update_wf
      category_update_troubles
    by (simp add: cache_op_def Let_def case_prod_beta flags_followed_def)
  show "followed c (snd (troubles_op cmd data c))" for c cmd data
    using followed_store [of c "fst (snd (update_troubles_internal (cl_config c) cmd data (cl_state c)))"
        "snd (snd (update_troubles_internal (cl_config c) cmd data (cl_state c)))"] update_troubles_followed
    by (simp add: troubles_op_def Let_def case_prod_beta)
qed

section \<open>The library beside a subscriber\<close>

inductive library_step :: "client \<Rightarrow> client \<Rightarrow> bool" where
  library_call: "client_operation f \<Longrightarrow> library_step c (f c)"
| library_state_worker: "handle_messages civil cfg msgs (cl_state c) = (s, evs) \<Longrightarrow>
    library_step c (c\<lparr>cl_state := s, cl_events := cl_events c @ evs\<rparr>)"
| library_worker: "library_step c (c\<lparr>cl_state := (cl_state c)\<lparr>s_telemetry := t, s_connection_type := ty\<rparr>\<rparr>)"
| library_world: "library_step c (c\<lparr>cl_now := t, cl_answers := answers, cl_links := links\<rparr>)"

lemma library_step_followed: "library_step c c' \<Longrightarrow> followed c c'"
proof (induction rule: library_step.induct)
  case (library_call f c)
  then show ?case by (rule subscriber.kept_operation)
next
  case (library_state_worker civil cfg msgs c s evs)
  with handle_messages_followed [of "cl_state c" civil cfg msgs] show ?case by (intro followed_store) simp
next
  case (library_worker c ty t)
  have "followed c (c\<lparr>cl_state := (cl_state c)\<lparr>s_telemetry := t, s_connection_type := ty\<rparr>,
      cl_events := cl_events c @ []\<rparr>)"
    by (intro followed_store conjI flags_followed_same troubles_followed_same) simp_all
  then show ?case by simp
next
  case (library_world c t answers links)
  show ?case by (rule followed_same) (simp_all add: client_wf_def)
qed

lemma library_followed: "library_step\<^sup>*\<^sup>* c c' \<Longrightarrow> followed c c'"
  by (induction rule: rtranclp_induct) (auto intro: followed_trans library_step_followed)

section \<open>Properties\<close>

text \<open>
  C1. A subscriber of the whole library. A client is created with a valid configuration; a subscriber
  reads the cache at some point and from then on only listens. Whatever calls are made, whatever the
  panel answers and pushes, and however the calls, the state worker and the connection worker take
  turns: applying the events it has heard since, in order, to what it read gives exactly the value of
  every flag and every trouble that the cache holds now.
\<close>

theorem subscriber_follows_library:
  assumes "validate cfg = Inr ()" and "library_step\<^sup>*\<^sup>* (client_new now instant cfg) c"
    and "library_step\<^sup>*\<^sup>* c c'" and "1 \<le> n" and "n \<le> category_size k"
  shows "let heard = drop (length (cl_events c)) (cl_events c') in
    view_after (category_event k (word_of_nat n)) (category_view k (cl_state c) n) heard = category_view k (cl_state c') n
    \<and> view_after (trouble_event t m) (Some (trouble_flag (cl_state c) t m)) heard = Some (trouble_flag (cl_state c') t m)"
proof -
  have "client_wf c" using library_followed [OF assms(2)] client_new_wf [OF assms(1)] by (simp add: followed_def)
  with library_followed [OF assms(3)] obtain evs where "cl_events c' = cl_events c @ evs"
    "flags_followed (cl_state c) (cl_state c', evs)" "troubles_followed (cl_state c) (cl_state c', evs)"
    by (auto simp: followed_def)
  with assms(4,5) show ?thesis by (simp add: Let_def flags_followed_def troubles_followed_def)
qed

theorem subscriber_follows_library_witness:
  "let c = snd (get_partitions_alarm ((client_new 0 0 config_default)\<lparr>cl_now := 1,
       cl_answers := [(Inr [0x13, 0x02, 0, 0, 0], 5)], cl_links := []\<rparr>))
   in view_after (EvPartitionAlarm 2) None (cl_events c) = category_view CatPartitionAlarm (cl_state c) 2"
proof -
  let ?c0 = "client_new 0 0 config_default"
  let ?c1 = "?c0\<lparr>cl_now := 1, cl_answers := [(Inr [0x13, 0x02, 0, 0, 0], 5)], cl_links := []\<rparr>"
  have valid: "validate config_default = Inr ()"
    by (simp add: validate_def validate_encryption_def config_default_def)
  have "(PartitionsAlarm, get_partitions_alarm, refresh_partitions_alarm, CatPartitionAlarm) \<in> set flag_queries"
    by (simp add: flag_queries_def)
  then have "library_step ?c1 (snd (get_partitions_alarm ?c1))"
    by (intro library_call [where f = "\<lambda>c. snd (get_partitions_alarm c)"] op_get_flags)
  moreover have "library_step ?c0 ?c1" by (rule library_world)
  ultimately have run: "library_step\<^sup>*\<^sup>* ?c0 (snd (get_partitions_alarm ?c1))"
    by (meson r_into_rtranclp rtranclp.rtrancl_into_rtrancl)
  have view: "category_view CatPartitionAlarm (cl_state ?c0) 2 = None" "cl_events ?c0 = []"
    by (simp_all add: client_new_def satel_state_new_def element_view_def flag_view_def partition_new_def
        del: upt_Suc upt_rec_numeral)
  from subscriber_follows_library [OF valid rtranclp.rtrancl_refl run, of 2 CatPartitionAlarm] view
  show ?thesis by (simp add: Let_def)
qed

end
