(* ===== verification/Query_Path.thy ===== *)
theory Query_Path
  imports Whole_System Codec
begin

text \<open>
  The path of a query through the whole library: a client operation (\<open>src/src/client.rs\<close>) posts its
  message, the connection worker (\<open>src/src/worker.rs\<close>) sends the command and waits on the link, the
  codec (\<open>src/src/codec.rs\<close>) finds the frames in the bytes that arrive, and the answer goes back to the
  client, which updates the cache.
\<close>

section \<open>A link over bytes\<close>

text \<open>
  \<open>Framed\<close> appends every read to its buffer and decodes until nothing more comes out; a frame arrives
  when the read that completes it does.
\<close>

fun framed_reads :: "satel_codec \<Rightarrow> bytes \<Rightarrow> (timestamp \<times> bytes) list \<Rightarrow> (timestamp \<times> link_item) list" where
  "framed_reads c buf [] = []"
| "framed_reads c buf ((t, chunk) # reads) =
    (case drain decode frame_weight c (buf @ chunk) of (frames, c', buf') \<Rightarrow>
       map (\<lambda>frame. (t, LinkFrame frame)) frames @ framed_reads c' buf' reads)"

lemma framed_reads_feed:
  "feed decode frame_weight c buf (map snd reads) = (frames, c', buf') \<Longrightarrow>
    \<exists>ts. framed_reads c buf reads = incoming_frames (zip ts frames) \<and> length ts = length frames
      \<and> set ts \<subseteq> set (map fst reads)"
proof (induction reads arbitrary: c buf frames)
  case Nil
  then show ?case by (simp add: incoming_frames_def)
next
  case (Cons x reads)
  obtain t chunk where x: "x = (t, chunk)" by (cases x)
  obtain fs c1 buf1 where first: "drain decode frame_weight c (buf @ chunk) = (fs, c1, buf1)"
    by (cases "drain decode frame_weight c (buf @ chunk)")
  obtain gs where rest: "feed decode frame_weight c1 buf1 (map snd reads) = (gs, c', buf')"
    and frames: "frames = fs @ gs"
    using Cons.prems first x by (auto split: prod.splits)
  from Cons.IH [OF rest] obtain ts where
    ts: "framed_reads c1 buf1 reads = incoming_frames (zip ts gs)" "length ts = length gs" "set ts \<subseteq> set (map fst reads)"
    by blast
  have "map (\<lambda>frame. (t, LinkFrame frame)) fs = incoming_frames (zip (replicate (length fs) t) fs)"
    by (simp add: incoming_frames_def zip_replicate1)
  with ts first show ?case
    by (intro exI [of _ "replicate (length fs) t @ ts"]) (auto simp: x frames incoming_frames_def)
qed

section \<open>A query served by the worker\<close>

text \<open>
  An operation with one exchange: the message it posts when nothing has been answered yet, and the
  operation with the worker's reply as its answer.
\<close>

definition posted :: "unit op \<Rightarrow> client \<Rightarrow> internal_message list" where
  "posted f c = drop (length (cl_sent c)) (cl_sent (snd (f (c\<lparr>cl_answers := []\<rparr>))))"

definition served ::
  "(satel_state \<Rightarrow> satel_state) \<Rightarrow> unit op \<Rightarrow> client \<Rightarrow> worker \<Rightarrow> (unit satel_result \<times> client) \<times> worker" where
  "served bg f c w =
    (case handle_message_internal bg (hd (posted f c)) w of
       (ReplyFrame r, w') \<Rightarrow> (f (c\<lparr>cl_answers := [(r, wk_now w')]\<rparr>), w')
     | (ReplyUnit r, w') \<Rightarrow> ((r, c), w'))"

definition standard_message :: "client \<Rightarrow> bytes \<Rightarrow> internal_message" where
  "standard_message c data = ExchangeStandard data
    (millis (unat (cfg_write_timeout_ms (cl_config c)))) (millis (unat (cfg_read_timeout_ms (cl_config c))))
    (cl_now c) (millis (unat (cfg_buffer_timeout_ms (cl_config c))))"

lemma posted_query_flags: "posted (query_flags cmd parse update e) c = [standard_message c cmd]"
  by (simp add: posted_def query_flags_def exchange_def send_message_def take_answer_def op_defs Let_def
      standard_message_def unwrap_or_def)

definition query_bytes :: "command \<Rightarrow> flag_category_name \<Rightarrow> bytes" where
  "query_bytes cmd k = (if category_size k = 32 then [command_to_byte cmd] else [command_to_byte cmd, 0x00])"

lemma first_query_byte [simp]: "first_byte (query_bytes cmd k) = command_to_byte cmd"
  by (simp add: query_bytes_def first_byte_def)

lemma flag_query_posted:
  "(cmd, getter, refresher, k) \<in> set flag_queries \<Longrightarrow> posted getter c = [standard_message c (query_bytes cmd k)]"
  unfolding query_bytes_def by (subst flag_query_row(1)) (assumption, rule posted_query_flags)

lemma flag_query_frame:
  assumes "(cmd, getter, refresher, k) \<in> set flag_queries"
    and "cl_answers c = [(Inr (command_to_byte cmd # data), t)]" and "getter c = (r, c')"
  shows "(cl_state c', cl_events c') =
    (case handle_auto_frame civil (cl_config c) t (command_to_byte cmd # data) (cl_state c) of
       (s', evs) \<Rightarrow> (s', cl_events c @ evs))"
proof -
  have push: "handle_auto_frame civil (cl_config c) t (command_to_byte cmd # data) (cl_state c)
      = on_ok (flag_parse (command_to_byte cmd) (cl_config c) t (command_to_byte cmd # data))
        (\<lambda>d. category_update k (cl_config c) d False (cl_state c)) (cl_state c)"
    using bspec [OF handle_auto_frame_flag [of civil "cl_config c" t "cl_state c", unfolded list_all_iff] assms(1),
        simplified case_prod_conv, THEN spec, of data]
    by (simp only:)
  from query_flags_answered(2) [OF assms(2) assms(3) [unfolded flag_query_row(1) [OF assms(1)]]]
  show ?thesis unfolding push .
qed

lemma flag_query_codes:
  "(cmd, getter, refresher, k) \<in> set flag_queries \<Longrightarrow> command_to_byte cmd \<notin> {0x0D, 0xEF, 0xEE}"
  by (auto simp: flag_queries_def)

text \<open>An exchange posted by a client, on a connected worker whose link brings the answer in time.\<close>

lemma message_answered:
  assumes "get_current_state w = Connected" and "wk_has_state_worker w"
    and "wk_stream w = Some l" and "lk_sends l = []"
    and "lk_incoming l = incoming_frames (zip ts (others @ [answer]))" and "length ts = length (others @ [answer])"
    and "\<And>f. f \<in> set others \<Longrightarrow> f \<noteq> [] \<and> \<not> is_target (first_byte data) f"
    and "answer \<noteq> []" and "is_target (first_byte data) answer"
    and "\<And>t. t \<in> set ts \<Longrightarrow> t < wk_now w + int (millis (unat (cfg_read_timeout_ms (cl_config c))))"
    and "cfg_read_timeout_ms (cl_config c) \<noteq> 0"
    and "elapsed (wk_now w) (cl_now c) \<le> millis (unat (cfg_buffer_timeout_ms (cl_config c)))"
  shows "\<exists>w'. handle_message_internal bg (standard_message c data) w = (ReplyFrame (Inr answer), w')
    \<and> wk_stream w' = Some (l\<lparr>lk_incoming := [], lk_sent := lk_sent l @ [data]\<rparr>)
    \<and> frames_of (wk_notes w') = frames_of (wk_notes w) @ others @ filter (forwarded (first_byte data)) [answer]"
proof -
  let ?rt = "millis (unat (cfg_read_timeout_ms (cl_config c)))"
  obtain ts' t where ts: "ts = ts' @ [t]" using assms(6) by (metis length_append_singleton length_Suc_conv_rev)
  then have len: "length ts' = length others" using assms(6) by simp
  have rt: "0 < ?rt" using assms(11) by (simp add: millis_def unat_gt_0)
  have incoming: "lk_incoming l = incoming_frames (zip ts' others @ [(t, answer)]) @ []"
    using assms(5) len by (simp add: ts)
  have pre: "list_all (\<lambda>(t, frame). t < wk_now w + int ?rt \<and> frame \<noteq> [] \<and> \<not> is_target (first_byte data) frame)
      (zip ts' others)"
    using assms(7,10) by (auto simp: list_all_iff ts dest: set_zip_leftD set_zip_rightD)
  have "t < wk_now w + int ?rt" using assms(10) by (simp add: ts)
  from worker_exchange_answer [OF assms(3,4,2) rt incoming pre this assms(8,9),
      of data "millis (unat (cfg_write_timeout_ms (cl_config c)))" False]
  obtain w' where run: "worker_exchange data (first_byte data)
      (millis (unat (cfg_write_timeout_ms (cl_config c)))) ?rt False w = (Inr answer, w')"
    and w': "wk_stream w' = Some (l\<lparr>lk_incoming := [], lk_sent := lk_sent l @ [data]\<rparr>)"
    "frames_of (wk_notes w') = frames_of (wk_notes w) @ filter (forwarded (first_byte data)) (others @ [answer])"
    using len by auto
  have "filter (forwarded (first_byte data)) others = others"
    using assms(7) by (auto simp: filter_id_conv forwarded_def is_target_def is_accepted_def)
  with run w' show ?thesis
    using assms(1,12) by (simp add: standard_message_def)
qed

text \<open>A query served by a connected worker, once the codec has found the frames in what arrives.\<close>

lemma query_served:
  assumes "(cmd, getter, refresher, k) \<in> set flag_queries"
    and "get_current_state w = Connected" and "wk_has_state_worker w"
    and "wk_stream w = Some l" and "lk_sends l = []" and "lk_incoming l = framed_reads codec_default [] reads"
    and "feed decode frame_weight codec_default [] (map snd reads) = (others @ [command_to_byte cmd # data], c', rest)"
    and "\<And>f. f \<in> set others \<Longrightarrow> f \<noteq> [] \<and> hd f \<noteq> 0x0D \<and> \<not> is_target (command_to_byte cmd) f"
    and "\<And>t. t \<in> fst ` set reads \<Longrightarrow> t < wk_now w + int (millis (unat (cfg_read_timeout_ms (cl_config c))))"
    and "cfg_read_timeout_ms (cl_config c) \<noteq> 0"
    and "elapsed (wk_now w) (cl_now c) \<le> millis (unat (cfg_buffer_timeout_ms (cl_config c)))"
  shows "case served bg getter c w of ((r, c'), w') \<Rightarrow>
    wk_stream w' = Some (l\<lparr>lk_incoming := [], lk_sent := lk_sent l @ [query_bytes cmd k]\<rparr>)
    \<and> frames_of (wk_notes w') = frames_of (wk_notes w) @ others
    \<and> (cl_state c', cl_events c') =
        (case handle_auto_frame civil (cl_config c) (wk_now w') (command_to_byte cmd # data) (cl_state c) of
           (s', evs) \<Rightarrow> (s', cl_events c @ evs))"
proof -
  let ?answer = "command_to_byte cmd # data"
  note code = flag_query_codes [OF assms(1)]
  from framed_reads_feed [OF assms(7)] obtain ts where
    ts: "lk_incoming l = incoming_frames (zip ts (others @ [?answer]))" "length ts = length (others @ [?answer])"
      "set ts \<subseteq> fst ` set reads"
    using assms(6) by auto
  have timely: "t < wk_now w + int (millis (unat (cfg_read_timeout_ms (cl_config c))))" if "t \<in> set ts" for t
    using that assms(9) ts(3) by blast
  obtain w' where reply: "handle_message_internal bg (standard_message c (query_bytes cmd k)) w
      = (ReplyFrame (Inr ?answer), w')"
    and w': "wk_stream w' = Some (l\<lparr>lk_incoming := [], lk_sent := lk_sent l @ [query_bytes cmd k]\<rparr>)"
      "frames_of (wk_notes w') = frames_of (wk_notes w) @ others"
    using message_answered [OF assms(2-5) ts(1,2), where data = "query_bytes cmd k" and c = c and bg = bg]
      assms(8,10,11) timely code by (auto simp: is_target_def forwarded_def)
  obtain r c' where run: "getter (c\<lparr>cl_answers := [(Inr ?answer, wk_now w')]\<rparr>) = (r, c')" by fastforce
  have "served bg getter c w = ((r, c'), w')"
    by (simp add: served_def flag_query_posted [OF assms(1)] reply run)
  with w' flag_query_frame [OF assms(1) _ run, of data "wk_now w'" civil] show ?thesis by simp
qed

section \<open>Pushed frames\<close>

text \<open>A number of push events of the worker's loop; \<open>None\<close> is a panic.\<close>

fun push_events :: "nat \<Rightarrow> worker \<Rightarrow> worker option" where
  "push_events 0 w = Some w"
| "push_events (Suc n) w = Option.bind (push_event w) (push_events n)"

lemma push_event_frame:
  assumes "wk_stream w = Some l" and "wk_has_state_worker w" and "lk_incoming l = (t, LinkFrame f) # items"
    and "t \<le> wk_now w" and "f \<noteq> []"
  shows "\<exists>w'. push_event w = Some w' \<and> wk_stream w' = Some (l\<lparr>lk_incoming := items\<rparr>) \<and> wk_has_state_worker w'
    \<and> wk_now w' = wk_now w \<and> wk_notes w' = wk_notes w @ (if is_accepted f then [] else [(wk_now w, MsgFrame f)])"
  using assms
  by (auto simp: push_event_def receive_push_internal_def Let_def millis_def max_def set_incoming_def
      update_telemetry_def notify_state_worker_def reset_missed_pings_def)

lemma push_events_frames:
  assumes "wk_stream w = Some l" and "wk_has_state_worker w" and "lk_incoming l = incoming_frames (zip ts frames)"
    and "length ts = length frames" and "\<And>t. t \<in> set ts \<Longrightarrow> t \<le> wk_now w" and "[] \<notin> set frames"
  shows "\<exists>w'. push_events (length frames) w = Some w' \<and> wk_stream w' = Some (l\<lparr>lk_incoming := []\<rparr>)
    \<and> wk_notes w' = wk_notes w @ map (\<lambda>f. (wk_now w, MsgFrame f)) (filter (\<lambda>f. \<not> is_accepted f) frames)"
  using assms
proof (induction frames arbitrary: w l ts)
  case Nil
  then show ?case by (simp add: incoming_frames_def)
next
  case (Cons f frames)
  then obtain t ts' where ts: "ts = t # ts'" by (cases ts) auto
  have "lk_incoming l = (t, LinkFrame f) # incoming_frames (zip ts' frames)"
    using Cons.prems(3) by (simp add: ts incoming_frames_def)
  from push_event_frame [OF Cons.prems(1,2) this] obtain v where
    v: "push_event w = Some v" "wk_stream v = Some (l\<lparr>lk_incoming := incoming_frames (zip ts' frames)\<rparr>)"
      "wk_has_state_worker v" "wk_now v = wk_now w"
      "wk_notes v = wk_notes w @ (if is_accepted f then [] else [(wk_now w, MsgFrame f)])"
    using Cons.prems(5,6) by (auto simp: ts)
  from Cons.IH [OF v(2,3), of ts'] obtain w' where
    "push_events (length frames) v = Some w'" "wk_stream w' = Some (l\<lparr>lk_incoming := []\<rparr>)"
    "wk_notes w' = wk_notes v @ map (\<lambda>f. (wk_now w, MsgFrame f)) (filter (\<lambda>f. \<not> is_accepted f) frames)"
    using Cons.prems(4-6) v(4) by (auto simp: ts)
  with v(1,5) show ?case by (intro exI [of _ w']) simp
qed

lemma handle_frame_messages:
  "fst (handle_messages civil cfg (map (\<lambda>f. (now, MsgFrame f)) frames) s)
    = fold (\<lambda>f s. fst (handle_auto_frame civil cfg now f s)) frames s"
  by (induction frames arbitrary: s) (simp_all add: case_prod_beta Let_def)

text \<open>
  The frame of no bytes is a valid frame for the codec, and the worker that receives it panics.
\<close>

lemma empty_frame_on_wire:
  assumes "wk_stream w = Some l" and "lk_incoming l = framed_reads codec_default [] [(wk_now w, encode [] [])]"
  shows "encode [] [] = [0xFE, 0xFE, 0x14, 0x7A, 0xFE, 0x0D] \<and> push_event w = None"
proof -
  from feed_encoded [of "[encode [] []]" "[[]]" codec_default] obtain rest where
    "feed decode frame_weight codec_default [] (map snd [(wk_now w, encode [] [])]) = ([[]], codec_default, rest)" by auto
  from framed_reads_feed [OF this] have "lk_incoming l = (wk_now w, LinkFrame []) # []"
    using assms(2) by (auto simp: incoming_frames_def length_Suc_conv)
  moreover have "encode [] [] = [0xFE, 0xFE, 0x14, 0x7A, 0xFE, 0x0D]"
    by (simp add: encode_def stuff_byte_def calculate_crc_def be_bytes16_def Let_def)
  ultimately show ?thesis
    using empty_frame_panics [OF assms(1), of "wk_now w" "[]"] by (simp add: millis_def)
qed

section \<open>Properties\<close>

text \<open>
  C4. A query from the application to the bytes on the wire and back. On a connected worker, whatever
  frames the panel sends before its answer and however its bytes are cut into reads, as long as all
  arrive within the read timeout: exactly the query's command is sent, the frames before the answer go
  to the state worker unchanged and in order, and the cache and the events of the client are exactly
  those that handling the answer as a pushed frame gives.
\<close>

theorem query_over_wire:
  assumes "(cmd, getter, refresher, k) \<in> set flag_queries"
    and "get_current_state w = Connected" and "wk_has_state_worker w"
    and "wk_stream w = Some l" and "lk_sends l = []" and "lk_incoming l = framed_reads codec_default [] reads"
    and "concat (map snd reads) = foldl (\<lambda>dst item. encode item dst) [] (others @ [command_to_byte cmd # data])"
    and "reads \<noteq> []"
    and "\<And>f. f \<in> set others \<Longrightarrow> f \<noteq> [] \<and> hd f \<noteq> 0x0D \<and> \<not> is_target (command_to_byte cmd) f"
    and "\<And>t. t \<in> fst ` set reads \<Longrightarrow> t < wk_now w + int (millis (unat (cfg_read_timeout_ms (cl_config c))))"
    and "cfg_read_timeout_ms (cl_config c) \<noteq> 0"
    and "elapsed (wk_now w) (cl_now c) \<le> millis (unat (cfg_buffer_timeout_ms (cl_config c)))"
  shows "case served bg getter c w of ((r, c'), w') \<Rightarrow>
    wk_stream w' = Some (l\<lparr>lk_incoming := [], lk_sent := lk_sent l @ [query_bytes cmd k]\<rparr>)
    \<and> frames_of (wk_notes w') = frames_of (wk_notes w) @ others
    \<and> (cl_state c', cl_events c') =
        (case handle_auto_frame civil (cl_config c) (wk_now w') (command_to_byte cmd # data) (cl_state c) of
           (s', evs) \<Rightarrow> (s', cl_events c @ evs))"
proof -
  have "f = [] \<or> hd f \<noteq> 0x0D" if "f \<in> set (others @ [command_to_byte cmd # data])" for f
    using that assms(9) flag_query_codes [OF assms(1)] by auto
  with feed_encoded [OF assms(7), of codec_default] assms(8) obtain rest where
    "feed decode frame_weight codec_default [] (map snd reads) = (others @ [command_to_byte cmd # data], codec_default, rest)"
    by auto
  from query_served [OF assms(1-6) this assms(9-12)] show ?thesis .
qed

theorem query_over_wire_witness:
  "let bytes = foldl (\<lambda>dst item. encode item dst) [] ([[0x00, 0x01]] @ [[0x13, 0x02, 0, 0, 0]]);
       reads = [(3, take 9 bytes), (5, drop 9 bytes)];
       w = update_telemetry (status_at Connected 0) ((worker_start config_default 0 [])\<lparr>
         wk_stream := Some \<lparr>lk_incoming = framed_reads codec_default [] reads, lk_sends = [], lk_sent = []\<rparr>\<rparr>);
       (rc, w') = served (\<lambda>s. s) get_partitions_alarm (client_new 0 0 config_default) w
   in frames_of (wk_notes w') = [[0x00, 0x01]]
     \<and> wk_stream w' = Some \<lparr>lk_incoming = [], lk_sends = [], lk_sent = [[0x13]]\<rparr>"
proof -
  let ?bytes = "foldl (\<lambda>dst item. encode item dst) [] ([[0x00, 0x01]] @ [[0x13, 0x02, 0, 0, 0]])"
  let ?reads = "[(3, take 9 ?bytes), (5, drop 9 ?bytes)] :: (timestamp \<times> bytes) list"
  let ?l = "\<lparr>lk_incoming = framed_reads codec_default [] ?reads, lk_sends = [], lk_sent = []\<rparr>"
  let ?w = "update_telemetry (status_at Connected 0) ((worker_start config_default 0 [])\<lparr>wk_stream := Some ?l\<rparr>)"
  let ?c = "client_new 0 0 config_default"
  have row: "(PartitionsAlarm, get_partitions_alarm, refresh_partitions_alarm, CatPartitionAlarm) \<in> set flag_queries"
    by (simp add: flag_queries_def)
  have bytes: "concat (map snd ?reads) = foldl (\<lambda>dst item. encode item dst) []
      ([[0x00, 0x01]] @ [command_to_byte PartitionsAlarm # [0x02, 0, 0, 0]])"
    by (simp del: foldl.simps)
  have w: "get_current_state ?w = Connected" "wk_has_state_worker ?w" "wk_stream ?w = Some ?l" "wk_now ?w = 0"
    "wk_notes ?w = []"
    by (simp_all add: get_current_state_def update_telemetry_def status_at_def worker_start_def)
  have cfg: "cfg_read_timeout_ms (cl_config ?c) = 2000" "cfg_buffer_timeout_ms (cl_config ?c) = 10000" "cl_now ?c = 0"
    by (simp_all add: client_new_def config_default_def)
  have others: "f \<in> set [[0x00, 0x01]] \<Longrightarrow> f \<noteq> [] \<and> hd f \<noteq> 0x0D \<and> \<not> is_target (command_to_byte PartitionsAlarm) f"
    for f :: bytes by (auto simp: is_target_def)
  have times: "t \<in> fst ` set ?reads \<Longrightarrow> t < wk_now ?w + int (millis (unat (cfg_read_timeout_ms (cl_config ?c))))" for t
    unfolding w(4) cfg by (auto simp: millis_def)
  have limits: "cfg_read_timeout_ms (cl_config ?c) \<noteq> 0"
    "elapsed (wk_now ?w) (cl_now ?c) \<le> millis (unat (cfg_buffer_timeout_ms (cl_config ?c)))"
    unfolding w(4) cfg by (simp_all add: elapsed_def)
  show ?thesis
    using query_over_wire [where civil = "\<lambda>y m d h mi s. None" and bg = "\<lambda>s. s", OF row w(1-3) _ _ bytes _ others times limits] w(5)
    by (simp add: Let_def case_prod_beta query_bytes_def frames_of_def List.map_filter_def)
qed

text \<open>
  C13. Pushed frames from the bytes on the wire to the cache. However the bytes of the frames the panel
  pushes are cut into reads, the push events of the worker deliver every one of them, in order, to the
  state worker, only the "accepted" results excepted, and the state worker applies them to the shared
  state one after the other.
\<close>

theorem push_over_wire:
  assumes "wk_stream w = Some l" and "wk_has_state_worker w" and "lk_incoming l = framed_reads codec_default [] reads"
    and "concat (map snd reads) = foldl (\<lambda>dst item. encode item dst) [] frames" and "reads \<noteq> []"
    and "\<And>f. f \<in> set frames \<Longrightarrow> f \<noteq> [] \<and> hd f \<noteq> 0x0D" and "\<And>t. t \<in> fst ` set reads \<Longrightarrow> t \<le> wk_now w"
  shows "\<exists>w'. push_events (length frames) w = Some w' \<and> wk_stream w' = Some (l\<lparr>lk_incoming := []\<rparr>)
    \<and> wk_notes w' = wk_notes w @ map (\<lambda>f. (wk_now w, MsgFrame f)) (filter (\<lambda>f. \<not> is_accepted f) frames)
    \<and> fst (handle_messages civil cfg (drop (length (wk_notes w)) (wk_notes w')) s)
        = fold (\<lambda>f s. fst (handle_auto_frame civil cfg (wk_now w) f s)) (filter (\<lambda>f. \<not> is_accepted f) frames) s"
proof -
  have "f \<in> set frames \<Longrightarrow> f = [] \<or> hd f \<noteq> 0x0D" for f using assms(6) by blast
  with feed_encoded [OF assms(4), of codec_default] assms(5) obtain rest where
    "feed decode frame_weight codec_default [] (map snd reads) = (frames, codec_default, rest)" by auto
  from framed_reads_feed [OF this] obtain ts where
    "lk_incoming l = incoming_frames (zip ts frames)" "length ts = length frames" "set ts \<subseteq> fst ` set reads"
    using assms(3) by auto
  moreover from this(3) have "t \<in> set ts \<Longrightarrow> t \<le> wk_now w" for t using assms(7) by blast
  moreover have "[] \<notin> set frames" using assms(6) by blast
  ultimately obtain w' where "push_events (length frames) w = Some w'" "wk_stream w' = Some (l\<lparr>lk_incoming := []\<rparr>)"
    "wk_notes w' = wk_notes w @ map (\<lambda>f. (wk_now w, MsgFrame f)) (filter (\<lambda>f. \<not> is_accepted f) frames)"
    using push_events_frames [OF assms(1,2)] by blast
  then show ?thesis by (simp add: handle_frame_messages)
qed

theorem push_over_wire_witness:
  "let bytes = foldl (\<lambda>dst item. encode item dst) [] [[0xEF, 0xFF], [0x13, 0x02, 0, 0, 0]];
       w = (worker_start config_default 9 [])\<lparr>wk_stream := Some \<lparr>lk_incoming =
         framed_reads codec_default [] [(3, take 4 bytes), (5, drop 4 bytes)], lk_sends = [], lk_sent = []\<rparr>\<rparr>
   in \<exists>w'. push_events 2 w = Some w' \<and> wk_notes w' = [(9, MsgFrame [0x13, 0x02, 0, 0, 0])]"
proof -
  let ?bytes = "foldl (\<lambda>dst item. encode item dst) [] [[0xEF, 0xFF], [0x13, 0x02, 0, 0, 0]]"
  let ?reads = "[(3, take 4 ?bytes), (5, drop 4 ?bytes)] :: (timestamp \<times> bytes) list"
  let ?l = "\<lparr>lk_incoming = framed_reads codec_default [] ?reads, lk_sends = [], lk_sent = []\<rparr>"
  let ?w = "(worker_start config_default 9 [])\<lparr>wk_stream := Some ?l\<rparr>"
  have bytes: "concat (map snd ?reads) = ?bytes" by (simp del: foldl.simps)
  let ?fs = "[[0xEF, 0xFF], [0x13, 0x02, 0, 0, 0]] :: bytes list"
  have frames: "f \<in> set ?fs \<Longrightarrow> f \<noteq> [] \<and> hd f \<noteq> 0x0D" for f by auto
  have times: "t \<in> fst ` set ?reads \<Longrightarrow> t \<le> wk_now ?w" for t by (auto simp: worker_start_def)
  have w: "wk_stream ?w = Some ?l" "wk_has_state_worker ?w" "wk_now ?w = 9" "wk_notes ?w = []"
    by (simp_all add: worker_start_def del: foldl.simps)
  have pushed: "filter (\<lambda>f. \<not> is_accepted f) ?fs = [[0x13, 0x02, 0, 0, 0]]" "length ?fs = 2"
    by (simp_all add: is_accepted_def get_def)
  have "lk_incoming ?l = framed_reads codec_default [] ?reads" "?reads \<noteq> []" by (simp_all only: link.simps list.distinct simp_thms)
  from push_over_wire [where civil = "\<lambda>y m d h mi s. None" and cfg = config_default and s = "satel_state_new 0 0",
      OF w(1,2) this(1) bytes this(2) frames times]
  show ?thesis unfolding Let_def pushed w(3,4) by (simp del: push_events.simps foldl.simps framed_reads.simps) blast
qed

end
