(* ===== verification/Control_Path.thy ===== *)
theory Control_Path
  imports Query_Path
begin

text \<open>
  The path of a control operation through the whole library: the call of the client arms, disarms or
  switches (\<open>src/src/client.rs\<close>), the connection worker sends the command and waits for the panel's
  result (\<open>src/src/worker.rs\<close>), the codecs of both sides find the frames in the bytes
  (\<open>src/src/codec.rs\<close>).
\<close>

section \<open>The request\<close>

definition control_bytes :: "command \<Rightarrow> nat \<Rightarrow> u16 \<Rightarrow> ustring \<Rightarrow> bytes" where
  "control_bytes cmd n ident uc = command_to_byte cmd # format_user_code uc @ ident_mask n ident"

lemma first_control_byte [simp]: "first_byte (control_bytes cmd n ident uc) = command_to_byte cmd"
  by (simp add: control_bytes_def first_byte_def)

lemma control_codes: "(cmd, n, f) \<in> set control_table \<Longrightarrow> command_to_byte cmd \<notin> {0x0D, 0xEF, 0xEE}"
  by (auto simp: control_table_def)

lemma control_operation:
  assumes "(cmd, n, f) \<in> set control_table" and "1 \<le> unat ident" "unat ident \<le> 8 * n"
    and "resolve_code (cl_config c) code = Inr uc"
  shows "f ident code c = send_control (control_bytes cmd n ident uc) c"
  using assms by (simp add: control_table_row [OF assms(1)] bind_op_def lift_op_def control_bytes_def)

lemma control_posted:
  assumes "(cmd, n, f) \<in> set control_table" and "1 \<le> unat ident" "unat ident \<le> 8 * n"
    and "resolve_code (cl_config c) code = Inr uc"
  shows "posted (f ident code) c = [standard_message c (control_bytes cmd n ident uc)]"
  using control_operation [OF assms(1-3), of "c\<lparr>cl_answers := []\<rparr>" code uc] assms(4)
  by (simp add: posted_def send_control_def exchange_def send_message_def take_answer_def op_defs Let_def
      standard_message_def unwrap_or_def)

lemma control_answered:
  assumes "(cmd, n, f) \<in> set control_table" and "1 \<le> unat ident" "unat ident \<le> 8 * n"
    and "resolve_code (cl_config c) code = Inr uc" and "f ident code (c\<lparr>cl_answers := [(Inr answer, t)]\<rparr>) = (r, c')"
  shows "r = handle_result_code answer \<and> cl_state c' = cl_state c \<and> cl_events c' = cl_events c"
proof -
  let ?c = "c\<lparr>cl_answers := [(Inr answer, t)]\<rparr>"
  have "f ident code ?c = send_control (control_bytes cmd n ident uc) ?c"
    using assms(4) by (intro control_operation [OF assms(1-3)]) simp
  with assms(5) show ?thesis by (auto simp: send_control_def exchange_answer bind_op_def lift_op_def)
qed

lemma handle_result_reading:
  "handle_result_code (0xEF # result) =
    (case result of
       [] \<Rightarrow> Inr ()
     | code # _ \<Rightarrow>
         if code \<in> {0x00, 0xFF} then Inr ()
         else Inl (if code = 0x01 then InvalidUserCode else if code = 0x02 then NoAccess
           else if code \<in> {0x11, 0x12} then CanNotArm else IntegraResultError code))"
  by (simp add: handle_result_code_def unwrap_or_def get_def split: list.splits)

section \<open>Properties\<close>

text \<open>
  C10. A control operation from the application to the bytes on the wire and back. On a connected
  worker, whatever frames the panel sends before its result and however the bytes are cut into reads, as
  long as all arrive within the read timeout: the operation succeeds when the code of that result is
  "ok" or "accepted" or is missing, and otherwise fails with the error of that code; the frames before
  the result go to the state worker unchanged and in order, followed by the result itself if it is not
  "accepted", and the cache is left to the panel's pushes. However the bytes the worker sends are
  cut on their way, the panel's codec finds in them exactly one frame: the command, the user's code and
  a mask with the bit of that partition or output and no other.
\<close>

theorem control_over_wire:
  assumes "(cmd, n, f) \<in> set control_table" and "1 \<le> unat ident" and "unat ident \<le> 8 * n"
    and "resolve_code (cl_config c) code = Inr uc"
    and "get_current_state w = Connected" and "wk_has_state_worker w"
    and "wk_stream w = Some l" and "lk_sends l = []" and "lk_incoming l = framed_reads codec_default [] reads"
    and "concat (map snd reads) = foldl (\<lambda>dst item. encode item dst) [] (others @ [0xEF # result])"
    and "reads \<noteq> []"
    and "\<And>f. f \<in> set others \<Longrightarrow> f \<noteq> [] \<and> hd f \<noteq> 0x0D \<and> \<not> is_target (command_to_byte cmd) f"
    and "\<And>t. t \<in> fst ` set reads \<Longrightarrow> t < wk_now w + int (millis (unat (cfg_read_timeout_ms (cl_config c))))"
    and "cfg_read_timeout_ms (cl_config c) \<noteq> 0"
    and "elapsed (wk_now w) (cl_now c) \<le> millis (unat (cfg_buffer_timeout_ms (cl_config c)))"
    and "concat cuts = foldl (\<lambda>dst item. encode item dst) []
      (drop (length (sent_on w)) (sent_on (snd (served bg (f ident code) c w))))" and "cuts \<noteq> []"
  shows "case served bg (f ident code) c w of ((r, c'), w') \<Rightarrow>
    r = (case result of
           [] \<Rightarrow> Inr ()
         | code # _ \<Rightarrow>
             if code \<in> {0x00, 0xFF} then Inr ()
             else Inl (if code = 0x01 then InvalidUserCode else if code = 0x02 then NoAccess
               else if code \<in> {0x11, 0x12} then CanNotArm else IntegraResultError code))
    \<and> frames_of (wk_notes w') = frames_of (wk_notes w) @ others
        @ (if is_accepted (0xEF # result) then [] else [0xEF # result])
    \<and> cl_state c' = cl_state c \<and> cl_events c' = cl_events c
    \<and> (\<exists>msk rest. feed decode frame_weight codec_default [] cuts
          = ([command_to_byte cmd # format_user_code uc @ msk], codec_default, rest)
        \<and> length msk = n \<and> (\<forall>k. mask_bit msk k \<longleftrightarrow> k + 1 = unat ident))"
proof -
  let ?answer = "0xEF # result" and ?data = "control_bytes cmd n ident uc"
  note code = control_codes [OF assms(1)]
  have "f = [] \<or> hd f \<noteq> 0x0D" if "f \<in> set (others @ [?answer])" for f using that assms(12) by auto
  with feed_encoded [OF assms(10), of codec_default] assms(11) obtain rest where
    "feed decode frame_weight codec_default [] (map snd reads) = (others @ [?answer], codec_default, rest)" by auto
  from framed_reads_feed [OF this] obtain ts where
    ts: "lk_incoming l = incoming_frames (zip ts (others @ [?answer]))" "length ts = length (others @ [?answer])"
      "set ts \<subseteq> fst ` set reads"
    using assms(9) by auto
  have timely: "t < wk_now w + int (millis (unat (cfg_read_timeout_ms (cl_config c))))" if "t \<in> set ts" for t
    using that assms(13) ts(3) by blast
  obtain w' where reply: "handle_message_internal bg (standard_message c ?data) w = (ReplyFrame (Inr ?answer), w')"
    and w': "wk_stream w' = Some (l\<lparr>lk_incoming := [], lk_sent := lk_sent l @ [?data]\<rparr>)"
      "frames_of (wk_notes w') = frames_of (wk_notes w) @ others @ (if is_accepted ?answer then [] else [?answer])"
    using message_answered [OF assms(5-8) ts(1,2), where data = ?data and c = c and bg = bg]
      assms(12,14,15) timely code by (auto simp: is_target_def forwarded_def)
  obtain r c' where run: "f ident code (c\<lparr>cl_answers := [(Inr ?answer, wk_now w')]\<rparr>) = (r, c')" by fastforce
  have served: "served bg (f ident code) c w = ((r, c'), w')"
    by (simp add: served_def control_posted [OF assms(1-4)] reply run)
  have "concat cuts = foldl (\<lambda>dst item. encode item dst) [] [?data]"
    using assms(7,16) w'(1) by (simp add: served sent_on_def)
  from feed_encoded [OF this, of codec_default] assms(17) code obtain rest' where
    "feed decode frame_weight codec_default [] cuts = ([?data], codec_default, rest')"
    by (auto simp: control_bytes_def)
  moreover have "length (ident_mask n ident) = n \<and> (\<forall>k. mask_bit (ident_mask n ident) k \<longleftrightarrow> k + 1 = unat ident)"
    by (rule ident_mask_bits [OF assms(2,3)])
  ultimately show ?thesis
    using served w'(2) control_answered [OF assms(1-4) run]
    unfolding control_bytes_def handle_result_reading by auto
qed

theorem control_over_wire_witness:
  "let reads = [(3, encode [0xEF, 0x11] (encode [0x00, 0x01] []))];
       w = update_telemetry (status_at Connected 0) ((worker_start config_default 0 [])\<lparr>
         wk_stream := Some \<lparr>lk_incoming = framed_reads codec_default [] reads, lk_sends = [], lk_sent = []\<rparr>\<rparr>);
       ((r, c'), w') = served (\<lambda>s. s) (arm_full 5 (Some (ustring_of ''1234''))) (client_new 0 0 config_default) w
   in r = Inl CanNotArm \<and> frames_of (wk_notes w') = [[0x00, 0x01], [0xEF, 0x11]]"
proof -
  define reads :: "(timestamp \<times> bytes) list" where "reads = [(3, encode [0xEF, 0x11] (encode [0x00, 0x01] []))]"
  define l where "l = \<lparr>lk_incoming = framed_reads codec_default [] reads, lk_sends = [], lk_sent = []\<rparr>"
  define w where "w = update_telemetry (status_at Connected 0) ((worker_start config_default 0 [])\<lparr>wk_stream := Some l\<rparr>)"
  define c where "c = client_new 0 0 config_default"
  let ?code = "Some (ustring_of ''1234'')"
  have row: "(ArmMode0, 4, arm_full) \<in> set control_table" by (simp add: control_table_def)
  have ident: "1 \<le> unat (5 :: u16)" "unat (5 :: u16) \<le> 8 * 4" by simp_all
  have uc: "resolve_code (cl_config c) ?code = Inr (ustring_of ''1234'')" by (simp add: resolve_code_def)
  have w: "get_current_state w = Connected" "wk_has_state_worker w" "wk_stream w = Some l" "wk_now w = 0" "wk_notes w = []"
    by (simp_all add: w_def get_current_state_def update_telemetry_def status_at_def worker_start_def)
  have l: "lk_sends l = []" "lk_incoming l = framed_reads codec_default [] reads" by (simp_all add: l_def)
  have bytes: "concat (map snd reads) = foldl (\<lambda>dst item. encode item dst) [] ([[0x00, 0x01]] @ [0xEF # [0x11]])"
    by (simp add: reads_def)
  have reads: "reads \<noteq> []" and times: "t \<in> fst ` set reads \<Longrightarrow>
      t < wk_now w + int (millis (unat (cfg_read_timeout_ms (cl_config c))))" for t
    by (auto simp: reads_def w(4) c_def client_new_def config_default_def millis_def)
  have others: "f \<in> set [[0x00, 0x01]] \<Longrightarrow> f \<noteq> [] \<and> hd f \<noteq> 0x0D \<and> \<not> is_target (command_to_byte ArmMode0) f" for f :: bytes
    by (auto simp: is_target_def)
  have limits: "cfg_read_timeout_ms (cl_config c) \<noteq> 0"
    "elapsed (wk_now w) (cl_now c) \<le> millis (unat (cfg_buffer_timeout_ms (cl_config c)))"
    by (simp_all add: w(4) c_def client_new_def config_default_def elapsed_def)
  have none: "frames_of (wk_notes w) = []" by (simp add: w(5) frames_of_def List.map_filter_def)
  have cuts: "concat [b] = b" for b :: bytes by simp
  from control_over_wire [where bg = "\<lambda>s. s", OF row ident uc w(1-3) l bytes reads others times limits cuts]
  have "case served (\<lambda>s. s) (arm_full 5 ?code) c w of ((r, c'), w') \<Rightarrow>
      r = Inl CanNotArm \<and> frames_of (wk_notes w') = [[0x00, 0x01], [0xEF, 0x11]]"
    using none by (auto simp: is_accepted_def)
  then show ?thesis by (simp add: Let_def reads_def l_def w_def c_def case_prod_beta)
qed

end
