(* ===== verification/Secure_Transport.thy ===== *)
theory Secure_Transport
  imports Encryption
begin

text \<open>
  The laws of the encrypted transport. The packet splitter of \<open>poll_read\<close> is an instance of
  \<open>chunked_decoder\<close>; on top of it stand the conservation laws of \<open>poll_read\<close> and
  \<open>poll_write\<close> (no byte is lost, duplicated or reordered, whatever the transport does) and the
  round trips of the packet helpers.
\<close>

section \<open>Keys\<close>

definition padded_key :: "bytes \<Rightarrow> bytes" where
  "padded_key key_bytes = map (\<lambda>i. if i < length key_bytes then key_bytes ! i else 0x20) [0..<12]"

lemma padded_key_length [simp]: "length (padded_key k) = 12"
  by (simp add: padded_key_def)

lemma key_loop:
  "n \<le> 12 \<Longrightarrow>
    foldl (\<lambda>key i. key[i := f i, i + 12 := f i]) (replicate 24 c) [0..<n]
      = map (\<lambda>j. if j < n then f j else if 12 \<le> j \<and> j < 12 + n then f (j - 12) else c) [0..<24]"
proof (induction n)
  case 0
  show ?case by (rule nth_equalityI) auto
next
  case (Suc n)
  then show ?case
    by (intro nth_equalityI) (auto simp: nth_list_update less_Suc_eq)
qed

text \<open>
  The derived key is the integration key cut or padded with spaces to 12 bytes, twice: it has
  24 bytes and equal halves, and two integration keys derive the same key exactly when they agree
  after that padding.
\<close>

theorem derive_aes_key_halves:
  "derive_aes_key k = padded_key k @ padded_key k
    \<and> length (derive_aes_key k) = 24
    \<and> (derive_aes_key k = derive_aes_key k' \<longleftrightarrow> padded_key k = padded_key k')"
proof -
  have eq: "derive_aes_key k = padded_key k @ padded_key k" for k
    unfolding derive_aes_key_def padded_key_def Let_def key_loop [OF order_refl]
    by (rule nth_equalityI) (auto simp: nth_append)
  then show ?thesis by simp
qed

section \<open>The packet helpers\<close>

lemma overwrite_replicate:
  "i + length xs \<le> n \<Longrightarrow>
    overwrite i xs (replicate n 0) = replicate i 0 @ xs @ replicate (n - i - length xs) 0"
  by (simp add: overwrite_def min_def)

lemma encrypt_data_eq:
  "plaintext \<noteq> [] \<Longrightarrow>
    encrypt_data aes192 key plaintext = word_of_nat (max 16 (6 + length plaintext)) #
      aes_encrypt (aes192 key) (replicate 6 0 @ plaintext @ replicate (10 - length plaintext) 0)"
  by (simp add: encrypt_data_def Let_def overwrite_replicate max_def)

lemma prefix_byte: "n < 256 \<Longrightarrow> unat (word_of_nat n :: u8) = n"
  by (simp add: unat_of_nat)

lemma decrypt_data_packet:
  assumes "block_cipher (aes192 key)" and "length data < 256" and "16 \<le> length data"
  shows "decrypt_data aes192 key (word_of_nat (length data) # aes_encrypt (aes192 key) data)
    = Inr (drop 6 data)"
  using assms by (simp add: decrypt_data_def prefix_byte sub_list_def Let_def aes_decrypt_encrypt)

text \<open>
  A packet made of a message of at most 249 bytes is read back as that message, followed by the
  zero bytes that fill a message of fewer than ten bytes up to one cipher block.
\<close>

theorem decrypt_encrypt_data:
  assumes "block_cipher (aes192 key)" and "plaintext \<noteq> []" and "length plaintext \<le> 249"
  shows "decrypt_data aes192 key (encrypt_data aes192 key plaintext)
    = Inr (plaintext @ replicate (10 - length plaintext) 0)"
proof -
  let ?data = "replicate 6 0 @ plaintext @ replicate (10 - length plaintext) 0"
  have len: "length ?data = max 16 (6 + length plaintext)" by simp
  have "decrypt_data aes192 key (word_of_nat (length ?data) # aes_encrypt (aes192 key) ?data)
      = Inr (drop 6 ?data)"
    using assms(1,3) by (intro decrypt_data_packet) simp_all
  moreover have "drop 6 ?data = plaintext @ replicate (10 - length plaintext) 0" by simp
  ultimately show ?thesis
    unfolding encrypt_data_eq [OF assms(2)] len by simp
qed

theorem decrypt_encrypt_data_witness:
  "decrypt_data (\<lambda>_. toy_cipher) [] (encrypt_data (\<lambda>_. toy_cipher) [] [1, 2, 3])
    = Inr ([1, 2, 3] @ replicate (10 - length [1, 2, 3 :: u8]) 0)"
  by (rule decrypt_encrypt_data) (simp_all add: toy_cipher_block_cipher)

text \<open>
  The length prefix is one byte and is cut to eight bits: a message of 250 to 265 bytes gets a
  prefix below 16, and the packet is refused by its own reader.
\<close>

theorem encrypt_data_length_cut:
  assumes "block_cipher (aes192 key)" and "250 \<le> length plaintext" and "length plaintext \<le> 265"
  shows "unat (hd (encrypt_data aes192 key plaintext)) = length plaintext - 250
    \<and> decrypt_data aes192 key (encrypt_data aes192 key plaintext)
        = Inl (InvalidEncryptedDataLength (length plaintext + 7))"
proof -
  have "plaintext \<noteq> []" using assms(2) by auto
  have "(6 + length plaintext) mod 256 = length plaintext - 250"
    using assms(2,3) by (simp add: mod_if)
  then have prefix: "unat (word_of_nat (6 + length plaintext) :: u8) = length plaintext - 250"
    unfolding unat_of_nat by simp
  have "max 16 (6 + length plaintext) = 6 + length plaintext" using assms(2) by simp
  then have enc: "encrypt_data aes192 key plaintext = word_of_nat (6 + length plaintext) #
      aes_encrypt (aes192 key) (replicate 6 0 @ plaintext @ replicate (10 - length plaintext) 0)"
    using encrypt_data_eq [OF \<open>plaintext \<noteq> []\<close>, of aes192 key] by metis
  have small: "length plaintext - 250 < 16" using assms(3) by linarith
  show ?thesis
    using prefix assms small by (simp add: enc decrypt_data_def Let_def)
qed

theorem encrypt_data_length_cut_witness:
  "unat (hd (encrypt_data (\<lambda>_. toy_cipher) [] (replicate 250 7))) = length (replicate 250 (7 :: u8)) - 250
    \<and> decrypt_data (\<lambda>_. toy_cipher) [] (encrypt_data (\<lambda>_. toy_cipher) [] (replicate 250 7))
        = Inl (InvalidEncryptedDataLength (length (replicate 250 (7 :: u8)) + 7))"
  by (rule encrypt_data_length_cut) (simp_all add: toy_cipher_block_cipher)

section \<open>Splitting the byte stream into packets\<close>

lemma packet_step_none:
  "packet_step e x = (None, e', y) \<Longrightarrow> packet_step e (x @ z) = packet_step e' (y @ z)"
  by (cases e; cases x) (auto simp: packet_step_def split: if_splits)

lemma packet_step_some:
  "packet_step e x = (Some p, e', y) \<Longrightarrow> packet_step e (x @ z) = (Some p, e', y @ z)"
  by (cases e) (auto simp: packet_step_def split: list.splits if_splits)

interpretation packets: chunked_decoder packet_step packet_weight "\<lambda>x. x"
  by unfold_locales
    (auto simp: canon_eq_def packet_step_none packet_step_some packet_step_weight)

lemmas packet_drain = packets.drain_unfold

abbreviation split_packets :: "nat option \<Rightarrow> bytes \<Rightarrow> bytes list \<times> nat option \<times> bytes" where
  "split_packets \<equiv> drain packet_step packet_weight"

lemma canon_eq_id: "canon_eq (\<lambda>x. x) p q \<longleftrightarrow> p = q"
  by (cases p; cases q) (auto simp: canon_eq_def)

lemma split_packets_append:
  "split_packets e x = (ps, e', y) \<Longrightarrow>
    split_packets e (x @ z) = (case split_packets e' (y @ z) of (qs, r) \<Rightarrow> (ps @ qs, r))"
  using packets.drain_append [of e x ps e' y z]
  by (auto simp: canon_eq_id split: prod.splits)

lemma split_packets_idle:
  "split_packets e x = (ps, e', y) \<Longrightarrow> split_packets e' y = ([], e', y)"
proof (induction e x arbitrary: ps rule: packets.drain_induct)
  case (drain e x)
  obtain r f z where step: "packet_step e x = (r, f, z)" by (cases "packet_step e x")
  show ?case
  proof (cases r)
    case None
    with drain.prems step have "e' = f" "y = z" by (auto simp: packet_drain [of e x])
    moreover from packet_step_none [of e x f z "[]"] step None
    have "packet_step f z = (None, f, z)" by simp
    ultimately show ?thesis by (simp add: packet_drain [of f z])
  next
    case (Some p)
    with drain.prems step obtain qs where "split_packets f z = (qs, e', y)"
      by (auto simp: packet_drain [of e x] split: prod.splits)
    with drain.IH step Some show ?thesis by blast
  qed
qed

lemma process_packets_fold:
  "process_packets s =
    (case split_packets (expected_resp_len s) (raw_read_buffer s) of
       (ps, e, raw) \<Rightarrow> (fold absorb_packet ps s)\<lparr>expected_resp_len := e, raw_read_buffer := raw\<rparr>)"
proof (induction s rule: process_packets.induct)
  case (1 s)
  have commute: "absorb_packet p (s\<lparr>expected_resp_len := e, raw_read_buffer := r\<rparr>)
      = (absorb_packet p s)\<lparr>expected_resp_len := e, raw_read_buffer := r\<rparr>" for p e r s
    by (simp add: absorb_packet_def Let_def)
  have commutes: "fold absorb_packet ps (s\<lparr>expected_resp_len := e, raw_read_buffer := r\<rparr>)
      = (fold absorb_packet ps s)\<lparr>expected_resp_len := e, raw_read_buffer := r\<rparr>" for ps e r s
    by (induction ps arbitrary: s) (simp_all add: commute)
  obtain r e raw where step: "packet_step (expected_resp_len s) (raw_read_buffer s) = (r, e, raw)"
    by (cases "packet_step (expected_resp_len s) (raw_read_buffer s)")
  show ?case
  proof (cases r)
    case None
    with step show ?thesis by (subst process_packets.simps, subst packet_drain) simp
  next
    case (Some p)
    with step 1 show ?thesis
      by (subst process_packets.simps, subst packet_drain)
        (simp add: commute commutes split: prod.splits)
  qed
qed

section \<open>Reading\<close>

text \<open>
  The plaintext that a run of raw bytes stands for, given the reader's pending length prefix: what
  follows the six header bytes of each decrypted packet.
\<close>

definition packet_text :: "aes_cipher \<Rightarrow> bytes \<Rightarrow> bytes" where
  "packet_text a packet = drop 6 (aes_decrypt a packet)"

definition plain_text :: "aes_cipher \<Rightarrow> nat option \<Rightarrow> bytes \<Rightarrow> bytes" where
  "plain_text a expected raw = concat (map (packet_text a) (fst (split_packets expected raw)))"

lemma read_buffer_absorb: "read_buffer (absorb_packet p s) = read_buffer s @ packet_text (es_cipher s) p"
  by (simp add: absorb_packet_def packet_text_def Let_def)

lemma fold_absorb:
  "read_buffer (fold absorb_packet ps s) = read_buffer s @ concat (map (packet_text (es_cipher s)) ps)"
  "es_cipher (fold absorb_packet ps s) = es_cipher s"
  by (induction ps arbitrary: s) (simp_all add: read_buffer_absorb)

text \<open>Between two reads the reader has taken every complete packet out of its raw buffer.\<close>

definition reader_idle :: "enc_stream \<Rightarrow> bool" where
  "reader_idle s =
    (split_packets (expected_resp_len s) (raw_read_buffer s)
      = ([], expected_resp_len s, raw_read_buffer s))"

lemma split_packets_Nil: "split_packets None [] = ([], None, [])"
  by (subst packet_drain) (simp add: packet_step_def)

lemma reader_idle_new: "reader_idle (enc_stream_new aes192 key)"
  by (simp add: reader_idle_def enc_stream_new_def split_packets_Nil)

lemma process_packets_laws:
  "es_cipher (process_packets s) = es_cipher s"
  "reader_idle (process_packets s)"
  "read_buffer (process_packets s)
     = read_buffer s @ plain_text (es_cipher s) (expected_resp_len s) (raw_read_buffer s)"
  "split_packets (expected_resp_len s) (raw_read_buffer s) = (ps, e, raw) \<Longrightarrow>
     expected_resp_len (process_packets s) = e \<and> raw_read_buffer (process_packets s) = raw"
  by (auto simp: process_packets_fold fold_absorb reader_idle_def plain_text_def
      split: prod.splits dest: split_packets_idle)

text \<open>What the transport handed over in a list of poll results.\<close>

fun event_bytes :: "read_event list \<Rightarrow> bytes" where
  "event_bytes [] = []"
| "event_bytes (ReadReady raw # evs) = raw @ event_bytes evs"
| "event_bytes (ev # evs) = event_bytes evs"

fun out_bytes :: "read_outcome \<Rightarrow> bytes" where
  "out_bytes (ReadOut bs) = bs"
| "out_bytes _ = []"

text \<open>
  The conservation law of a reader that consumed \<open>evs\<close> and handed out \<open>bs\<close>: out plus buffered
  is the old buffer plus the plaintext of the raw bytes.
\<close>

definition reads_as :: "enc_stream \<Rightarrow> bytes \<Rightarrow> read_event list \<Rightarrow> enc_stream \<Rightarrow> bool" where
  "reads_as s bs evs s' =
    (es_cipher s' = es_cipher s
     \<and> (\<exists>ps. split_packets (expected_resp_len s) (raw_read_buffer s @ event_bytes evs)
               = (ps, expected_resp_len s', raw_read_buffer s')
          \<and> bs @ read_buffer s' = read_buffer s @ concat (map (packet_text (es_cipher s)) ps)))"

lemma reads_as_refl: "reader_idle s \<Longrightarrow> event_bytes evs = [] \<Longrightarrow> reads_as s [] evs s"
  by (simp add: reads_as_def reader_idle_def)

lemma event_bytes_append [simp]: "event_bytes (xs @ ys) = event_bytes xs @ event_bytes ys"
  by (induction xs rule: event_bytes.induct) simp_all

lemma reads_as_trans:
  assumes "reads_as s bs evs t" and "reads_as t cs evs' u"
  shows "reads_as s (bs @ cs) (evs @ evs') u"
proof -
  obtain ps qs where
    ps: "split_packets (expected_resp_len s) (raw_read_buffer s @ event_bytes evs)
           = (ps, expected_resp_len t, raw_read_buffer t)"
      "bs @ read_buffer t = read_buffer s @ concat (map (packet_text (es_cipher s)) ps)"
      "es_cipher t = es_cipher s" and
    qs: "split_packets (expected_resp_len t) (raw_read_buffer t @ event_bytes evs')
           = (qs, expected_resp_len u, raw_read_buffer u)"
      "cs @ read_buffer u = read_buffer t @ concat (map (packet_text (es_cipher t)) qs)"
      "es_cipher u = es_cipher t"
    using assms by (auto simp: reads_as_def)
  have "split_packets (expected_resp_len s) ((raw_read_buffer s @ event_bytes evs) @ event_bytes evs')
      = (ps @ qs, expected_resp_len u, raw_read_buffer u)"
    using split_packets_append [OF ps(1)] qs(1) by simp
  moreover have "(bs @ cs) @ read_buffer u
      = read_buffer s @ concat (map (packet_text (es_cipher s)) (ps @ qs))"
  proof -
    have "(bs @ cs) @ read_buffer u = bs @ read_buffer t @ concat (map (packet_text (es_cipher t)) qs)"
      using qs(2) by simp
    also have "\<dots> = (bs @ read_buffer t) @ concat (map (packet_text (es_cipher t)) qs)" by simp
    finally show ?thesis using ps(2,3) by simp
  qed
  ultimately show ?thesis using ps(3) qs(3) by (simp add: reads_as_def)
qed

lemma reads_as_process:
  assumes "reader_idle s"
  shows "reads_as s [] [ReadReady raw]
    (process_packets (s\<lparr>raw_read_buffer := raw_read_buffer s @ raw\<rparr>))"
proof -
  let ?s = "s\<lparr>raw_read_buffer := raw_read_buffer s @ raw\<rparr>"
  obtain ps e r where split: "split_packets (expected_resp_len ?s) (raw_read_buffer ?s) = (ps, e, r)"
    by (cases "split_packets (expected_resp_len ?s) (raw_read_buffer ?s)")
  then show ?thesis
    using process_packets_laws(1,3) [of ?s] process_packets_laws(4) [OF split]
    by (simp add: reads_as_def plain_text_def)
qed

lemma yield_plain_laws:
  assumes "yield_plain remaining s = (out, s')" and "reader_idle s"
  shows "reads_as s (out_bytes out) [] s' \<and> reader_idle s'"
  using assms by (auto simp: yield_plain_def Let_def reads_as_def reader_idle_def)

lemma poll_read_laws:
  "poll_read remaining s env = (out, s', env') \<Longrightarrow> reader_idle s \<Longrightarrow>
    \<exists>evs. env = evs @ env' \<and> reads_as s (out_bytes out) evs s' \<and> reader_idle s'"
proof (induction remaining s env rule: poll_read.induct)
  case (1 remaining s env)
  show ?case
  proof (cases "read_buffer s = []")
    case False
    with "1.prems" obtain t where "yield_plain remaining s = (out, s')" "env' = env"
      by (subst (asm) poll_read.simps) (auto split: prod.splits)
    with yield_plain_laws "1.prems"(2) show ?thesis by fastforce
  next
    case empty: True
    show ?thesis
    proof (cases env)
      case Nil
      with empty "1.prems" show ?thesis
        by (subst (asm) poll_read.simps) (auto intro: reads_as_refl)
    next
      case (Cons ev rest)
      show ?thesis
      proof (cases ev)
        case (ReadReady raw)
        let ?t = "process_packets (s\<lparr>raw_read_buffer := raw_read_buffer s @ raw\<rparr>)"
        have first: "reads_as s [] [ReadReady raw] ?t" "reader_idle ?t"
          by (simp_all add: reads_as_process "1.prems"(2) process_packets_laws(2))
        consider (eof) "raw = []" | (yield) "raw \<noteq> []" "read_buffer ?t \<noteq> []"
          | (more) "raw \<noteq> []" "read_buffer ?t = []"
          by blast
        then show ?thesis
        proof cases
          case eof
          then have "out = ReadOut []" "s' = s" "env' = rest"
            using "1.prems"(1) empty Cons ReadReady by (simp_all add: poll_read.simps [of remaining s])
          moreover have "reads_as s [] [ReadReady []] s"
            using "1.prems"(2) by (rule reads_as_refl) simp
          ultimately show ?thesis using Cons ReadReady eof "1.prems"(2) by auto
        next
          case yield
          then have "yield_plain remaining ?t = (out, s')" "env' = rest"
            using "1.prems"(1) empty Cons ReadReady
            by (auto simp: poll_read.simps [of remaining s] Let_def split: prod.splits)
          with yield_plain_laws first(2) have "reads_as ?t (out_bytes out) [] s'" "reader_idle s'"
            by blast+
          with reads_as_trans [OF first(1), of "out_bytes out" "[]" s'] Cons ReadReady \<open>env' = rest\<close>
          show ?thesis by auto
        next
          case more
          then have "poll_read remaining ?t rest = (out, s', env')"
            using "1.prems"(1) empty Cons ReadReady
            by (simp add: poll_read.simps [of remaining s] Let_def)
          with "1.IH" empty Cons ReadReady more first(2) obtain evs where
            "rest = evs @ env'" "reads_as ?t (out_bytes out) evs s'" "reader_idle s'"
            by blast
          with reads_as_trans [OF first(1), of "out_bytes out" evs s'] Cons ReadReady
          show ?thesis by (intro exI [of _ "ReadReady raw # evs"]) simp
        qed
      next
        case (ReadFailed e)
        with Cons empty "1.prems" show ?thesis
          by (subst (asm) poll_read.simps) (auto intro!: exI [of _ "[ev]"] reads_as_refl)
      next
        case ReadPending
        with Cons empty "1.prems" show ?thesis
          by (subst (asm) poll_read.simps) (auto intro!: exI [of _ "[ev]"] reads_as_refl)
      qed
    qed
  qed
qed

text \<open>A run of calls of \<open>poll_read\<close>, one for each size of the caller's buffer.\<close>

primrec read_run :: "nat list \<Rightarrow> enc_stream \<Rightarrow> read_event list \<Rightarrow> bytes \<times> enc_stream \<times> read_event list" where
  "read_run [] s env = ([], s, env)"
| "read_run (remaining # rs) s env =
    (case poll_read remaining s env of (out, s', env') \<Rightarrow>
       (case read_run rs s' env' of (bs, s'', env'') \<Rightarrow> (out_bytes out @ bs, s'', env'')))"

lemma read_run_laws:
  "read_run rs s env = (bs, s', env') \<Longrightarrow> reader_idle s \<Longrightarrow>
    \<exists>evs. env = evs @ env' \<and> reads_as s bs evs s' \<and> reader_idle s'"
proof (induction rs arbitrary: s env bs)
  case Nil
  then show ?case using reads_as_refl by auto
next
  case (Cons r rs)
  obtain out t env1 where first: "poll_read r s env = (out, t, env1)"
    by (cases "poll_read r s env")
  obtain cs where rest: "read_run rs t env1 = (cs, s', env')" and bs: "bs = out_bytes out @ cs"
    using Cons.prems(1) first by (auto split: prod.splits)
  from poll_read_laws [OF first Cons.prems(2)] obtain evs where
    evs: "env = evs @ env1" "reads_as s (out_bytes out) evs t" "reader_idle t" by blast
  from Cons.IH [OF rest evs(3)] obtain evs' where
    evs': "env1 = evs' @ env'" "reads_as t cs evs' s'" "reader_idle s'" by blast
  from reads_as_trans [OF evs(2) evs'(2)] evs(1) evs'(1,3) bs show ?case by auto
qed

text \<open>
  C22. The encrypted reader loses, duplicates and reorders nothing: over any run of reads with
  caller buffers of any size, and for any way the transport delivers the raw bytes, what was handed
  out plus what is still buffered is the text of exactly the packets in the bytes received, and the
  bytes of an unfinished packet stay in the raw buffer.
\<close>

theorem poll_read_conserves:
  assumes "read_run rs s env = (bs, s', env')" and "reader_idle s"
  shows "\<exists>evs packets. env = evs @ env'
      \<and> split_packets (expected_resp_len s) (raw_read_buffer s @ event_bytes evs)
          = (packets, expected_resp_len s', raw_read_buffer s')
      \<and> bs @ read_buffer s' = read_buffer s @ concat (map (packet_text (es_cipher s)) packets)
      \<and> reader_idle s'"
  using read_run_laws [OF assms] by (auto simp: reads_as_def)

lemma packet_step_short: "length x < n \<Longrightarrow> packet_step (Some n) x = (None, Some n, x)"
  by (simp add: packet_step_def)

theorem poll_read_conserves_witness:
  "\<exists>evs packets. [ReadReady [3, 1], ReadPending] = evs @ []
      \<and> split_packets None ([] @ event_bytes evs) = (packets, Some 3, [1])
      \<and> [] @ [] = [] @ concat (map (packet_text toy_cipher) packets)
      \<and> reader_idle ((enc_stream_new (\<lambda>_. toy_cipher) [])\<lparr>expected_resp_len := Some 3, raw_read_buffer := [1]\<rparr>)"
proof -
  let ?s = "enc_stream_new (\<lambda>_. toy_cipher) []"
  let ?t = "?s\<lparr>expected_resp_len := Some 3, raw_read_buffer := [1]\<rparr>"
  have "process_packets (?s\<lparr>raw_read_buffer := [3, 1]\<rparr>) = ?t"
    by (subst process_packets.simps) (simp add: enc_stream_new_def packet_step_def)
  then have "read_run [8] ?s [ReadReady [3, 1], ReadPending] = ([], ?t, [])"
    by (simp add: poll_read.simps enc_stream_new_def)
  from poll_read_conserves [OF this reader_idle_new] show ?thesis
    by (simp add: enc_stream_new_def)
qed

section \<open>Writing\<close>

lemma flush_loop_conserves:
  "flush_loop msg queue env = (r, sent, queued, env') \<Longrightarrow>
    sent @ queued = queue \<and> (r = Flushed \<longleftrightarrow> queued = [])"
proof (induction msg queue env arbitrary: sent rule: flush_loop.induct)
  case (3 msg b bs ev env)
  show ?case
  proof (cases ev)
    case (WroteBytes n)
    show ?thesis
    proof (cases "n = 0")
      case True
      with WroteBytes "3.prems" show ?thesis by auto
    next
      case False
      with WroteBytes "3.prems" obtain sent' where
        rest: "flush_loop msg (drop n (b # bs)) env = (r, sent', queued, env')"
        and sent: "sent = take n (b # bs) @ sent'"
        by (auto split: prod.splits)
      from "3.IH" [OF WroteBytes False rest] sent show ?thesis
        by (metis append.assoc append_take_drop_id)
    qed
  qed (use "3.prems" in auto)
qed auto

text \<open>One call of \<open>poll_write\<close>, by its outcome: what is on the wire or queued afterwards.\<close>

lemma poll_write_cases:
  assumes "poll_write n1 n2 buf s env = (out, s', sent, env')"
  shows "(out = WriteOut (length buf) \<and> buf \<noteq> []
            \<and> sent @ write_buffer s' = write_buffer s @ wrap_packet s n1 n2 buf)
      \<or> (out = WriteOut 0 \<and> buf = [] \<and> sent = write_buffer s \<and> write_buffer s' = [])
      \<or> ((out = WriteWait \<or> (\<exists>e. out = WriteError e))
            \<and> sent @ write_buffer s' = write_buffer s
            \<and> rolling_counter s' = rolling_counter s)
      \<or> ((\<exists>e. out = WriteError e) \<and> buf \<noteq> []
            \<and> sent @ write_buffer s' = write_buffer s @ wrap_packet s n1 n2 buf)"
proof -
  obtain r sent1 queued env1 where first: "flush_loop write_msg (write_buffer s) env = (r, sent1, queued, env1)"
    by (cases "flush_loop write_msg (write_buffer s) env")
  obtain r2 sent2 queued2 env2 where second:
    "flush_loop write_msg (wrap_packet s n1 n2 buf) env1 = (r2, sent2, queued2, env2)"
    by (cases "flush_loop write_msg (wrap_packet s n1 n2 buf) env1")
  from flush_loop_conserves [OF first] flush_loop_conserves [OF second] assms first second
  show ?thesis
    by (cases r; cases r2) (auto simp: poll_write_def Let_def split: if_splits)
qed

lemma poll_write_cipher:
  "poll_write n1 n2 buf s env = (out, s', sent, env') \<Longrightarrow> es_cipher s' = es_cipher s"
  by (auto simp: poll_write_def Let_def split: flush_result.splits prod.splits if_splits)

text \<open>The shape of the packet that carries \<open>buf\<close>: the header bytes are six, whatever they are.\<close>

definition carries :: "aes_cipher \<Rightarrow> bytes \<Rightarrow> bytes \<Rightarrow> bool" where
  "carries a packet buf =
    (\<exists>hdr. length hdr = 6 \<and>
      packet = word_of_nat (max 16 (6 + length buf)) #
        aes_encrypt a (hdr @ buf @ replicate (10 - length buf) 0))"

lemma wrap_packet_carries: "carries (es_cipher s) (wrap_packet s n1 n2 buf) buf"
proof -
  let ?hdr = "wrap_header s n1 n2"
  have len: "length ?hdr = 6" by (simp add: wrap_header_def Let_def)
  have "overwrite 6 buf (overwrite 0 ?hdr (replicate (max 16 (6 + length buf)) 0))
      = ?hdr @ buf @ replicate (10 - length buf) 0"
    using len by (simp add: overwrite_def max_def)
  with len show ?thesis by (auto simp: carries_def wrap_packet_def Let_def)
qed

text \<open>
  A run of writes, each message given with the clock readings of its two random bytes. The run
  succeeds if every call accepts its message.
\<close>

primrec write_run ::
  "(u32 \<times> u32 \<times> bytes) list \<Rightarrow> enc_stream \<Rightarrow> write_event list \<Rightarrow> (bytes \<times> enc_stream \<times> write_event list) option"
where
  "write_run [] s env = Some ([], s, env)"
| "write_run (m # ms) s env =
    (case m of (n1, n2, buf) \<Rightarrow>
      (case poll_write n1 n2 buf s env of
         (WriteOut n, s', sent, env') \<Rightarrow>
           (case write_run ms s' env' of
              None \<Rightarrow> None
            | Some (sent', s'', env'') \<Rightarrow> Some (sent @ sent', s'', env''))
       | _ \<Rightarrow> None))"

lemma write_run_packets_lemma:
  assumes "write_run ms s env = Some (sent, s', env')"
    and "\<And>m. m \<in> set ms \<Longrightarrow> snd (snd m) \<noteq> []"
  shows "\<exists>packets. sent @ write_buffer s' = write_buffer s @ concat packets
    \<and> list_all2 (carries (es_cipher s)) packets (map (\<lambda>m. snd (snd m)) ms)"
  using assms
proof (induction ms arbitrary: s env sent)
  case Nil
  then show ?case by simp
next
  case (Cons m ms)
  obtain n1 n2 buf where m: "m = (n1, n2, buf)" by (cases m)
  have buf: "buf \<noteq> []" using Cons.prems(2) [of m] m by simp
  obtain n t sent1 env1 sent2 where
    first: "poll_write n1 n2 buf s env = (WriteOut n, t, sent1, env1)" and
    rest: "write_run ms t env1 = Some (sent2, s', env')" and
    sent: "sent = sent1 @ sent2"
    using Cons.prems(1) m by (auto split: prod.splits write_outcome.splits option.splits)
  from Cons.IH [OF rest] Cons.prems(2) obtain packets where
    packets: "sent2 @ write_buffer s' = write_buffer t @ concat packets"
      "list_all2 (carries (es_cipher t)) packets (map (\<lambda>m. snd (snd m)) ms)"
    by auto
  have "sent1 @ write_buffer t = write_buffer s @ wrap_packet s n1 n2 buf"
    using poll_write_cases [OF first] buf by auto
  then have "sent @ write_buffer s' = write_buffer s @ concat (wrap_packet s n1 n2 buf # packets)"
    using packets(1) sent by (metis append.assoc concat.simps(2))
  moreover have "list_all2 (carries (es_cipher s)) (wrap_packet s n1 n2 buf # packets)
      (map (\<lambda>m. snd (snd m)) (m # ms))"
    using packets(2) poll_write_cipher [OF first] m wrap_packet_carries by simp
  ultimately show ?case by blast
qed

text \<open>
  A run of accepted writes puts on the wire, in their order and without gap, one packet for each
  message, of which the bytes that the transport has not yet taken are still queued.
\<close>

theorem write_run_packets:
  assumes "write_run ms s env = Some (sent, s', env')"
    and "\<And>m. m \<in> set ms \<Longrightarrow> snd (snd m) \<noteq> []"
  shows "\<exists>packets. sent @ write_buffer s' = write_buffer s @ concat packets
    \<and> list_all2 (carries (es_cipher s)) packets (map (\<lambda>m. snd (snd m)) ms)"
  using assms by (rule write_run_packets_lemma)

theorem write_run_packets_witness:
  "\<exists>packets. [] @ wrap_packet (enc_stream_new (\<lambda>_. toy_cipher) []) 1 2 [7] = [] @ concat packets
    \<and> list_all2 (carries toy_cipher) packets (map (\<lambda>m. snd (snd m)) [(1 :: u32, 2 :: u32, [7])])"
proof -
  let ?s = "enc_stream_new (\<lambda>_. toy_cipher) []"
  let ?p = "wrap_packet ?s 1 2 [7]"
  let ?t = "?s\<lparr>id_s := pseudo_random_u8 2, rolling_counter := rolling_counter ?s + 1, write_buffer := ?p\<rparr>"
  have "write_run [(1, 2, [7])] ?s [WritePending] = Some ([], ?t, [])"
    by (cases ?p) (simp_all add: poll_write_def Let_def enc_stream_new_def wrap_packet_def)
  from write_run_packets [OF this] show ?thesis
    by (simp add: enc_stream_new_def)
qed

section \<open>From the writer to the reader\<close>

lemma carries_step:
  assumes "carries a packet buf" and "block_cipher a" and "length buf \<le> 249"
  obtains body where "packet_step None (packet @ rest) = (Some body, None, rest)"
    and "packet_text a body = buf @ replicate (10 - length buf) 0"
proof -
  from assms(1) obtain hdr where hdr: "length hdr = 6"
    and packet: "packet = word_of_nat (max 16 (6 + length buf)) #
      aes_encrypt a (hdr @ buf @ replicate (10 - length buf) 0)"
    by (auto simp: carries_def)
  let ?body = "aes_encrypt a (hdr @ buf @ replicate (10 - length buf) 0)"
  have len: "length ?body = max 16 (6 + length buf)"
    using assms(2) hdr by simp
  have prefix: "unat (word_of_nat (max 16 (6 + length buf)) :: u8) = max 16 (6 + length buf)"
    using assms(3) by (intro prefix_byte) simp
  have "packet_step None (packet @ rest) = (Some ?body, None, rest)"
    using len by (simp add: packet packet_step_def prefix)
  moreover have "packet_text a ?body = buf @ replicate (10 - length buf) 0"
    using assms(2) hdr by (simp add: packet_text_def aes_decrypt_encrypt)
  ultimately show ?thesis using that by blast
qed

lemma split_packets_carried:
  assumes "block_cipher a"
  shows "list_all2 (carries a) packets bufs \<Longrightarrow> (\<And>b. b \<in> set bufs \<Longrightarrow> length b \<le> 249) \<Longrightarrow>
    \<exists>bodies. split_packets None (concat packets) = (bodies, None, [])
      \<and> concat (map (packet_text a) bodies) = concat (map (\<lambda>b. b @ replicate (10 - length b) 0) bufs)"
proof (induction packets bufs rule: list_all2_induct)
  case Nil
  then show ?case by (simp add: split_packets_Nil)
next
  case (Cons p ps b bs)
  from Cons obtain bodies where
    bodies: "split_packets None (concat ps) = (bodies, None, [])"
      "concat (map (packet_text a) bodies) = concat (map (\<lambda>b. b @ replicate (10 - length b) 0) bs)"
    by auto
  obtain body where
    body: "packet_step None (p @ concat ps) = (Some body, None, concat ps)"
      "packet_text a body = b @ replicate (10 - length b) 0"
    using carries_step [OF Cons.hyps(1) assms, of "concat ps"] Cons.prems by auto
  have "split_packets None (concat (p # ps)) = (body # bodies, None, [])"
    using bodies(1) body(1) by (simp add: packet_drain [of None "p @ concat ps"])
  with bodies(2) body(2) show ?case by simp
qed

end
