(* ===== verification/Secure_Link.thy ===== *)
theory Secure_Link
  imports Query_Path Secure_Transport
begin

text \<open>
  A query over the encrypted transport: the frames of both directions cross the stream of
  \<open>src/src/encryption.rs\<close> between the codec (\<open>src/src/codec.rs\<close>) and the transport, the worker
  (\<open>src/src/worker.rs\<close>) serves the call of the client (\<open>src/src/client.rs\<close>).
\<close>

section \<open>A transfer over the encrypted stream\<close>

text \<open>
  One end writes the messages \<open>ms\<close>, the other reads with buffers of the sizes \<open>rs\<close>; \<open>wenv\<close> and \<open>renv\<close> are
  what the transport does. The plaintext is defined if every byte written was taken by the transport and
  every byte taken was read.
\<close>

definition secure_transfer ::
  "(bytes \<Rightarrow> aes_cipher) \<Rightarrow> bytes \<Rightarrow> (u32 \<times> u32 \<times> bytes) list \<Rightarrow> write_event list \<Rightarrow> read_event list \<Rightarrow> nat list
    \<Rightarrow> bytes option" where
  "secure_transfer aes192 key ms wenv renv rs =
    (case write_run ms (enc_stream_new aes192 key) wenv of
       None \<Rightarrow> None
     | Some (sent, w, _) \<Rightarrow>
         if write_buffer w \<noteq> [] \<or> event_bytes renv \<noteq> sent then None
         else (case read_run rs (enc_stream_new aes192 key) renv of
           (plain, r, env) \<Rightarrow> if env = [] \<and> read_buffer r = [] then Some plain else None))"

text \<open>The messages of a sequence of frames: each frame is encoded and written at once.\<close>

definition messages_of :: "bytes list \<Rightarrow> (u32 \<times> u32 \<times> bytes) list \<Rightarrow> bool" where
  "messages_of frames ms = (map (\<lambda>m. snd (snd m)) ms = map (\<lambda>f. encode f []) frames)"

lemma encode_nonempty: "encode f [] \<noteq> []"
  by (simp add: encode_eq wire_frame_def)

lemma secure_transfer_feed:
  assumes "block_cipher (aes192 key)"
    and "\<And>f. f \<in> set frames \<Longrightarrow> (f = [] \<or> hd f \<noteq> 0x0D) \<and> length (encode f []) \<le> 249"
    and "messages_of frames ms"
    and "secure_transfer aes192 key ms wenv renv rs = Some (concat cuts)" and "cuts \<noteq> []"
  shows "\<exists>rest. feed decode frame_weight c [] cuts = (frames, c, rest) \<and> trim_junk rest = []"
proof -
  let ?s = "enc_stream_new aes192 key"
  obtain sent w wenv' r where run: "write_run ms ?s wenv = Some (sent, w, wenv')" "write_buffer w = []"
    "event_bytes renv = sent" "read_run rs ?s renv = (concat cuts, r, [])" "read_buffer r = []"
    using assms(4) by (auto simp: secure_transfer_def split: option.splits prod.splits if_splits)
  have new: "es_cipher ?s = aes192 key" "write_buffer ?s = []" "read_buffer ?s = []"
    "expected_resp_len ?s = None" "raw_read_buffer ?s = []"
    by (simp_all add: enc_stream_new_def)
  have "snd (snd m) \<noteq> []" if "m \<in> set ms" for m
  proof -
    from that have "snd (snd m) \<in> set (map (\<lambda>f. encode f []) frames)"
      using assms(3) unfolding messages_of_def by (metis (mono_tags, lifting) image_eqI list.set_map)
    then obtain f where "snd (snd m) = encode f []" by auto
    then show ?thesis by (simp add: encode_nonempty)
  qed
  from write_run_packets_lemma [OF run(1) this] obtain packets where
    sent: "sent = concat packets" and
    carried: "list_all2 (carries (aes192 key)) packets (map (\<lambda>f. encode f []) frames)"
    using assms(3) run(2) new by (auto simp: messages_of_def)
  obtain bodies where
    split: "split_packets None sent = (bodies, None, [])" and
    plain: "concat (map (packet_text (aes192 key)) bodies)
      = concat (map (\<lambda>f. encode f [] @ replicate (10 - length (encode f [])) 0) frames)"
    using split_packets_carried [OF assms(1) carried] assms(2) sent by (auto simp: o_def)
  have "concat cuts = concat (map (\<lambda>f. wire_frame f @ replicate (10 - length (wire_frame f)) 0) frames)"
    using read_run_laws [OF run(4) reader_idle_new] run(3,5) new split plain
    by (auto simp: reads_as_def encode_eq)
  with drain_padded_frames [of frames c 0] assms(2) obtain rest where
    "drain decode frame_weight c ([] @ concat cuts) = (frames, c, rest)" "trim_junk rest = []"
    by fastforce
  with codec.feed_eq_drain [OF assms(5), of c "[]"] show ?thesis
    by (cases "feed decode frame_weight c [] cuts") (auto simp: canon_eq_def)
qed

lemma stuff_length_le: "length (stuff xs) \<le> 2 * length xs"
  by (induction xs rule: stuff.induct) auto

lemma encode_length: "length (encode f []) \<le> 2 * length f + 8"
  using stuff_length_le [of "f @ be_bytes16 (calculate_crc f)"]
  by (simp add: encode_eq wire_frame_def be_bytes16_def)

text \<open>A message that fits in one packet, over a transport that takes and yields it whole.\<close>

lemma one_packet_transfer:
  assumes "block_cipher (aes192 key)" and "buf \<noteq> []" and "length buf \<le> 249" and "max 10 (length buf) \<le> n"
    and "p = wrap_packet (enc_stream_new aes192 key) n1 n2 buf"
  shows "secure_transfer aes192 key [(n1, n2, buf)] [WroteBytes (length p)] [ReadReady p] [n]
    = Some (buf @ replicate (10 - length buf) 0)"
proof -
  let ?s = "enc_stream_new aes192 key"
  have new: "es_cipher ?s = aes192 key" "write_buffer ?s = []" "read_buffer ?s = []"
    "expected_resp_len ?s = None" "raw_read_buffer ?s = []"
    by (simp_all add: enc_stream_new_def)
  have carried: "carries (aes192 key) p buf" using wrap_packet_carries [of ?s n1 n2 buf] new assms(5) by simp
  from carries_step [OF carried assms(1,3), of "[]"] obtain body where
    step: "packet_step None p = (Some body, None, [])"
    and body: "packet_text (aes192 key) body = buf @ replicate (10 - length buf) 0" by auto
  from carried obtain b bs where p: "p = b # bs" by (auto simp: carries_def)
  have split: "split_packets None p = ([body], None, [])"
    using step by (subst packet_drain) (simp add: split_packets_Nil)
  let ?t = "process_packets (?s\<lparr>raw_read_buffer := p\<rparr>)"
  have t: "read_buffer ?t = buf @ replicate (10 - length buf) 0"
    using split body new by (simp add: process_packets_laws plain_text_def)
  have "flush_loop write_msg p [WroteBytes (length p)] = (Flushed, p, [], [])" by (simp add: p)
  then have "poll_write n1 n2 buf ?s [WroteBytes (length p)]
      = (WriteOut (length buf), ?s\<lparr>id_s := pseudo_random_u8 n2, rolling_counter := rolling_counter ?s + 1,
          write_buffer := []\<rparr>, p, [])"
    using assms(2) new by (simp add: poll_write_def Let_def assms(5) [symmetric])
  moreover have fits: "length buf + (10 - length buf) \<le> n" using assms(4) by linarith
  moreover have "read_run [n] ?s [ReadReady p] = (buf @ replicate (10 - length buf) 0, ?t\<lparr>read_buffer := []\<rparr>, [])"
    using assms(2) t p new fits by (simp add: poll_read.simps [of n ?s] Let_def yield_plain_def min_absorb1)
  ultimately show ?thesis by (simp add: secure_transfer_def)
qed

section \<open>Properties\<close>

text \<open>
  C2. A query over an encrypted link, in both directions. The panel writes its frames, the answer last,
  into the encrypted stream, and the worker's codec reads what the stream hands over, however the
  transport splits the packets and however the plaintext is cut into reads: the call ends as it does on
  an open line, with the cache and the events those of the pushed answer and every other frame passed on
  in order. And what the worker sent, written into the stream by its side and read by the panel's, is
  for the panel's codec exactly the query.
\<close>

theorem query_over_secure_link:
  assumes "(cmd, getter, refresher, k) \<in> set flag_queries" and "block_cipher (aes192 key)"
    and "get_current_state w = Connected" and "wk_has_state_worker w" and "wk_stream w = Some l" and "lk_sends l = []"
    and "lk_incoming l = framed_reads codec_default [] reads" and "reads \<noteq> []"
    and "messages_of (others @ [command_to_byte cmd # data]) ms"
    and "secure_transfer aes192 key ms wenv renv rs = Some (concat (map snd reads))"
    and "\<And>f. f \<in> set others \<Longrightarrow> f \<noteq> [] \<and> hd f \<noteq> 0x0D \<and> \<not> is_target (command_to_byte cmd) f"
    and "\<And>f. f \<in> set (others @ [command_to_byte cmd # data]) \<Longrightarrow> length (encode f []) \<le> 249"
    and "\<And>t. t \<in> fst ` set reads \<Longrightarrow> t < wk_now w + int (millis (unat (cfg_read_timeout_ms (cl_config c))))"
    and "cfg_read_timeout_ms (cl_config c) \<noteq> 0"
    and "elapsed (wk_now w) (cl_now c) \<le> millis (unat (cfg_buffer_timeout_ms (cl_config c)))"
    and "messages_of (drop (length (lk_sent l)) (sent_on (snd (served bg getter c w)))) qs"
    and "secure_transfer aes192 key qs qwenv qrenv qrs = Some (concat cuts)" and "cuts \<noteq> []"
  shows "case served bg getter c w of ((r, c'), w') \<Rightarrow>
    frames_of (wk_notes w') = frames_of (wk_notes w) @ others
    \<and> (cl_state c', cl_events c') =
        (case handle_auto_frame civil (cl_config c) (wk_now w') (command_to_byte cmd # data) (cl_state c) of
           (s', evs) \<Rightarrow> (s', cl_events c @ evs))
    \<and> (\<exists>rest. feed decode frame_weight codec_default [] cuts = ([query_bytes cmd k], codec_default, rest))"
proof -
  have "(f = [] \<or> hd f \<noteq> 0x0D) \<and> length (encode f []) \<le> 249" if "f \<in> set (others @ [command_to_byte cmd # data])" for f
    using that assms(11,12) flag_query_codes [OF assms(1)] by fastforce
  from secure_transfer_feed [OF assms(2) this assms(9,10), where c = codec_default] assms(8) obtain rest where
    "feed decode frame_weight codec_default [] (map snd reads) = (others @ [command_to_byte cmd # data], codec_default, rest)"
    by auto
  from query_served [where bg = bg and civil = civil, OF assms(1,3-7) this assms(11,13-15)]
  have answered: "case served bg getter c w of ((r, c'), w') \<Rightarrow>
    wk_stream w' = Some (l\<lparr>lk_incoming := [], lk_sent := lk_sent l @ [query_bytes cmd k]\<rparr>)
    \<and> frames_of (wk_notes w') = frames_of (wk_notes w) @ others
    \<and> (cl_state c', cl_events c') =
        (case handle_auto_frame civil (cl_config c) (wk_now w') (command_to_byte cmd # data) (cl_state c) of
           (s', evs) \<Rightarrow> (s', cl_events c @ evs))" .
  then have "sent_on (snd (served bg getter c w)) = lk_sent l @ [query_bytes cmd k]"
    by (auto simp: sent_on_def)
  with assms(16) have "messages_of [query_bytes cmd k] qs" by simp
  moreover have "(f = [] \<or> hd f \<noteq> 0x0D) \<and> length (encode f []) \<le> 249" if "f \<in> set [query_bytes cmd k]" for f
    using that flag_query_codes [OF assms(1)] encode_length [of "query_bytes cmd k"] by (auto simp: query_bytes_def)
  ultimately obtain rest' where "feed decode frame_weight codec_default [] cuts = ([query_bytes cmd k], codec_default, rest')"
    using secure_transfer_feed [where ?aes192.0 = aes192 and frames = "[query_bytes cmd k]" and c = codec_default,
        OF assms(2) _ _ assms(17,18)] by blast
  with answered show ?thesis by auto
qed

theorem query_over_secure_link_witness:
  "let padded = (\<lambda>buf. buf @ replicate (10 - length buf) 0);
       reads = [(3, padded (encode [0x13, 0x02, 0, 0, 0] []))];
       w = update_telemetry (status_at Connected 0) ((worker_start config_default 0 [])\<lparr>
         wk_stream := Some \<lparr>lk_incoming = framed_reads codec_default [] reads, lk_sends = [], lk_sent = []\<rparr>\<rparr>);
       (rc, w') = served (\<lambda>s. s) get_partitions_alarm (client_new 0 0 config_default) w
   in frames_of (wk_notes w') = []
     \<and> (\<exists>rest. feed decode frame_weight codec_default [] [padded (encode [0x13] [])] = ([[0x13]], codec_default, rest))"
proof -
  define padded :: "bytes \<Rightarrow> bytes" where "padded buf = buf @ replicate (10 - length buf) 0" for buf
  define reads :: "(timestamp \<times> bytes) list" where "reads = [(3, padded (encode [0x13, 0x02, 0, 0, 0] []))]"
  define l where "l = \<lparr>lk_incoming = framed_reads codec_default [] reads, lk_sends = [], lk_sent = []\<rparr>"
  define w where "w = update_telemetry (status_at Connected 0) ((worker_start config_default 0 [])\<lparr>wk_stream := Some l\<rparr>)"
  define c where "c = client_new 0 0 config_default"
  define civil :: calendar where "civil = (\<lambda>y m d h mi s. None)"
  have row: "(PartitionsAlarm, get_partitions_alarm, refresh_partitions_alarm, CatPartitionAlarm) \<in> set flag_queries"
    by (simp add: flag_queries_def)
  have cipher: "block_cipher ((\<lambda>_. toy_cipher) [])" by (rule toy_cipher_block_cipher)
  have code: "command_to_byte PartitionsAlarm = 0x13" by simp
  let ?answer = "command_to_byte PartitionsAlarm # [0x02, 0, 0, 0]"
  have transfer: "\<exists>renv wenv. secure_transfer (\<lambda>_. toy_cipher) [] [(1, 2, encode f [])] wenv renv [50] = Some (concat [padded (encode f [])])"
    if "length f \<le> 5" for f
    using one_packet_transfer [where ?aes192.0 = "\<lambda>_. toy_cipher" and key = "[]", OF cipher encode_nonempty [of f] _ _ refl, of 50 1 2]
      encode_length [of f] that by (auto simp: padded_def)
  obtain renv wenv where down: "secure_transfer (\<lambda>_. toy_cipher) [] [(1, 2, encode ?answer [])] wenv renv [50]
      = Some (concat (map snd reads))"
    using transfer [of ?answer] by (auto simp: reads_def)
  obtain qrenv qwenv where up: "secure_transfer (\<lambda>_. toy_cipher) [] [(1, 2, encode [0x13] [])] qwenv qrenv [50]
      = Some (concat [padded (encode [0x13] [])])"
    using transfer [of "[0x13]"] by auto
  have w: "get_current_state w = Connected" "wk_has_state_worker w" "wk_stream w = Some l" "wk_now w = 0" "wk_notes w = []"
    by (simp_all add: w_def get_current_state_def update_telemetry_def status_at_def worker_start_def)
  have l: "lk_sends l = []" "lk_incoming l = framed_reads codec_default [] reads" "lk_sent l = []" by (simp_all add: l_def)
  have reads: "reads \<noteq> []" and times: "t \<in> fst ` set reads \<Longrightarrow>
      t < wk_now w + int (millis (unat (cfg_read_timeout_ms (cl_config c))))" for t
    by (auto simp: reads_def w(4) c_def client_new_def config_default_def millis_def)
  have limits: "cfg_read_timeout_ms (cl_config c) \<noteq> 0"
    "elapsed (wk_now w) (cl_now c) \<le> millis (unat (cfg_buffer_timeout_ms (cl_config c)))"
    by (simp_all add: w(4) c_def client_new_def config_default_def elapsed_def)
  have others: "f \<in> set [] \<Longrightarrow> f \<noteq> [] \<and> hd f \<noteq> 0x0D \<and> \<not> is_target (command_to_byte PartitionsAlarm) f" for f :: bytes
    by simp
  have len: "f \<in> set ([] @ [?answer]) \<Longrightarrow> length (encode f []) \<le> 249" for f :: bytes
    using encode_length [of f] by auto
  have ms: "messages_of ([] @ [?answer]) [(1, 2, encode ?answer [])]" by (simp add: messages_of_def)
  have sent: "sent_on (snd (served (\<lambda>s. s) get_partitions_alarm c w)) = [[0x13]]"
  proof -
    have "(f = [] \<or> hd f \<noteq> 0x0D) \<and> length (encode f []) \<le> 249" if "f \<in> set ([] @ [?answer])" for f
      using len [OF that] that by auto
    from secure_transfer_feed [where ?aes192.0 = "\<lambda>_. toy_cipher" and c = codec_default, OF cipher this ms down] reads
    obtain rest where "feed decode frame_weight codec_default [] (map snd reads) = ([] @ [?answer], codec_default, rest)"
      by auto
    from query_served [where bg = "\<lambda>s. s" and civil = civil, OF row w(1-3) l(1,2) this others times limits]
    show ?thesis using l(3) by (auto simp: sent_on_def query_bytes_def)
  qed
  then have qs: "messages_of (drop (length (lk_sent l)) (sent_on (snd (served (\<lambda>s. s) get_partitions_alarm c w))))
      [(1, 2, encode [0x13] [])]"
    by (simp add: messages_of_def l(3))
  from query_over_secure_link [where ?aes192.0 = "\<lambda>_. toy_cipher" and bg = "\<lambda>s. s" and civil = civil,
      OF row cipher w(1-3) l(1,2) reads ms down others len times limits qs up]
  have "case served (\<lambda>s. s) get_partitions_alarm c w of ((r, c'), w') \<Rightarrow> frames_of (wk_notes w') = []
     \<and> (\<exists>rest. feed decode frame_weight codec_default [] [padded (encode [0x13] [])] = ([[0x13]], codec_default, rest))"
    using w(5) by (auto simp: query_bytes_def frames_of_def List.map_filter_def)
  then show ?thesis
    by (simp add: Let_def padded_def reads_def l_def w_def c_def case_prod_beta)
qed

end
