(* ===== verification/Spec2Isabelle.thy ===== *)
theory Spec2Isabelle
  imports Byte_Counters Recovery Sync_Bounds Subscriber Control_Path Secure_Link
begin

text \<open>
  A verification development for the \<open>satel_integra\<close> crate, an asynchronous client for the Integra
  alarm panels by Satel (\<open>src/src/\<close>). The panel is reached over a serial line or over TCP, optionally
  encrypted, through an ETHM or INT-RS module.

  The program. \<open>client.rs\<close> is the handle an application holds; its operations send commands to the
  connection worker (\<open>worker.rs\<close>), which owns the link, performs the handshake, matches answers to
  commands, keeps the connection alive and reconnects. Frames that answer no command go to the
  requester (\<open>auto_requester.rs\<close>), which applies them to the cached state (\<open>state.rs\<close>) with the update
  methods of \<open>client_internal.rs\<close> and broadcasts events (\<open>event.rs\<close>); the answers to queries go through
  the same methods. The polling worker (\<open>polling_worker.rs\<close>) queries the temperature sensors. Below
  the worker are the byte counters (\<open>counting_stream.rs\<close>), the frame codec (\<open>codec.rs\<close>) and the
  encrypted transport (\<open>encryption.rs\<close>); beside them the parsers of frames (\<open>parsers/\<close>) and the
  catalogues of zone reactions, output functions, partition types and troubles.

  The theories, from the bottom up.
  \<^item> \<open>Prelude\<close>: machine integers, byte tests, durations, results, lists; \<open>Rust_Text\<close>: UTF-8 and \<open>trim\<close>.
  \<^item> \<open>Framing\<close>: the locale of a decoder that consumes its buffer step by step, and what it promises
    for every cut of the input into reads. \<open>Codec\<close> (\<open>codec.rs\<close>) interprets it for the frame codec,
    \<open>Secure_Transport\<close> for the packets of the encrypted stream.
  \<^item> \<open>Command\<close> (\<open>command.rs\<close>, \<open>error.rs\<close>), \<open>Config\<close> (\<open>config.rs\<close>), \<open>Event\<close> (\<open>event.rs\<close>).
  \<^item> \<open>Encryption\<close>, \<open>Secure_Transport\<close> (\<open>encryption.rs\<close>): the cipher mode, the packets, the stream wrapper
    with partial reads and writes, and their laws.
  \<^item> \<open>Zone_Catalog\<close>, \<open>Output_Catalog\<close>, \<open>Partition_Catalog\<close>, \<open>Trouble_Types\<close>: the catalogues.
  \<^item> \<open>State\<close> (\<open>state.rs\<close>): the cached state as records with the fields of the structs, the telemetry
    and its statistics.
  \<^item> \<open>Bit_Parsers\<close>, \<open>Trouble_Frames\<close>, \<open>System_Parser\<close>, \<open>Names_Parser\<close>: the parsers.
  \<^item> \<open>Cache\<close> (\<open>client_internal.rs\<close>): the update methods; the locale \<open>flag_category\<close> is the contract of one
    kind of flag, interpreted for all seventeen. \<open>Auto_Requester\<close> (\<open>auto_requester.rs\<close>).
  \<^item> \<open>Push_Mask\<close>: the mask of command 0x7F (\<open>worker.rs\<close>) against what the requester handles.
  \<^item> \<open>Client_Core\<close>, \<open>Client_Queries\<close>, \<open>Client_Names\<close>, \<open>Temperature\<close>, \<open>Client_Control\<close> (\<open>client.rs\<close>): an
    operation is a function from the client to a result and the client; the answers of the worker, with
    their times, are a script in the client, and the messages and events are logs. The locale
    \<open>sync_query\<close> in \<open>Client_Names\<close> is the contract of the synchronisations, interpreted three times.
  \<^item> \<open>Worker\<close> (\<open>worker.rs\<close>): the worker as a record, one function per method. \<open>Worker_Status\<close>: the loop as
    the step relation \<open>worker_step\<close>, in which the other tasks may change the shared state, its
    invariant, and the abstract machine \<open>next_states\<close> it refines. \<open>Worker_Laws\<close>: what its operations
    promise. \<open>Polling\<close> (\<open>polling_worker.rs\<close>), \<open>Byte_Counters\<close> (\<open>counting_stream.rs\<close>).
    \<open>Recovery\<close>: the automatic reconnection, tick by tick, up to the attempt at the tick that the
    backoff fixes, and what the panel has to do when that attempt is made.
  \<^item> \<open>Client_Laws\<close>: all operations of the client as \<open>client_operation\<close>, and the locale \<open>client_relation\<close>: a
    relation between clients that holds across each elementary action (using the queues and settings,
    storing without touching a flag, updating a category, updating the troubles) holds across every
    operation; the rules are collected in \<open>kept\<close>. \<open>Shared_State\<close> interprets it with the invariant of a
    client and the status of the connection, \<open>Subscriber\<close> with what a subscriber of the events knows.
    \<open>Sync_Bounds\<close>: the locale \<open>paced_query\<close>, what one query of a synchronisation may ask and how long it
    may take, interpreted for zones, outputs and partitions.
  \<^item> \<open>Whole_System\<close>: the life of a client (\<open>client_step\<close>) and the worker beside the other tasks
    (\<open>system_step\<close>). \<open>Subscriber\<close>: the library beside a subscriber (\<open>library_step\<close>). \<open>Query_Path\<close>: a query
    from the client through the worker and the codec and back; \<open>Control_Path\<close>: the same of a control
    operation; \<open>Secure_Link\<close>: a query over the encrypted stream, in both directions.

  What the lemmas show. Bytes: whatever the transport does, the frames written are the frames
  delivered (\<open>secure_channel_delivers\<close>, \<open>decode_stream\<close>, \<open>poll_read_conserves\<close>), up to the whole path
  of a query or a control operation (\<open>query_over_wire\<close>, \<open>query_over_secure_link\<close>,
  \<open>control_over_wire\<close>). Cache: a subscriber that applies the events knows the cache, whatever parts of
  the library run (\<open>subscriber_follows_library\<close>), pushed frames and answers agree
  (\<open>query_agrees_with_push\<close>). Connection: the reachable states satisfy the invariant and refine the
  abstract machine, an exchange finds its answer and ends in time, a connection is negotiated as
  configured, and a lost one comes back (\<open>link_recovers\<close>). Requests: what each operation sends, when it
  sends nothing, what a polling cycle asks and in which order (\<open>polling_cycle\<close>), and how much a
  synchronisation asks at most. Parsers and catalogues: round trips,
  bounds and agreement of the duplicated tables.

  Time and termination. Instants are integers, durations natural numbers, in nanoseconds; the clock
  moves with the script. The loops are structural recursions over the frames that arrive, the bytes of
  a buffer or the elements of a range, so all functions are total and there is no fuel; the decoder
  and the encrypted reader recurse with a measure on the bytes left. The atomic counters and the
  counters of errors wrap at their width, as in a release build.

  Parameters. \<open>aes192\<close>, a block cipher for a key (the crate \<open>aes\<close>), with the hypothesis that it is a
  permutation of blocks; \<open>cp1250\<close>, the code page decoder (\<open>encoding_rs\<close>); \<open>civil\<close>, the local calendar
  and \<open>format_time\<close>, the formatting of a time (\<open>chrono\<close>); \<open>bg\<close>, what other tasks do to the shared state
  at the pauses of the worker and of the polling worker. The transports, the channels and the timer are
  \<open>tokio\<close>'s: the scripts say what they yield.

  Not modelled: \<open>lib.rs\<close> (logging), the tests and the examples; the interleaving of tasks inside one
  operation of the worker, other than at its pauses; poisoned locks, which need a panic while a lock is
  held; the back pressure of full channels. In \<open>system_step\<close> a client operation changes the shared state in
  one step, though its exchanges take time; \<open>Query_Path\<close>, \<open>Control_Path\<close> and \<open>Secure_Link\<close> follow one
  exchange through the worker. A raw read of the encrypted stream may yield any number of bytes, where
  the code reads at most 512 at once; \<open>write_run\<close> and \<open>read_run\<close> are runs in which every write is accepted.
\<close>

text \<open>
  C3. End to end over the encrypted transport: the frames a sender encodes and writes (each in one
  write, none starting with \<open>0x0D\<close>, none longer than 249 bytes on the wire) are exactly the frames
  the receiver's codec delivers, in order, for every way the transport splits the writes, the raw
  reads and the plaintext reads.
\<close>

theorem secure_channel_delivers:
  assumes "block_cipher (aes192 key)"
    and "\<And>f. f \<in> set items \<Longrightarrow> (f = [] \<or> hd f \<noteq> 0x0D) \<and> length (encode f []) \<le> 249"
    and "map (\<lambda>m. snd (snd m)) ms = map (\<lambda>f. encode f []) items"
    and "write_run ms (enc_stream_new aes192 key) wenv = Some (sent, w, wenv')" and "write_buffer w = []"
    and "event_bytes renv = sent"
    and "read_run rs (enc_stream_new aes192 key) renv = (plain, r, [])" and "read_buffer r = []"
    and "concat cuts = plain" and "cuts \<noteq> []"
  shows "\<exists>rest. feed decode frame_weight c [] cuts = (items, c, rest) \<and> trim_junk rest = []"
proof -
  have "secure_transfer aes192 key ms wenv renv rs = Some (concat cuts)"
    using assms(4-9) by (simp add: secure_transfer_def)
  from secure_transfer_feed [OF assms(1,2) _ this assms(10)] assms(3) show ?thesis
    by (simp add: messages_of_def)
qed

theorem secure_channel_delivers_witness:
  "\<exists>rest. feed decode frame_weight codec_default [] [encode [0x00] [] @ [0], [0, 0]]
      = ([[0x00]], codec_default, rest) \<and> trim_junk rest = []"
proof -
  let ?s = "enc_stream_new (\<lambda>_. toy_cipher) []"
  let ?buf = "encode [0x00] []"
  let ?p = "wrap_packet ?s 1 2 ?buf"
  let ?w = "?s\<lparr>id_s := pseudo_random_u8 2, rolling_counter := rolling_counter ?s + 1\<rparr>"
  have buf: "?buf = [0xFE, 0xFE, 0x00, 0xD7, 0xE2, 0xFE, 0x0D]"
    by (simp add: encode_def stuff_byte_def calculate_crc_def crc_step_def be_bytes16_def Let_def)
  obtain body where step: "packet_step None (?p @ []) = (Some body, None, [])"
    and body: "packet_text toy_cipher body = ?buf @ replicate (10 - length ?buf) 0"
  proof -
    have "carries toy_cipher ?p ?buf"
      using wrap_packet_carries [of ?s] by (simp add: enc_stream_new_def)
    then show ?thesis
      using carries_step [of toy_cipher ?p ?buf "[]"] that toy_cipher_block_cipher
      by (auto simp: buf)
  qed
  have split: "split_packets None ?p = ([body], None, [])"
    using step by (subst packet_drain) (simp add: split_packets_Nil)
  have len: "length ?p = 17"
    by (simp add: wrap_packet_def Let_def enc_stream_new_def toy_cipher_block_cipher overwrite_def
        wrap_header_def buf)
  let ?t = "process_packets (?s\<lparr>raw_read_buffer := ?p\<rparr>)"
  have text_t: "read_buffer ?t = ?buf @ [0, 0, 0]"
    using split body
    by (simp add: process_packets_laws plain_text_def enc_stream_new_def buf numeral_eq_Suc)
  have "?p \<noteq> []" using len by auto
  then obtain b bs where p: "?p = b # bs" by (cases ?p) auto
  have written: "write_run [(1, 2, ?buf)] ?s [WroteBytes 17] = Some (?p, ?w, [])"
    using len p
    by (simp add: poll_write_def Let_def buf) (simp add: enc_stream_new_def)
  have read: "read_run [50] ?s [ReadReady ?p] = (?buf @ [0, 0, 0], ?t\<lparr>read_buffer := []\<rparr>, [])"
    using \<open>?p \<noteq> []\<close> text_t
    by (simp add: poll_read.simps [of 50 ?s] Let_def yield_plain_def buf)
      (simp add: enc_stream_new_def)
  show ?thesis
    by (rule secure_channel_delivers [OF _ _ _ written _ _ read])
      (simp_all add: toy_cipher_block_cipher buf, simp add: enc_stream_new_def)
qed

end
